(* ===== verification/Prelude.thy ===== *)
theory Prelude
  imports Main "HOL-Library.Word"
begin

unbundle bit_operations_syntax

text \<open>
  What every component theory shares.

  \<^item> The types of the model: a \<open>[16]byte\<close> UUID is a 128-bit word, a
    \<open>[]byte\<close> a list of 8-bit words, a Go \<open>string\<close> a list of
    characters, an instant and a \<open>time.Duration\<close> an integer number of
    nanoseconds.
  \<^item> A PostgreSQL table is the list of its rows in insertion order. The
    statements the repositories issue (\<open>UPDATE ... WHERE\<close>,
    \<open>DELETE ... WHERE\<close>, \<open>SELECT ... LIMIT 1\<close>,
    \<open>count(*)\<close>) are the four functions \<open>upd_where\<close>,
    \<open>del_where\<close>, \<open>find_row\<close> and \<open>count_where\<close> with
    the facts the component proofs rest on.
  \<^item> The collections \<open>step_defs\<close> (definitions of state-changing
    operations) and \<open>table_simps\<close>.
  \<^item> Two general locales: a transition system with an invariant, and a
    resource that can be won at most once.
\<close>

named_theorems step_defs \<open>definitions of the state-changing operations\<close>
named_theorems table_simps \<open>rewriting of table statements\<close>

section \<open>Types\<close>

type_synonym byte = "8 word"
type_synonym bytes = "8 word list"
type_synonym uuid = "128 word"
type_synonym time = int
type_synonym duration = int

definition nanosecond :: duration where "nanosecond = 1"
definition second :: duration where "second = 1000000000"
definition minute :: duration where "minute = 60 * second"
definition hour :: duration where "hour = 60 * minute"
definition day :: duration where "day = 24 * hour"

lemmas duration_defs = nanosecond_def second_def minute_def hour_def day_def

lemma durations_pos [simp]:
  "0 < second" "0 < minute" "0 < hour" "0 < day"
  by (simp_all add: duration_defs)

text \<open>Two's-complement wrap-around of a Go \<open>int64\<close> (the
  representation of \<open>time.Duration\<close>).\<close>

definition wrap64 :: "int \<Rightarrow> int" where
  "wrap64 x = (x + 2 ^ 63) mod 2 ^ 64 - 2 ^ 63"

lemma wrap64_range: "- (2 ^ 63) \<le> wrap64 x" "wrap64 x < 2 ^ 63"
  using pos_mod_sign [of "2 ^ 64 :: int" "x + 2 ^ 63"] pos_mod_bound [of "2 ^ 64 :: int" "x + 2 ^ 63"]
  unfolding wrap64_def by simp_all

lemma wrap64_id: "- (2 ^ 63) \<le> x \<Longrightarrow> x < 2 ^ 63 \<Longrightarrow> wrap64 x = x"
  unfolding wrap64_def by (subst mod_pos_pos_trivial) auto

lemma wrap64_signed: "wrap64 x = sint (word_of_int x :: 64 word)"
  by (simp add: wrap64_def sint_sbintrunc' signed_take_bit_eq_take_bit_shift take_bit_eq_mod)

text \<open>The bytes of a Go string and of a UUID.\<close>

definition byte_of :: "char \<Rightarrow> byte" where
  "byte_of c = word_of_nat (of_char c)"

definition bytes_of :: "string \<Rightarrow> bytes" where
  "bytes_of s = map byte_of s"

lemma bytes_of_simps [simp]:
  "bytes_of [] = []" "bytes_of (c # s) = byte_of c # bytes_of s"
  "bytes_of (s @ t) = bytes_of s @ bytes_of t"
  "length (bytes_of s) = length s"
  by (simp_all add: bytes_of_def)

lemma byte_of_inj [simp]: "byte_of c = byte_of d \<longleftrightarrow> c = d"
proof
  assume "byte_of c = byte_of d"
  then have "unat (byte_of c) = unat (byte_of d)" by simp
  then have "take_bit 8 (of_char c :: nat) = take_bit 8 (of_char d)"
    by (simp only: byte_of_def unat_of_nat) simp
  then have "(of_char c :: nat) = of_char d"
    by (simp add: take_bit_eq_mod)
  then show "c = d" by simp
qed simp

lemma bytes_of_inj [simp]: "bytes_of s = bytes_of t \<longleftrightarrow> s = t"
  unfolding bytes_of_def by (rule inj_map_eq_map) (auto simp: inj_on_def )

definition string_of :: "bytes \<Rightarrow> string" where
  "string_of b = map (\<lambda>x. char_of (unat x)) b"

lemma string_of_bytes_of [simp]: "string_of (bytes_of s) = s"
proof -
  have "char_of (unat (byte_of c)) = c" for c
  proof -
    have "unat (byte_of c) = of_char c"
      by (simp add: byte_of_def unat_of_nat take_bit_eq_mod)
    then show ?thesis by simp
  qed
  then show ?thesis by (simp add: string_of_def bytes_of_def o_def)
qed

lemma bytes_of_string_of [simp]: "bytes_of (string_of b) = b"
proof -
  have "byte_of (char_of (unat x)) = x" for x :: byte
  proof -
    have "(of_char (char_of (unat x) :: char) :: nat) = unat x"
      using unsigned_less [of x, where ?'a = nat] by (simp add: of_char_of)
    then show ?thesis by (simp add: byte_of_def)
  qed
  then show ?thesis by (simp add: string_of_def bytes_of_def o_def)
qed

definition uuid_bytes :: "uuid \<Rightarrow> bytes" where
  "uuid_bytes u = map (\<lambda>i. ucast (drop_bit (8 * (15 - i)) u)) [0..<16]"

definition uuid_of_bytes :: "bytes \<Rightarrow> uuid" where
  "uuid_of_bytes bs = foldl (\<lambda>a b. push_bit 8 a OR ucast b) 0 bs"

lemma length_uuid_bytes [simp]: "length (uuid_bytes u) = 16"
  by (simp add: uuid_bytes_def)

lemma bit_uuid_of_bytes:
  "n < 128 \<Longrightarrow> bit (uuid_of_bytes bs) n \<longleftrightarrow>
     n div 8 < length bs \<and> bit (rev bs ! (n div 8)) (n mod 8)"
proof (induction bs arbitrary: n rule: rev_induct)
  case Nil
  then show ?case by (simp add: uuid_of_bytes_def)
next
  case (snoc b bs)
  have split: "uuid_of_bytes (bs @ [b]) = push_bit 8 (uuid_of_bytes bs) OR ucast b"
    by (simp add: uuid_of_bytes_def)
  show ?case
  proof (cases "n < 8")
    case True
    then show ?thesis by (simp add: split bit_simps)
  next
    case False
    then obtain m where n: "n = m + 8" by (metis add.commute le_Suc_ex not_less)
    have div: "(m + 8) div 8 = Suc (m div 8)" by simp
    show ?thesis
      using snoc.IH [of m] snoc.prems unfolding n div
      by (auto simp: split bit_simps dest: bit_imp_le_length)
  qed
qed

lemma uuid_of_bytes_uuid_bytes [simp]: "uuid_of_bytes (uuid_bytes u) = u"
proof (rule bit_word_eqI)
  fix n assume n: "n < LENGTH(128)"
  have "15 - n div 8 < 16" by simp
  then have nth: "[0..<16] ! (15 - n div 8) = 15 - n div 8"
    using nth_upt [of 0 "15 - n div 8" 16] by linarith
  have d: "n div 8 < 16" using n by auto
  then have "rev (uuid_bytes u) ! (n div 8) = ucast (drop_bit (8 * (n div 8)) u)"
    using nth by (simp add: rev_nth uuid_bytes_def)
  then show "bit (uuid_of_bytes (uuid_bytes u)) n \<longleftrightarrow> bit u n"
    using n d by (simp add: bit_uuid_of_bytes bit_simps)
qed

lemma uuid_bytes_uuid_of_bytes: "length bs = 16 \<Longrightarrow> uuid_bytes (uuid_of_bytes bs) = bs"
proof (rule nth_equalityI)
  fix i assume len: "length bs = 16" and "i < length (uuid_bytes (uuid_of_bytes bs))"
  then have i: "i < 16" by simp
  show "uuid_bytes (uuid_of_bytes bs) ! i = bs ! i"
  proof (rule bit_word_eqI)
    fix n assume n: "n < LENGTH(8)"
    have idx: "8 * (15 - i) + n < 128" "(8 * (15 - i) + n) div 8 = 15 - i"
      "(8 * (15 - i) + n) mod 8 = n"
      using i n by auto
    have "bit (uuid_bytes (uuid_of_bytes bs) ! i) n = bit (uuid_of_bytes bs) (8 * (15 - i) + n)"
      using i n by (simp add: uuid_bytes_def bit_simps)
    also have "\<dots> = bit (rev bs ! (15 - i)) n"
      unfolding bit_uuid_of_bytes [OF idx(1)] using len idx by simp
    also have "\<dots> = bit (bs ! i) n"
      using i len by (simp add: rev_nth)
    finally show "bit (uuid_bytes (uuid_of_bytes bs) ! i) n = bit (bs ! i) n" .
  qed
qed simp

lemma uuid_bytes_inj [simp]: "uuid_bytes u = uuid_bytes v \<longleftrightarrow> u = v"
  by (metis uuid_of_bytes_uuid_bytes)

section \<open>Table statements\<close>

definition upd_where :: "('r \<Rightarrow> bool) \<Rightarrow> ('r \<Rightarrow> 'r) \<Rightarrow> 'r list \<Rightarrow> 'r list" where
  "upd_where p f rows = map (\<lambda>r. if p r then f r else r) rows"

definition del_where :: "('r \<Rightarrow> bool) \<Rightarrow> 'r list \<Rightarrow> 'r list" where
  "del_where p rows = filter (\<lambda>r. \<not> p r) rows"

definition find_row :: "('r \<Rightarrow> bool) \<Rightarrow> 'r list \<Rightarrow> 'r option" where
  "find_row p rows = List.find p rows"

definition count_where :: "('r \<Rightarrow> bool) \<Rightarrow> 'r list \<Rightarrow> nat" where
  "count_where p rows = length (filter p rows)"

lemma upd_where_simps [simp, table_simps]:
  "upd_where p f [] = []"
  "upd_where p f (r # rs) = (if p r then f r else r) # upd_where p f rs"
  "upd_where p f (rs @ ss) = upd_where p f rs @ upd_where p f ss"
  "length (upd_where p f rs) = length rs"
  by (simp_all add: upd_where_def)

lemma del_where_simps [simp, table_simps]:
  "del_where p [] = []"
  "del_where p (r # rs) = (if p r then del_where p rs else r # del_where p rs)"
  "del_where p (rs @ ss) = del_where p rs @ del_where p ss"
  by (simp_all add: del_where_def)

lemma find_row_simps [simp, table_simps]:
  "find_row p [] = None"
  "find_row p (r # rs) = (if p r then Some r else find_row p rs)"
  by (simp_all add: find_row_def)

lemma count_where_simps [simp, table_simps]:
  "count_where p [] = 0"
  "count_where p (r # rs) = (if p r then Suc (count_where p rs) else count_where p rs)"
  "count_where p (rs @ ss) = count_where p rs + count_where p ss"
  by (simp_all add: count_where_def)

lemma set_upd_where: "set (upd_where p f rs) = (\<lambda>r. if p r then f r else r) ` set rs"
  by (auto simp: upd_where_def)

lemma ball_upd_where [simp]:
  "(\<forall>r \<in> set (upd_where p f rs). Q r) \<longleftrightarrow> (\<forall>r \<in> set rs. Q (if p r then f r else r))"
  by (induction rs) auto

lemma bex_upd_where [simp]:
  "(\<exists>r \<in> set (upd_where p f rs). Q r) \<longleftrightarrow> (\<exists>r \<in> set rs. Q (if p r then f r else r))"
  by (induction rs) auto

lemma set_del_where [simp]: "set (del_where p rs) = {r \<in> set rs. \<not> p r}"
  by (auto simp: del_where_def)

lemma find_row_SomeD: "find_row p rs = Some r \<Longrightarrow> r \<in> set rs \<and> p r"
  by (auto simp: find_row_def find_Some_iff)

lemma find_row_None [simp]: "find_row p rs = None \<longleftrightarrow> (\<forall>r \<in> set rs. \<not> p r)"
  by (auto simp: find_row_def find_None_iff)

lemma find_row_append [simp]:
  "find_row p (rs @ ss) = (case find_row p rs of None \<Rightarrow> find_row p ss | Some r \<Rightarrow> Some r)"
  by (induction rs) auto

lemma count_where_0 [simp]: "count_where p rs = 0 \<longleftrightarrow> (\<forall>r \<in> set rs. \<not> p r)"
  by (simp add: count_where_def filter_empty_conv)

lemma count_where_mono: "(\<And>r. r \<in> set rs \<Longrightarrow> p r \<Longrightarrow> q r) \<Longrightarrow> count_where p rs \<le> count_where q rs"
  by (induction rs) (auto intro: le_SucI)

lemma count_where_upd [simp]:
  "count_where q (upd_where p f rs) = count_where (\<lambda>r. q (if p r then f r else r)) rs"
  by (induction rs) auto

lemma find_row_upd_where:
  "find_row q (upd_where p f rs) =
     map_option (\<lambda>r. if p r then f r else r) (find_row (\<lambda>r. q (if p r then f r else r)) rs)"
  by (induction rs) auto

lemma find_row_upd_other:
  "(\<And>r. p r \<Longrightarrow> \<not> q r \<and> \<not> q (f r)) \<Longrightarrow> find_row q (upd_where p f rs) = find_row q rs"
  by (induction rs) auto

lemma find_row_upd_key:
  "(\<And>r. p r \<Longrightarrow> q (f r) = q r) \<Longrightarrow>
   find_row q (upd_where p f rs) = map_option (\<lambda>r. if p r then f r else r) (find_row q rs)"
  by (induction rs) auto

lemma find_row_del_where:
  "(\<And>r. q r \<Longrightarrow> \<not> p r) \<Longrightarrow> find_row q (del_where p rs) = find_row q rs"
  by (induction rs) auto

lemma map_upd_where [simp]: "(\<And>r. p r \<Longrightarrow> g (f r) = g r) \<Longrightarrow> map g (upd_where p f rs) = map g rs"
  by (induction rs) auto

lemma find_row_distinct:
  assumes "distinct (map key rs)" "r \<in> set rs"
  shows "find_row (\<lambda>x. key x = key r) rs = Some r"
  using assms by (induction rs) (auto simp: image_iff)

lemma find_row_unique:
  "distinct (map key rs) \<Longrightarrow> r \<in> set rs \<Longrightarrow> find_row (\<lambda>x. key x = k) rs = Some y \<Longrightarrow> key r = k \<Longrightarrow> r = y"
  by (metis find_row_distinct option.inject)

lemma distinct_del_where: "distinct (map key rs) \<Longrightarrow> distinct (map key (del_where p rs))"
  by (simp add: del_where_def distinct_map_filter)

text \<open>\<open>INSERT\<close> into a table with a unique key: refused when the key is
  already present.\<close>

definition insert_unique :: "('r \<Rightarrow> 'k) \<Rightarrow> 'r \<Rightarrow> 'r list \<Rightarrow> 'r list option" where
  "insert_unique key r rows = (if key r \<in> set (map key rows) then None else Some (rows @ [r]))"

lemma insert_unique_SomeD:
  "insert_unique key r rows = Some rows' \<Longrightarrow> rows' = rows @ [r] \<and> key r \<notin> key ` set rows"
  by (auto simp: insert_unique_def split: if_splits)

lemma insert_unique_distinct:
  "insert_unique key r rows = Some rows' \<Longrightarrow> distinct (map key rows) \<Longrightarrow> distinct (map key rows')"
  by (auto simp: insert_unique_def split: if_splits)

lemma insert_unique_find_other:
  "insert_unique key r rows = Some rows' \<Longrightarrow> find_row (\<lambda>x. key x = k) rows = Some y \<Longrightarrow>
   find_row (\<lambda>x. key x = k) rows' = Some y"
  by (auto dest!: insert_unique_SomeD)

text \<open>With a unique key, an \<open>UPDATE\<close> or a \<open>count\<close> by key concerns the
  one row that a \<open>SELECT\<close> by key finds.\<close>

lemma count_where_key:
  "distinct (map key rows) \<Longrightarrow>
   count_where (\<lambda>r. key r = k \<and> p r) rows =
     (case find_row (\<lambda>r. key r = k) rows of None \<Rightarrow> 0 | Some r \<Rightarrow> if p r then 1 else 0)"
proof (induction rows)
  case (Cons r rows)
  show ?case
  proof (cases "key r = k")
    case True
    with Cons.prems have "\<forall>x \<in> set rows. key x \<noteq> k" by (auto simp: image_iff)
    then have "count_where (\<lambda>r. key r = k \<and> p r) rows = 0" by simp
    with True show ?thesis by simp
  qed (use Cons in simp)
qed simp

text \<open>A key present in the table stays so, in the same row up to the update.\<close>

lemma find_row_key_upd [simp]:
  "(\<And>r. p r \<Longrightarrow> key (f r) = key r) \<Longrightarrow>
   find_row (\<lambda>r. key r = k) (upd_where p f rows) =
     map_option (\<lambda>r. if p r then f r else r) (find_row (\<lambda>r. key r = k) rows)"
  by (rule find_row_upd_key) simp

text \<open>\<open>INSERT ... ON CONFLICT (key) DO UPDATE\<close> of all columns.\<close>

definition upsert :: "('r \<Rightarrow> 'k) \<Rightarrow> 'r \<Rightarrow> 'r list \<Rightarrow> 'r list" where
  "upsert key r rows =
     (if key r \<in> set (map key rows) then upd_where (\<lambda>x. key x = key r) (\<lambda>_. r) rows else rows @ [r])"

lemma find_row_no_key: "k \<notin> key ` set rows \<Longrightarrow> find_row (\<lambda>x. key x = k) rows = None"
  by (induction rows) auto

lemma map_upsert: "map key (upsert key r rows) = (if key r \<in> set (map key rows) then map key rows else map key rows @ [key r])"
  by (auto simp: upsert_def upd_where_def)

lemma upsert_distinct: "distinct (map key rows) \<Longrightarrow> distinct (map key (upsert key r rows))"
  by (simp add: map_upsert)

lemma find_row_upsert:
  "find_row (\<lambda>x. key x = k) (upsert key r rows) = (if key r = k then Some r else find_row (\<lambda>x. key x = k) rows)"
proof (cases "key r \<in> set (map key rows)")
  case True
  have "find_row (\<lambda>x. key x = k) (upd_where (\<lambda>x. key x = key r) (\<lambda>_. r) xs) =
      (if key r = k \<and> k \<in> key ` set xs then Some r else find_row (\<lambda>x. key x = k) xs)" for xs
    by (induction xs) auto
  with True show ?thesis by (auto simp: upsert_def)
next
  case False
  then have "find_row (\<lambda>x. key x = key r) rows = None" by (simp add: find_row_no_key del: find_row_None)
  with False show ?thesis by (auto simp: upsert_def simp del: find_row_None split: option.split)
qed

section \<open>Third-party and runtime functions\<close>

text \<open>Functions the code calls and this repository does not define: SHA-256 and the
  text form of a UUID (\<open>github.com/google/uuid\<close>). They are arguments of the
  definitions that use them.\<close>

record lib_env =
  sha256 :: "bytes \<Rightarrow> bytes"
  uuid_string :: "uuid \<Rightarrow> string"
  uuid_parse :: "string \<Rightarrow> uuid option"

section \<open>Runs, invariants, and resources that are won once\<close>

text \<open>A run applies a list of events from left to right.\<close>

definition run :: "('e \<Rightarrow> 's \<Rightarrow> 's) \<Rightarrow> 'e list \<Rightarrow> 's \<Rightarrow> 's" where
  "run step es s = foldl (\<lambda>s e. step e s) s es"

lemma run_simps [simp]:
  "run step [] s = s" "run step (e # es) s = run step es (step e s)"
  "run step (es @ fs) s = run step fs (run step es s)"
  by (simp_all add: run_def)

text \<open>How many events of a run win.\<close>

fun win_count :: "('e \<Rightarrow> 's \<Rightarrow> bool) \<Rightarrow> ('e \<Rightarrow> 's \<Rightarrow> 's) \<Rightarrow> 'e list \<Rightarrow> 's \<Rightarrow> nat" where
  "win_count wins step [] s = 0"
| "win_count wins step (e # es) s = (if wins e s then 1 else 0) + win_count wins step es (step e s)"

text \<open>A predicate that every event keeps holds after every run.\<close>

locale invariant =
  fixes step :: "'e \<Rightarrow> 's \<Rightarrow> 's" and I :: "'s \<Rightarrow> bool"
  assumes step_keeps: "I s \<Longrightarrow> I (step e s)"
begin

lemma run_keeps: "I s \<Longrightarrow> I (run step es s)"
  by (induction es arbitrary: s) (auto intro: step_keeps)

end

text \<open>One state is reached from another by a run. A component refines a specification when each
  of its steps is, seen through \<open>view\<close>, a run of the specification; it then inherits the
  invariants.\<close>

definition reaches :: "('e \<Rightarrow> 's \<Rightarrow> 's) \<Rightarrow> 's \<Rightarrow> 's \<Rightarrow> bool" where
  "reaches step s s' \<longleftrightarrow> (\<exists>es. s' = run step es s)"

lemma reaches_refl [simp, intro!]: "reaches step s s"
  unfolding reaches_def by (rule exI [of _ "[]"]) simp

lemma reaches_trans: "reaches step s s1 \<Longrightarrow> reaches step s1 s2 \<Longrightarrow> reaches step s s2"
  unfolding reaches_def by (metis run_simps(3))

lemma reaches_step: "reaches step s (step e s)"
  unfolding reaches_def by (rule exI [of _ "[e]"]) simp

lemma reaches_then: "reaches step s s1 \<Longrightarrow> reaches step s (step e s1)"
  by (rule reaches_trans [OF _ reaches_step])

lemma reaches_fold: "(\<And>e s. reaches step s (f e s)) \<Longrightarrow> reaches step s (fold f es s)"
  by (induction es arbitrary: s) (auto intro: reaches_trans)

context invariant
begin

lemma reaches_keeps: "reaches step s s' \<Longrightarrow> I s \<Longrightarrow> I s'"
  using run_keeps by (auto simp: reaches_def)

end

locale refinement =
  fixes astep :: "'a \<Rightarrow> 's \<Rightarrow> 's" and step :: "'e \<Rightarrow> 't \<Rightarrow> 't" and view :: "'t \<Rightarrow> 's"
  assumes simulates: "reaches astep (view t) (view (step e t))"
begin

lemma run_simulates: "reaches astep (view t) (view (run step es t))"
  by (induction es arbitrary: t) (auto intro: reaches_trans [OF simulates])

lemma lifts: "invariant astep I \<Longrightarrow> invariant step (\<lambda>t. I (view t))"
  by unfold_locales (rule invariant.reaches_keeps [OF _ simulates])

end

text \<open>The contract of a table with a key: a \<open>put\<close> replaces the row of its key and
  no other. Several \<open>put\<close>s with different keys then act as one, in any order.\<close>

locale keyed_store =
  fixes key :: "'r \<Rightarrow> 'k" and get :: "'k \<Rightarrow> 's \<Rightarrow> 'r option" and put :: "'r \<Rightarrow> 's \<Rightarrow> 's" and ok :: "'s \<Rightarrow> bool"
  assumes put_ok: "ok s \<Longrightarrow> ok (put r s)"
    and get_put: "ok s \<Longrightarrow> get k (put r s) = (if key r = k then Some r else get k s)"
begin

lemma fold_put_ok: "ok s \<Longrightarrow> ok (fold put rs s)"
  by (induction rs arbitrary: s) (auto intro: put_ok)

lemma get_fold_put:
  "ok s \<Longrightarrow> distinct (map key rs) \<Longrightarrow>
   get k (fold put rs s) = (case find_row (\<lambda>r. key r = k) rs of None \<Rightarrow> get k s | Some r \<Rightarrow> Some r)"
proof (induction rs arbitrary: s)
  case (Cons r rs)
  then have "find_row (\<lambda>x. key x = key r) rs = None" by (simp add: find_row_no_key del: find_row_None)
  with Cons show ?case by (auto simp: get_put put_ok simp del: find_row_None split: option.split)
qed simp

end

text \<open>The contract of a single-use resource over states that keep an invariant:
  only a \<open>live\<close> resource can be won, winning it ends its life, and no event
  revives it. Then any interleaving of events wins it at most once.\<close>

locale single_use = invariant step inv
  for step :: "'e \<Rightarrow> 's \<Rightarrow> 's" and inv :: "'s \<Rightarrow> bool" +
  fixes wins :: "'e \<Rightarrow> 's \<Rightarrow> bool" and live :: "'s \<Rightarrow> bool"
  assumes wins_live: "inv s \<Longrightarrow> wins e s \<Longrightarrow> live s"
    and wins_ends: "inv s \<Longrightarrow> wins e s \<Longrightarrow> \<not> live (step e s)"
    and stays_dead: "inv s \<Longrightarrow> \<not> live s \<Longrightarrow> \<not> live (step e s)"
begin

lemma dead_never_wins: "inv s \<Longrightarrow> \<not> live s \<Longrightarrow> win_count wins step es s = 0"
proof (induction es arbitrary: s)
  case (Cons e es)
  then show ?case using wins_live [of s e] stays_dead [of s e] step_keeps [of s e] by auto
qed simp

theorem at_most_one_win: "inv s \<Longrightarrow> win_count wins step es s \<le> 1"
proof (induction es arbitrary: s)
  case (Cons e es)
  then show ?case
    using wins_ends [of s e] dead_never_wins [of "step e s" es] step_keeps [of s e] by auto
qed simp

end

sublocale single_use \<subseteq> dead: invariant step "\<lambda>s. inv s \<and> \<not> live s"
  by unfold_locales (use step_keeps stays_dead in blast)

context single_use
begin

lemma no_second_win:
  assumes "inv s" "wins e s"
  shows "\<not> wins e' (run step es (step e s))"
  using dead.run_keeps [of "step e s" es] step_keeps [OF assms(1)] wins_ends [OF assms] wins_live by blast

end

end
