(* ===== verification/Rbac.thy ===== *)
theory Rbac
  imports Prelude
begin

text \<open>
  Role-based access control: \<open>internal/auth/permissions.go\<close>,
  \<open>internal/auth/rbac.go\<close> and the query behind it,
  \<open>PermissionsForUser\<close> of \<open>internal/auth/repo.go\<close>. The decision
  procedure \<open>HasPermission\<close> is shown to be the default-deny rule it
  documents.
\<close>

section \<open>Permissions, scopes, grants\<close>

datatype perm =
    PermDeviceRead | PermDeviceManage | PermCustomerRead | PermCustomerManage
  | PermMonitoringRead | PermRemoteTerminal | PermRemoteTunnelSSH | PermRemoteTunnelRDP
  | PermRemoteFilesRead | PermRemoteFilesWrite | PermRemoteServiceControl
  | PermRemoteProcessTerminate | PermRemotePower | PermPrivilegeRequest
  | PermMaintenanceRead | PermMaintenanceWrite | PermAuditRead | PermEnrollmentCreate
  | PermCredentialRevoke | PermAgentUpdate | PermUserManage | PermRoleManage
  | PermSystemSettings | PermAlertManage

fun perm_name :: "perm \<Rightarrow> string" where
  "perm_name PermDeviceRead = ''device.read''"
| "perm_name PermDeviceManage = ''device.manage''"
| "perm_name PermCustomerRead = ''customer.read''"
| "perm_name PermCustomerManage = ''customer.manage''"
| "perm_name PermMonitoringRead = ''monitoring.read''"
| "perm_name PermRemoteTerminal = ''remote.terminal''"
| "perm_name PermRemoteTunnelSSH = ''remote.tunnel.ssh''"
| "perm_name PermRemoteTunnelRDP = ''remote.tunnel.rdp''"
| "perm_name PermRemoteFilesRead = ''remote.files.read''"
| "perm_name PermRemoteFilesWrite = ''remote.files.write''"
| "perm_name PermRemoteServiceControl = ''remote.service.control''"
| "perm_name PermRemoteProcessTerminate = ''remote.process.terminate''"
| "perm_name PermRemotePower = ''remote.power''"
| "perm_name PermPrivilegeRequest = ''privilege.request''"
| "perm_name PermMaintenanceRead = ''maintenance.read''"
| "perm_name PermMaintenanceWrite = ''maintenance.write''"
| "perm_name PermAuditRead = ''audit.read''"
| "perm_name PermEnrollmentCreate = ''enrollment.create''"
| "perm_name PermCredentialRevoke = ''credential.revoke''"
| "perm_name PermAgentUpdate = ''agent.update''"
| "perm_name PermUserManage = ''user.manage''"
| "perm_name PermRoleManage = ''role.manage''"
| "perm_name PermSystemSettings = ''system.settings''"
| "perm_name PermAlertManage = ''alert.manage''"

text \<open>A scope type is a string read from the database; the three the code knows
  have constructors of their own.\<close>

datatype scope_type = ScopeGlobal | ScopeCustomer | ScopeGroup | ScopeOther string

definition scope_type_of :: "string \<Rightarrow> scope_type" where
  "scope_type_of s =
     (if s = ''global'' then ScopeGlobal else if s = ''customer'' then ScopeCustomer
      else if s = ''group'' then ScopeGroup else ScopeOther s)"

record grant =
  g_permission :: string
  g_scope :: scope_type
  g_scope_id :: "uuid option"

record resource =
  res_customer_id :: "uuid option"
  res_group_id :: "uuid option"

definition GlobalResource :: resource where
  "GlobalResource = \<lparr>res_customer_id = None, res_group_id = None\<rparr>"

section \<open>The checks\<close>

fun HasPermission :: "grant list \<Rightarrow> string \<Rightarrow> resource \<Rightarrow> bool" where
  "HasPermission [] permission resource = False"
| "HasPermission (g # gs) permission resource =
     (if g_permission g \<noteq> permission then HasPermission gs permission resource
      else (case g_scope g of
              ScopeGlobal \<Rightarrow> True
            | ScopeCustomer \<Rightarrow>
                if res_customer_id resource \<noteq> None \<and> g_scope_id g \<noteq> None \<and>
                   the (g_scope_id g) = the (res_customer_id resource)
                then True else HasPermission gs permission resource
            | ScopeGroup \<Rightarrow>
                if res_group_id resource \<noteq> None \<and> g_scope_id g \<noteq> None \<and>
                   the (g_scope_id g) = the (res_group_id resource)
                then True else HasPermission gs permission resource
            | ScopeOther _ \<Rightarrow> HasPermission gs permission resource))"

fun HasAnyGrant :: "grant list \<Rightarrow> string \<Rightarrow> bool" where
  "HasAnyGrant [] permission = False"
| "HasAnyGrant (g # gs) permission = (if g_permission g = permission then True else HasAnyGrant gs permission)"

text \<open>Rows of \<open>user_roles\<close>, \<open>role_permissions\<close> and
  \<open>permissions\<close>, and the join that gives a user's grants.\<close>

record user_role =
  ur_user_id :: uuid
  ur_role_id :: uuid
  ur_scope_type :: string
  ur_scope_id :: "uuid option"

record rbac_tables =
  user_roles :: "user_role list"
  role_permissions :: "(uuid \<times> uuid) list"  \<comment> \<open>role id, permission id\<close>
  permissions :: "(uuid \<times> string) list"  \<comment> \<open>permission id, name\<close>
  roles :: "(uuid \<times> string) list"  \<comment> \<open>role id, name\<close>

definition PermissionsForUser :: "rbac_tables \<Rightarrow> uuid \<Rightarrow> grant list" where
  "PermissionsForUser t userID =
     concat (map (\<lambda>ur.
       concat (map (\<lambda>(role, permission).
         map (\<lambda>(pid, name). \<lparr>g_permission = name, g_scope = scope_type_of (ur_scope_type ur),
                              g_scope_id = ur_scope_id ur\<rparr>)
             (filter (\<lambda>(pid, name). pid = permission) (permissions t)))
         (filter (\<lambda>(role, permission). role = ur_role_id ur) (role_permissions t))))
       (filter (\<lambda>ur. ur_user_id ur = userID) (user_roles t)))"

definition RoleIDByName :: "rbac_tables \<Rightarrow> string \<Rightarrow> uuid option" where
  "RoleIDByName t name = map_option fst (find_row (\<lambda>(rid, n). n = name) (roles t))"

text \<open>\<open>ON CONFLICT DO NOTHING\<close>: the primary key of \<open>user_roles\<close>
  is the whole assignment.\<close>

definition AssignRole :: "uuid \<Rightarrow> uuid \<Rightarrow> string \<Rightarrow> uuid option \<Rightarrow> rbac_tables \<Rightarrow> rbac_tables" where
  "AssignRole userID roleID scope scopeID t =
     (let ur = \<lparr>ur_user_id = userID, ur_role_id = roleID, ur_scope_type = scope, ur_scope_id = scopeID\<rparr>
      in if ur \<in> set (user_roles t) then t else t\<lparr>user_roles := user_roles t @ [ur]\<rparr>)"

section \<open>What the checks decide\<close>

text \<open>The documented rule: the grant names the permission and is global, or names
  the customer or the group of the resource.\<close>

definition grant_covers :: "grant \<Rightarrow> string \<Rightarrow> resource \<Rightarrow> bool" where
  "grant_covers g permission resource \<longleftrightarrow> g_permission g = permission \<and>
     (g_scope g = ScopeGlobal \<or>
      (g_scope g = ScopeCustomer \<and> g_scope_id g \<noteq> None \<and> g_scope_id g = res_customer_id resource) \<or>
      (g_scope g = ScopeGroup \<and> g_scope_id g \<noteq> None \<and> g_scope_id g = res_group_id resource))"

lemma HasPermission_iff:
  "HasPermission grants permission resource \<longleftrightarrow>
   (\<exists>g \<in> set grants. grant_covers g permission resource)"
  by (induction grants) (auto simp: grant_covers_def split: scope_type.splits)

lemma HasAnyGrant_iff: "HasAnyGrant grants permission \<longleftrightarrow> permission \<in> g_permission ` set grants"
  by (induction grants) auto

lemma HasPermission_HasAnyGrant: "HasPermission gs p r \<Longrightarrow> HasAnyGrant gs p"
  by (auto simp: HasPermission_iff HasAnyGrant_iff grant_covers_def)

lemma HasPermission_global_resource:
  "HasPermission gs p GlobalResource \<longleftrightarrow>
   (\<exists>g \<in> set gs. g_permission g = p \<and> g_scope g = ScopeGlobal)"
  by (auto simp: HasPermission_iff grant_covers_def GlobalResource_def)

lemma perm_name_inj [simp]: "perm_name p = perm_name q \<longleftrightarrow> p = q"
  by (cases p; cases q) simp_all

lemma PermissionsForUser_iff:
  "g \<in> set (PermissionsForUser t u) \<longleftrightarrow>
   (\<exists>ur \<in> set (user_roles t). \<exists>pid. ur_user_id ur = u \<and>
      (ur_role_id ur, pid) \<in> set (role_permissions t) \<and> (pid, g_permission g) \<in> set (permissions t) \<and>
      g_scope g = scope_type_of (ur_scope_type ur) \<and> g_scope_id g = ur_scope_id ur)"
  unfolding PermissionsForUser_def by (cases g) (auto simp: image_iff split: prod.splits; fastforce)

lemma AssignRole_assigns:
  "\<lparr>ur_user_id = u, ur_role_id = r, ur_scope_type = s, ur_scope_id = i\<rparr> \<in> set (user_roles (AssignRole u r s i t))"
  by (simp add: AssignRole_def Let_def)

lemma AssignRole_keeps_distinct:
  "distinct (user_roles t) \<Longrightarrow> distinct (user_roles (AssignRole u r s i t))"
  by (simp add: AssignRole_def Let_def)

section \<open>Properties\<close>

text \<open>C11: \<open>HasPermission\<close> on the grants read from the database is exactly
  default-deny access control: it answers yes if and only if one of the user's role
  assignments, global or on the resource's own customer or group, carries the
  permission through the role.\<close>

theorem access_decision_correct:
  "HasPermission (PermissionsForUser t u) p res \<longleftrightarrow>
   (\<exists>ur \<in> set (user_roles t). \<exists>pid. ur_user_id ur = u \<and>
      (ur_role_id ur, pid) \<in> set (role_permissions t) \<and> (pid, p) \<in> set (permissions t) \<and>
      (ur_scope_type ur = ''global'' \<or>
       (ur_scope_type ur = ''customer'' \<and> ur_scope_id ur \<noteq> None \<and> ur_scope_id ur = res_customer_id res) \<or>
       (ur_scope_type ur = ''group'' \<and> ur_scope_id ur \<noteq> None \<and> ur_scope_id ur = res_group_id res)))"
proof -
  have scope: "scope_type_of s = ScopeGlobal \<longleftrightarrow> s = ''global''"
    "scope_type_of s = ScopeCustomer \<longleftrightarrow> s = ''customer''"
    "scope_type_of s = ScopeGroup \<longleftrightarrow> s = ''group''" for s
    by (simp_all add: scope_type_of_def)
  show ?thesis (is "_ \<longleftrightarrow> ?R")
  proof
    assume "HasPermission (PermissionsForUser t u) p res"
    then obtain g where g: "g \<in> set (PermissionsForUser t u)" "grant_covers g p res"
      by (auto simp: HasPermission_iff)
    then obtain ur pid where ur: "ur \<in> set (user_roles t)" "ur_user_id ur = u"
      "(ur_role_id ur, pid) \<in> set (role_permissions t)" "(pid, p) \<in> set (permissions t)"
      and s: "g_scope g = scope_type_of (ur_scope_type ur)" "g_scope_id g = ur_scope_id ur"
      by (auto simp: PermissionsForUser_iff grant_covers_def)
    show ?R using ur g(2) by (intro bexI [OF _ ur(1)] exI [of _ pid]) (simp add: grant_covers_def s scope)
  next
    assume ?R
    then obtain ur pid where ur: "ur \<in> set (user_roles t)" "ur_user_id ur = u"
      "(ur_role_id ur, pid) \<in> set (role_permissions t)" "(pid, p) \<in> set (permissions t)"
      and s: "ur_scope_type ur = ''global'' \<or>
       (ur_scope_type ur = ''customer'' \<and> ur_scope_id ur \<noteq> None \<and> ur_scope_id ur = res_customer_id res) \<or>
       (ur_scope_type ur = ''group'' \<and> ur_scope_id ur \<noteq> None \<and> ur_scope_id ur = res_group_id res)"
      by blast
    let ?g = "\<lparr>g_permission = p, g_scope = scope_type_of (ur_scope_type ur), g_scope_id = ur_scope_id ur\<rparr>"
    have "?g \<in> set (PermissionsForUser t u)" using ur by (auto simp: PermissionsForUser_iff)
    moreover have "grant_covers ?g p res" using s by (auto simp: grant_covers_def scope)
    ultimately show "HasPermission (PermissionsForUser t u) p res" by (auto simp: HasPermission_iff)
  qed
qed

end
