(* ===== verification/Rate_Limit.thy ===== *)
theory Rate_Limit
  imports Prelude
begin

text \<open>
  The in-process limiter of \<open>internal/auth/ratelimit.go\<close>, which guards
  login, MFA, reauthentication, enrollment and the agent control endpoint. The map
  \<open>hits\<close> gives every key the instants of its admitted attempts; the mutex
  makes every \<open>Allow\<close> one step.
\<close>

section \<open>Model\<close>

record rate_limiter =
  rl_limit :: int
  rl_window :: duration
  rl_hits :: "string \<Rightarrow> time list"

definition NewRateLimiter :: "int \<Rightarrow> duration \<Rightarrow> rate_limiter" where
  "NewRateLimiter limit window = \<lparr>rl_limit = limit, rl_window = window, rl_hits = (\<lambda>_. [])\<rparr>"

text \<open>A limiter is in memory only: a restart of the server makes it anew.\<close>

definition renew_limiter :: "rate_limiter \<Rightarrow> rate_limiter" where
  "renew_limiter l = NewRateLimiter (rl_limit l) (rl_window l)"

definition Allow :: "time \<Rightarrow> string \<Rightarrow> rate_limiter \<Rightarrow> bool \<times> rate_limiter" where
  "Allow now key r =
     (let cutoff = now - rl_window r;
          kept = filter (\<lambda>t. t > cutoff) (rl_hits r key)
      in if int (length kept) \<ge> rl_limit r
         then (False, r\<lparr>rl_hits := (rl_hits r)(key := kept)\<rparr>)
         else (True, r\<lparr>rl_hits := (rl_hits r)(key := kept @ [now])\<rparr>))"

section \<open>Histories of calls\<close>

text \<open>The instants at which \<open>key\<close> was admitted, in a list of calls
  (instant, key) served one after the other.\<close>

fun admitted :: "string \<Rightarrow> (time \<times> string) list \<Rightarrow> rate_limiter \<Rightarrow> time list" where
  "admitted key [] r = []"
| "admitted key ((now, k) # calls) r =
     (let (ok, r') = Allow now k r
      in (if ok \<and> k = key then [now] else []) @ admitted key calls r')"

definition limiter_step :: "time \<times> string \<Rightarrow> rate_limiter \<Rightarrow> rate_limiter" where
  "limiter_step c r = snd (Allow (fst c) (snd c) r)"

lemma Allow_other [simp]: "k \<noteq> key \<Longrightarrow> rl_hits (snd (Allow now k r)) key = rl_hits r key"
  by (simp add: Allow_def Let_def)

lemma Allow_config [simp]:
  "rl_limit (snd (Allow now k r)) = rl_limit r" "rl_window (snd (Allow now k r)) = rl_window r"
  by (simp_all add: Allow_def Let_def)

lemma admitted_append:
  "admitted key (cs @ ds) r = admitted key cs r @ admitted key ds (run limiter_step cs r)"
  by (induction key cs r rule: admitted.induct) (auto simp: limiter_step_def split: prod.splits)

lemma run_config:
  "rl_limit (run limiter_step cs r) = rl_limit r" "rl_window (run limiter_step cs r) = rl_window r"
  by (induction cs arbitrary: r) (simp_all add: limiter_step_def)

lemma admitted_subset: "set (admitted key cs r) \<subseteq> fst ` set cs"
proof (induction cs arbitrary: r)
  case (Cons c cs)
  then show ?case by (cases c) (fastforce split: prod.splits if_splits)
qed simp

lemma limiter_step_hits:
  "rl_hits (limiter_step (now, k) r) k =
     (let kept = filter (\<lambda>t. now - rl_window r < t) (rl_hits r k)
      in if rl_limit r \<le> int (length kept) then kept else kept @ [now])"
  by (simp add: limiter_step_def Allow_def Let_def)

lemma Allow_iff:
  "fst (Allow now k r) \<longleftrightarrow>
   int (length (filter (\<lambda>t. now - rl_window r < t) (rl_hits r k))) < rl_limit r"
  by (auto simp: Allow_def Let_def)

lemma admitted_snoc:
  "admitted key (cs @ [(now, k)]) r =
     admitted key cs r @ (if k = key \<and> fst (Allow now k (run limiter_step cs r)) then [now] else [])"
  by (cases "Allow now k (run limiter_step cs r)") (auto simp: admitted_append)

lemma last_call_le:
  "sorted (map fst (cs @ [(now, k)])) \<Longrightarrow> cs \<noteq> [] \<Longrightarrow> fst (last cs) \<le> now"
  by (cases cs rule: rev_cases) (auto simp: sorted_append)

text \<open>After calls at non-decreasing instants the stored hits of a key are those of
  its admitted instants that lie after some cutoff, which is not beyond the last
  call's.\<close>

lemma hits_are_recent_admitted:
  assumes "sorted (map fst cs)" "rl_hits r key = []" "0 < rl_window r"
  shows "\<exists>c. rl_hits (run limiter_step cs r) key = filter (\<lambda>t. c < t) (admitted key cs r) \<and>
             (cs \<noteq> [] \<longrightarrow> c \<le> fst (last cs) - rl_window r)"
  using assms
proof (induction cs rule: rev_induct)
  case Nil
  then show ?case by simp
next
  case (snoc call cs)
  obtain now k where call: "call = (now, k)" by force
  let ?r = "run limiter_step cs r" and ?A = "admitted key cs r" and ?cut = "now - rl_window r"
  obtain c where c: "rl_hits ?r key = filter (\<lambda>t. c < t) ?A"
    "cs \<noteq> [] \<longrightarrow> c \<le> fst (last cs) - rl_window r"
    using snoc by (auto simp: sorted_append)
  have mono: "c \<le> ?cut" if "cs \<noteq> []"
    using c(2) last_call_le [OF snoc.prems(1) [unfolded call] that] that by linarith
  have kept: "filter (\<lambda>t. ?cut < t) (rl_hits ?r key) = filter (\<lambda>t. ?cut < t) ?A"
    using mono snoc.prems(2) by (cases "cs = []") (auto simp: c(1) intro!: filter_cong)
  show ?case
  proof (cases "k = key")
    case True
    then show ?thesis
      using kept snoc.prems(3)
      by (intro exI [of _ ?cut])
         (simp add: call limiter_step_hits admitted_snoc Allow_iff Let_def run_config)
  next
    case False
    then have "admitted key (cs @ [call]) r = ?A" by (simp add: call admitted_append split: prod.splits)
    moreover have "rl_hits (run limiter_step (cs @ [call]) r) key = rl_hits ?r key"
      using False by (simp add: call limiter_step_def)
    ultimately show ?thesis
      using c(1) mono by (cases "cs = []") (auto simp: call intro!: exI [of _ "min c ?cut"])
  qed
qed

lemma recent_hits:
  assumes "sorted (map fst (cs @ [(now, k)]))" "rl_hits r key = []" "0 < rl_window r"
  shows "filter (\<lambda>t. now - rl_window r < t) (rl_hits (run limiter_step cs r) key) =
         filter (\<lambda>t. now - rl_window r < t) (admitted key cs r)"
proof -
  have "sorted (map fst cs)" using assms(1) by (simp add: sorted_append)
  from hits_are_recent_admitted [OF this assms(2,3)] obtain c
    where c: "rl_hits (run limiter_step cs r) key = filter (\<lambda>t. c < t) (admitted key cs r)"
      "cs \<noteq> [] \<longrightarrow> c \<le> fst (last cs) - rl_window r" by blast
  show ?thesis
  proof (cases "cs = []")
    case False
    then have "c \<le> now - rl_window r" using c(2) last_call_le [OF assms(1) False] by linarith
    then show ?thesis by (auto simp: c(1) intro!: filter_cong)
  qed (simp add: assms(2))
qed

text \<open>A list of instants in which every new one comes when fewer than \<open>n\<close>
  earlier ones lie in the window before it.\<close>

inductive paced :: "nat \<Rightarrow> duration \<Rightarrow> time list \<Rightarrow> bool" for n w where
  paced_Nil: "paced n w []"
| paced_snoc: "paced n w ts \<Longrightarrow> \<forall>t \<in> set ts. t \<le> now \<Longrightarrow>
    length (filter (\<lambda>t. now - w < t) ts) < n \<Longrightarrow> paced n w (ts @ [now])"

lemma paced_window:
  "paced n w ts \<Longrightarrow> length (filter (\<lambda>t. x - w < t \<and> t \<le> x) ts) \<le> n"
proof (induction rule: paced.induct)
  case (paced_snoc ts now)
  show ?case
  proof (cases "now \<le> x \<and> x - w < now")
    case True
    have "length (filter (\<lambda>t. x - w < t \<and> t \<le> x) ts) \<le> length (filter (\<lambda>t. now - w < t) ts)"
      using count_where_mono [of ts "\<lambda>t. x - w < t \<and> t \<le> x" "\<lambda>t. now - w < t"] True
      by (simp add: count_where_def)
    then show ?thesis using paced_snoc.hyps True by simp
  next
    case False
    then show ?thesis using paced_snoc.IH by auto
  qed
qed simp

lemma admitted_paced:
  assumes "sorted (map fst cs)" "rl_hits r key = []" "0 < rl_window r"
  shows "paced (nat (rl_limit r)) (rl_window r) (admitted key cs r)"
  using assms
proof (induction cs rule: rev_induct)
  case Nil
  then show ?case by (simp add: paced_Nil)
next
  case (snoc call cs)
  obtain now k where call: "call = (now, k)" by force
  let ?r = "run limiter_step cs r" and ?A = "admitted key cs r"
  have sorted: "sorted (map fst cs)" and le: "\<forall>t \<in> fst ` set cs. t \<le> now"
    using snoc.prems(1) by (auto simp: sorted_append call)
  have IH: "paced (nat (rl_limit r)) (rl_window r) ?A" using snoc sorted by blast
  note recent = recent_hits [OF snoc.prems(1) [unfolded call] snoc.prems(2,3)]
  have "admitted key (cs @ [call]) r = ?A \<or>
      admitted key (cs @ [call]) r = ?A @ [now] \<and>
      length (filter (\<lambda>t. now - rl_window r < t) ?A) < nat (rl_limit r)"
    using recent by (auto simp: call admitted_snoc Allow_iff run_config)
  moreover have "\<forall>t \<in> set ?A. t \<le> now" using admitted_subset [of key cs r] le by blast
  ultimately show ?case using IH by (auto intro: paced_snoc)
qed

section \<open>Properties\<close>



text \<open>Backoff, not lockout. A call is admitted exactly when fewer than
  \<open>limit\<close> admitted calls of its key are still inside the window; so once they
  have aged out the key is served again.\<close>

theorem limiter_admits_iff:
  assumes "sorted (map fst (calls @ [(now, key)]))" "0 < window"
  shows "fst (Allow now key (run limiter_step calls (NewRateLimiter limit window))) \<longleftrightarrow>
         int (length (filter (\<lambda>t. now - window < t)
           (admitted key calls (NewRateLimiter limit window)))) < limit"
proof -
  let ?r0 = "NewRateLimiter limit window"
  have "filter (\<lambda>t. now - window < t) (rl_hits (run limiter_step calls ?r0) key) =
      filter (\<lambda>t. now - window < t) (admitted key calls ?r0)"
    using recent_hits [OF assms(1), of ?r0 key] assms(2) by (simp add: NewRateLimiter_def)
  then show ?thesis
    by (simp add: Allow_iff run_config) (simp add: NewRateLimiter_def)
qed

theorem limiter_admits_iff_witness:
  "\<not> fst (Allow 5 ''a'' (run limiter_step [(0, ''a''), (1, ''a'')] (NewRateLimiter 2 10))) \<and>
   fst (Allow 10 ''a'' (run limiter_step [(0, ''a''), (1, ''a'')] (NewRateLimiter 2 10)))"
proof -
  have "admitted ''a'' [(0, ''a''), (1, ''a'')] (NewRateLimiter 2 10) = [0, 1]"
    by (simp add: NewRateLimiter_def Allow_def)
  then show ?thesis
    using limiter_admits_iff [of "[(0, ''a''), (1, ''a'')]" 5 "''a''" 10 2]
      limiter_admits_iff [of "[(0, ''a''), (1, ''a'')]" 10 "''a''" 10 2]
    by simp
qed

end
