(* ===== verification/Passwords.thy ===== *)
theory Passwords
  imports Go_Strings "HOL-Library.Multiset"
begin

text \<open>
  Password hashing (\<open>internal/auth/password.go\<close>) and the generator of random
  passwords (\<open>internal/platform/password.go\<close>). Argon2id
  (\<open>golang.org/x/crypto\<close>) and unpadded base64 are the fields of
  \<open>pw_env\<close>; random bytes and random indices are arguments.
\<close>

section \<open>Hashing and verifying\<close>

record argon2_params =
  MemoryKiB :: nat
  Iterations :: nat
  Parallelism :: nat
  SaltLen :: nat
  KeyLen :: nat

definition DefaultArgon2Params :: argon2_params where
  "DefaultArgon2Params =
     \<lparr>MemoryKiB = 19 * 1024, Iterations = 2, Parallelism = 1, SaltLen = 16, KeyLen = 32\<rparr>"

text \<open>The fields are \<open>uint32\<close>, \<open>Parallelism\<close> is \<open>uint8\<close>.\<close>

definition argon2_params_ok :: "argon2_params \<Rightarrow> bool" where
  "argon2_params_ok p \<longleftrightarrow>
     MemoryKiB p < 2 ^ 32 \<and> Iterations p < 2 ^ 32 \<and> Parallelism p < 2 ^ 8 \<and>
     SaltLen p < 2 ^ 32 \<and> KeyLen p < 2 ^ 32"

record pw_env =
  argon2_IDKey :: "bytes \<Rightarrow> bytes \<Rightarrow> nat \<Rightarrow> nat \<Rightarrow> nat \<Rightarrow> nat \<Rightarrow> bytes"
    \<comment> \<open>password, salt, time, memory, threads, key length\<close>
  b64_encode :: "bytes \<Rightarrow> string"
  b64_decode :: "string \<Rightarrow> bytes option"

datatype pw_error = EmptyPassword | UnrecognizedFormat | ParseHashParams | DecodeSalt | DecodeHash

definition HashPassword :: "pw_env \<Rightarrow> bytes \<Rightarrow> string \<Rightarrow> argon2_params \<Rightarrow> pw_error + string" where
  "HashPassword env salt password p =
     (if length password = 0 then Inl EmptyPassword
      else let hash = argon2_IDKey env (bytes_of password) salt (Iterations p) (MemoryKiB p)
                        (Parallelism p) (KeyLen p)
           in Inr (''$argon2id$v=19$m='' @ show_nat (MemoryKiB p) @ '',t='' @ show_nat (Iterations p) @
                   '',p='' @ show_nat (Parallelism p) @ ''$'' @ b64_encode env salt @ ''$'' @
                   b64_encode env hash))"

text \<open>\<open>fmt.Sscanf(parts[3], "m=%d,t=%d,p=%d", ...)\<close>; what follows the last
  number is ignored.\<close>

definition scan_params :: "string \<Rightarrow> (nat \<times> nat \<times> nat) option" where
  "scan_params s =
     Option.bind (scan_lit ''m='' s) (\<lambda>s1.
     Option.bind (scan_uint 32 s1) (\<lambda>(memoryKiB, s2).
     Option.bind (scan_lit '',t='' s2) (\<lambda>s3.
     Option.bind (scan_uint 32 s3) (\<lambda>(iterations, s4).
     Option.bind (scan_lit '',p='' s4) (\<lambda>s5.
     Option.bind (scan_uint 8 s5) (\<lambda>(parallelism, s6).
     Some (memoryKiB, iterations, parallelism)))))))"

definition VerifyPassword :: "pw_env \<Rightarrow> string \<Rightarrow> string \<Rightarrow> pw_error + bool" where
  "VerifyPassword env password encoded =
     (let parts = split_on CHR ''$'' encoded in
      if length parts \<noteq> 6 \<or> parts ! 1 \<noteq> ''argon2id'' then Inl UnrecognizedFormat
      else case scan_params (parts ! 3) of
        None \<Rightarrow> Inl ParseHashParams
      | Some (memoryKiB, iterations, parallelism) \<Rightarrow>
          (case b64_decode env (parts ! 4) of
             None \<Rightarrow> Inl DecodeSalt
           | Some salt \<Rightarrow>
               (case b64_decode env (parts ! 5) of
                  None \<Rightarrow> Inl DecodeHash
                | Some want \<Rightarrow>
                    let got = argon2_IDKey env (bytes_of password) salt iterations memoryKiB
                                parallelism (length want)
                    in Inr (got = want))))"

text \<open>What the code relies on: unpadded base64 decodes what it encoded and its
  alphabet has no dollar sign; Argon2 returns as many bytes as asked for.\<close>

definition pw_env_ok :: "pw_env \<Rightarrow> bool" where
  "pw_env_ok env \<longleftrightarrow>
     (\<forall>b. b64_decode env (b64_encode env b) = Some b \<and> CHR ''$'' \<notin> set (b64_encode env b)) \<and>
     (\<forall>pw salt t m p n. length (argon2_IDKey env pw salt t m p n) = n)"

lemma digit_facts [simp]: "\<not> is_digit (CHR '','')" "\<not> is_digit (CHR ''$'')"
  by (simp_all add: is_digit_def)

lemma scan_params_show:
  assumes "m < 2 ^ 32" "t < 2 ^ 32" "p < 2 ^ 8"
  shows "scan_params (''m='' @ show_nat m @ '',t='' @ show_nat t @ '',p='' @ show_nat p) = Some (m, t, p)"
proof -
  have "scan_uint 32 (show_nat m @ '',t='' @ s) = Some (m, '',t='' @ s)"
    "scan_uint 32 (show_nat t @ '',p='' @ s) = Some (t, '',p='' @ s)"
    "scan_uint 8 (show_nat p @ []) = Some (p, [])" for s
    by (rule scan_uint_show; use assms in simp)+
  then show ?thesis
    unfolding scan_params_def scan_lit_append Option.bind.simps
    by (simp only: scan_lit_append Option.bind.simps append_Nil2 prod.case)
qed

lemma HashPassword_parts:
  assumes "pw_env_ok env"
  shows "split_on CHR ''$''
     (''$argon2id$v=19$m='' @ show_nat m @ '',t='' @ show_nat t @ '',p='' @ show_nat p @
      ''$'' @ b64_encode env salt @ ''$'' @ b64_encode env hash) =
     [[], ''argon2id'', ''v=19'', ''m='' @ show_nat m @ '',t='' @ show_nat t @ '',p='' @ show_nat p,
      b64_encode env salt, b64_encode env hash]" (is "split_on _ ?s = ?parts")
proof -
  have "?s = join_with CHR ''$'' ?parts" by simp
  moreover have "\<forall>p \<in> set ?parts. CHR ''$'' \<notin> set p"
    using assms by (simp add: pw_env_ok_def digit_not_in_show_nat)
  ultimately show ?thesis using split_on_join [of ?parts "CHR ''$''"] by simp
qed

section \<open>Random passwords\<close>

definition pwUpper :: string where "pwUpper = ''ABCDEFGHJKLMNPQRSTUVWXYZ''"
definition pwLower :: string where "pwLower = ''abcdefghijkmnopqrstuvwxyz''"
definition pwDigits :: string where "pwDigits = ''23456789''"
definition pwSymbol :: string where "pwSymbol = ''!@#$%^&*-_''"

lemmas pw_charset_defs = pwUpper_def pwLower_def pwDigits_def pwSymbol_def

text \<open>\<open>rnd k max\<close> is the \<open>k\<close>-th call of \<open>randomInt(max)\<close>.\<close>

definition randomChar :: "(nat \<Rightarrow> nat \<Rightarrow> nat) \<Rightarrow> nat \<Rightarrow> string \<Rightarrow> char" where
  "randomChar rnd k charset = charset ! rnd k (length charset)"

text \<open>The Fisher-Yates loop, \<open>i\<close> going from \<open>length - 1\<close> down to 1.\<close>

fun shuffle :: "(nat \<Rightarrow> nat \<Rightarrow> nat) \<Rightarrow> nat \<Rightarrow> nat \<Rightarrow> string \<Rightarrow> string" where
  "shuffle rnd k 0 buf = buf"
| "shuffle rnd k (Suc i) buf =
     (let j = rnd k (Suc i + 1)
      in shuffle rnd (k + 1) i (buf[Suc i := buf ! j, j := buf ! Suc i]))"

definition GenerateSupportPassword :: "(nat \<Rightarrow> nat \<Rightarrow> nat) \<Rightarrow> nat \<Rightarrow> string" where
  "GenerateSupportPassword rnd len0 =
     (let all = pwUpper @ pwLower @ pwDigits @ pwSymbol;
          classes = [pwUpper, pwLower, pwDigits, pwSymbol];
          len = max len0 (length classes);
          buf = map (\<lambda>i. randomChar rnd i (classes ! i)) [0..<length classes] @
                map (\<lambda>i. randomChar rnd i all) [length classes..<len]
      in shuffle rnd len (len - 1) buf)"

definition rnd_ok :: "(nat \<Rightarrow> nat \<Rightarrow> nat) \<Rightarrow> bool" where
  "rnd_ok rnd \<longleftrightarrow> (\<forall>k m. 0 < m \<longrightarrow> rnd k m < m)"

lemma mset_shuffle:
  assumes "rnd_ok rnd" "i < length buf"
  shows "mset (shuffle rnd k i buf) = mset buf"
  using assms(2)
proof (induction i arbitrary: k buf)
  case (Suc i)
  have "rnd k (Suc i + 1) < Suc i + 1" using assms(1) by (simp add: rnd_ok_def)
  then have "rnd k (Suc i + 1) < length buf" using Suc.prems by linarith
  then have "mset (buf[Suc i := buf ! rnd k (Suc i + 1), rnd k (Suc i + 1) := buf ! Suc i]) = mset buf"
    using Suc.prems by (intro mset_swap) simp_all
  then show ?case using Suc.IH Suc.prems by (simp add: Let_def)
qed simp

lemma randomChar_in: "rnd_ok rnd \<Longrightarrow> cs \<noteq> [] \<Longrightarrow> randomChar rnd k cs \<in> set cs"
  by (simp add: randomChar_def rnd_ok_def)

section \<open>Properties\<close>

text \<open>C28: a stored password hash accepts its own password, and any other password
  exactly when Argon2 maps it to the same key under the same salt and parameters:
  the encoded string carries everything verification needs, so it stays correct
  when the parameters for new users change.\<close>

theorem VerifyPassword_HashPassword:
  assumes "pw_env_ok env" "argon2_params_ok p" "HashPassword env salt password p = Inr encoded"
  shows "VerifyPassword env password' encoded =
         Inr (argon2_IDKey env (bytes_of password') salt (Iterations p) (MemoryKiB p) (Parallelism p) (KeyLen p) =
              argon2_IDKey env (bytes_of password) salt (Iterations p) (MemoryKiB p) (Parallelism p) (KeyLen p))"
proof -
  let ?hash = "argon2_IDKey env (bytes_of password) salt (Iterations p) (MemoryKiB p) (Parallelism p) (KeyLen p)"
  have enc: "encoded = ''$argon2id$v=19$m='' @ show_nat (MemoryKiB p) @ '',t='' @ show_nat (Iterations p) @
      '',p='' @ show_nat (Parallelism p) @ ''$'' @ b64_encode env salt @ ''$'' @ b64_encode env ?hash"
    using assms(3) unfolding HashPassword_def Let_def by (simp split: if_splits)
  have scan: "scan_params (''m='' @ show_nat (MemoryKiB p) @ '',t='' @ show_nat (Iterations p) @
      '',p='' @ show_nat (Parallelism p)) = Some (MemoryKiB p, Iterations p, Parallelism p)"
    using assms(2) by (intro scan_params_show) (simp_all add: argon2_params_ok_def)
  have b64: "b64_decode env (b64_encode env b) = Some b" "length ?hash = KeyLen p" for b
    using assms(1) by (simp_all add: pw_env_ok_def)
  show ?thesis
    unfolding VerifyPassword_def enc HashPassword_parts [OF assms(1)]
    by (simp add: Let_def scan [simplified] b64)
qed

text \<open>The environment of the witness: two letters for each byte, and a key that
  repeats the sum of password and salt.\<close>

definition demo_enc :: "bytes \<Rightarrow> string" where
  "demo_enc b = concat (map (\<lambda>w. [char_of (65 + unat w div 16), char_of (65 + unat w mod 16)]) b)"

fun demo_dec :: "string \<Rightarrow> bytes option" where
  "demo_dec [] = Some []"
| "demo_dec [a] = None"
| "demo_dec (a # b # s) =
     map_option ((#) (word_of_nat ((of_char a - 65) * 16 + (of_char b - 65)))) (demo_dec s)"

definition demo_pw_env :: pw_env where
  "demo_pw_env = \<lparr>argon2_IDKey = (\<lambda>pw salt t m p n. replicate n (sum_list pw + sum_list salt)),
     b64_encode = demo_enc, b64_decode = demo_dec\<rparr>"

lemma demo_dec_enc: "demo_dec (demo_enc b) = Some b \<and> CHR ''$'' \<notin> set (demo_enc b)"
proof (induction b)
  case (Cons w b)
  have "unat w < 256" using unsigned_less [of w] by simp
  then have bounds: "unat w div 16 < 16" "unat w mod 16 < 16" by auto
  then have "CHR ''$'' \<noteq> char_of (65 + unat w div 16)" "CHR ''$'' \<noteq> char_of (65 + unat w mod 16)"
    by (auto simp: char_of_eq_iff dest!: arg_cong [of _ _ "of_char :: char \<Rightarrow> nat"])
  with bounds Cons show ?case by (simp add: demo_enc_def)
qed (simp add: demo_enc_def)

theorem VerifyPassword_HashPassword_witness:
  "\<exists>encoded. HashPassword demo_pw_env [7] ''secret'' DefaultArgon2Params = Inr encoded \<and>
     VerifyPassword demo_pw_env ''secret'' encoded = Inr True \<and>
     VerifyPassword demo_pw_env ''secreu'' encoded = Inr False"
proof -
  obtain encoded where enc: "HashPassword demo_pw_env [7] ''secret'' DefaultArgon2Params = Inr encoded"
    by (simp add: HashPassword_def Let_def)
  have ok: "pw_env_ok demo_pw_env" "argon2_params_ok DefaultArgon2Params"
    by (simp_all add: pw_env_ok_def demo_pw_env_def demo_dec_enc argon2_params_ok_def DefaultArgon2Params_def)
  show ?thesis
    using enc VerifyPassword_HashPassword [OF ok enc, of "''secret''"]
      VerifyPassword_HashPassword [OF ok enc, of "''secreu''"]
    by (simp add: demo_pw_env_def byte_of_def DefaultArgon2Params_def)
qed

text \<open>A generated password has the requested length (at least four), contains an
  upper-case letter, a lower-case letter, a digit and a symbol, and nothing outside
  the four classes, whatever the random numbers.\<close>

theorem GenerateSupportPassword_classes:
  assumes "rnd_ok rnd"
  shows "length (GenerateSupportPassword rnd n) = max n 4 \<and>
         (\<forall>class \<in> {pwUpper, pwLower, pwDigits, pwSymbol}. set (GenerateSupportPassword rnd n) \<inter> set class \<noteq> {}) \<and>
         set (GenerateSupportPassword rnd n) \<subseteq> set pwUpper \<union> set pwLower \<union> set pwDigits \<union> set pwSymbol"
proof -
  let ?all = "pwUpper @ pwLower @ pwDigits @ pwSymbol" and ?len = "max n 4"
  let ?first = "[randomChar rnd 0 pwUpper, randomChar rnd 1 pwLower, randomChar rnd 2 pwDigits, randomChar rnd 3 pwSymbol]"
  let ?rest = "map (\<lambda>i. randomChar rnd i ?all) [4..<?len]"
  have "GenerateSupportPassword rnd n = shuffle rnd ?len (?len - 1) (?first @ ?rest)"
    by (simp add: GenerateSupportPassword_def Let_def upt_conv_Cons numeral_eq_Suc)
  moreover have len: "length (?first @ ?rest) = ?len" by simp
  ultimately have m: "mset (GenerateSupportPassword rnd n) = mset (?first @ ?rest)"
    using mset_shuffle [OF assms, of "?len - 1" "?first @ ?rest" ?len] by simp
  have ne: "pwUpper \<noteq> []" "pwLower \<noteq> []" "pwDigits \<noteq> []" "pwSymbol \<noteq> []"
    by (simp_all add: pw_charset_defs)
  have "length (GenerateSupportPassword rnd n) = ?len"
    using m len by (metis size_mset)
  moreover have "set (GenerateSupportPassword rnd n) = set ?first \<union> set ?rest"
    using m by (metis set_append set_mset_mset)
  moreover have "set ?rest \<subseteq> set ?all"
    using randomChar_in [OF assms, of ?all] ne by auto
  ultimately show ?thesis
    using randomChar_in [OF assms] ne by auto
qed

theorem GenerateSupportPassword_classes_witness:
  "let pw = GenerateSupportPassword (\<lambda>k m. k mod m) 6
   in length pw = 6 \<and> set pw \<inter> set pwDigits \<noteq> {}"
proof -
  have "rnd_ok (\<lambda>k m. k mod m)" by (simp add: rnd_ok_def)
  then show ?thesis using GenerateSupportPassword_classes [of "\<lambda>k m. k mod m" 6] by (simp add: Let_def)
qed

end
