(* ===== verification/Auth_Store.thy ===== *)
theory Auth_Store
  imports Rbac Rate_Limit Passwords "HOL-Library.Char_ord" "HOL-Library.List_Lexorder"
begin

text \<open>
  The tables behind authentication and the operations on them: users
  (\<open>internal/auth/repo.go\<close>), browser sessions
  (\<open>internal/auth/session.go\<close>) and TOTP secrets with their recovery codes
  (\<open>internal/auth/totp.go\<close>). An instant \<open>now\<close> is passed to every
  operation for both \<open>time.Now()\<close> and SQL's \<open>now()\<close>; the random
  values an operation draws are arguments.
\<close>

section \<open>State\<close>

datatype user_status = UserActive | UserDisabled | UserLocked

record user =
  u_id :: uuid
  u_username :: string
  u_display_name :: string
  u_password_hash :: string
  u_status :: user_status
  u_mfa_required :: bool
  u_failed_login_count :: int
  u_locked_until :: "time option"
  u_created_at :: time
  u_last_login_at :: "time option"

text \<open>A row of \<open>user_sessions\<close>; the Go \<open>Session\<close> is the row without
  its hash and revocation mark.\<close>

record session =
  s_id :: uuid
  s_user_id :: uuid
  s_token_hash :: bytes
  s_created_at :: time
  s_last_seen_at :: time
  s_expires_at :: time
  s_idle_expires_at :: time
  s_revoked_at :: "time option"

record mfa_row =
  m_user_id :: uuid
  m_ciphertext :: bytes
  m_nonce :: bytes
  m_confirmed_at :: "time option"
  m_recovery_hashes :: "string list"

record mfa_challenge =
  c_id :: uuid
  c_user_id :: uuid
  c_expires_at :: time
  c_attempts :: int
  c_consumed_at :: "time option"

record reauth_token =
  ra_id :: uuid
  ra_user_id :: uuid
  ra_expires_at :: time
  ra_consumed_at :: "time option"

text \<open>All that the authentication service owns: its tables and its two limiters.\<close>

record auth_state =
  users :: "user list"
  user_sessions :: "session list"
  user_mfa :: "mfa_row list"
  mfa_challenges :: "mfa_challenge list"
  reauth_tokens :: "reauth_token list"
  rbac :: rbac_tables
  login_limiter :: rate_limiter
  mfa_limiter :: rate_limiter

record auth_cfg =
  absolute_ttl :: duration
  idle_ttl :: duration
  argon2 :: argon2_params

text \<open>TOTP (\<open>github.com/pquerna/otp\<close>), AES-GCM under the server's key and
  base64 are given from outside.\<close>

record auth_env = lib_env +
  pw :: pw_env
  gcm_seal :: "bytes \<Rightarrow> bytes \<Rightarrow> bytes"  \<comment> \<open>nonce, plaintext\<close>
  gcm_open :: "bytes \<Rightarrow> bytes \<Rightarrow> bytes option"  \<comment> \<open>nonce, ciphertext\<close>
  totp_valid :: "string \<Rightarrow> bytes \<Rightarrow> time \<Rightarrow> bool"  \<comment> \<open>code, secret, instant\<close>
  b64_raw :: "bytes \<Rightarrow> string"
  hex_string :: "bytes \<Rightarrow> string"

datatype auth_error =
    ErrNotFound | ErrLocked | ErrRateLimited | ErrInvalidCredentials
  | ErrSessionInvalid | ErrSessionNotFound | ErrSessionRevoked | ErrSessionExpired
  | ErrMFANotConfigured | ErrMFAAlreadyConfirmed | ErrInvalidCode | ErrDecryptSecret
  | ErrVerifyPassword pw_error | ErrHashPassword pw_error | ErrPasswordTooShort
  | ErrUniqueViolation

section \<open>Users\<close>

definition GetByUsername :: "string \<Rightarrow> auth_state \<Rightarrow> auth_error + user" where
  "GetByUsername username st =
     (case find_row (\<lambda>u. u_username u = username) (users st) of
        None \<Rightarrow> Inl ErrNotFound | Some u \<Rightarrow> Inr u)"

definition GetByID :: "uuid \<Rightarrow> auth_state \<Rightarrow> auth_error + user" where
  "GetByID i st =
     (case find_row (\<lambda>u. u_id u = i) (users st) of None \<Rightarrow> Inl ErrNotFound | Some u \<Rightarrow> Inr u)"

text \<open>The listing selects an empty string in place of the password hash.\<close>

definition ListUsers :: "auth_state \<Rightarrow> user list" where
  "ListUsers st = sort_key u_username (map (\<lambda>u. u\<lparr>u_password_hash := []\<rparr>) (users st))"

text \<open>\<open>UPDATE users ... WHERE id = $1\<close> with the check of the affected rows.\<close>

definition update_user :: "uuid \<Rightarrow> (user \<Rightarrow> user) \<Rightarrow> auth_state \<Rightarrow> (auth_error + unit) \<times> auth_state" where
  "update_user i f st =
     (if count_where (\<lambda>u. u_id u = i) (users st) = 0 then (Inl ErrNotFound, st)
      else (Inr (), st\<lparr>users := upd_where (\<lambda>u. u_id u = i) f (users st)\<rparr>))"

definition SetStatus :: "uuid \<Rightarrow> user_status \<Rightarrow> auth_state \<Rightarrow> (auth_error + unit) \<times> auth_state" where
  "SetStatus i status = update_user i (\<lambda>u. u\<lparr>u_status := status, u_locked_until := None\<rparr>)"

definition SetMFARequired :: "uuid \<Rightarrow> bool \<Rightarrow> auth_state \<Rightarrow> (auth_error + unit) \<times> auth_state" where
  "SetMFARequired i required = update_user i (\<lambda>u. u\<lparr>u_mfa_required := required\<rparr>)"

definition UpdatePasswordHash :: "uuid \<Rightarrow> string \<Rightarrow> auth_state \<Rightarrow> (auth_error + unit) \<times> auth_state" where
  "UpdatePasswordHash i h = update_user i (\<lambda>u. u\<lparr>u_password_hash := h\<rparr>)"

definition CreateUser ::
  "time \<Rightarrow> uuid \<Rightarrow> string \<Rightarrow> string \<Rightarrow> string \<Rightarrow> auth_state \<Rightarrow> (auth_error + uuid) \<times> auth_state" where
  "CreateUser now newID username displayName passwordHash st =
     (let u = \<lparr>u_id = newID, u_username = username, u_display_name = displayName,
               u_password_hash = passwordHash, u_status = UserActive, u_mfa_required = True,
               u_failed_login_count = 0, u_locked_until = None, u_created_at = now,
               u_last_login_at = None\<rparr>
      in if newID \<in> set (map u_id (users st)) then (Inl ErrUniqueViolation, st)
         else case insert_unique u_username u (users st) of
                None \<Rightarrow> (Inl ErrUniqueViolation, st)
              | Some us \<Rightarrow> (Inr newID, st\<lparr>users := us\<rparr>))"

definition maxFailures :: int where "maxFailures = 10"
definition lockDuration :: duration where "lockDuration = 15 * minute"

definition RegisterFailedLogin :: "time \<Rightarrow> uuid \<Rightarrow> auth_state \<Rightarrow> auth_state" where
  "RegisterFailedLogin now i st = st\<lparr>users := upd_where (\<lambda>u. u_id u = i)
     (\<lambda>u. u\<lparr>u_failed_login_count := u_failed_login_count u + 1,
           u_locked_until := (if u_failed_login_count u + 1 \<ge> maxFailures
                              then Some (now + lockDuration) else u_locked_until u)\<rparr>) (users st)\<rparr>"

definition ResetFailedLogins :: "time \<Rightarrow> uuid \<Rightarrow> auth_state \<Rightarrow> auth_state" where
  "ResetFailedLogins now i st = st\<lparr>users := upd_where (\<lambda>u. u_id u = i)
     (\<lambda>u. u\<lparr>u_failed_login_count := 0, u_locked_until := None, u_last_login_at := Some now\<rparr>) (users st)\<rparr>"

section \<open>Browser sessions\<close>

definition token_alphabet :: string where
  "token_alphabet = ''ABCDEFGHIJKLMNOPQRSTUVWXYZabcdefghijklmnopqrstuvwxyz0123456789''"

definition encodeToken :: "bytes \<Rightarrow> string" where
  "encodeToken raw = map (\<lambda>b. token_alphabet ! (unat b mod length token_alphabet)) raw"

definition hashToken :: "('a lib_env_scheme) \<Rightarrow> string \<Rightarrow> bytes" where
  "hashToken env token = sha256 env (bytes_of token)"

definition newOpaqueToken :: "('a lib_env_scheme) \<Rightarrow> bytes \<Rightarrow> string \<times> bytes" where
  "newOpaqueToken env raw = (let token = encodeToken raw in (token, hashToken env token))"

definition CreateSession ::
  "auth_env \<Rightarrow> auth_cfg \<Rightarrow> time \<Rightarrow> uuid \<Rightarrow> bytes \<Rightarrow> uuid \<Rightarrow> auth_state \<Rightarrow>
   (auth_error + (string \<times> session)) \<times> auth_state" where
  "CreateSession env cfg now newID raw userID st =
     (let (token, hash) = newOpaqueToken env raw;
          sess = \<lparr>s_id = newID, s_user_id = userID, s_token_hash = hash, s_created_at = now,
                  s_last_seen_at = now, s_expires_at = now + absolute_ttl cfg,
                  s_idle_expires_at = now + idle_ttl cfg, s_revoked_at = None\<rparr>
      in if newID \<in> set (map s_id (user_sessions st)) then (Inl ErrUniqueViolation, st)
         else case insert_unique s_token_hash sess (user_sessions st) of
                None \<Rightarrow> (Inl ErrUniqueViolation, st)
              | Some ss \<Rightarrow> (Inr (token, sess), st\<lparr>user_sessions := ss\<rparr>))"

definition Validate ::
  "auth_env \<Rightarrow> auth_cfg \<Rightarrow> time \<Rightarrow> string \<Rightarrow> auth_state \<Rightarrow> (auth_error + session) \<times> auth_state" where
  "Validate env cfg now token st =
     (case find_row (\<lambda>s. s_token_hash s = hashToken env token) (user_sessions st) of
        None \<Rightarrow> (Inl ErrSessionNotFound, st)
      | Some sess \<Rightarrow>
          if s_revoked_at sess \<noteq> None then (Inl ErrSessionRevoked, st)
          else if now > s_expires_at sess \<or> now > s_idle_expires_at sess
          then (Inl ErrSessionExpired, st)
          else let newIdle = (if now + idle_ttl cfg > s_expires_at sess then s_expires_at sess
                              else now + idle_ttl cfg);
                   slide = (\<lambda>s. s\<lparr>s_last_seen_at := now, s_idle_expires_at := newIdle\<rparr>)
               in (Inr (slide sess),
                   st\<lparr>user_sessions := upd_where (\<lambda>s. s_id s = s_id sess) slide (user_sessions st)\<rparr>))"

definition RevokeSession :: "time \<Rightarrow> uuid \<Rightarrow> auth_state \<Rightarrow> auth_state" where
  "RevokeSession now i st = st\<lparr>user_sessions :=
     upd_where (\<lambda>s. s_id s = i \<and> s_revoked_at s = None) (\<lambda>s. s\<lparr>s_revoked_at := Some now\<rparr>) (user_sessions st)\<rparr>"

definition RevokeAllForUser :: "time \<Rightarrow> uuid \<Rightarrow> auth_state \<Rightarrow> auth_state" where
  "RevokeAllForUser now userID st = st\<lparr>user_sessions :=
     upd_where (\<lambda>s. s_user_id s = userID \<and> s_revoked_at s = None)
       (\<lambda>s. s\<lparr>s_revoked_at := Some now\<rparr>) (user_sessions st)\<rparr>"

section \<open>TOTP secrets and recovery codes\<close>

text \<open>\<open>INSERT ... ON CONFLICT (user_id) DO UPDATE ... WHERE confirmed_at IS NULL\<close>:
  a confirmed secret is left alone.\<close>

definition BeginSetup :: "auth_env \<Rightarrow> bytes \<Rightarrow> bytes \<Rightarrow> uuid \<Rightarrow> auth_state \<Rightarrow> auth_state" where
  "BeginSetup env nonce secret userID st =
     (let row = \<lparr>m_user_id = userID, m_ciphertext = gcm_seal env nonce secret, m_nonce = nonce,
                 m_confirmed_at = None, m_recovery_hashes = []\<rparr>
      in case insert_unique m_user_id row (user_mfa st) of
           Some ms \<Rightarrow> st\<lparr>user_mfa := ms\<rparr>
         | None \<Rightarrow> st\<lparr>user_mfa :=
             upd_where (\<lambda>m. m_user_id m = userID \<and> m_confirmed_at m = None) (\<lambda>_. row) (user_mfa st)\<rparr>)"

definition loadSecret :: "auth_env \<Rightarrow> uuid \<Rightarrow> auth_state \<Rightarrow> auth_error + (bytes \<times> bool)" where
  "loadSecret env userID st =
     (case find_row (\<lambda>m. m_user_id m = userID) (user_mfa st) of
        None \<Rightarrow> Inl ErrMFANotConfigured
      | Some m \<Rightarrow> (case gcm_open env (m_nonce m) (m_ciphertext m) of
                    None \<Rightarrow> Inl ErrDecryptSecret
                  | Some plain \<Rightarrow> Inr (plain, m_confirmed_at m \<noteq> None)))"

definition hashRecoveryCode :: "auth_env \<Rightarrow> string \<Rightarrow> string" where
  "hashRecoveryCode env code = b64_raw env (sha256 env (bytes_of code))"

text \<open>One code per random buffer of eight bytes.\<close>

definition generateRecoveryCodes :: "auth_env \<Rightarrow> bytes list \<Rightarrow> string list \<times> string list" where
  "generateRecoveryCodes env bufs =
     (map (hex_string env) bufs, map (\<lambda>b. hashRecoveryCode env (hex_string env b)) bufs)"

definition ConfirmSetup ::
  "auth_env \<Rightarrow> time \<Rightarrow> bytes list \<Rightarrow> uuid \<Rightarrow> string \<Rightarrow> auth_state \<Rightarrow> (auth_error + string list) \<times> auth_state" where
  "ConfirmSetup env now bufs userID code st =
     (case loadSecret env userID st of
        Inl e \<Rightarrow> (Inl e, st)
      | Inr (secret, confirmed) \<Rightarrow>
          if confirmed then (Inl ErrMFAAlreadyConfirmed, st)
          else if \<not> totp_valid env code secret now then (Inl ErrInvalidCode, st)
          else let (codes, hashes) = generateRecoveryCodes env bufs
               in (Inr codes, st\<lparr>user_mfa := upd_where (\<lambda>m. m_user_id m = userID)
                     (\<lambda>m. m\<lparr>m_confirmed_at := Some now, m_recovery_hashes := hashes\<rparr>) (user_mfa st)\<rparr>))"

definition ValidateCode :: "auth_env \<Rightarrow> time \<Rightarrow> uuid \<Rightarrow> string \<Rightarrow> auth_state \<Rightarrow> auth_error + bool" where
  "ValidateCode env now userID code st =
     (case loadSecret env userID st of
        Inl e \<Rightarrow> Inl e
      | Inr (secret, confirmed) \<Rightarrow>
          if \<not> confirmed then Inl ErrMFANotConfigured else Inr (totp_valid env code secret now))"

definition IsConfirmed :: "auth_env \<Rightarrow> uuid \<Rightarrow> auth_state \<Rightarrow> auth_error + bool" where
  "IsConfirmed env userID st =
     (case loadSecret env userID st of
        Inl ErrMFANotConfigured \<Rightarrow> Inr False
      | Inl e \<Rightarrow> Inl e
      | Inr (_, confirmed) \<Rightarrow> Inr confirmed)"

text \<open>\<open>hashes[:idx] + hashes[idx+1:]\<close> at the first match is
  \<open>remove1\<close>.\<close>

definition ConsumeRecoveryCode ::
  "auth_env \<Rightarrow> uuid \<Rightarrow> string \<Rightarrow> auth_state \<Rightarrow> (auth_error + bool) \<times> auth_state" where
  "ConsumeRecoveryCode env userID code st =
     (case find_row (\<lambda>m. m_user_id m = userID) (user_mfa st) of
        None \<Rightarrow> (Inl ErrMFANotConfigured, st)
      | Some m \<Rightarrow>
          let codeHash = hashRecoveryCode env code in
          if codeHash \<notin> set (m_recovery_hashes m) then (Inr False, st)
          else (Inr True, st\<lparr>user_mfa := upd_where (\<lambda>m. m_user_id m = userID)
                  (\<lambda>x. x\<lparr>m_recovery_hashes := remove1 codeHash (m_recovery_hashes m)\<rparr>) (user_mfa st)\<rparr>))"

end
