(* ===== verification/Auth_Service.thy ===== *)
theory Auth_Service
  imports Auth_Store
begin

text \<open>
  The authentication service (\<open>internal/auth/service.go\<close>) and the session
  middleware (\<open>internal/auth/middleware.go\<close>): login with password and TOTP,
  MFA challenges, reauthentication, password change. The state-changing operations
  are the events of \<open>auth_step\<close>; the invariants and the single-use results
  hold for every interleaving of them.
\<close>

section \<open>Operations\<close>

text \<open>The random values one request may draw.\<close>

record fresh =
  fr_id :: uuid
  fr_id2 :: uuid
  fr_token :: bytes
  fr_nonce :: bytes
  fr_secret :: bytes
  fr_salt :: bytes
  fr_codes :: "bytes list"

datatype login_result =
    MfaRequired string
  | MfaSetupRequired bytes
  | Authenticated string session

definition createMFAChallenge :: "auth_env \<Rightarrow> time \<Rightarrow> uuid \<Rightarrow> uuid \<Rightarrow> auth_state \<Rightarrow> (auth_error + string) \<times> auth_state" where
  "createMFAChallenge env now newID userID st =
     (case insert_unique c_id \<lparr>c_id = newID, c_user_id = userID, c_expires_at = now + 5 * minute,
                              c_attempts = 0, c_consumed_at = None\<rparr> (mfa_challenges st) of
        None \<Rightarrow> (Inl ErrUniqueViolation, st)
      | Some cs \<Rightarrow> (Inr (uuid_string env newID), st\<lparr>mfa_challenges := cs\<rparr>))"

text \<open>The limiter is consulted first, and remembers the attempt.\<close>

definition limit_login :: "time \<Rightarrow> string \<Rightarrow> auth_state \<Rightarrow> bool \<times> auth_state" where
  "limit_login now key st = (let (ok, l) = Allow now key (login_limiter st) in (ok, st\<lparr>login_limiter := l\<rparr>))"

definition limit_mfa :: "time \<Rightarrow> string \<Rightarrow> auth_state \<Rightarrow> bool \<times> auth_state" where
  "limit_mfa now key st = (let (ok, l) = Allow now key (mfa_limiter st) in (ok, st\<lparr>mfa_limiter := l\<rparr>))"

definition login_key :: "string \<Rightarrow> string" where "login_key ip = ''login:'' @ ip"
definition mfa_key :: "string \<Rightarrow> string" where "mfa_key challengeID = ''mfa:'' @ challengeID"
definition reauth_key :: "string \<Rightarrow> string" where "reauth_key userID = ''reauth:'' @ userID"

definition lift_session :: "(auth_error + (string \<times> session)) \<times> auth_state \<Rightarrow> (auth_error + login_result) \<times> auth_state" where
  "lift_session r = (case r of
     (Inl e, st) \<Rightarrow> (Inl e, st) | (Inr (token, sess), st) \<Rightarrow> (Inr (Authenticated token sess), st))"

text \<open>\<open>Login\<close> after the user has been found; the comparison with a dummy hash for
  an unknown user changes no state.\<close>

definition login_user ::
  "auth_env \<Rightarrow> auth_cfg \<Rightarrow> time \<Rightarrow> fresh \<Rightarrow> user \<Rightarrow> string \<Rightarrow> bool \<Rightarrow> auth_state \<Rightarrow>
   (auth_error + login_result) \<times> auth_state" where
  "login_user env cfg now fr user password requireMFA st =
     (if u_status user \<noteq> UserActive then (Inl ErrInvalidCredentials, st)
      else if (case u_locked_until user of None \<Rightarrow> False | Some t \<Rightarrow> now < t) then (Inl ErrLocked, st)
      else case VerifyPassword (pw env) password (u_password_hash user) of
        Inl e \<Rightarrow> (Inl (ErrVerifyPassword e), st)
      | Inr False \<Rightarrow> (Inl ErrInvalidCredentials, RegisterFailedLogin now (u_id user) st)
      | Inr True \<Rightarrow>
          (case IsConfirmed env (u_id user) st of
             Inl e \<Rightarrow> (Inl e, st)
           | Inr False \<Rightarrow>
               if requireMFA \<or> u_mfa_required user
               then (Inr (MfaSetupRequired (fr_secret fr)),
                     BeginSetup env (fr_nonce fr) (fr_secret fr) (u_id user) st)
               else lift_session (CreateSession env cfg now (fr_id fr) (fr_token fr) (u_id user)
                                    (ResetFailedLogins now (u_id user) st))
           | Inr True \<Rightarrow>
               (case createMFAChallenge env now (fr_id fr) (u_id user) st of
                  (Inl e, st') \<Rightarrow> (Inl e, st')
                | (Inr cid, st') \<Rightarrow> (Inr (MfaRequired cid), st'))))"

definition Login ::
  "auth_env \<Rightarrow> auth_cfg \<Rightarrow> time \<Rightarrow> fresh \<Rightarrow> string \<Rightarrow> string \<Rightarrow> string \<Rightarrow> bool \<Rightarrow> auth_state \<Rightarrow>
   (auth_error + login_result) \<times> auth_state" where
  "Login env cfg now fr username password ip requireMFA st0 =
     (let (ok, st) = limit_login now (login_key ip) st0 in
      if \<not> ok then (Inl ErrRateLimited, st)
      else case GetByUsername username st of
        Inl _ \<Rightarrow> (Inl ErrInvalidCredentials, st)
      | Inr user \<Rightarrow> login_user env cfg now fr user password requireMFA st)"

definition CompleteMFA ::
  "auth_env \<Rightarrow> auth_cfg \<Rightarrow> time \<Rightarrow> fresh \<Rightarrow> string \<Rightarrow> string \<Rightarrow> auth_state \<Rightarrow>
   (auth_error + login_result) \<times> auth_state" where
  "CompleteMFA env cfg now fr challengeID code st0 =
     (let (ok, st) = limit_mfa now (mfa_key challengeID) st0 in
      if \<not> ok then (Inl ErrRateLimited, st)
      else case uuid_parse env challengeID of
        None \<Rightarrow> (Inl ErrInvalidCredentials, st)
      | Some cid \<Rightarrow>
          (case find_row (\<lambda>c. c_id c = cid) (mfa_challenges st) of
             None \<Rightarrow> (Inl ErrInvalidCredentials, st)
           | Some c \<Rightarrow>
               if c_consumed_at c \<noteq> None \<or> now > c_expires_at c \<or> c_attempts c \<ge> 5
               then (Inl ErrInvalidCredentials, st)
               else let fail = (Inl ErrInvalidCredentials,
                                st\<lparr>mfa_challenges := upd_where (\<lambda>c. c_id c = cid)
                                     (\<lambda>c. c\<lparr>c_attempts := c_attempts c + 1\<rparr>) (mfa_challenges st)\<rparr>)
                    in case ValidateCode env now (c_user_id c) code st of
                         Inl ErrMFANotConfigured \<Rightarrow> fail
                       | Inl e \<Rightarrow> (Inl e, st)
                       | Inr False \<Rightarrow> fail
                       | Inr True \<Rightarrow>
                           lift_session (CreateSession env cfg now (fr_id fr) (fr_token fr) (c_user_id c)
                             (ResetFailedLogins now (c_user_id c)
                               (st\<lparr>mfa_challenges := upd_where (\<lambda>c. c_id c = cid)
                                    (\<lambda>c. c\<lparr>c_consumed_at := Some now\<rparr>) (mfa_challenges st)\<rparr>)))))"

definition Reauth ::
  "auth_env \<Rightarrow> time \<Rightarrow> fresh \<Rightarrow> uuid \<Rightarrow> string \<Rightarrow> string \<Rightarrow> auth_state \<Rightarrow> (auth_error + string) \<times> auth_state" where
  "Reauth env now fr userID password code st0 =
     (let (ok, st) = limit_mfa now (reauth_key (uuid_string env userID)) st0 in
      if \<not> ok then (Inl ErrRateLimited, st)
      else case GetByID userID st of
        Inl _ \<Rightarrow> (Inl ErrInvalidCredentials, st)
      | Inr user \<Rightarrow>
          if VerifyPassword (pw env) password (u_password_hash user) \<noteq> Inr True
          then (Inl ErrInvalidCredentials, st)
          else if ValidateCode env now userID code st \<noteq> Inr True then (Inl ErrInvalidCredentials, st)
          else case insert_unique ra_id \<lparr>ra_id = fr_id fr, ra_user_id = userID,
                       ra_expires_at = now + 5 * minute, ra_consumed_at = None\<rparr> (reauth_tokens st) of
                 None \<Rightarrow> (Inl ErrUniqueViolation, st)
               | Some rs \<Rightarrow> (Inr (uuid_string env (fr_id fr)), st\<lparr>reauth_tokens := rs\<rparr>))"

definition reauth_usable :: "time \<Rightarrow> uuid \<Rightarrow> reauth_token \<Rightarrow> bool" where
  "reauth_usable now userID r \<longleftrightarrow> ra_user_id r = userID \<and> ra_consumed_at r = None \<and> ra_expires_at r > now"

definition ConsumeReauth :: "auth_env \<Rightarrow> time \<Rightarrow> uuid \<Rightarrow> string \<Rightarrow> auth_state \<Rightarrow> bool \<times> auth_state" where
  "ConsumeReauth env now userID reauthID st =
     (case uuid_parse env reauthID of
        None \<Rightarrow> (False, st)
      | Some i \<Rightarrow>
          (count_where (\<lambda>r. ra_id r = i \<and> reauth_usable now userID r) (reauth_tokens st) = 1,
           st\<lparr>reauth_tokens := upd_where (\<lambda>r. ra_id r = i \<and> reauth_usable now userID r)
                (\<lambda>r. r\<lparr>ra_consumed_at := Some now\<rparr>) (reauth_tokens st)\<rparr>))"

definition ChangeOwnPassword ::
  "auth_env \<Rightarrow> auth_cfg \<Rightarrow> fresh \<Rightarrow> uuid \<Rightarrow> string \<Rightarrow> auth_state \<Rightarrow> (auth_error + unit) \<times> auth_state" where
  "ChangeOwnPassword env cfg fr userID newPassword st =
     (if length newPassword < 12 then (Inl ErrPasswordTooShort, st)
      else case HashPassword (pw env) (fr_salt fr) newPassword (argon2 cfg) of
        Inl e \<Rightarrow> (Inl (ErrHashPassword e), st)
      | Inr h \<Rightarrow> UpdatePasswordHash userID h st)"

text \<open>The request context \<open>RequireSession\<close> builds: the session, the active user
  and their grants; \<open>None\<close> is the 401 response.\<close>

definition RequireSession ::
  "auth_env \<Rightarrow> auth_cfg \<Rightarrow> time \<Rightarrow> string option \<Rightarrow> auth_state \<Rightarrow>
   (session \<times> user \<times> grant list) option \<times> auth_state" where
  "RequireSession env cfg now cookie st =
     (case cookie of
        None \<Rightarrow> (None, st)
      | Some token \<Rightarrow>
          (case Validate env cfg now token st of
             (Inl _, st') \<Rightarrow> (None, st')
           | (Inr sess, st') \<Rightarrow>
               (case GetByID (s_user_id sess) st' of
                  Inl _ \<Rightarrow> (None, st')
                | Inr user \<Rightarrow>
                    if u_status user \<noteq> UserActive then (None, st')
                    else (Some (sess, user, PermissionsForUser (rbac st') (u_id user)), st'))))"

text \<open>\<open>RequirePermission\<close> behind it: 403 unless a grant covers the resource.\<close>

definition RequirePermission :: "string \<Rightarrow> resource \<Rightarrow> grant list \<Rightarrow> bool" where
  "RequirePermission permission res grants = HasPermission grants permission res"

section \<open>Events and the table invariant\<close>

definition restart_auth :: "auth_state \<Rightarrow> auth_state" where
  "restart_auth st = st\<lparr>login_limiter := renew_limiter (login_limiter st), mfa_limiter := renew_limiter (mfa_limiter st)\<rparr>"

datatype auth_event =
    ELogin time fresh string string string bool
  | ECompleteMFA time fresh string string
  | EReauth time fresh uuid string string
  | EConsumeReauth time uuid string
  | EConfirmSetup time fresh uuid string
  | EConsumeRecovery uuid string
  | EChangePassword fresh uuid string
  | EValidate time string
  | ERevoke time uuid
  | ERevokeAll time uuid
  | ESetStatus uuid user_status
  | ESetMFARequired uuid bool
  | ECreateUser time uuid string string string
  | EAssignRole uuid uuid string "uuid option"
  | ELimit time string
  | EFailedLogin time uuid
  | EResetLogins time uuid
  | ECreateSession time uuid bytes uuid
  | ERestart

fun auth_step :: "auth_env \<Rightarrow> auth_cfg \<Rightarrow> auth_event \<Rightarrow> auth_state \<Rightarrow> auth_state" where
  "auth_step env cfg (ELogin now fr user pass ip requireMFA) st = snd (Login env cfg now fr user pass ip requireMFA st)"
| "auth_step env cfg (ECompleteMFA now fr cid code) st = snd (CompleteMFA env cfg now fr cid code st)"
| "auth_step env cfg (EReauth now fr u pass code) st = snd (Reauth env now fr u pass code st)"
| "auth_step env cfg (EConsumeReauth now u rid) st = snd (ConsumeReauth env now u rid st)"
| "auth_step env cfg (EConfirmSetup now fr u code) st = snd (ConfirmSetup env now (fr_codes fr) u code st)"
| "auth_step env cfg (EConsumeRecovery u code) st = snd (ConsumeRecoveryCode env u code st)"
| "auth_step env cfg (EChangePassword fr u pass) st = snd (ChangeOwnPassword env cfg fr u pass st)"
| "auth_step env cfg (EValidate now token) st = snd (Validate env cfg now token st)"
| "auth_step env cfg (ERevoke now i) st = RevokeSession now i st"
| "auth_step env cfg (ERevokeAll now u) st = RevokeAllForUser now u st"
| "auth_step env cfg (ESetStatus u status) st = snd (SetStatus u status st)"
| "auth_step env cfg (ESetMFARequired u b) st = snd (SetMFARequired u b st)"
| "auth_step env cfg (ECreateUser now i name disp hash) st = snd (CreateUser now i name disp hash st)"
| "auth_step env cfg (EAssignRole u r s i) st = st\<lparr>rbac := AssignRole u r s i (rbac st)\<rparr>"
| "auth_step env cfg (ELimit now key) st = snd (limit_login now key st)"
| "auth_step env cfg (EFailedLogin now u) st = RegisterFailedLogin now u st"
| "auth_step env cfg (EResetLogins now u) st = ResetFailedLogins now u st"
| "auth_step env cfg (ECreateSession now i raw u) st = snd (CreateSession env cfg now i raw u st)"
| "auth_step env cfg ERestart st = restart_auth st"

text \<open>Primary and unique keys.\<close>

definition auth_ok :: "auth_state \<Rightarrow> bool" where
  "auth_ok st \<longleftrightarrow>
     distinct (map u_id (users st)) \<and> distinct (map u_username (users st)) \<and>
     distinct (map s_id (user_sessions st)) \<and> distinct (map s_token_hash (user_sessions st)) \<and>
     distinct (map m_user_id (user_mfa st)) \<and> distinct (map c_id (mfa_challenges st)) \<and>
     distinct (map ra_id (reauth_tokens st))"

lemmas auth_table_defs =
  RegisterFailedLogin_def ResetFailedLogins_def update_user_def SetStatus_def SetMFARequired_def
  UpdatePasswordHash_def RevokeSession_def RevokeAllForUser_def limit_login_def limit_mfa_def

text \<open>What each operation does to each table, as far as the other operations can
  see: sessions, challenges and reauthentication tokens change only through the
  operations that own them.\<close>

lemma limit_frame [simp]:
  "users (snd (limit_login now k st)) = users st" "user_sessions (snd (limit_login now k st)) = user_sessions st"
  "user_mfa (snd (limit_login now k st)) = user_mfa st" "mfa_challenges (snd (limit_login now k st)) = mfa_challenges st"
  "reauth_tokens (snd (limit_login now k st)) = reauth_tokens st"
  "users (snd (limit_mfa now k st)) = users st" "user_sessions (snd (limit_mfa now k st)) = user_sessions st"
  "user_mfa (snd (limit_mfa now k st)) = user_mfa st" "mfa_challenges (snd (limit_mfa now k st)) = mfa_challenges st"
  "reauth_tokens (snd (limit_mfa now k st)) = reauth_tokens st"
  by (simp_all add: limit_login_def limit_mfa_def split: prod.splits)

lemma restart_frame [simp]:
  "users (restart_auth st) = users st" "user_sessions (restart_auth st) = user_sessions st"
  "user_mfa (restart_auth st) = user_mfa st" "mfa_challenges (restart_auth st) = mfa_challenges st"
  "reauth_tokens (restart_auth st) = reauth_tokens st" "rbac (restart_auth st) = rbac st"
  by (simp_all add: restart_auth_def)

lemma reset_frame [simp]:
  "user_sessions (ResetFailedLogins now u st) = user_sessions st"
  "mfa_challenges (ResetFailedLogins now u st) = mfa_challenges st"
  "reauth_tokens (ResetFailedLogins now u st) = reauth_tokens st"
  "user_mfa (ResetFailedLogins now u st) = user_mfa st"
  "user_sessions (RegisterFailedLogin now u st) = user_sessions st"
  "mfa_challenges (RegisterFailedLogin now u st) = mfa_challenges st"
  "reauth_tokens (RegisterFailedLogin now u st) = reauth_tokens st"
  "user_mfa (RegisterFailedLogin now u st) = user_mfa st"
  by (simp_all add: auth_table_defs)

lemma update_user_frame [simp]:
  "user_sessions (snd (update_user u f st)) = user_sessions st"
  "mfa_challenges (snd (update_user u f st)) = mfa_challenges st"
  "reauth_tokens (snd (update_user u f st)) = reauth_tokens st"
  "user_mfa (snd (update_user u f st)) = user_mfa st"
  by (simp_all add: update_user_def)

lemma CreateSession_frame [simp]:
  "users (snd (CreateSession env cfg now i raw u st)) = users st"
  "mfa_challenges (snd (CreateSession env cfg now i raw u st)) = mfa_challenges st"
  "reauth_tokens (snd (CreateSession env cfg now i raw u st)) = reauth_tokens st"
  "user_mfa (snd (CreateSession env cfg now i raw u st)) = user_mfa st"
  by (simp_all add: CreateSession_def Let_def split: prod.splits option.splits)

lemma lift_session_state [simp]: "snd (lift_session r) = snd r"
  by (auto simp: lift_session_def split: prod.splits sum.splits)

text \<open>How the table of sessions can change: a new row with new keys, a slid idle
  timeout, a revocation.\<close>

inductive session_change :: "auth_cfg \<Rightarrow> session list \<Rightarrow> session list \<Rightarrow> bool" for cfg ss where
  sc_same: "session_change cfg ss ss"
| sc_new: "s_id s \<notin> s_id ` set ss \<Longrightarrow> s_token_hash s \<notin> s_token_hash ` set ss \<Longrightarrow>
    s_last_seen_at s = s_created_at s \<Longrightarrow> s_expires_at s = s_created_at s + absolute_ttl cfg \<Longrightarrow>
    s_idle_expires_at s = s_created_at s + idle_ttl cfg \<Longrightarrow> session_change cfg ss (ss @ [s])"
| sc_slide: "idle \<le> now + idle_ttl cfg \<Longrightarrow> session_change cfg ss
    (upd_where (\<lambda>s. s_id s = i) (\<lambda>s. s\<lparr>s_last_seen_at := now, s_idle_expires_at := idle\<rparr>) ss)"
| sc_revoke: "session_change cfg ss
    (upd_where (\<lambda>s. p s \<and> s_revoked_at s = None) (\<lambda>s. s\<lparr>s_revoked_at := Some now\<rparr>) ss)"

lemma CreateSession_change:
  "session_change cfg (user_sessions st) (user_sessions (snd (CreateSession env cfg now i raw u st)))"
  by (auto simp: CreateSession_def newOpaqueToken_def Let_def split: option.splits
      dest!: insert_unique_SomeD intro: session_change.intros)

lemma Validate_change:
  "session_change cfg (user_sessions st) (user_sessions (snd (Validate env cfg now token st)))"
  by (auto simp: Validate_def Let_def split: option.splits intro!: sc_same sc_slide)

lemma login_user_change:
  "session_change cfg (user_sessions st) (user_sessions (snd (login_user env cfg now fr user p req st)))"
  using CreateSession_change [of cfg "ResetFailedLogins now (u_id user) st"]
  by (auto simp: login_user_def BeginSetup_def createMFAChallenge_def Let_def
      split: sum.splits bool.splits option.splits prod.splits intro: sc_same)

lemma CompleteMFA_change:
  "session_change cfg (user_sessions st) (user_sessions (snd (CompleteMFA env cfg now fr cid code st)))"
proof -
  have create: "user_sessions st1 = user_sessions st \<Longrightarrow>
      session_change cfg (user_sessions st) (user_sessions (snd (CreateSession env cfg now i raw u st1)))" for i raw u st1
    using CreateSession_change [of cfg st1] by simp
  obtain ok st' where lim: "limit_mfa now (mfa_key cid) st = (ok, st')" by force
  then have "user_sessions st' = user_sessions st" using limit_frame by (metis snd_conv)
  then show ?thesis
    unfolding CompleteMFA_def lim Let_def prod.case
    by (auto split: option.splits sum.splits bool.splits auth_error.splits intro: sc_same create)
qed

lemma auth_step_session_change:
  "session_change cfg (user_sessions st) (user_sessions (auth_step env cfg e st))"
proof (cases e)
  case (ELogin now fr user pass ip req)
  obtain ok st' where lim: "limit_login now (login_key ip) st = (ok, st')" by force
  then have "user_sessions st' = user_sessions st" using limit_frame by (metis snd_conv)
  then show ?thesis
    using login_user_change [of cfg st'] by (auto simp: ELogin Login_def lim split: sum.splits intro: sc_same)
next
  case (EReauth now fr u pass code)
  obtain ok st' where lim: "limit_mfa now (reauth_key (uuid_string env u)) st = (ok, st')" by force
  then have "user_sessions st' = user_sessions st" using limit_frame by (metis snd_conv)
  then show ?thesis
    by (auto simp: EReauth Reauth_def lim split: sum.splits option.splits intro: sc_same)
qed (auto simp: CompleteMFA_change Validate_change CreateSession_change ConsumeReauth_def ConfirmSetup_def Let_def
      ConsumeRecoveryCode_def ChangeOwnPassword_def SetStatus_def SetMFARequired_def UpdatePasswordHash_def
      RevokeSession_def RevokeAllForUser_def CreateUser_def
      split: option.splits sum.splits prod.splits intro: sc_same sc_revoke)

subsection \<open>Challenges and reauthentication tokens\<close>

inductive challenge_change :: "mfa_challenge list \<Rightarrow> mfa_challenge list \<Rightarrow> bool" for cs where
  cc_same: "challenge_change cs cs"
| cc_new: "c_id c \<notin> c_id ` set cs \<Longrightarrow> c_consumed_at c = None \<Longrightarrow> c_attempts c = 0 \<Longrightarrow>
    challenge_change cs (cs @ [c])"
| cc_attempt: "find_row (\<lambda>c. c_id c = i) cs = Some c \<Longrightarrow> c_attempts c < 5 \<Longrightarrow> challenge_change cs
    (upd_where (\<lambda>c. c_id c = i) (\<lambda>c. c\<lparr>c_attempts := c_attempts c + 1\<rparr>) cs)"
| cc_consume: "challenge_change cs (upd_where (\<lambda>c. c_id c = i) (\<lambda>c. c\<lparr>c_consumed_at := Some now\<rparr>) cs)"

inductive reauth_change :: "reauth_token list \<Rightarrow> reauth_token list \<Rightarrow> bool" for rs where
  rc_same: "reauth_change rs rs"
| rc_new: "ra_id r \<notin> ra_id ` set rs \<Longrightarrow> reauth_change rs (rs @ [r])"
| rc_consume: "reauth_change rs (upd_where p (\<lambda>r. r\<lparr>ra_consumed_at := Some now\<rparr>) rs)"

inductive mfa_change :: "mfa_row list \<Rightarrow> mfa_row list \<Rightarrow> bool" for ms where
  mc_same: "mfa_change ms ms"
| mc_new: "m_user_id m \<notin> m_user_id ` set ms \<Longrightarrow> mfa_change ms (ms @ [m])"
| mc_update: "(\<And>m. p m \<Longrightarrow> m_user_id (f m) = m_user_id m) \<Longrightarrow> mfa_change ms (upd_where p f ms)"

inductive user_change :: "user list \<Rightarrow> user list \<Rightarrow> bool" for us where
  uc_same: "user_change us us"
| uc_new: "u_id u \<notin> u_id ` set us \<Longrightarrow> u_username u \<notin> u_username ` set us \<Longrightarrow> user_change us (us @ [u])"
| uc_update: "(\<And>u. p u \<Longrightarrow> u_id (f u) = u_id u \<and> u_username (f u) = u_username u) \<Longrightarrow>
    user_change us (upd_where p f us)"

lemmas change_intros = sc_same cc_same rc_same mc_same uc_same sc_revoke cc_new rc_new mc_new uc_new

lemma createMFAChallenge_change:
  "challenge_change (mfa_challenges st) (mfa_challenges (snd (createMFAChallenge env now i u st)))"
  by (auto simp: createMFAChallenge_def split: option.splits dest!: insert_unique_SomeD intro: change_intros)

lemma createMFAChallenge_frame [simp]:
  "users (snd (createMFAChallenge env now i u st)) = users st"
  "reauth_tokens (snd (createMFAChallenge env now i u st)) = reauth_tokens st"
  "user_mfa (snd (createMFAChallenge env now i u st)) = user_mfa st"
  by (auto simp: createMFAChallenge_def split: option.splits)

lemma BeginSetup_frame [simp]:
  "users (BeginSetup env n s u st) = users st" "mfa_challenges (BeginSetup env n s u st) = mfa_challenges st"
  "reauth_tokens (BeginSetup env n s u st) = reauth_tokens st"
  by (auto simp: BeginSetup_def Let_def split: option.splits)

lemma BeginSetup_change: "mfa_change (user_mfa st) (user_mfa (BeginSetup env n s u st))"
  by (auto simp: BeginSetup_def Let_def split: option.splits dest!: insert_unique_SomeD
      intro!: mc_new mc_update)

lemma users_updated:
  "user_change (users st) (users (RegisterFailedLogin now u st))"
  "user_change (users st) (users (ResetFailedLogins now u st))"
  by (auto simp: RegisterFailedLogin_def ResetFailedLogins_def intro!: uc_update)

lemma login_user_changes:
  "challenge_change (mfa_challenges st) (mfa_challenges (snd (login_user env cfg now fr user p req st)))"
  "reauth_change (reauth_tokens st) (reauth_tokens (snd (login_user env cfg now fr user p req st)))"
  "mfa_change (user_mfa st) (user_mfa (snd (login_user env cfg now fr user p req st)))"
  "user_change (users st) (users (snd (login_user env cfg now fr user p req st)))"
proof -
  obtain r st' where c: "createMFAChallenge env now (fr_id fr) (u_id user) st = (r, st')" by force
  note cs = createMFAChallenge_change [of st env now "fr_id fr" "u_id user"]
    createMFAChallenge_frame [of env now "fr_id fr" "u_id user" st]
  show "challenge_change (mfa_challenges st) (mfa_challenges (snd (login_user env cfg now fr user p req st)))"
    "reauth_change (reauth_tokens st) (reauth_tokens (snd (login_user env cfg now fr user p req st)))"
    "mfa_change (user_mfa st) (user_mfa (snd (login_user env cfg now fr user p req st)))"
    "user_change (users st) (users (snd (login_user env cfg now fr user p req st)))"
    using cs unfolding login_user_def c
    by (auto split: sum.splits bool.splits intro: change_intros BeginSetup_change users_updated)
qed

lemma CompleteMFA_changes:
  "challenge_change (mfa_challenges st) (mfa_challenges (snd (CompleteMFA env cfg now fr cid code st)))"
  "reauth_change (reauth_tokens st) (reauth_tokens (snd (CompleteMFA env cfg now fr cid code st)))"
  "mfa_change (user_mfa st) (user_mfa (snd (CompleteMFA env cfg now fr cid code st)))"
  "user_change (users st) (users (snd (CompleteMFA env cfg now fr cid code st)))"
proof -
  obtain ok st' where lim: "limit_mfa now (mfa_key cid) st = (ok, st')" by force
  then have st': "mfa_challenges st' = mfa_challenges st" "reauth_tokens st' = reauth_tokens st"
    "user_mfa st' = user_mfa st" "users st' = users st"
    using limit_frame by (metis snd_conv)+
  show "challenge_change (mfa_challenges st) (mfa_challenges (snd (CompleteMFA env cfg now fr cid code st)))"
    "reauth_change (reauth_tokens st) (reauth_tokens (snd (CompleteMFA env cfg now fr cid code st)))"
    "mfa_change (user_mfa st) (user_mfa (snd (CompleteMFA env cfg now fr cid code st)))"
    unfolding CompleteMFA_def lim Let_def prod.case
    by (auto simp: st' split: option.splits sum.splits bool.splits auth_error.splits
        intro: change_intros cc_attempt cc_consume)
  show "user_change (users st) (users (snd (CompleteMFA env cfg now fr cid code st)))"
    using users_updated(2) [of "st'\<lparr>mfa_challenges := cs\<rparr>" for cs]
    unfolding CompleteMFA_def lim Let_def prod.case
    by (auto simp: st' split: option.splits sum.splits bool.splits auth_error.splits intro: change_intros)
qed

lemma auth_step_changes:
  "challenge_change (mfa_challenges st) (mfa_challenges (auth_step env cfg e st))"
  "reauth_change (reauth_tokens st) (reauth_tokens (auth_step env cfg e st))"
  "mfa_change (user_mfa st) (user_mfa (auth_step env cfg e st))"
  "user_change (users st) (users (auth_step env cfg e st))"
proof -
  have "challenge_change (mfa_challenges st) (mfa_challenges (auth_step env cfg e st)) \<and>
    reauth_change (reauth_tokens st) (reauth_tokens (auth_step env cfg e st)) \<and>
    mfa_change (user_mfa st) (user_mfa (auth_step env cfg e st)) \<and>
    user_change (users st) (users (auth_step env cfg e st))"
  proof (cases e)
    case (ELogin now fr user pass ip req)
    obtain ok st' where lim: "limit_login now (login_key ip) st = (ok, st')" by force
    then have "mfa_challenges st' = mfa_challenges st" "reauth_tokens st' = reauth_tokens st"
      "user_mfa st' = user_mfa st" "users st' = users st"
      using limit_frame by (metis snd_conv)+
    then show ?thesis
      using login_user_changes [of st']
      by (auto simp: ELogin Login_def lim split: sum.splits intro: change_intros)
  next
    case (EReauth now fr u pass code)
    obtain ok st' where lim: "limit_mfa now (reauth_key (uuid_string env u)) st = (ok, st')" by force
    then have "mfa_challenges st' = mfa_challenges st" "reauth_tokens st' = reauth_tokens st"
      "user_mfa st' = user_mfa st" "users st' = users st"
      using limit_frame by (metis snd_conv)+
    then show ?thesis
      by (auto simp: EReauth Reauth_def lim split: sum.splits option.splits dest!: insert_unique_SomeD
          intro: change_intros)
  next
    case (EValidate now token)
    then show ?thesis
      by (auto simp: Validate_def Let_def split: option.splits intro: change_intros)
  next
    case (EChangePassword fr u pass)
    then show ?thesis
      by (auto simp: ChangeOwnPassword_def UpdatePasswordHash_def update_user_def split: sum.splits
          intro: change_intros uc_update)
  next
    case (ECreateUser now i name disp hash)
    then show ?thesis
      by (auto simp: CreateUser_def Let_def split: option.splits dest!: insert_unique_SomeD
          intro: change_intros)
  qed (auto simp: CompleteMFA_changes users_updated ConsumeReauth_def ConfirmSetup_def Let_def ConsumeRecoveryCode_def
        SetStatus_def SetMFARequired_def update_user_def RevokeSession_def RevokeAllForUser_def
        split: option.splits sum.splits prod.splits
        intro: change_intros rc_consume mc_update uc_update)
  then show "challenge_change (mfa_challenges st) (mfa_challenges (auth_step env cfg e st))"
    "reauth_change (reauth_tokens st) (reauth_tokens (auth_step env cfg e st))"
    "mfa_change (user_mfa st) (user_mfa (auth_step env cfg e st))"
    "user_change (users st) (users (auth_step env cfg e st))" by blast+
qed

subsection \<open>Invariants\<close>

lemma change_keys:
  "session_change cfg ss ss' \<Longrightarrow> distinct (map s_id ss) \<Longrightarrow> distinct (map s_id ss')"
  "session_change cfg ss ss' \<Longrightarrow> distinct (map s_token_hash ss) \<Longrightarrow> distinct (map s_token_hash ss')"
  "challenge_change cs cs' \<Longrightarrow> distinct (map c_id cs) \<Longrightarrow> distinct (map c_id cs')"
  "reauth_change rs rs' \<Longrightarrow> distinct (map ra_id rs) \<Longrightarrow> distinct (map ra_id rs')"
  "mfa_change ms ms' \<Longrightarrow> distinct (map m_user_id ms) \<Longrightarrow> distinct (map m_user_id ms')"
  "user_change us us' \<Longrightarrow> distinct (map u_id us) \<Longrightarrow> distinct (map u_id us')"
  "user_change us us' \<Longrightarrow> distinct (map u_username us) \<Longrightarrow> distinct (map u_username us')"
  by (auto elim!: session_change.cases challenge_change.cases reauth_change.cases mfa_change.cases
      user_change.cases)

interpretation auth_keys: invariant "auth_step env cfg" auth_ok for env cfg
proof
  fix s e assume "auth_ok s"
  then show "auth_ok (auth_step env cfg e s)"
    using auth_step_session_change [of cfg s env e] auth_step_changes [of s env cfg e]
    unfolding auth_ok_def by (auto intro: change_keys)
qed

text \<open>Every session row keeps its absolute end, its idle end is at most one idle
  timeout after it was last seen, and no challenge counts more than five failed
  attempts.\<close>

definition sessions_timed :: "auth_cfg \<Rightarrow> session list \<Rightarrow> bool" where
  "sessions_timed cfg ss \<longleftrightarrow> (\<forall>s \<in> set ss. s_expires_at s = s_created_at s + absolute_ttl cfg \<and>
     s_idle_expires_at s \<le> s_last_seen_at s + idle_ttl cfg)"

lemma session_change_timed:
  "session_change cfg ss ss' \<Longrightarrow> sessions_timed cfg ss \<Longrightarrow> sessions_timed cfg ss'"
  by (erule session_change.cases) (simp_all add: sessions_timed_def)

interpretation auth_timed: invariant "auth_step env cfg" "\<lambda>st. sessions_timed cfg (user_sessions st)" for env cfg
  by unfold_locales (rule session_change_timed [OF auth_step_session_change])

definition attempts_bounded :: "mfa_challenge list \<Rightarrow> bool" where
  "attempts_bounded cs \<longleftrightarrow> distinct (map c_id cs) \<and> (\<forall>c \<in> set cs. c_attempts c \<le> 5)"

lemma challenge_change_bounded:
  assumes "challenge_change cs cs'" "attempts_bounded cs"
  shows "attempts_bounded cs'"
  using assms
proof (cases rule: challenge_change.cases)
  case (cc_attempt i c)
  then show ?thesis
    using assms(2) find_row_unique [of c_id cs _ i c] by (fastforce simp: attempts_bounded_def set_upd_where)
qed (auto simp: attempts_bounded_def set_upd_where)

interpretation auth_attempts: invariant "auth_step env cfg" "\<lambda>st. attempts_bounded (mfa_challenges st)" for env cfg
  by unfold_locales (rule challenge_change_bounded [OF auth_step_changes(1)])

text \<open>A revoked session stays revoked, a consumed token or challenge consumed.\<close>

definition session_revoked :: "bytes \<Rightarrow> auth_state \<Rightarrow> bool" where
  "session_revoked h st \<longleftrightarrow>
     (\<exists>s. find_row (\<lambda>s. s_token_hash s = h) (user_sessions st) = Some s \<and> s_revoked_at s \<noteq> None)"

lemma session_change_revoked:
  assumes "session_change cfg ss ss'" "find_row (\<lambda>s. s_token_hash s = h) ss = Some s" "s_revoked_at s \<noteq> None"
  shows "\<exists>s'. find_row (\<lambda>s. s_token_hash s = h) ss' = Some s' \<and> s_revoked_at s' \<noteq> None"
  using assms by (cases rule: session_change.cases) auto

interpretation auth_revoked: invariant "auth_step env cfg" "session_revoked h" for env cfg h
  by unfold_locales
     (use session_change_revoked [OF auth_step_session_change] in \<open>fastforce simp: session_revoked_def\<close>)

definition challenge_open :: "uuid \<Rightarrow> auth_state \<Rightarrow> bool" where
  "challenge_open i st \<longleftrightarrow> (case find_row (\<lambda>c. c_id c = i) (mfa_challenges st) of
     None \<Rightarrow> True | Some c \<Rightarrow> c_consumed_at c = None)"

definition reauth_open :: "uuid \<Rightarrow> auth_state \<Rightarrow> bool" where
  "reauth_open i st \<longleftrightarrow> (case find_row (\<lambda>r. ra_id r = i) (reauth_tokens st) of
     None \<Rightarrow> True | Some r \<Rightarrow> ra_consumed_at r = None)"

lemma change_stays_consumed:
  "challenge_change cs cs' \<Longrightarrow> find_row (\<lambda>c. c_id c = i) cs = Some c \<Longrightarrow> c_consumed_at c \<noteq> None \<Longrightarrow>
   \<exists>c'. find_row (\<lambda>c. c_id c = i) cs' = Some c' \<and> c_consumed_at c' \<noteq> None"
  "reauth_change rs rs' \<Longrightarrow> find_row (\<lambda>r. ra_id r = i) rs = Some r \<Longrightarrow> ra_consumed_at r \<noteq> None \<Longrightarrow>
   \<exists>r'. find_row (\<lambda>r. ra_id r = i) rs' = Some r' \<and> ra_consumed_at r' \<noteq> None"
  by (auto elim!: challenge_change.cases reauth_change.cases)

text \<open>The event that wins: a login completed with the challenge, a confirmation with
  the reauthentication token.\<close>

fun completes_login :: "auth_env \<Rightarrow> auth_cfg \<Rightarrow> uuid \<Rightarrow> auth_event \<Rightarrow> auth_state \<Rightarrow> bool" where
  "completes_login env cfg i (ECompleteMFA now fr cid code) st \<longleftrightarrow>
     uuid_parse env cid = Some i \<and>
     (case fst (CompleteMFA env cfg now fr cid code st) of Inr _ \<Rightarrow> True | Inl _ \<Rightarrow> False)"
| "completes_login env cfg i _ st \<longleftrightarrow> False"

fun uses_reauth :: "auth_env \<Rightarrow> uuid \<Rightarrow> auth_event \<Rightarrow> auth_state \<Rightarrow> bool" where
  "uses_reauth env i (EConsumeReauth now u rid) st \<longleftrightarrow>
     uuid_parse env rid = Some i \<and> fst (ConsumeReauth env now u rid st)"
| "uses_reauth env i _ st \<longleftrightarrow> False"

lemma CompleteMFA_success:
  assumes "fst (CompleteMFA env cfg now fr cid code st) = Inr r" "uuid_parse env cid = Some i"
  obtains c where "find_row (\<lambda>c. c_id c = i) (mfa_challenges st) = Some c" "c_consumed_at c = None"
    "now \<le> c_expires_at c" "c_attempts c < 5" "ValidateCode env now (c_user_id c) code st = Inr True"
    "mfa_challenges (snd (CompleteMFA env cfg now fr cid code st)) =
       upd_where (\<lambda>c. c_id c = i) (\<lambda>c. c\<lparr>c_consumed_at := Some now\<rparr>) (mfa_challenges st)"
proof -
  obtain ok st' where lim: "limit_mfa now (mfa_key cid) st = (ok, st')" by force
  then have st': "mfa_challenges st' = mfa_challenges st" "user_mfa st' = user_mfa st"
    using limit_frame by (metis snd_conv)+
  then have code: "ValidateCode env now u code st' = ValidateCode env now u code st" for u
    by (simp add: ValidateCode_def loadSecret_def)
  have ok: ok
    using assms(1) unfolding CompleteMFA_def lim Let_def prod.case by (auto split: if_splits)
  obtain c where c: "find_row (\<lambda>c. c_id c = i) (mfa_challenges st) = Some c"
    "\<not> (c_consumed_at c \<noteq> None \<or> now > c_expires_at c \<or> c_attempts c \<ge> 5)"
    using assms ok unfolding CompleteMFA_def lim Let_def prod.case
    by (auto simp: st' split: if_splits option.splits)
  have v: "ValidateCode env now (c_user_id c) code st = Inr True"
    using assms ok c unfolding CompleteMFA_def lim Let_def prod.case
    by (auto simp: st' code split: sum.splits bool.splits auth_error.splits)
  show thesis
    using that [of c] c v assms(2) ok unfolding CompleteMFA_def lim Let_def prod.case
    by (simp add: st' code)
qed

interpretation mfa_challenge_use: single_use "auth_step env cfg" auth_ok "completes_login env cfg i" "challenge_open i"
  for env cfg i
proof
  fix s e
  assume w: "completes_login env cfg i e s"
  then obtain now fr cid code r where e: "e = ECompleteMFA now fr cid code" "uuid_parse env cid = Some i"
    "fst (CompleteMFA env cfg now fr cid code s) = Inr r"
    by (cases "(env, cfg, i, e, s)" rule: completes_login.cases) (auto split: sum.splits)
  from CompleteMFA_success [OF e(3,2)] obtain c where c: "find_row (\<lambda>c. c_id c = i) (mfa_challenges s) = Some c"
    "c_consumed_at c = None" "mfa_challenges (snd (CompleteMFA env cfg now fr cid code s)) =
       upd_where (\<lambda>c. c_id c = i) (\<lambda>c. c\<lparr>c_consumed_at := Some now\<rparr>) (mfa_challenges s)" by blast
  show "challenge_open i s" using c by (simp add: challenge_open_def)
  show "\<not> challenge_open i (auth_step env cfg e s)"
    using c find_row_SomeD [OF c(1)] by (simp add: challenge_open_def e(1))
next
  fix s e
  assume "\<not> challenge_open i s"
  then show "\<not> challenge_open i (auth_step env cfg e s)"
    using change_stays_consumed(1) [OF auth_step_changes(1) [of s env cfg e], of i]
    by (auto simp: challenge_open_def simp del: find_row_None split: option.splits)
qed

interpretation reauth_use: single_use "auth_step env cfg" auth_ok "uses_reauth env i" "reauth_open i"
  for env cfg i
proof
  fix s e
  assume ok: "auth_ok s" and w: "uses_reauth env i e s"
  then obtain now u rid where e: "e = EConsumeReauth now u rid" "uuid_parse env rid = Some i"
    "count_where (\<lambda>r. ra_id r = i \<and> reauth_usable now u r) (reauth_tokens s) = 1"
    by (cases "(env, i, e, s)" rule: uses_reauth.cases) (auto simp: ConsumeReauth_def)
  have "distinct (map ra_id (reauth_tokens s))" using ok by (simp add: auth_ok_def)
  from count_where_key [OF this, of i "reauth_usable now u"] e(3)
  obtain r where r: "find_row (\<lambda>r. ra_id r = i) (reauth_tokens s) = Some r" "reauth_usable now u r"
    by (auto split: option.splits if_splits)
  then show "reauth_open i s" by (simp add: reauth_open_def reauth_usable_def)
  show "\<not> reauth_open i (auth_step env cfg e s)"
    using r e find_row_SomeD [OF r(1)] by (simp add: reauth_open_def ConsumeReauth_def)
next
  fix s e
  assume "\<not> reauth_open i s"
  then show "\<not> reauth_open i (auth_step env cfg e s)"
    using change_stays_consumed(2) [OF auth_step_changes(2) [of s env cfg e], of i]
    by (auto simp: reauth_open_def simp del: find_row_None split: option.splits)
qed

section \<open>Properties\<close>

text \<open>A fresh installation: no accounts, any roles.\<close>

definition init_auth :: "rbac_tables \<Rightarrow> auth_state" where
  "init_auth t = \<lparr>users = [], user_sessions = [], user_mfa = [], mfa_challenges = [], reauth_tokens = [],
     rbac = t, login_limiter = NewRateLimiter 10 minute, mfa_limiter = NewRateLimiter 5 minute\<rparr>"

lemma init_auth_ok: "auth_ok (init_auth t)"
  by (simp add: auth_ok_def init_auth_def)

lemma init_auth_timed: "sessions_timed cfg (user_sessions (init_auth t))"
  by (simp add: sessions_timed_def init_auth_def)

lemma init_auth_attempts: "attempts_bounded (mfa_challenges (init_auth t))"
  by (simp add: attempts_bounded_def init_auth_def)


text \<open>A reauthentication token is accepted at most once, in every run of the
  service from a fresh installation.\<close>

theorem reauth_token_used_once:
  "win_count (uses_reauth env i) (auth_step env cfg) es (init_auth t) \<le> 1"
  by (rule reauth_use.at_most_one_win [OF init_auth_ok])

text \<open>Completing a login needs an open challenge: one that was issued, is not
  expired, not consumed, has fewer than five failed attempts, and a code that is valid
  for the user the challenge was issued to; success consumes it.\<close>

theorem CompleteMFA_needs_valid_code:
  assumes "fst (CompleteMFA env cfg now fr cid code st) = Inr r"
  shows "\<exists>i c. uuid_parse env cid = Some i \<and> find_row (\<lambda>c. c_id c = i) (mfa_challenges st) = Some c \<and>
           c_consumed_at c = None \<and> now \<le> c_expires_at c \<and> c_attempts c < 5 \<and>
           ValidateCode env now (c_user_id c) code st = Inr True \<and>
           \<not> challenge_open i (snd (CompleteMFA env cfg now fr cid code st))"
proof -
  obtain ok st' where lim: "limit_mfa now (mfa_key cid) st = (ok, st')" by force
  obtain i where i: "uuid_parse env cid = Some i"
    using assms unfolding CompleteMFA_def lim Let_def prod.case by (auto split: if_splits option.splits)
  from CompleteMFA_success [OF assms i] obtain c
    where c: "find_row (\<lambda>c. c_id c = i) (mfa_challenges st) = Some c" "c_consumed_at c = None"
      "now \<le> c_expires_at c" "c_attempts c < 5" "ValidateCode env now (c_user_id c) code st = Inr True"
      "mfa_challenges (snd (CompleteMFA env cfg now fr cid code st)) =
         upd_where (\<lambda>c. c_id c = i) (\<lambda>c. c\<lparr>c_consumed_at := Some now\<rparr>) (mfa_challenges st)" by blast
  then have "\<not> challenge_open i (snd (CompleteMFA env cfg now fr cid code st))"
    using find_row_SomeD [OF c(1)] by (simp add: challenge_open_def)
  with c i show ?thesis by blast
qed

text \<open>A state for the witnesses: one account with a confirmed second factor, one
  without, and an open challenge of the first.\<close>

definition demo_auth_env :: auth_env where
  "demo_auth_env = \<lparr>sha256 = (\<lambda>b. b), uuid_string = (\<lambda>u. show_nat (unat u)),
     uuid_parse = (\<lambda>s. if s = [] then None else Some (word_of_nat (digits_val s))), pw = demo_pw_env,
     gcm_seal = (\<lambda>n p. p), gcm_open = (\<lambda>n c. Some c), totp_valid = (\<lambda>code secret t. bytes_of code = secret),
     b64_raw = demo_enc, hex_string = demo_enc\<rparr>"

definition demo_params :: argon2_params where
  "demo_params = \<lparr>MemoryKiB = 8, Iterations = 1, Parallelism = 1, SaltLen = 1, KeyLen = 1\<rparr>"

definition demo_auth_cfg :: auth_cfg where
  "demo_auth_cfg = \<lparr>absolute_ttl = 1000, idle_ttl = 100, argon2 = demo_params\<rparr>"

definition demo_fresh :: fresh where
  "demo_fresh = \<lparr>fr_id = 9, fr_id2 = 10, fr_token = [1, 2], fr_nonce = [0], fr_secret = bytes_of ''42'',
     fr_salt = [5], fr_codes = [[1], [2]]\<rparr>"

definition demo_user :: "uuid \<Rightarrow> string \<Rightarrow> user" where
  "demo_user i name = \<lparr>u_id = i, u_username = name, u_display_name = name,
     u_password_hash = projr (HashPassword demo_pw_env [7] ''pw'' demo_params),
     u_status = UserActive, u_mfa_required = False, u_failed_login_count = 9, u_locked_until = None,
     u_created_at = 0, u_last_login_at = None\<rparr>"

definition demo_auth :: auth_state where
  "demo_auth = (init_auth \<lparr>user_roles = [], role_permissions = [], permissions = [], roles = []\<rparr>)
     \<lparr>users := [demo_user 1 ''ann'', demo_user 2 ''bob''],
      user_mfa := [\<lparr>m_user_id = 1, m_ciphertext = bytes_of ''42'', m_nonce = [0], m_confirmed_at = Some 0,
                   m_recovery_hashes = []\<rparr>],
      mfa_challenges := [\<lparr>c_id = 7, c_user_id = 1, c_expires_at = 50, c_attempts = 0, c_consumed_at = None\<rparr>]\<rparr>"

theorem CompleteMFA_needs_valid_code_witness:
  "\<exists>r c. fst (CompleteMFA demo_auth_env demo_auth_cfg 10 demo_fresh ''7'' ''42'' demo_auth) = Inr r \<and>
     find_row (\<lambda>c. c_id c = 7) (mfa_challenges demo_auth) = Some c \<and> c_attempts c < 5 \<and>
     \<not> challenge_open 7 (snd (CompleteMFA demo_auth_env demo_auth_cfg 10 demo_fresh ''7'' ''42'' demo_auth))"
proof -
  have "isl (fst (CompleteMFA demo_auth_env demo_auth_cfg 10 demo_fresh ''7'' ''42'' demo_auth)) = False"
    by code_simp
  then obtain r where r: "fst (CompleteMFA demo_auth_env demo_auth_cfg 10 demo_fresh ''7'' ''42'' demo_auth) = Inr r"
    by (metis sum.collapse(2))
  have "uuid_parse demo_auth_env ''7'' = Some 7" by code_simp
  with r CompleteMFA_needs_valid_code [OF r] show ?thesis by auto
qed

text \<open>No challenge is ever guessed at more than five times: in every run from a
  fresh installation the failed attempts of each challenge stay at or below five, the
  number at which \<open>CompleteMFA\<close> refuses it.\<close>

theorem mfa_attempts_bounded:
  "list_all (\<lambda>c. c_attempts c \<le> 5) (mfa_challenges (run (auth_step env cfg) es (init_auth t)))"
  using auth_attempts.run_keeps [OF init_auth_attempts, of env cfg es t]
  by (simp add: attempts_bounded_def list_all_iff)

text \<open>C29: a browser session ends. In every state reached from a fresh installation, a
  token that still validates belongs to an unrevoked session, no later than the
  absolute lifetime after its creation and the idle timeout after it was last used.\<close>

theorem session_lifetime_bounded:
  assumes "fst (Validate env cfg now token (run (auth_step env cfg) es (init_auth t))) = Inr sess"
  shows "\<exists>row \<in> set (user_sessions (run (auth_step env cfg) es (init_auth t))).
           s_token_hash row = hashToken env token \<and> s_id row = s_id sess \<and> s_revoked_at row = None \<and>
           now \<le> s_created_at row + absolute_ttl cfg \<and> now \<le> s_last_seen_at row + idle_ttl cfg \<and>
           s_idle_expires_at sess \<le> s_expires_at sess"
proof -
  let ?st = "run (auth_step env cfg) es (init_auth t)"
  have timed: "sessions_timed cfg (user_sessions ?st)"
    by (rule auth_timed.run_keeps [OF init_auth_timed])
  obtain row where row: "find_row (\<lambda>s. s_token_hash s = hashToken env token) (user_sessions ?st) = Some row"
    "s_revoked_at row = None" "now \<le> s_expires_at row" "now \<le> s_idle_expires_at row"
    "s_id sess = s_id row" "s_idle_expires_at sess \<le> s_expires_at sess"
    using assms by (auto simp: Validate_def Let_def split: option.splits if_splits)
  then have "row \<in> set (user_sessions ?st)" "s_token_hash row = hashToken env token"
    using find_row_SomeD by fastforce+
  with row timed show ?thesis by (intro bexI [of _ row]) (auto simp: sessions_timed_def)
qed

text \<open>Revocation is final. Once all sessions of a user are revoked, a token of any
  session the user had is refused as revoked, whatever requests follow.\<close>

theorem revoked_sessions_stay_revoked:
  assumes "find_row (\<lambda>s. s_token_hash s = hashToken env token) (user_sessions st) = Some sess"
    and "s_user_id sess = u"
  shows "fst (Validate env cfg now token
           (run (auth_step env cfg) es (RevokeAllForUser t u st))) = Inl ErrSessionRevoked"
proof -
  have "session_revoked (hashToken env token) (RevokeAllForUser t u st)"
    using assms by (auto simp: session_revoked_def RevokeAllForUser_def simp del: find_row_None)
  from auth_revoked.run_keeps [OF this, of env cfg es] show ?thesis
    by (auto simp: session_revoked_def Validate_def)
qed

definition demo_logged_in :: auth_state where
  "demo_logged_in = auth_step demo_auth_env demo_auth_cfg (ELogin 10 demo_fresh ''bob'' ''pw'' ''ip'' False) demo_auth"

theorem session_lifetime_bounded_witness:
  "\<exists>es sess. fst (Validate demo_auth_env demo_auth_cfg 60 ''BC''
        (run (auth_step demo_auth_env demo_auth_cfg) es (init_auth (rbac demo_auth)))) = Inr sess \<and>
     s_idle_expires_at sess \<le> s_expires_at sess"
proof -
  let ?es = "[ECreateUser 0 2 ''bob'' ''Bob'' (u_password_hash (demo_user 2 ''bob'')), ESetMFARequired 2 False,
     ELogin 10 demo_fresh ''bob'' ''pw'' ''ip'' False]"
  let ?v = "fst (Validate demo_auth_env demo_auth_cfg 60 ''BC''
        (run (auth_step demo_auth_env demo_auth_cfg) ?es (init_auth (rbac demo_auth))))"
  have "isl ?v = False" by code_simp
  then obtain sess where v: "?v = Inr sess" by (metis sum.collapse(2))
  with session_lifetime_bounded [OF v] show ?thesis by blast
qed

theorem revoked_sessions_stay_revoked_witness:
  "fst (Validate demo_auth_env demo_auth_cfg 60 ''BC''
     (run (auth_step demo_auth_env demo_auth_cfg) [EValidate 40 ''BC''] (RevokeAllForUser 20 2 demo_logged_in))) =
   Inl ErrSessionRevoked"
proof -
  have "map_option s_user_id (find_row (\<lambda>s. s_token_hash s = hashToken demo_auth_env ''BC'')
      (user_sessions demo_logged_in)) = Some 2"
    by code_simp
  then obtain sess where "find_row (\<lambda>s. s_token_hash s = hashToken demo_auth_env ''BC'')
      (user_sessions demo_logged_in) = Some sess" "s_user_id sess = 2" by auto
  then show ?thesis by (rule revoked_sessions_stay_revoked)
qed

text \<open>A password alone opens a session only where no second factor applies. If
  \<open>Login\<close> itself answers \<open>authenticated\<close>, the user exists, is active, is
  not locked, the password verifies, no TOTP secret is confirmed for the user, and MFA
  is required neither by the server nor for the user.\<close>

theorem Login_session_only_without_mfa:
  assumes "fst (Login env cfg now fr username password ip requireMFA st) = Inr (Authenticated token sess)"
  shows "\<exists>user. GetByUsername username st = Inr user \<and> u_status user = UserActive \<and>
           (case u_locked_until user of None \<Rightarrow> True | Some t \<Rightarrow> t \<le> now) \<and>
           VerifyPassword (pw env) password (u_password_hash user) = Inr True \<and>
           IsConfirmed env (u_id user) st = Inr False \<and> \<not> requireMFA \<and> \<not> u_mfa_required user \<and>
           s_user_id sess = u_id user"
proof -
  obtain ok st' where lim: "limit_login now (login_key ip) st = (ok, st')" by force
  then have st': "users st' = users st" "user_mfa st' = user_mfa st" using limit_frame by (metis snd_conv)+
  then have same: "GetByUsername username st' = GetByUsername username st"
    "IsConfirmed env u st' = IsConfirmed env u st" for u
    by (simp_all add: GetByUsername_def IsConfirmed_def loadSecret_def)
  obtain user where user: "GetByUsername username st = Inr user"
    and login: "fst (login_user env cfg now fr user password requireMFA st') = Inr (Authenticated token sess)"
    using assms unfolding Login_def lim Let_def prod.case by (auto simp: same split: if_splits sum.splits)
  have "s_user_id sess = u_id user"
    if "fst (lift_session (CreateSession env cfg now i raw (u_id user) st1)) = Inr (Authenticated token sess)" for i raw st1
    using that by (auto simp: lift_session_def CreateSession_def newOpaqueToken_def Let_def
        split: if_splits option.splits)
  with login user show ?thesis
    by (auto simp: login_user_def same split: if_splits sum.splits bool.splits option.splits prod.splits)
qed

theorem Login_session_only_without_mfa_witness:
  "\<exists>token sess. fst (Login demo_auth_env demo_auth_cfg 10 demo_fresh ''bob'' ''pw'' ''ip'' False demo_auth) =
     Inr (Authenticated token sess) \<and> s_user_id sess = 2"
proof -
  let ?r = "fst (Login demo_auth_env demo_auth_cfg 10 demo_fresh ''bob'' ''pw'' ''ip'' False demo_auth)"
  have "case ?r of Inr (Authenticated _ _) \<Rightarrow> True | _ \<Rightarrow> False" by code_simp
  then obtain token sess where r: "?r = Inr (Authenticated token sess)"
    by (auto split: sum.splits login_result.splits)
  have "map_sum (\<lambda>_. ()) u_id (GetByUsername ''bob'' demo_auth) = Inr 2" by code_simp
  with r Login_session_only_without_mfa [OF r] show ?thesis by auto
qed

text \<open>The tenth wrong password locks the account for a quarter of an hour, and no
  longer: after it, every login before the lock ends is refused, with the right
  password too, and the stored end of the lock is exactly 15 minutes ahead.\<close>

theorem tenth_failure_locks:
  assumes "auth_ok st" "GetByUsername username st = Inr user" "u_status user = UserActive"
    and "case u_locked_until user of None \<Rightarrow> True | Some t \<Rightarrow> t \<le> now"
    and "VerifyPassword (pw env) password (u_password_hash user) = Inr False"
    and "u_failed_login_count user \<ge> 9" "fst (limit_login now (login_key ip) st)"
    and "st' = snd (Login env cfg now fr username password ip requireMFA st)"
  shows "map_sum id u_locked_until (GetByUsername username st') = Inr (Some (now + 15 * minute)) \<and>
         (\<forall>now' password' ip' requireMFA'. now' < now + 15 * minute \<longrightarrow>
            fst (Login env cfg now' fr username password' ip' requireMFA' st') \<in> {Inl ErrLocked, Inl ErrRateLimited})"
proof -
  obtain st1 where lim: "limit_login now (login_key ip) st = (True, st1)"
    using assms(7) by (cases "limit_login now (login_key ip) st") auto
  then have st1: "users st1 = users st" using limit_frame by (metis snd_conv)
  have user: "find_row (\<lambda>u. u_username u = username) (users st) = Some user"
    using assms(2) by (simp add: GetByUsername_def split: option.splits)
  have st': "st' = RegisterFailedLogin now (u_id user) st1"
    using assms(2-5,8) unfolding Login_def lim Let_def prod.case
    by (auto simp: GetByUsername_def st1 user login_user_def split: option.splits)
  let ?u = "user\<lparr>u_failed_login_count := u_failed_login_count user + 1, u_locked_until := Some (now + lockDuration)\<rparr>"
  have found: "GetByUsername username st' = Inr ?u"
    using assms(6) user by (simp add: st' GetByUsername_def RegisterFailedLogin_def st1 maxFailures_def)
  have "fst (Login env cfg now' fr username p ip' req st') \<in> {Inl ErrLocked, Inl ErrRateLimited}"
    if "now' < now + 15 * minute" for now' p ip' req
  proof -
    obtain ok st2 where lim2: "limit_login now' (login_key ip') st' = (ok, st2)" by force
    then have "users st2 = users st'" using limit_frame by (metis snd_conv)
    then have "GetByUsername username st2 = Inr ?u" using found by (simp add: GetByUsername_def)
    then show ?thesis
      using that assms(3) unfolding Login_def lim2 Let_def prod.case
      by (simp add: login_user_def lockDuration_def)
  qed
  then show ?thesis using found by (simp add: lockDuration_def)
qed

theorem tenth_failure_locks_witness:
  "fst (Login demo_auth_env demo_auth_cfg 20 demo_fresh ''ann'' ''pw'' ''other'' True
     (snd (Login demo_auth_env demo_auth_cfg 10 demo_fresh ''ann'' ''no'' ''ip'' True demo_auth))) \<in>
   {Inl ErrLocked, Inl ErrRateLimited}"
proof -
  have ok: "auth_ok demo_auth" by (simp add: auth_ok_def demo_auth_def init_auth_def demo_user_def)
  have user: "GetByUsername ''ann'' demo_auth = Inr (demo_user 1 ''ann'')"
    by (simp add: GetByUsername_def demo_auth_def demo_user_def)
  have bad: "VerifyPassword (pw demo_auth_env) ''no'' (u_password_hash (demo_user 1 ''ann'')) = Inr False"
    by code_simp
  have lim: "fst (limit_login 10 (login_key ''ip'') demo_auth)"
    by (simp add: limit_login_def Allow_def demo_auth_def init_auth_def NewRateLimiter_def)
  have small: "20 < 10 + 15 * minute" by (simp add: duration_defs)
  show ?thesis
    using tenth_failure_locks [OF ok user _ _ bad _ lim refl, of demo_auth_cfg demo_fresh True] small
    by (simp add: demo_user_def)
qed

end
