(* ===== verification/Device_Registry.thy ===== *)
theory Device_Registry
  imports Prelude "HOL-Library.Char_ord" "HOL-Library.List_Lexorder"
begin

text \<open>
  The device registry of \<open>internal/device/device.go\<close>: devices, their
  credentials and capabilities, observed networks, and the statements that change
  them. Metrics tables are in \<open>Metrics\<close>.
\<close>

section \<open>State\<close>

datatype device_status = StatusUnknown | StatusOnline | StatusConnectionLost | StatusOffline | StatusRevoked

datatype health = HealthHealthy | HealthWarning | HealthCritical | HealthOffline | HealthUnknown

datatype credential_status = CredNone | CredActive | CredRevoked

record device =
  d_id :: uuid
  d_install_id :: uuid
  d_customer_id :: "uuid option"
  d_group_id :: "uuid option"
  d_display_name :: string
  d_hostname :: string
  d_os_family :: string
  d_os_name :: string
  d_os_version :: string
  d_architecture :: string
  d_agent_version :: string
  d_status :: device_status
  d_health :: health
  d_health_reasons :: "string list"
  d_tags :: "string list"
  d_policy :: "string option"
  d_last_seen_at :: "time option"
  d_last_public_ip :: string
  d_transport_secure :: "bool option"
  d_credential_status :: credential_status
  d_revoked_at :: "time option"

record credential =
  cr_device_id :: uuid
  cr_public_key :: bytes
  cr_key_version :: int
  cr_expires_at :: "time option"
  cr_revoked_at :: "time option"

record net_observation =
  no_device_id :: uuid
  no_observed_at :: time
  no_interfaces :: string
  no_public_ip :: "string option"

record device_db =
  devices :: "device list"
  device_credentials :: "credential list"
  device_capabilities :: "(uuid \<times> string) list"
  device_network :: "net_observation list"

datatype device_error = ErrDeviceNotFound | ErrHasHistory | ErrListDevices

section \<open>Queries\<close>

definition GetDevice :: "uuid \<Rightarrow> device_db \<Rightarrow> device_error + device" where
  "GetDevice i db = (case find_row (\<lambda>d. d_id d = i) (devices db) of
     None \<Rightarrow> Inl ErrDeviceNotFound | Some d \<Rightarrow> Inr d)"

definition GetByInstallID :: "uuid \<Rightarrow> device_db \<Rightarrow> device_error + device" where
  "GetByInstallID i db = (case find_row (\<lambda>d. d_install_id d = i) (devices db) of
     None \<Rightarrow> Inl ErrDeviceNotFound | Some d \<Rightarrow> Inr d)"

record device_filter =
  df_status :: "device_status option"
  df_health :: "health option"
  df_customer_id :: "uuid option"
  df_group_id :: "uuid option"
  df_tag :: string
  df_query :: string
  df_page :: int
  df_page_size :: int

text \<open>\<open>ilike q s\<close> is PostgreSQL's \<open>s ILIKE '%q%'\<close>.\<close>

definition filter_device :: "(string \<Rightarrow> string \<Rightarrow> bool) \<Rightarrow> device_filter \<Rightarrow> device \<Rightarrow> bool" where
  "filter_device ilike f d \<longleftrightarrow>
     (df_status f = None \<or> df_status f = Some (d_status d)) \<and>
     (df_health f = None \<or> df_health f = Some (d_health d)) \<and>
     (df_customer_id f = None \<or> d_customer_id d = df_customer_id f) \<and>
     (df_group_id f = None \<or> d_group_id d = df_group_id f) \<and>
     (df_tag f = [] \<or> df_tag f \<in> set (d_tags d)) \<and>
     (df_query f = [] \<or> ilike (df_query f) (d_display_name d) \<or> ilike (df_query f) (d_hostname d))"

definition clamp_page :: "int \<Rightarrow> int" where
  "clamp_page p = (if p < 1 then 1 else p)"

definition clamp_page_size :: "int \<Rightarrow> int" where
  "clamp_page_size n = (if n < 1 \<or> n > 200 then 50 else n)"

text \<open>The offset is a Go \<open>int\<close> product; PostgreSQL refuses a negative one.\<close>

definition ListDevices ::
  "(string \<Rightarrow> string \<Rightarrow> bool) \<Rightarrow> device_filter \<Rightarrow> device_db \<Rightarrow> device_error + (device list \<times> nat)" where
  "ListDevices ilike f db =
     (let page = clamp_page (df_page f); size = clamp_page_size (df_page_size f);
          rows = sort_key d_display_name (filter (filter_device ilike f) (devices db));
          offset = wrap64 (wrap64 (page - 1) * size)
      in if offset < 0 then Inl ErrListDevices
         else Inr (take (nat size) (drop (nat offset) rows), length rows))"

definition ListAllDevices :: "device_db \<Rightarrow> device list" where
  "ListAllDevices db = sort_key d_display_name (filter (\<lambda>d. d_status d \<noteq> StatusRevoked) (devices db))"

definition credential_usable :: "time \<Rightarrow> credential \<Rightarrow> bool" where
  "credential_usable now c \<longleftrightarrow> cr_revoked_at c = None \<and>
     (case cr_expires_at c of None \<Rightarrow> True | Some t \<Rightarrow> t > now)"

text \<open>\<open>ORDER BY key_version DESC LIMIT 1\<close>.\<close>

definition ActiveCredentialPublicKey :: "time \<Rightarrow> uuid \<Rightarrow> device_db \<Rightarrow> device_error + bytes" where
  "ActiveCredentialPublicKey now i db =
     (case sort_key (\<lambda>c. - cr_key_version c)
             (filter (\<lambda>c. cr_device_id c = i \<and> credential_usable now c) (device_credentials db)) of
        [] \<Rightarrow> Inl ErrDeviceNotFound | c # _ \<Rightarrow> Inr (cr_public_key c))"

record ip_history_entry =
  ip_addr :: string
  ip_first_seen :: time
  ip_last_seen :: time

definition RecentIPHistory :: "time \<Rightarrow> uuid \<Rightarrow> duration \<Rightarrow> device_db \<Rightarrow> ip_history_entry list" where
  "RecentIPHistory now i since db =
     (let rows = filter (\<lambda>n. no_device_id n = i \<and> no_public_ip n \<noteq> None \<and> no_observed_at n \<ge> now - since)
                   (device_network db);
          times = (\<lambda>ip. map no_observed_at (filter (\<lambda>n. no_public_ip n = Some ip) rows))
      in sort_key (\<lambda>e. - ip_last_seen e)
           (map (\<lambda>ip. \<lparr>ip_addr = ip, ip_first_seen = Min (set (times ip)), ip_last_seen = Max (set (times ip))\<rparr>)
              (remdups (map (\<lambda>n. the (no_public_ip n)) rows))))"

section \<open>Updates\<close>

definition upd_device :: "uuid \<Rightarrow> (device \<Rightarrow> device) \<Rightarrow> device_db \<Rightarrow> device_db" where
  "upd_device i f db = db\<lparr>devices := upd_where (\<lambda>d. d_id d = i) f (devices db)\<rparr>"

text \<open>A nil pointer leaves the column alone; for customer and group, a pointer to nil
  clears it.\<close>

record patch_input =
  p_display_name :: "string option"
  p_customer_id :: "uuid option option"
  p_group_id :: "uuid option option"
  p_tags :: "string list option"
  p_policy :: "string option"

definition apply_patch :: "patch_input \<Rightarrow> device \<Rightarrow> device" where
  "apply_patch p d = d
     \<lparr>d_display_name := (case p_display_name p of None \<Rightarrow> d_display_name d | Some v \<Rightarrow> v),
      d_customer_id := (case p_customer_id p of None \<Rightarrow> d_customer_id d | Some v \<Rightarrow> v),
      d_group_id := (case p_group_id p of None \<Rightarrow> d_group_id d | Some v \<Rightarrow> v),
      d_tags := (case p_tags p of None \<Rightarrow> d_tags d | Some v \<Rightarrow> v),
      d_policy := (case p_policy p of None \<Rightarrow> d_policy d | Some v \<Rightarrow> Some v)\<rparr>"

definition PatchDevice :: "uuid \<Rightarrow> patch_input \<Rightarrow> device_db \<Rightarrow> (device_error + unit) \<times> device_db" where
  "PatchDevice i p db =
     (if count_where (\<lambda>d. d_id d = i) (devices db) = 0 then (Inl ErrDeviceNotFound, db)
      else (Inr (), upd_device i (apply_patch p) db))"

text \<open>\<open>devices.group_id\<close> refers to a group with \<open>ON DELETE SET NULL\<close>.\<close>

definition ClearGroup :: "uuid \<Rightarrow> device_db \<Rightarrow> device_db" where
  "ClearGroup g db = db\<lparr>devices := upd_where (\<lambda>d. d_group_id d = Some g) (\<lambda>d. d\<lparr>d_group_id := None\<rparr>) (devices db)\<rparr>"

definition UpdateConnectivity :: "time \<Rightarrow> uuid \<Rightarrow> device_status \<Rightarrow> string \<Rightarrow> device_db \<Rightarrow> device_db" where
  "UpdateConnectivity now i status publicIP =
     upd_device i (\<lambda>d. d\<lparr>d_status := status, d_last_seen_at := Some now,
       d_last_public_ip := (if publicIP = [] then d_last_public_ip d else publicIP)\<rparr>)"

definition UpdateStatusOnly :: "uuid \<Rightarrow> device_status \<Rightarrow> device_db \<Rightarrow> device_db" where
  "UpdateStatusOnly i status = upd_device i (\<lambda>d. d\<lparr>d_status := status\<rparr>)"

definition UpdateHealth :: "uuid \<Rightarrow> health \<Rightarrow> string list \<Rightarrow> device_db \<Rightarrow> device_db" where
  "UpdateHealth i h reasons = upd_device i (\<lambda>d. d\<lparr>d_health := h, d_health_reasons := reasons\<rparr>)"

definition ApplyInventory ::
  "uuid \<Rightarrow> string \<Rightarrow> string \<Rightarrow> string \<Rightarrow> string \<Rightarrow> string \<Rightarrow> string \<Rightarrow> device_db \<Rightarrow> device_db" where
  "ApplyInventory i hostname osFamily osName osVersion arch agentVersion =
     upd_device i (\<lambda>d. d\<lparr>d_hostname := hostname, d_os_family := osFamily, d_os_name := osName,
       d_os_version := osVersion, d_architecture := arch, d_agent_version := agentVersion\<rparr>)"

definition UpdateTransportSecurity :: "uuid \<Rightarrow> bool \<Rightarrow> device_db \<Rightarrow> device_db" where
  "UpdateTransportSecurity i secure = upd_device i (\<lambda>d. d\<lparr>d_transport_secure := Some secure\<rparr>)"

definition RecordNetwork :: "time \<Rightarrow> uuid \<Rightarrow> string \<Rightarrow> string \<Rightarrow> device_db \<Rightarrow> device_db" where
  "RecordNetwork now i interfaces publicIP db = db\<lparr>device_network := device_network db @
     [\<lparr>no_device_id = i, no_observed_at = now, no_interfaces = interfaces,
       no_public_ip = (if publicIP = [] then None else Some publicIP)\<rparr>]\<rparr>"

text \<open>\<open>ON CONFLICT DO NOTHING\<close> on the key (device, capability), after the old rows
  are gone.\<close>

definition SetCapabilities :: "uuid \<Rightarrow> string list \<Rightarrow> device_db \<Rightarrow> device_db" where
  "SetCapabilities i caps db = db\<lparr>device_capabilities :=
     foldl (\<lambda>rows c. if (i, c) \<in> set rows then rows else rows @ [(i, c)])
       (del_where (\<lambda>r. fst r = i) (device_capabilities db)) caps\<rparr>"

definition RevokeDevice :: "time \<Rightarrow> uuid \<Rightarrow> device_db \<Rightarrow> device_db" where
  "RevokeDevice now i db =
     (upd_device i (\<lambda>d. d\<lparr>d_status := StatusRevoked, d_credential_status := CredRevoked, d_revoked_at := Some now\<rparr>) db)
     \<lparr>device_credentials := upd_where (\<lambda>c. cr_device_id c = i \<and> cr_revoked_at c = None)
        (\<lambda>c. c\<lparr>cr_revoked_at := Some now\<rparr>) (device_credentials db)\<rparr>"

text \<open>\<open>DELETE FROM devices WHERE id=$1 AND last_seen_at IS NULL\<close>, with the
  cascade to the tables that reference the row.\<close>

definition never_seen :: "uuid \<Rightarrow> device \<Rightarrow> bool" where
  "never_seen i d \<longleftrightarrow> d_id d = i \<and> d_last_seen_at d = None"

definition DeleteDevice :: "uuid \<Rightarrow> device_db \<Rightarrow> (device_error + unit) \<times> device_db" where
  "DeleteDevice i db =
     (if count_where (never_seen i) (devices db) = 0
      then (case GetDevice i db of Inr _ \<Rightarrow> (Inl ErrHasHistory, db) | Inl _ \<Rightarrow> (Inl ErrDeviceNotFound, db))
      else (Inr (), db\<lparr>devices := del_where (never_seen i) (devices db),
                       device_credentials := del_where (\<lambda>c. cr_device_id c = i) (device_credentials db),
                       device_capabilities := del_where (\<lambda>r. fst r = i) (device_capabilities db),
                       device_network := del_where (\<lambda>n. no_device_id n = i) (device_network db)\<rparr>))"

section \<open>Events and invariants\<close>

datatype device_event =
    DPatch uuid patch_input
  | DConnectivity time uuid device_status string
  | DStatus uuid device_status
  | DHealth uuid health "string list"
  | DInventory uuid string string string string string string
  | DTransport uuid bool
  | DNetwork time uuid string string
  | DCapabilities uuid "string list"
  | DRevoke time uuid
  | DDelete uuid
  | DClearGroup uuid

fun device_step :: "device_event \<Rightarrow> device_db \<Rightarrow> device_db" where
  "device_step (DPatch i p) db = snd (PatchDevice i p db)"
| "device_step (DConnectivity now i s ip) db = UpdateConnectivity now i s ip db"
| "device_step (DStatus i s) db = UpdateStatusOnly i s db"
| "device_step (DHealth i h r) db = UpdateHealth i h r db"
| "device_step (DInventory i hn osf osn osv arch v) db = ApplyInventory i hn osf osn osv arch v db"
| "device_step (DTransport i b) db = UpdateTransportSecurity i b db"
| "device_step (DNetwork now i ifs ip) db = RecordNetwork now i ifs ip db"
| "device_step (DCapabilities i caps) db = SetCapabilities i caps db"
| "device_step (DRevoke now i) db = RevokeDevice now i db"
| "device_step (DDelete i) db = snd (DeleteDevice i db)"
| "device_step (DClearGroup g) db = ClearGroup g db"

lemmas device_op_defs = PatchDevice_def UpdateConnectivity_def UpdateStatusOnly_def UpdateHealth_def
  ApplyInventory_def UpdateTransportSecurity_def RecordNetwork_def SetCapabilities_def RevokeDevice_def
  DeleteDevice_def ClearGroup_def upd_device_def

text \<open>Keys are unique; a device whose credential status is revoked, or that is
  gone, has no usable key.\<close>

definition registry_ok :: "device_db \<Rightarrow> bool" where
  "registry_ok db \<longleftrightarrow>
     distinct (map d_id (devices db)) \<and> distinct (map d_install_id (devices db)) \<and>
     distinct (device_capabilities db) \<and>
     set (map cr_device_id (device_credentials db)) \<subseteq> set (map d_id (devices db)) \<and>
     (\<forall>d \<in> set (devices db). d_credential_status d = CredRevoked \<longrightarrow>
        (\<forall>c \<in> set (device_credentials db). cr_device_id c = d_id d \<longrightarrow> cr_revoked_at c \<noteq> None))"

lemma upd_devices_ok:
  assumes "registry_ok db"
    and "\<And>d. d_id (f d) = d_id d \<and> d_install_id (f d) = d_install_id d \<and> d_credential_status (f d) = d_credential_status d"
  shows "registry_ok (db\<lparr>devices := upd_where p f (devices db)\<rparr>)"
proof -
  let ?db = "db\<lparr>devices := upd_where p f (devices db)\<rparr>"
  have maps: "map d_id (devices ?db) = map d_id (devices db)" "map d_install_id (devices ?db) = map d_install_id (devices db)"
    "device_credentials ?db = device_credentials db" "device_capabilities ?db = device_capabilities db"
    using assms(2) by simp_all
  have "\<forall>d \<in> set (devices ?db). d_credential_status d = CredRevoked \<longrightarrow>
        (\<forall>c \<in> set (device_credentials ?db). cr_device_id c = d_id d \<longrightarrow> cr_revoked_at c \<noteq> None)"
    using assms by (auto simp: registry_ok_def)
  then show ?thesis
    using assms unfolding registry_ok_def maps by blast
qed

lemma upd_device_ok:
  assumes "registry_ok db"
    and "\<And>d. d_id (f d) = d_id d \<and> d_install_id (f d) = d_install_id d \<and> d_credential_status (f d) = d_credential_status d"
  shows "registry_ok (upd_device i f db)"
  unfolding upd_device_def by (rule upd_devices_ok) (use assms in simp_all)

lemma ClearGroup_ok: "registry_ok db \<Longrightarrow> registry_ok (ClearGroup g db)"
  unfolding ClearGroup_def by (rule upd_devices_ok) simp_all

lemma PatchDevice_ok: "registry_ok db \<Longrightarrow> registry_ok (snd (PatchDevice i p db))"
  by (auto simp: PatchDevice_def apply_patch_def intro!: upd_device_ok)

lemma SetCapabilities_rows:
  "set (device_capabilities (SetCapabilities i caps db)) =
     {r \<in> set (device_capabilities db). fst r \<noteq> i} \<union> Pair i ` set caps"
  "distinct (device_capabilities db) \<Longrightarrow> distinct (device_capabilities (SetCapabilities i caps db))"
proof -
  have "set (foldl (\<lambda>rows c. if (i, c) \<in> set rows then rows else rows @ [(i, c)]) rows caps) =
      set rows \<union> Pair i ` set caps" for rows
    by (induction caps arbitrary: rows) auto
  then show "set (device_capabilities (SetCapabilities i caps db)) =
     {r \<in> set (device_capabilities db). fst r \<noteq> i} \<union> Pair i ` set caps"
    by (auto simp: SetCapabilities_def)
  have "distinct rows \<Longrightarrow> distinct (foldl (\<lambda>rows c. if (i, c) \<in> set rows then rows else rows @ [(i, c)]) rows caps)" for rows
    by (induction caps arbitrary: rows) auto
  then show "distinct (device_capabilities db) \<Longrightarrow> distinct (device_capabilities (SetCapabilities i caps db))"
    by (simp add: SetCapabilities_def del_where_def)
qed

lemma SetCapabilities_ok: "registry_ok db \<Longrightarrow> registry_ok (SetCapabilities i caps db)"
  using SetCapabilities_rows(2) [of db i caps] by (simp add: registry_ok_def SetCapabilities_def)

lemma RecordNetwork_ok: "registry_ok db \<Longrightarrow> registry_ok (RecordNetwork now i ifs ip db)"
  by (simp add: registry_ok_def RecordNetwork_def)

lemma RevokeDevice_ok:
  assumes "registry_ok db"
  shows "registry_ok (RevokeDevice now i db)"
proof -
  let ?db = "RevokeDevice now i db"
  have maps: "map d_id (devices ?db) = map d_id (devices db)" "map d_install_id (devices ?db) = map d_install_id (devices db)"
    "map cr_device_id (device_credentials ?db) = map cr_device_id (device_credentials db)"
    "device_capabilities ?db = device_capabilities db"
    by (simp_all add: RevokeDevice_def upd_device_def)
  have "\<forall>d \<in> set (devices ?db). d_credential_status d = CredRevoked \<longrightarrow>
        (\<forall>c \<in> set (device_credentials ?db). cr_device_id c = d_id d \<longrightarrow> cr_revoked_at c \<noteq> None)"
    using assms by (auto simp: registry_ok_def RevokeDevice_def upd_device_def)
  then show ?thesis
    using assms unfolding registry_ok_def maps by blast
qed

lemma DeleteDevice_ok:
  assumes "registry_ok db"
  shows "registry_ok (snd (DeleteDevice i db))"
proof (cases "count_where (never_seen i) (devices db) = 0")
  case True
  then show ?thesis using assms by (simp add: DeleteDevice_def split: sum.splits)
next
  case False
  have "distinct (map d_id (del_where (never_seen i) (devices db)))"
    "distinct (map d_install_id (del_where (never_seen i) (devices db)))"
    "distinct (del_where (\<lambda>r. fst r = i) (device_capabilities db))"
    using assms by (auto simp: registry_ok_def del_where_def distinct_map_filter)
  moreover have "cr_device_id ` {c \<in> set (device_credentials db). cr_device_id c \<noteq> i} \<subseteq>
      d_id ` {d \<in> set (devices db). \<not> never_seen i d}"
    using assms by (fastforce simp: registry_ok_def never_seen_def)
  moreover have "snd (DeleteDevice i db) = db\<lparr>devices := del_where (never_seen i) (devices db),
      device_credentials := del_where (\<lambda>c. cr_device_id c = i) (device_credentials db),
      device_capabilities := del_where (\<lambda>r. fst r = i) (device_capabilities db),
      device_network := del_where (\<lambda>n. no_device_id n = i) (device_network db)\<rparr>"
    unfolding DeleteDevice_def using False by (simp only: if_False snd_conv)
  ultimately show ?thesis
    using assms by (auto simp: registry_ok_def)
qed

interpretation registry: invariant device_step registry_ok
proof
  fix s e assume "registry_ok s"
  then show "registry_ok (device_step e s)"
    by (cases e)
       (auto simp: UpdateConnectivity_def UpdateStatusOnly_def UpdateHealth_def ApplyInventory_def
          UpdateTransportSecurity_def PatchDevice_ok SetCapabilities_ok RecordNetwork_ok RevokeDevice_ok
          DeleteDevice_ok ClearGroup_ok intro!: upd_device_ok)
qed

text \<open>No credential of the device is usable.\<close>

definition keys_revoked :: "uuid \<Rightarrow> device_db \<Rightarrow> bool" where
  "keys_revoked i db \<longleftrightarrow> (\<forall>c \<in> set (device_credentials db). cr_device_id c = i \<longrightarrow> cr_revoked_at c \<noteq> None)"

lemma keys_revoked_iff: "keys_revoked i db \<Longrightarrow> ActiveCredentialPublicKey now i db = Inl ErrDeviceNotFound"
proof -
  assume "keys_revoked i db"
  then have "filter (\<lambda>c. cr_device_id c = i \<and> credential_usable now c) (device_credentials db) = []"
    by (auto simp: keys_revoked_def credential_usable_def filter_empty_conv)
  then show ?thesis by (simp add: ActiveCredentialPublicKey_def)
qed

interpretation revoked_keys: invariant device_step "keys_revoked i" for i
proof
  fix s e assume "keys_revoked i s"
  then show "keys_revoked i (device_step e s)"
    by (cases e) (auto simp: keys_revoked_def device_op_defs split: sum.splits)
qed

section \<open>Properties\<close>

text \<open>Revoking a device is final for its credentials: whatever the registry does
  afterwards, no key is found to authenticate it with.\<close>

theorem revoked_device_has_no_key:
  "ActiveCredentialPublicKey now i (run device_step es (RevokeDevice t i db)) = Inl ErrDeviceNotFound"
proof -
  have "keys_revoked i (RevokeDevice t i db)"
    unfolding keys_revoked_def RevokeDevice_def by simp
  then show ?thesis by (rule keys_revoked_iff [OF revoked_keys.run_keeps])
qed

text \<open>A device is deleted exactly when it exists and never connected; the call then
  removes its row, credentials, capabilities and network history and nothing else, and
  otherwise changes nothing and says which of the two conditions failed.\<close>

theorem DeleteDevice_only_unconnected:
  assumes "registry_ok db"
  shows "(case GetDevice i db of
            Inl _ \<Rightarrow> DeleteDevice i db = (Inl ErrDeviceNotFound, db)
          | Inr d \<Rightarrow> if d_last_seen_at d \<noteq> None then DeleteDevice i db = (Inl ErrHasHistory, db)
                     else fst (DeleteDevice i db) = Inr () \<and>
                          devices (snd (DeleteDevice i db)) = del_where (\<lambda>x. d_id x = i) (devices db) \<and>
                          device_credentials (snd (DeleteDevice i db)) =
                            del_where (\<lambda>c. cr_device_id c = i) (device_credentials db))"
proof -
  have count: "count_where (never_seen i) (devices db) =
      (case find_row (\<lambda>d. d_id d = i) (devices db) of None \<Rightarrow> 0 | Some d \<Rightarrow> if d_last_seen_at d = None then 1 else 0)"
    unfolding never_seen_def using assms by (intro count_where_key) (simp add: registry_ok_def)
  show ?thesis
  proof (cases "find_row (\<lambda>d. d_id d = i) (devices db)")
    case None
    then have "GetDevice i db = Inl ErrDeviceNotFound" "count_where (never_seen i) (devices db) = 0"
      by (simp_all add: GetDevice_def count del: find_row_None count_where_0)
    then show ?thesis by (simp only: DeleteDevice_def simp_thms if_True sum.case)
  next
    case (Some d)
    have get: "GetDevice i db = Inr d" by (simp add: GetDevice_def Some)
    have uniq: "x = d" if "x \<in> set (devices db)" "d_id x = i" for x
      using assms that Some find_row_unique [of d_id "devices db" x i d] by (simp add: registry_ok_def)
    show ?thesis
    proof (cases "d_last_seen_at d = None")
      case True
      then have "count_where (never_seen i) (devices db) \<noteq> 0" by (simp add: count Some del: count_where_0)
      moreover have "del_where (never_seen i) (devices db) = del_where (\<lambda>x. d_id x = i) (devices db)"
        unfolding del_where_def never_seen_def using uniq True by (intro filter_cong) auto
      ultimately show ?thesis using True by (simp add: get DeleteDevice_def del: count_where_0)
    next
      case False
      then have "count_where (never_seen i) (devices db) = 0" by (simp add: count Some del: count_where_0)
      then show ?thesis using False by (simp only: get DeleteDevice_def simp_thms if_True sum.case)
    qed
  qed
qed

definition demo_device :: "uuid \<Rightarrow> string \<Rightarrow> device" where
  "demo_device i name = \<lparr>d_id = i, d_install_id = i + 100, d_customer_id = None, d_group_id = None,
     d_display_name = name, d_hostname = name, d_os_family = ''linux'', d_os_name = [], d_os_version = [],
     d_architecture = ''amd64'', d_agent_version = ''0.2.2'', d_status = StatusUnknown, d_health = HealthUnknown,
     d_health_reasons = [], d_tags = [], d_policy = None, d_last_seen_at = None, d_last_public_ip = [],
     d_transport_secure = None, d_credential_status = CredActive, d_revoked_at = None\<rparr>"

definition demo_devices :: device_db where
  "demo_devices = \<lparr>devices = [demo_device 1 ''a'', (demo_device 2 ''b'')\<lparr>d_last_seen_at := Some 5, d_status := StatusOnline\<rparr>,
     demo_device 3 ''c''],
     device_credentials = [\<lparr>cr_device_id = 1, cr_public_key = [1], cr_key_version = 1, cr_expires_at = None, cr_revoked_at = None\<rparr>],
     device_capabilities = [], device_network = []\<rparr>"

lemma demo_devices_ok: "registry_ok demo_devices"
  by (simp add: registry_ok_def demo_devices_def demo_device_def)

theorem DeleteDevice_only_unconnected_witness:
  "DeleteDevice 2 demo_devices = (Inl ErrHasHistory, demo_devices) \<and> fst (DeleteDevice 1 demo_devices) = Inr () \<and>
   DeleteDevice 9 demo_devices = (Inl ErrDeviceNotFound, demo_devices)"
proof -
  have g: "GetDevice 2 demo_devices = Inr ((demo_device 2 ''b'')\<lparr>d_last_seen_at := Some 5, d_status := StatusOnline\<rparr>)"
    "GetDevice 1 demo_devices = Inr (demo_device 1 ''a'')" "GetDevice 9 demo_devices = Inl ErrDeviceNotFound"
    by (simp_all add: GetDevice_def demo_devices_def demo_device_def)
  have "d_last_seen_at (demo_device 1 ''a'') = None" by (simp add: demo_device_def)
  then show ?thesis
    using DeleteDevice_only_unconnected [OF demo_devices_ok, of 2] DeleteDevice_only_unconnected [OF demo_devices_ok, of 1]
      DeleteDevice_only_unconnected [OF demo_devices_ok, of 9] by (simp add: g)
qed

text \<open>The pages of \<open>n\<close> devices of a listing are consecutive slices of one ordered result: the
  first \<open>k\<close> pages together are exactly its first \<open>k * n\<close> devices, so no
  device is shown twice and none is skipped; each page reports the same total.\<close>

theorem ListDevices_pages:
  assumes "1 \<le> n" "n \<le> 200" "int k * n < 2 ^ 63"
  shows "concat (map (\<lambda>p. fst (projr (ListDevices ilike (f\<lparr>df_page := int p, df_page_size := n\<rparr>) db))) [1..<Suc k]) =
         take (k * nat n) (sort_key d_display_name (filter (filter_device ilike f) (devices db)))"
  using assms(3)
proof (induction k)
  case (Suc k)
  let ?rows = "sort_key d_display_name (filter (filter_device ilike f) (devices db))"
  have bound: "int k * n < 2 ^ 63" using Suc.prems assms(1) by (simp add: algebra_simps)
  have "int (Suc k) \<le> int (Suc k) * n" using assms(1) by (simp add: mult_le_cancel_left1)
  then have small: "int k < 2 ^ 63" using Suc.prems by linarith
  have pos: "\<not> int k * n < 0" using assms(1) by (simp add: mult_less_0_iff)
  then have nonneg: "- (2 ^ 63) \<le> int k * n" by simp
  have "filter_device ilike (f\<lparr>df_page := q, df_page_size := n\<rparr>) = filter_device ilike f" for q
    by (rule ext) (simp add: filter_device_def)
  moreover have "wrap64 (wrap64 (int k) * n) = int k * n"
    using bound small nonneg wrap64_id [of "int k"] wrap64_id [of "int k * n"] by simp
  ultimately have "fst (projr (ListDevices ilike (f\<lparr>df_page := int (Suc k), df_page_size := n\<rparr>) db)) =
      take (nat n) (drop (k * nat n) ?rows)"
    using assms(1,2) pos by (simp add: ListDevices_def Let_def clamp_page_def clamp_page_size_def nat_mult_distrib)
  then show ?case
    using Suc.IH bound by (simp add: take_add add.commute [of "nat n"])
qed simp

theorem ListDevices_pages_witness:
  "concat (map (\<lambda>p. map d_display_name (fst (projr (ListDevices (\<lambda>_ _. True)
      \<lparr>df_status = None, df_health = None, df_customer_id = None, df_group_id = None, df_tag = [], df_query = [],
       df_page = int p, df_page_size = 2\<rparr> demo_devices)))) [1..<3]) = [''a'', ''b'', ''c'']"
proof -
  let ?f = "\<lparr>df_status = None, df_health = None, df_customer_id = None, df_group_id = None, df_tag = [], df_query = [],
       df_page = 1, df_page_size = 2\<rparr>"
  have "map d_display_name (take (2 * nat 2) (sort_key d_display_name (filter (filter_device (\<lambda>_ _. True) ?f) (devices demo_devices)))) =
      [''a'', ''b'', ''c'']"
    by (simp add: demo_devices_def demo_device_def filter_device_def)
  moreover have "[1..<3] = [1, 2 :: nat]" "[1..<Suc 2] = [1, 2 :: nat]" by (simp_all add: upt_rec)
  ultimately show ?thesis
    using arg_cong [OF ListDevices_pages [of 2 2 "\<lambda>_ _. True" ?f demo_devices], of "map d_display_name"]
    by (simp only: list.map concat.simps map_append append_Nil2) simp
qed

end
