(* ===== verification/Enrollment.thy ===== *)
theory Enrollment
  imports Device_Registry Go_Strings
begin

text \<open>
  Enrollment tokens and the one transaction that turns a token into a device with a
  credential (\<open>internal/enrollment/enrollment.go\<close>). \<open>SELECT ... FOR UPDATE\<close>
  serialises consumers of one token, so \<open>Consume\<close> is a single step. URL-safe
  base64 is the field \<open>b64url_*\<close> of the environment.
\<close>

section \<open>State\<close>

record enroll_token =
  t_id :: uuid
  t_token_hash :: bytes
  t_customer_id :: "uuid option"
  t_group_id :: "uuid option"
  t_display_name :: string
  t_tags :: "string list"
  t_created_by :: uuid
  t_created_at :: time
  t_expires_at :: time
  t_consumed_at :: "time option"
  t_consumed_device_id :: "uuid option"
  t_revoked_at :: "time option"
  t_is_reusable :: bool
  t_use_count :: int
  t_last_used_at :: "time option"

record enroll_state =
  enrollment_tokens :: "enroll_token list"
  registry_db :: device_db

record enroll_env = lib_env +
  b64url_encode :: "bytes \<Rightarrow> string"
  b64url_decode :: "string \<Rightarrow> bytes option"

record create_params =
  cp_customer_id :: "uuid option"
  cp_group_id :: "uuid option"
  cp_display_name :: string
  cp_expires_in :: duration
  cp_tags :: "string list"
  cp_created_by :: uuid
  cp_reusable :: bool

record agent_enroll_request =
  ae_token :: string
  ae_install_id :: uuid
  ae_public_key :: bytes
  ae_agent_version :: string
  ae_hostname :: string

datatype enroll_error = ErrTokenInvalid | ErrInstallExists | ErrEnrollDatabase

section \<open>Tokens\<close>

definition enroll_prefix :: string where "enroll_prefix = ''wr_enroll_''"

definition generateToken :: "enroll_env \<Rightarrow> bytes \<Rightarrow> string \<times> bytes" where
  "generateToken env raw = (enroll_prefix @ b64url_encode env raw, sha256 env raw)"

definition hashEnrollToken :: "enroll_env \<Rightarrow> string \<Rightarrow> enroll_error + bytes" where
  "hashEnrollToken env token =
     (if length token \<le> length enroll_prefix \<or> take (length enroll_prefix) token \<noteq> enroll_prefix
      then Inl ErrTokenInvalid
      else case b64url_decode env (drop (length enroll_prefix) token) of
             None \<Rightarrow> Inl ErrTokenInvalid | Some raw \<Rightarrow> Inr (sha256 env raw))"

definition maxExpiry :: duration where "maxExpiry = 24 * hour"
definition maxReusableExpiry :: duration where "maxReusableExpiry = 90 * 24 * hour"
definition defaultExpiry :: duration where "defaultExpiry = 30 * minute"

definition effective_expiry :: "create_params \<Rightarrow> duration" where
  "effective_expiry p =
     (let ceiling = (if cp_reusable p then maxReusableExpiry else maxExpiry)
      in if cp_expires_in p \<le> 0 \<or> cp_expires_in p > ceiling then defaultExpiry else cp_expires_in p)"

definition CreateToken ::
  "enroll_env \<Rightarrow> time \<Rightarrow> uuid \<Rightarrow> bytes \<Rightarrow> create_params \<Rightarrow> enroll_state \<Rightarrow>
   (enroll_error + (uuid \<times> string \<times> time)) \<times> enroll_state" where
  "CreateToken env now newID raw p st =
     (let (token, hash) = generateToken env raw;
          expiresAt = now + effective_expiry p;
          row = \<lparr>t_id = newID, t_token_hash = hash, t_customer_id = cp_customer_id p,
                 t_group_id = cp_group_id p, t_display_name = cp_display_name p, t_tags = cp_tags p,
                 t_created_by = cp_created_by p, t_created_at = now, t_expires_at = expiresAt,
                 t_consumed_at = None, t_consumed_device_id = None, t_revoked_at = None,
                 t_is_reusable = cp_reusable p, t_use_count = 0, t_last_used_at = None\<rparr>
      in if newID \<in> set (map t_id (enrollment_tokens st)) then (Inl ErrEnrollDatabase, st)
         else case insert_unique t_token_hash row (enrollment_tokens st) of
                None \<Rightarrow> (Inl ErrEnrollDatabase, st)
              | Some ts \<Rightarrow> (Inr (newID, token, expiresAt), st\<lparr>enrollment_tokens := ts\<rparr>))"

definition token_pending :: "enroll_token \<Rightarrow> bool" where
  "token_pending t \<longleftrightarrow> t_consumed_at t = None \<and> t_revoked_at t = None"

definition RevokeToken :: "time \<Rightarrow> uuid \<Rightarrow> enroll_state \<Rightarrow> (enroll_error + unit) \<times> enroll_state" where
  "RevokeToken now i st =
     (if count_where (\<lambda>t. t_id t = i \<and> token_pending t) (enrollment_tokens st) = 0 then (Inl ErrTokenInvalid, st)
      else (Inr (), st\<lparr>enrollment_tokens := upd_where (\<lambda>t. t_id t = i \<and> token_pending t)
                        (\<lambda>t. t\<lparr>t_revoked_at := Some now\<rparr>) (enrollment_tokens st)\<rparr>))"

definition token_outstanding :: "time \<Rightarrow> enroll_token \<Rightarrow> bool" where
  "token_outstanding now t \<longleftrightarrow>
     t_revoked_at t = None \<and> t_expires_at t > now \<and> (t_is_reusable t \<or> t_consumed_at t = None)"

definition ListOutstanding :: "time \<Rightarrow> enroll_state \<Rightarrow> enroll_token list" where
  "ListOutstanding now st =
     sort_key (\<lambda>t. - t_created_at t) (filter (token_outstanding now) (enrollment_tokens st))"

definition RevokeAllOutstanding :: "time \<Rightarrow> enroll_state \<Rightarrow> nat \<times> enroll_state" where
  "RevokeAllOutstanding now st =
     (count_where token_pending (enrollment_tokens st),
      st\<lparr>enrollment_tokens := upd_where token_pending (\<lambda>t. t\<lparr>t_revoked_at := Some now\<rparr>) (enrollment_tokens st)\<rparr>)"

section \<open>Consuming a token\<close>

definition device_name :: "enroll_env \<Rightarrow> enroll_token \<Rightarrow> agent_enroll_request \<Rightarrow> string" where
  "device_name env t req =
     (let name = (if t_display_name t \<noteq> [] then t_display_name t else ae_hostname req)
      in if name = [] then uuid_string env (ae_install_id req) else name)"

definition enrolled_device :: "enroll_env \<Rightarrow> uuid \<Rightarrow> enroll_token \<Rightarrow> agent_enroll_request \<Rightarrow> device" where
  "enrolled_device env newID t req =
     \<lparr>d_id = newID, d_install_id = ae_install_id req, d_customer_id = t_customer_id t, d_group_id = t_group_id t,
      d_display_name = device_name env t req, d_hostname = ae_hostname req, d_os_family = [], d_os_name = [],
      d_os_version = [], d_architecture = [], d_agent_version = ae_agent_version req,
      d_status = StatusUnknown, d_health = HealthUnknown, d_health_reasons = [], d_tags = t_tags t,
      d_policy = None, d_last_seen_at = None, d_last_public_ip = [], d_transport_secure = None,
      d_credential_status = CredActive, d_revoked_at = None\<rparr>"

definition mark_used :: "time \<Rightarrow> uuid \<Rightarrow> enroll_token \<Rightarrow> enroll_token" where
  "mark_used now deviceID t =
     (if t_is_reusable t then t\<lparr>t_use_count := t_use_count t + 1, t_last_used_at := Some now\<rparr>
      else t\<lparr>t_consumed_at := Some now, t_consumed_device_id := Some deviceID, t_use_count := 1,
             t_last_used_at := Some now\<rparr>)"

definition Consume ::
  "enroll_env \<Rightarrow> time \<Rightarrow> uuid \<Rightarrow> agent_enroll_request \<Rightarrow> enroll_state \<Rightarrow> (enroll_error + uuid) \<times> enroll_state" where
  "Consume env now newID req st =
     (if length (ae_public_key req) \<noteq> 32 then (Inl ErrTokenInvalid, st)
      else case hashEnrollToken env (ae_token req) of
        Inl e \<Rightarrow> (Inl e, st)
      | Inr hash \<Rightarrow>
          (case find_row (\<lambda>t. t_token_hash t = hash) (enrollment_tokens st) of
             None \<Rightarrow> (Inl ErrTokenInvalid, st)
           | Some t \<Rightarrow>
               if t_consumed_at t \<noteq> None \<or> t_revoked_at t \<noteq> None \<or> now > t_expires_at t
               then (Inl ErrTokenInvalid, st)
               else if find_row (\<lambda>d. d_install_id d = ae_install_id req) (devices (registry_db st)) \<noteq> None
               then (Inl ErrInstallExists, st)
               else if newID \<in> set (map d_id (devices (registry_db st))) then (Inl ErrEnrollDatabase, st)
               else (Inr newID,
                     st\<lparr>registry_db := (registry_db st)
                          \<lparr>devices := devices (registry_db st) @ [enrolled_device env newID t req],
                           device_credentials := device_credentials (registry_db st) @
                             [\<lparr>cr_device_id = newID, cr_public_key = ae_public_key req, cr_key_version = 1,
                               cr_expires_at = None, cr_revoked_at = None\<rparr>]\<rparr>,
                        enrollment_tokens := upd_where (\<lambda>x. t_id x = t_id t)
                          (mark_used now newID) (enrollment_tokens st)\<rparr>)))"

text \<open>Deleting a device sets the reference of the token it came from to NULL, deleting a
  group that of the tokens for it (\<open>ON DELETE SET NULL\<close>).\<close>

definition forget_device :: "uuid \<Rightarrow> enroll_state \<Rightarrow> enroll_state" where
  "forget_device i st = st\<lparr>enrollment_tokens := upd_where (\<lambda>t. t_consumed_device_id t = Some i)
     (\<lambda>t. t\<lparr>t_consumed_device_id := None\<rparr>) (enrollment_tokens st)\<rparr>"

definition forget_group :: "uuid \<Rightarrow> enroll_state \<Rightarrow> enroll_state" where
  "forget_group g st = st\<lparr>enrollment_tokens := upd_where (\<lambda>t. t_group_id t = Some g)
     (\<lambda>t. t\<lparr>t_group_id := None\<rparr>) (enrollment_tokens st)\<rparr>"

section \<open>Events and invariants\<close>

datatype enroll_event =
    ECreateToken time uuid bytes create_params
  | ERevokeToken time uuid
  | ERevokeAllTokens time
  | EConsume time uuid agent_enroll_request
  | EDevice device_event

fun enroll_step :: "enroll_env \<Rightarrow> enroll_event \<Rightarrow> enroll_state \<Rightarrow> enroll_state" where
  "enroll_step env (ECreateToken now i raw p) st = snd (CreateToken env now i raw p st)"
| "enroll_step env (ERevokeToken now i) st = snd (RevokeToken now i st)"
| "enroll_step env (ERevokeAllTokens now) st = snd (RevokeAllOutstanding now st)"
| "enroll_step env (EConsume now i req) st = snd (Consume env now i req st)"
| "enroll_step env (EDevice (DDelete i)) st =
     (let st' = st\<lparr>registry_db := snd (DeleteDevice i (registry_db st))\<rparr>
      in if fst (DeleteDevice i (registry_db st)) = Inr () then forget_device i st' else st')"
| "enroll_step env (EDevice (DClearGroup g)) st = forget_group g (st\<lparr>registry_db := ClearGroup g (registry_db st)\<rparr>)"
| "enroll_step env (EDevice e) st = st\<lparr>registry_db := device_step e (registry_db st)\<rparr>"

text \<open>How the table of tokens can change.\<close>

inductive token_change :: "enroll_token list \<Rightarrow> enroll_token list \<Rightarrow> bool" for ts where
  tc_same: "token_change ts ts"
| tc_new: "t_id t \<notin> t_id ` set ts \<Longrightarrow> t_token_hash t \<notin> t_token_hash ` set ts \<Longrightarrow>
    t_expires_at t \<le> t_created_at t + (if t_is_reusable t then maxReusableExpiry else maxExpiry) \<Longrightarrow>
    t_consumed_at t = None \<Longrightarrow> token_change ts (ts @ [t])"
| tc_revoke: "token_change ts (upd_where p (\<lambda>t. t\<lparr>t_revoked_at := Some now\<rparr>) ts)"
| tc_use: "token_change ts (upd_where (\<lambda>x. t_id x = i) (mark_used now d) ts)"
| tc_forget: "token_change ts (upd_where p (\<lambda>t. t\<lparr>t_consumed_device_id := None\<rparr>) ts)"
| tc_group: "token_change ts (upd_where p (\<lambda>t. t\<lparr>t_group_id := None\<rparr>) ts)"

lemma effective_expiry_bound:
  "0 < effective_expiry p" "effective_expiry p \<le> (if cp_reusable p then maxReusableExpiry else maxExpiry)"
  by (auto simp: effective_expiry_def Let_def maxExpiry_def maxReusableExpiry_def defaultExpiry_def duration_defs)

lemma Consume_tokens:
  "token_change (enrollment_tokens st) (enrollment_tokens (snd (Consume env now i req st)))"
  by (auto simp: Consume_def split: sum.splits option.splits intro: tc_same tc_use)

lemma enroll_step_change:
  "token_change (enrollment_tokens st) (enrollment_tokens (enroll_step env e st))"
proof (cases "(env, e, st)" rule: enroll_step.cases)
  case (1 env' now i raw p st')
  then show ?thesis
    using effective_expiry_bound [of p]
    by (auto simp: CreateToken_def generateToken_def Let_def split: option.splits dest!: insert_unique_SomeD
        intro!: tc_same tc_new)
next
  case (4 env' now i req st')
  then show ?thesis using Consume_tokens by simp
qed (auto simp: RevokeToken_def RevokeAllOutstanding_def forget_device_def forget_group_def Let_def
    intro: tc_same tc_revoke tc_forget tc_group)

definition enroll_ok :: "enroll_state \<Rightarrow> bool" where
  "enroll_ok st \<longleftrightarrow> registry_ok (registry_db st) \<and>
     distinct (map t_id (enrollment_tokens st)) \<and> distinct (map t_token_hash (enrollment_tokens st)) \<and>
     (\<forall>t \<in> set (enrollment_tokens st).
        t_expires_at t \<le> t_created_at t + (if t_is_reusable t then maxReusableExpiry else maxExpiry) \<and>
        (t_is_reusable t \<longrightarrow> t_consumed_at t = None))"

lemma mark_used_fields [simp]:
  "t_id (mark_used now d t) = t_id t" "t_token_hash (mark_used now d t) = t_token_hash t"
  "t_is_reusable (mark_used now d t) = t_is_reusable t" "t_expires_at (mark_used now d t) = t_expires_at t"
  "t_created_at (mark_used now d t) = t_created_at t" "t_revoked_at (mark_used now d t) = t_revoked_at t"
  "t_is_reusable t \<Longrightarrow> t_consumed_at (mark_used now d t) = t_consumed_at t"
  "\<not> t_is_reusable t \<Longrightarrow> t_consumed_at (mark_used now d t) = Some now"
  by (simp_all add: mark_used_def)

lemma token_change_ok:
  assumes "token_change ts ts'" "distinct (map t_id ts)" "distinct (map t_token_hash ts)"
    and "\<forall>t \<in> set ts. t_expires_at t \<le> t_created_at t + (if t_is_reusable t then maxReusableExpiry else maxExpiry) \<and>
        (t_is_reusable t \<longrightarrow> t_consumed_at t = None)"
  shows "distinct (map t_id ts') \<and> distinct (map t_token_hash ts') \<and>
    (\<forall>t \<in> set ts'. t_expires_at t \<le> t_created_at t + (if t_is_reusable t then maxReusableExpiry else maxExpiry) \<and>
        (t_is_reusable t \<longrightarrow> t_consumed_at t = None))"
  using assms by (cases rule: token_change.cases) simp_all

lemma Consume_registry:
  "registry_ok (registry_db st) \<Longrightarrow> registry_ok (registry_db (snd (Consume env now i req st)))"
  by (auto simp: Consume_def registry_ok_def enrolled_device_def split: sum.splits option.splits)

interpretation enrolling: invariant "enroll_step env" enroll_ok for env
proof
  fix s e assume ok: "enroll_ok s"
  have "registry_ok (registry_db (enroll_step env e s))"
  proof (cases "(env, e, s)" rule: enroll_step.cases)
    case (4 env' now i req st')
    then show ?thesis using ok Consume_registry by (simp add: enroll_ok_def)
  next
    case (5 env' i st')
    then show ?thesis using ok DeleteDevice_ok by (simp add: enroll_ok_def forget_device_def Let_def)
  next
    case (6 env' g st')
    then show ?thesis using ok ClearGroup_ok by (simp add: enroll_ok_def forget_group_def)
  qed (use ok registry.step_keeps in \<open>auto simp del: device_step.simps simp: enroll_ok_def CreateToken_def generateToken_def Let_def
        RevokeToken_def RevokeAllOutstanding_def split: option.splits\<close>)
  then show "enroll_ok (enroll_step env e s)"
    using token_change_ok [OF enroll_step_change [of s env e]] ok unfolding enroll_ok_def by blast
qed

section \<open>One device per token\<close>

text \<open>A token that is still able to enroll: not yet created, reusable, or not consumed.\<close>

definition token_open :: "bytes \<Rightarrow> enroll_state \<Rightarrow> bool" where
  "token_open h st = (case find_row (\<lambda>t. t_token_hash t = h) (enrollment_tokens st) of
     None \<Rightarrow> True | Some t \<Rightarrow> t_is_reusable t \<or> t_consumed_at t = None)"

definition consume_hash :: "enroll_env \<Rightarrow> agent_enroll_request \<Rightarrow> bytes \<Rightarrow> bool" where
  "consume_hash env req h \<longleftrightarrow> hashEnrollToken env (ae_token req) = Inr h"

text \<open>The event enrolls a device with the single-use token of hash \<open>h\<close>.\<close>

fun enrolls_once :: "enroll_env \<Rightarrow> bytes \<Rightarrow> enroll_event \<Rightarrow> enroll_state \<Rightarrow> bool" where
  "enrolls_once env h (EConsume now i req) st \<longleftrightarrow>
     consume_hash env req h \<and> \<not> isl (fst (Consume env now i req st)) \<and>
     (\<exists>t \<in> set (enrollment_tokens st). t_token_hash t = h \<and> \<not> t_is_reusable t)"
| "enrolls_once env h _ st \<longleftrightarrow> False"

lemma Consume_success:
  assumes "fst (Consume env now i req st) = Inr d"
  shows "d = i" "length (ae_public_key req) = 32" "i \<notin> d_id ` set (devices (registry_db st))"
    and "\<exists>h t. hashEnrollToken env (ae_token req) = Inr h \<and>
      find_row (\<lambda>t. t_token_hash t = h) (enrollment_tokens st) = Some t \<and>
      t_consumed_at t = None \<and> t_revoked_at t = None \<and> now \<le> t_expires_at t \<and>
      ae_install_id req \<notin> d_install_id ` set (devices (registry_db st)) \<and>
      enrollment_tokens (snd (Consume env now i req st)) =
        upd_where (\<lambda>x. t_id x = t_id t) (mark_used now i) (enrollment_tokens st) \<and>
      devices (registry_db (snd (Consume env now i req st))) =
        devices (registry_db st) @ [enrolled_device env i t req]"
    and "device_credentials (registry_db (snd (Consume env now i req st))) = device_credentials (registry_db st) @
       [\<lparr>cr_device_id = i, cr_public_key = ae_public_key req, cr_key_version = 1, cr_expires_at = None, cr_revoked_at = None\<rparr>]"
  using assms unfolding Consume_def by (auto split: if_splits sum.splits option.splits dest: find_row_SomeD)

lemma Consume_needs_token:
  assumes "find_row (\<lambda>t. t_token_hash t = h) (enrollment_tokens st) = Some t" "consume_hash env req h"
    and "t_consumed_at t \<noteq> None \<or> t_revoked_at t \<noteq> None"
  shows "isl (fst (Consume env now i req st))"
proof (rule ccontr)
  assume "\<not> isl (fst (Consume env now i req st))"
  then obtain d where "fst (Consume env now i req st) = Inr d" by (metis isl_def sum.exhaust)
  from Consume_success(4) [OF this] assms show False by (auto simp: consume_hash_def)
qed

lemma token_change_keeps:
  assumes "token_change ts ts'" "find_row (\<lambda>t. t_token_hash t = h) ts = Some t"
  shows "\<exists>t'. find_row (\<lambda>t. t_token_hash t = h) ts' = Some t' \<and> t_is_reusable t' = t_is_reusable t \<and>
    (t_revoked_at t \<noteq> None \<longrightarrow> t_revoked_at t' \<noteq> None) \<and> (t_consumed_at t \<noteq> None \<longrightarrow> t_consumed_at t' \<noteq> None)"
  using assms by (cases rule: token_change.cases) (auto simp: mark_used_def)

interpretation token_use: single_use "enroll_step env" enroll_ok "enrolls_once env h" "token_open h" for env h
proof
  fix s e
  assume ok: "enroll_ok s" and w: "enrolls_once env h e s"
  then obtain now i req d t where e: "e = EConsume now i req" "consume_hash env req h"
    "fst (Consume env now i req s) = Inr d" "t \<in> set (enrollment_tokens s)" "t_token_hash t = h" "\<not> t_is_reusable t"
    by (cases "(env, h, e, s)" rule: enrolls_once.cases) (auto simp: isl_def, metis sum.exhaust)
  have t: "find_row (\<lambda>x. t_token_hash x = h) (enrollment_tokens s) = Some t"
    using find_row_distinct [of t_token_hash _ t] ok e(4,5) by (auto simp: enroll_ok_def)
  with Consume_success(4) [OF e(3)] e(2) have c: "t_consumed_at t = None"
    "enrollment_tokens (snd (Consume env now i req s)) =
       upd_where (\<lambda>x. t_id x = t_id t) (mark_used now i) (enrollment_tokens s)"
    by (auto simp: consume_hash_def)
  show "token_open h s" using t c by (simp add: token_open_def)
  show "\<not> token_open h (enroll_step env e s)" using t c(2) e(1,6) by (simp add: token_open_def)
next
  fix s e
  assume "\<not> token_open h s"
  then obtain t where "find_row (\<lambda>t. t_token_hash t = h) (enrollment_tokens s) = Some t"
    "\<not> t_is_reusable t" "t_consumed_at t \<noteq> None"
    by (auto simp: token_open_def simp del: find_row_None split: option.splits)
  from token_change_keeps [OF enroll_step_change this(1), of env e] this(2,3)
  show "\<not> token_open h (enroll_step env e s)" by (auto simp: token_open_def)
qed

section \<open>Revocation\<close>

definition token_revoked :: "bytes \<Rightarrow> enroll_state \<Rightarrow> bool" where
  "token_revoked h st = (case find_row (\<lambda>t. t_token_hash t = h) (enrollment_tokens st) of
     None \<Rightarrow> False | Some t \<Rightarrow> t_revoked_at t \<noteq> None \<or> t_consumed_at t \<noteq> None)"

interpretation revoked_tokens: invariant "enroll_step env" "token_revoked h" for env h
proof
  fix s e
  assume "token_revoked h s"
  then obtain t where "find_row (\<lambda>t. t_token_hash t = h) (enrollment_tokens s) = Some t"
    "t_revoked_at t \<noteq> None \<or> t_consumed_at t \<noteq> None"
    by (auto simp: token_revoked_def simp del: find_row_None split: option.splits)
  with token_change_keeps [OF enroll_step_change this(1), of env e]
  show "token_revoked h (enroll_step env e s)" by (auto simp: token_revoked_def)
qed

section \<open>Properties\<close>

definition init_enroll :: enroll_state where
  "init_enroll = \<lparr>enrollment_tokens = [],
     registry_db = \<lparr>devices = [], device_credentials = [], device_capabilities = [], device_network = []\<rparr>\<rparr>"

lemma init_enroll_ok: "enroll_ok init_enroll"
  by (simp add: enroll_ok_def init_enroll_def registry_ok_def)

text \<open>C10: a single-use enrollment token enrolls at most one device, in every run of
  token creation, revocation, enrollment and device administration from an empty
  database.\<close>

theorem enrollment_token_enrolls_once:
  "win_count (enrolls_once env h) (enroll_step env) es init_enroll \<le> 1"
  by (rule token_use.at_most_one_win [OF init_enroll_ok])

text \<open>A successful enrollment presents an unexpired, unrevoked, unconsumed token and
  a 32-byte key for an installation the registry does not know; afterwards the device is
  in the registry with the token's customer and group, and the key the server accepts
  for it is exactly the key the agent presented.\<close>

theorem Consume_creates_device:
  assumes "enroll_ok st" "fst (Consume env now i req st) = Inr d"
  shows "\<exists>t \<in> set (enrollment_tokens st). consume_hash env req (t_token_hash t) \<and>
           token_pending t \<and> now \<le> t_expires_at t \<and> length (ae_public_key req) = 32 \<and>
           GetByInstallID (ae_install_id req) (registry_db st) = Inl ErrDeviceNotFound \<and>
           GetDevice d (registry_db (snd (Consume env now i req st))) = Inr (enrolled_device env d t req) \<and>
           ActiveCredentialPublicKey later d (registry_db (snd (Consume env now i req st))) = Inr (ae_public_key req)"
proof -
  note c = Consume_success [OF assms(2)]
  have none: "find_row (\<lambda>x. d_id x = i) (devices (registry_db st)) = None" using c(3) by auto
  have "filter (\<lambda>x. cr_device_id x = i \<and> credential_usable later x) (device_credentials (registry_db st)) = []"
    using assms(1) c(3) by (auto simp: enroll_ok_def registry_ok_def filter_empty_conv image_subset_iff)
  then have key: "ActiveCredentialPublicKey later d (registry_db (snd (Consume env now i req st))) = Inr (ae_public_key req)"
    by (simp add: ActiveCredentialPublicKey_def c(1,5) credential_usable_def)
  from c(4) obtain h t where t: "hashEnrollToken env (ae_token req) = Inr h"
    "find_row (\<lambda>t. t_token_hash t = h) (enrollment_tokens st) = Some t"
    "t_consumed_at t = None" "t_revoked_at t = None" "now \<le> t_expires_at t"
    "ae_install_id req \<notin> d_install_id ` set (devices (registry_db st))"
    "devices (registry_db (snd (Consume env now i req st))) = devices (registry_db st) @ [enrolled_device env i t req]"
    by blast
  have "find_row (\<lambda>x. d_install_id x = ae_install_id req) (devices (registry_db st)) = None" using t(6) by (force simp: image_iff)
  then have "GetByInstallID (ae_install_id req) (registry_db st) = Inl ErrDeviceNotFound"
    by (simp only: GetByInstallID_def option.case)
  moreover have "GetDevice d (registry_db (snd (Consume env now i req st))) = Inr (enrolled_device env d t req)"
    using none by (simp add: GetDevice_def t(7) c(1) enrolled_device_def del: find_row_None)
  ultimately show ?thesis
    using find_row_SomeD [OF t(2)] t c(2) key by (auto simp: consume_hash_def token_pending_def)
qed

text \<open>A token for the witnesses: the environment's hash and encoding are the identity on
  bytes.\<close>

definition demo_enroll_env :: enroll_env where
  "demo_enroll_env = \<lparr>sha256 = (\<lambda>b. b), uuid_string = (\<lambda>u. show_nat (unat u)), uuid_parse = (\<lambda>s. None),
     b64url_encode = map (\<lambda>b. char_of (unat b)), b64url_decode = (\<lambda>s. Some (bytes_of s))\<rparr>"

definition demo_token_params :: create_params where
  "demo_token_params = \<lparr>cp_customer_id = Some 4, cp_group_id = None, cp_display_name = [], cp_expires_in = 0,
     cp_tags = [], cp_created_by = 1, cp_reusable = False\<rparr>"

definition demo_enrolling :: enroll_state where
  "demo_enrolling = snd (CreateToken demo_enroll_env 0 7 [65] demo_token_params init_enroll)"

definition demo_request :: agent_enroll_request where
  "demo_request = \<lparr>ae_token = ''wr_enroll_A'', ae_install_id = 5, ae_public_key = replicate 32 1,
     ae_agent_version = ''0.2.2'', ae_hostname = ''host''\<rparr>"

lemma demo_enrolling_ok: "enroll_ok demo_enrolling"
  unfolding demo_enrolling_def
  using enrolling.step_keeps [OF init_enroll_ok, of demo_enroll_env "ECreateToken 0 7 [65] demo_token_params"] by simp

lemma demo_consume: "fst (Consume demo_enroll_env 10 9 demo_request demo_enrolling) = Inr 9"
  by code_simp

theorem Consume_creates_device_witness:
  "ActiveCredentialPublicKey 99 9 (registry_db (snd (Consume demo_enroll_env 10 9 demo_request demo_enrolling))) =
     Inr (replicate 32 1)"
  using Consume_creates_device [OF demo_enrolling_ok demo_consume, of 99] by (auto simp: demo_request_def)

text \<open>Revoking all outstanding tokens is final: a token that existed at that moment
  never enrolls another device, whatever happens afterwards; and of the tokens that
  \<open>ListOutstanding\<close> would show, none is left.\<close>

theorem RevokeAllOutstanding_is_final:
  assumes "enroll_ok st" "t \<in> set (enrollment_tokens st)" "consume_hash env req (t_token_hash t)"
  shows "isl (fst (Consume env now' i req (run (enroll_step env) es (snd (RevokeAllOutstanding now st))))) \<and>
         ListOutstanding now' (snd (RevokeAllOutstanding now st)) = []"
proof
  let ?st = "snd (RevokeAllOutstanding now st)"
  have "find_row (\<lambda>x. t_token_hash x = t_token_hash t) (enrollment_tokens st) = Some t"
    using find_row_distinct [of t_token_hash _ t] assms by (auto simp: enroll_ok_def)
  then have "token_revoked (t_token_hash t) ?st"
    by (simp add: token_revoked_def RevokeAllOutstanding_def token_pending_def)
  then have "token_revoked (t_token_hash t) (run (enroll_step env) es ?st)" by (rule revoked_tokens.run_keeps)
  then show "isl (fst (Consume env now' i req (run (enroll_step env) es ?st)))"
    using Consume_needs_token assms(3)
    by (fastforce simp: token_revoked_def simp del: find_row_None split: option.splits)
  have "\<forall>t \<in> set (enrollment_tokens ?st). \<not> token_outstanding now' t"
    using assms(1)
    by (auto simp: RevokeAllOutstanding_def token_outstanding_def token_pending_def enroll_ok_def)
  then show "ListOutstanding now' ?st = []"
    by (simp add: ListOutstanding_def filter_empty_conv)
qed

lemma demo_token: "\<exists>t \<in> set (enrollment_tokens demo_enrolling). t_token_hash t = [65]"
  by code_simp

lemma demo_hash: "consume_hash demo_enroll_env demo_request [65]"
  by code_simp

theorem RevokeAllOutstanding_is_final_witness:
  "isl (fst (Consume demo_enroll_env 30 9 demo_request (snd (RevokeAllOutstanding 20 demo_enrolling))))"
proof -
  obtain t where "t \<in> set (enrollment_tokens demo_enrolling)" "consume_hash demo_enroll_env demo_request (t_token_hash t)"
    using demo_token demo_hash by auto
  from RevokeAllOutstanding_is_final [OF demo_enrolling_ok this, of 30 9 "[]" 20] show ?thesis by simp
qed

end
