(* ===== verification/Metrics.thy ===== *)
theory Metrics
  imports Complex_Main Device_Registry
begin

text \<open>
  Metrics of devices (\<open>internal/device/device.go\<close>, \<open>retention.go\<close>): recording of
  reports and of network samples, the hourly roll-ups, the retention sweep and the
  queries. A \<open>float64\<close> is a rational number (rounding of floating-point arithmetic is
  not modelled); a \<open>bigint\<close> is an integer in its 64-bit range, and a value outside it
  makes the statement fail. \<open>date_trunc('hour', t)\<close> is taken in UTC.
\<close>

section \<open>Tables\<close>

record filesystem_usage =
  fs_path :: string
  fs_used_bytes :: int
  fs_total_bytes :: int
  fs_removable :: bool

record metrics_row =
  mt_device_id :: uuid
  mt_observed_at :: time
  mt_cpu_percent :: rat
  mt_memory_used :: int
  mt_memory_total :: int
  mt_filesystems :: "filesystem_usage list"
  mt_uptime_seconds :: int
  mt_disk_used :: int
  mt_disk_total :: int

record metrics_hour =
  mh_device_id :: uuid
  mh_bucket_start :: time
  mh_avg_cpu :: rat
  mh_avg_memory_used :: int
  mh_avg_memory_total :: int
  mh_avg_disk_used :: int
  mh_avg_disk_total :: int
  mh_sample_count :: int

record net_row =
  nt_device_id :: uuid
  nt_observed_at :: time
  nt_interval :: rat
  nt_sent_total :: int
  nt_recv_total :: int
  nt_sent_control :: int
  nt_recv_control :: int

record net_hour =
  nh_device_id :: uuid
  nh_bucket_start :: time
  nh_interval :: rat
  nh_sent_total :: int
  nh_recv_total :: int
  nh_sent_control :: int
  nh_recv_control :: int
  nh_sample_count :: int

record metrics_db =
  device_metrics :: "metrics_row list"
  device_metrics_hourly :: "metrics_hour list"
  device_network_metrics :: "net_row list"
  device_network_metrics_hourly :: "net_hour list"

record net_sample =
  ns_occurred_at :: time
  ns_interval :: rat
  ns_sent_total :: int
  ns_recv_total :: int
  ns_sent_control :: int
  ns_recv_control :: int

definition in_bigint :: "int \<Rightarrow> bool" where
  "in_bigint x \<longleftrightarrow> - (2 ^ 63) \<le> x \<and> x < 2 ^ 63"

section \<open>Recording\<close>

text \<open>The sums over the fixed filesystems are \<open>uint64\<close> additions, converted to
  \<open>int64\<close>.\<close>

definition disk_totals :: "filesystem_usage list \<Rightarrow> int \<times> int" where
  "disk_totals fss = (let fixed = filter (\<lambda>f. \<not> fs_removable f) fss
     in (wrap64 (sum_list (map fs_used_bytes fixed)), wrap64 (sum_list (map fs_total_bytes fixed))))"

definition RecordMetrics ::
  "time \<Rightarrow> uuid \<Rightarrow> rat \<Rightarrow> int \<Rightarrow> int \<Rightarrow> filesystem_usage list \<Rightarrow> int \<Rightarrow> metrics_db \<Rightarrow> metrics_db option" where
  "RecordMetrics now i cpu memUsed memTotal fss uptime db =
     (let (used, total) = disk_totals fss
      in if \<not> in_bigint memUsed \<or> \<not> in_bigint memTotal then None
         else Some (db\<lparr>device_metrics := device_metrics db @
           [\<lparr>mt_device_id = i, mt_observed_at = now, mt_cpu_percent = cpu, mt_memory_used = memUsed, mt_memory_total = memTotal,
             mt_filesystems = fss, mt_uptime_seconds = uptime, mt_disk_used = used, mt_disk_total = total\<rparr>]\<rparr>))"

definition net_row_of :: "uuid \<Rightarrow> net_sample \<Rightarrow> net_row" where
  "net_row_of i s = \<lparr>nt_device_id = i, nt_observed_at = ns_occurred_at s, nt_interval = ns_interval s,
     nt_sent_total = wrap64 (ns_sent_total s), nt_recv_total = wrap64 (ns_recv_total s),
     nt_sent_control = wrap64 (ns_sent_control s), nt_recv_control = wrap64 (ns_recv_control s)\<rparr>"

definition RecordNetworkMetricsBatch :: "uuid \<Rightarrow> net_sample list \<Rightarrow> metrics_db \<Rightarrow> metrics_db" where
  "RecordNetworkMetricsBatch i samples db =
     (if samples = [] then db
      else db\<lparr>device_network_metrics := device_network_metrics db @ map (net_row_of i) samples\<rparr>)"

section \<open>Queries\<close>

definition clamp_limit :: "int \<Rightarrow> int \<Rightarrow> int" where
  "clamp_limit dflt limit = (if limit \<le> 0 \<or> limit > 5000 then dflt else limit)"

definition newest :: "('r \<Rightarrow> time) \<Rightarrow> int \<Rightarrow> 'r list \<Rightarrow> 'r list" where
  "newest ts limit rows = take (nat limit) (sort_key (\<lambda>r. - ts r) rows)"

definition LatestMetrics :: "uuid \<Rightarrow> metrics_db \<Rightarrow> metrics_row option" where
  "LatestMetrics i db =
     (case newest mt_observed_at 1 (filter (\<lambda>r. mt_device_id r = i) (device_metrics db)) of
        [] \<Rightarrow> None | r # _ \<Rightarrow> Some r)"

definition RecentMetrics :: "uuid \<Rightarrow> time \<Rightarrow> time \<Rightarrow> int \<Rightarrow> metrics_db \<Rightarrow> metrics_row list" where
  "RecentMetrics i from till limit db =
     newest mt_observed_at (clamp_limit 500 limit)
       (filter (\<lambda>r. mt_device_id r = i \<and> from \<le> mt_observed_at r \<and> mt_observed_at r \<le> till) (device_metrics db))"

definition HourlyMetrics :: "uuid \<Rightarrow> time \<Rightarrow> time \<Rightarrow> int \<Rightarrow> metrics_db \<Rightarrow> metrics_hour list" where
  "HourlyMetrics i from till limit db =
     newest mh_bucket_start (clamp_limit 500 limit)
       (filter (\<lambda>r. mh_device_id r = i \<and> from \<le> mh_bucket_start r \<and> mh_bucket_start r \<le> till) (device_metrics_hourly db))"

definition RecentNetworkMetrics :: "uuid \<Rightarrow> time \<Rightarrow> time \<Rightarrow> int \<Rightarrow> metrics_db \<Rightarrow> net_row list" where
  "RecentNetworkMetrics i from till limit db =
     newest nt_observed_at (clamp_limit 2000 limit)
       (filter (\<lambda>r. nt_device_id r = i \<and> from \<le> nt_observed_at r \<and> nt_observed_at r \<le> till) (device_network_metrics db))"

definition HourlyNetworkMetrics :: "uuid \<Rightarrow> time \<Rightarrow> time \<Rightarrow> int \<Rightarrow> metrics_db \<Rightarrow> net_hour list" where
  "HourlyNetworkMetrics i from till limit db =
     newest nh_bucket_start (clamp_limit 2000 limit)
       (filter (\<lambda>r. nh_device_id r = i \<and> from \<le> nh_bucket_start r \<and> nh_bucket_start r \<le> till) (device_network_metrics_hourly db))"

record net_total =
  dt_device_id :: uuid
  dt_display_name :: string
  dt_sent_total :: int
  dt_recv_total :: int
  dt_sent_control :: int
  dt_recv_control :: int

definition net_total_of :: "time \<Rightarrow> metrics_db \<Rightarrow> device \<Rightarrow> net_total" where
  "net_total_of since db d =
     (let rows = filter (\<lambda>r. nt_device_id r = d_id d \<and> nt_observed_at r \<ge> since) (device_network_metrics db)
      in \<lparr>dt_device_id = d_id d, dt_display_name = d_display_name d, dt_sent_total = sum_list (map nt_sent_total rows),
          dt_recv_total = sum_list (map nt_recv_total rows), dt_sent_control = sum_list (map nt_sent_control rows),
          dt_recv_control = sum_list (map nt_recv_control rows)\<rparr>)"

definition NetworkUsageSummary :: "time \<Rightarrow> device list \<Rightarrow> metrics_db \<Rightarrow> net_total list" where
  "NetworkUsageSummary since ds db =
     sort_key (\<lambda>t. - (dt_sent_total t + dt_recv_total t))
       (map (net_total_of since db)
         (filter (\<lambda>d. \<exists>r \<in> set (device_network_metrics db). nt_device_id r = d_id d \<and> nt_observed_at r \<ge> since) ds))"

section \<open>Roll-ups\<close>

definition hour_start :: "time \<Rightarrow> time" where
  "hour_start t = t - t mod hour"

lemma hour_start_le: "hour_start t \<le> t"
  by (simp add: hour_start_def)

lemma hour_start_mono: "s \<le> t \<Longrightarrow> hour_start s \<le> hour_start t"
  using zdiv_mono1 [of s t hour] by (simp add: hour_start_def minus_mod_eq_mult_div mult_left_mono)

lemma hour_start_idem [simp]: "hour_start (hour_start t) = hour_start t"
  by (simp add: hour_start_def mod_diff_eq)

text \<open>\<open>SELECT ... WHERE observed_at < date_trunc('hour', now()) GROUP BY device_id, hour\<close>:
  the keys of the groups, and the rows of one group.\<close>

definition bucket_key :: "('r \<Rightarrow> uuid) \<Rightarrow> ('r \<Rightarrow> time) \<Rightarrow> 'r \<Rightarrow> uuid \<times> time" where
  "bucket_key dev ts r = (dev r, hour_start (ts r))"

definition past_buckets :: "('r \<Rightarrow> uuid) \<Rightarrow> ('r \<Rightarrow> time) \<Rightarrow> time \<Rightarrow> 'r list \<Rightarrow> (uuid \<times> time) list" where
  "past_buckets dev ts now rows = remdups (map (bucket_key dev ts) (filter (\<lambda>r. ts r < hour_start now) rows))"

definition bucket_rows :: "('r \<Rightarrow> uuid) \<Rightarrow> ('r \<Rightarrow> time) \<Rightarrow> uuid \<times> time \<Rightarrow> 'r list \<Rightarrow> 'r list" where
  "bucket_rows dev ts k rows = filter (\<lambda>r. bucket_key dev ts r = k) rows"

definition net_hour_of :: "net_row list \<Rightarrow> uuid \<times> time \<Rightarrow> net_hour" where
  "net_hour_of rows k =
     (let g = bucket_rows nt_device_id nt_observed_at k rows
      in \<lparr>nh_device_id = fst k, nh_bucket_start = snd k, nh_interval = sum_list (map nt_interval g),
          nh_sent_total = sum_list (map nt_sent_total g), nh_recv_total = sum_list (map nt_recv_total g),
          nh_sent_control = sum_list (map nt_sent_control g), nh_recv_control = sum_list (map nt_recv_control g),
          nh_sample_count = int (length g)\<rparr>)"

definition net_hour_key :: "net_hour \<Rightarrow> uuid \<times> time" where
  "net_hour_key h = (nh_device_id h, nh_bucket_start h)"

definition net_hour_fits :: "net_hour \<Rightarrow> bool" where
  "net_hour_fits h \<longleftrightarrow> in_bigint (nh_sent_total h) \<and> in_bigint (nh_recv_total h) \<and>
     in_bigint (nh_sent_control h) \<and> in_bigint (nh_recv_control h)"

definition RollupHourlyNetworkMetrics :: "time \<Rightarrow> metrics_db \<Rightarrow> metrics_db option" where
  "RollupHourlyNetworkMetrics now db =
     (let hs = map (net_hour_of (device_network_metrics db))
                 (past_buckets nt_device_id nt_observed_at now (device_network_metrics db))
      in if list_all net_hour_fits hs
         then Some (db\<lparr>device_network_metrics_hourly := fold (upsert net_hour_key) hs (device_network_metrics_hourly db)\<rparr>)
         else None)"

text \<open>\<open>avg(x)::bigint\<close> rounds to the nearest integer, a tie away from zero.\<close>

definition round_away :: "rat \<Rightarrow> int" where
  "round_away x = (if x \<ge> 0 then \<lfloor>x + 1 / 2\<rfloor> else - \<lfloor>1 / 2 - x\<rfloor>)"

definition avg_bigint :: "('r \<Rightarrow> int) \<Rightarrow> 'r list \<Rightarrow> int" where
  "avg_bigint f g = round_away (of_int (sum_list (map f g)) / of_nat (length g))"

definition metrics_hour_of :: "metrics_row list \<Rightarrow> uuid \<times> time \<Rightarrow> metrics_hour" where
  "metrics_hour_of rows k =
     (let g = bucket_rows mt_device_id mt_observed_at k rows
      in \<lparr>mh_device_id = fst k, mh_bucket_start = snd k, mh_avg_cpu = sum_list (map mt_cpu_percent g) / of_nat (length g),
          mh_avg_memory_used = avg_bigint mt_memory_used g, mh_avg_memory_total = avg_bigint mt_memory_total g,
          mh_avg_disk_used = avg_bigint mt_disk_used g, mh_avg_disk_total = avg_bigint mt_disk_total g,
          mh_sample_count = int (length g)\<rparr>)"

definition metrics_hour_key :: "metrics_hour \<Rightarrow> uuid \<times> time" where
  "metrics_hour_key h = (mh_device_id h, mh_bucket_start h)"

definition RollupHourlyMetrics :: "time \<Rightarrow> metrics_db \<Rightarrow> metrics_db" where
  "RollupHourlyMetrics now db =
     db\<lparr>device_metrics_hourly := fold (upsert metrics_hour_key)
       (map (metrics_hour_of (device_metrics db)) (past_buckets mt_device_id mt_observed_at now (device_metrics db)))
       (device_metrics_hourly db)\<rparr>"

section \<open>Retention\<close>

definition ApplyMetricsRetention :: "time \<Rightarrow> duration \<Rightarrow> duration \<Rightarrow> metrics_db \<Rightarrow> metrics_db" where
  "ApplyMetricsRetention now raw hourly db =
     db\<lparr>device_metrics := del_where (\<lambda>r. mt_observed_at r < now - raw) (device_metrics db),
        device_metrics_hourly := del_where (\<lambda>r. mh_bucket_start r < now - hourly) (device_metrics_hourly db)\<rparr>"

definition ApplyNetworkMetricsRetention :: "time \<Rightarrow> duration \<Rightarrow> duration \<Rightarrow> metrics_db \<Rightarrow> metrics_db" where
  "ApplyNetworkMetricsRetention now raw hourly db =
     db\<lparr>device_network_metrics := del_where (\<lambda>r. nt_observed_at r < now - raw) (device_network_metrics db),
        device_network_metrics_hourly := del_where (\<lambda>r. nh_bucket_start r < now - hourly) (device_network_metrics_hourly db)\<rparr>"

text \<open>One tick of \<open>RunMetricsRetentionSweeper\<close>. The retention windows are what the
  settings give, or the defaults when the settings cannot be read (\<open>None\<close>).\<close>

definition retention_tick ::
  "time \<Rightarrow> (duration \<times> duration) option \<Rightarrow> (duration \<times> duration) option \<Rightarrow> duration \<times> duration \<Rightarrow> duration \<times> duration \<Rightarrow>
   metrics_db \<Rightarrow> metrics_db" where
  "retention_tick now win netwin dflt netdflt db =
     (let (raw, hourly) = (case win of None \<Rightarrow> dflt | Some w \<Rightarrow> w);
          db1 = ApplyMetricsRetention now raw hourly (RollupHourlyMetrics now db)
      in case RollupHourlyNetworkMetrics now db1 of
           None \<Rightarrow> db1
         | Some db2 \<Rightarrow> (let (nraw, nhourly) = (case netwin of None \<Rightarrow> netdflt | Some w \<Rightarrow> w)
                        in ApplyNetworkMetricsRetention now nraw nhourly db2))"

section \<open>The hourly tables are keyed stores\<close>

interpretation net_hours: keyed_store net_hour_key "\<lambda>k. find_row (\<lambda>h. net_hour_key h = k)" "upsert net_hour_key"
  "\<lambda>rows. distinct (map net_hour_key rows)"
  by unfold_locales (simp_all add: upsert_distinct find_row_upsert del: find_row_None)

interpretation metrics_hours: keyed_store metrics_hour_key "\<lambda>k. find_row (\<lambda>h. metrics_hour_key h = k)" "upsert metrics_hour_key"
  "\<lambda>rows. distinct (map metrics_hour_key rows)"
  by unfold_locales (simp_all add: upsert_distinct find_row_upsert del: find_row_None)

lemma distinct_past_buckets: "distinct (past_buckets dev ts now rows)"
  by (simp add: past_buckets_def)

lemma past_buckets_iff:
  "k \<in> set (past_buckets dev ts now rows) \<longleftrightarrow> (\<exists>r \<in> set rows. ts r < hour_start now \<and> bucket_key dev ts r = k)"
  by (auto simp: past_buckets_def)

lemma net_hour_of_key [simp]: "net_hour_key (net_hour_of rows k) = k"
  by (simp add: net_hour_key_def net_hour_of_def Let_def)

lemma metrics_hour_of_key [simp]: "metrics_hour_key (metrics_hour_of rows k) = k"
  by (simp add: metrics_hour_key_def metrics_hour_of_def Let_def)

lemma find_row_map_key:
  "(\<And>k. key (f k) = k) \<Longrightarrow> find_row (\<lambda>r. key r = k) (map f ks) = (if k \<in> set ks then Some (f k) else None)"
  by (induction ks) (auto simp del: find_row_None)

text \<open>The stored hour after a roll-up: the sums over the group when it has rows, else what
  was stored before.\<close>

lemma RollupHourlyNetworkMetrics_hour:
  assumes "distinct (map net_hour_key (device_network_metrics_hourly db))" "RollupHourlyNetworkMetrics now db = Some db'"
  shows "find_row (\<lambda>h. net_hour_key h = k) (device_network_metrics_hourly db') =
      (if k \<in> set (past_buckets nt_device_id nt_observed_at now (device_network_metrics db))
       then Some (net_hour_of (device_network_metrics db) k)
       else find_row (\<lambda>h. net_hour_key h = k) (device_network_metrics_hourly db))"
    and "device_network_metrics db' = device_network_metrics db"
    and "distinct (map net_hour_key (device_network_metrics_hourly db'))"
proof -
  let ?ks = "past_buckets nt_device_id nt_observed_at now (device_network_metrics db)"
  have db': "db' = db\<lparr>device_network_metrics_hourly := fold (upsert net_hour_key)
      (map (net_hour_of (device_network_metrics db)) ?ks) (device_network_metrics_hourly db)\<rparr>"
    using assms(2) by (auto simp: RollupHourlyNetworkMetrics_def Let_def split: if_splits)
  have "distinct (map net_hour_key (map (net_hour_of (device_network_metrics db)) ?ks))"
    by (simp add: o_def distinct_past_buckets)
  from net_hours.get_fold_put [OF assms(1) this, of k]
  show "find_row (\<lambda>h. net_hour_key h = k) (device_network_metrics_hourly db') =
      (if k \<in> set ?ks then Some (net_hour_of (device_network_metrics db) k)
       else find_row (\<lambda>h. net_hour_key h = k) (device_network_metrics_hourly db))"
    by (simp add: db' find_row_map_key del: find_row_None)
  show "device_network_metrics db' = device_network_metrics db" by (simp add: db')
  show "distinct (map net_hour_key (device_network_metrics_hourly db'))"
    using net_hours.fold_put_ok [OF assms(1)] by (simp add: db')
qed

lemma RollupHourlyMetrics_hour:
  assumes "distinct (map metrics_hour_key (device_metrics_hourly db))"
  shows "find_row (\<lambda>h. metrics_hour_key h = k) (device_metrics_hourly (RollupHourlyMetrics now db)) =
      (if k \<in> set (past_buckets mt_device_id mt_observed_at now (device_metrics db))
       then Some (metrics_hour_of (device_metrics db) k)
       else find_row (\<lambda>h. metrics_hour_key h = k) (device_metrics_hourly db))"
proof -
  have "distinct (map metrics_hour_key (map (metrics_hour_of (device_metrics db))
      (past_buckets mt_device_id mt_observed_at now (device_metrics db))))"
    by (simp add: o_def distinct_past_buckets)
  from metrics_hours.get_fold_put [OF assms this, of k] show ?thesis
    by (simp add: RollupHourlyMetrics_def find_row_map_key del: find_row_None)
qed

text \<open>A row of a past bucket lies wholly before the hour boundary.\<close>

lemma bucket_is_past:
  assumes "k \<in> set (past_buckets dev ts now rows)" "bucket_key dev ts r = k"
  shows "ts r < hour_start now"
proof (rule ccontr)
  assume "\<not> ts r < hour_start now"
  then have "hour_start now \<le> hour_start (ts r)" using hour_start_mono [of "hour_start now" "ts r"] by simp
  moreover obtain q where "ts q < hour_start now" "hour_start (ts q) = hour_start (ts r)"
    using assms by (auto simp: past_buckets_iff bucket_key_def)
  ultimately show False using hour_start_le [of "ts q"] by simp
qed

section \<open>Properties\<close>


definition demo_net :: "time \<Rightarrow> int \<Rightarrow> net_row" where
  "demo_net t n = \<lparr>nt_device_id = 1, nt_observed_at = t, nt_interval = 60, nt_sent_total = n, nt_recv_total = n,
     nt_sent_control = 0, nt_recv_control = 0\<rparr>"

definition demo_metrics :: metrics_db where
  "demo_metrics = \<lparr>device_metrics = [], device_metrics_hourly = [],
     device_network_metrics = [demo_net (10 * minute) 10, demo_net (50 * minute) 20], device_network_metrics_hourly = []\<rparr>"

lemma demo_rolled: "RollupHourlyNetworkMetrics (2 * hour) demo_metrics \<noteq> None"
  by (simp add: RollupHourlyNetworkMetrics_def demo_metrics_def demo_net_def past_buckets_def bucket_key_def net_hour_of_def
      bucket_rows_def hour_start_def duration_defs net_hour_fits_def in_bigint_def Let_def)


text \<open>Retention and roll-up do not compose. Once the retention of raw samples has
  deleted the first part of an hour, the next roll-up replaces the stored hour by the sums
  over the samples that are left, so the hour loses the traffic that was already counted,
  as long as one sample of it remains.\<close>

theorem rollup_after_retention_is_partial:
  assumes "distinct (map net_hour_key (device_network_metrics_hourly db))"
    and "RollupHourlyNetworkMetrics later (ApplyNetworkMetricsRetention now raw hourly db) = Some db'"
    and "r \<in> set (device_network_metrics db)" "nt_device_id r = d" "hour_start (nt_observed_at r) = b"
    and "now - raw \<le> nt_observed_at r" "nt_observed_at r < hour_start later"
  shows "map_option nh_sent_total (find_row (\<lambda>h. net_hour_key h = (d, b)) (device_network_metrics_hourly db')) =
    Some (sum_list (map nt_sent_total (filter (\<lambda>x. nt_device_id x = d \<and> hour_start (nt_observed_at x) = b \<and>
      now - raw \<le> nt_observed_at x) (device_network_metrics db))))"
proof -
  let ?db = "ApplyNetworkMetricsRetention now raw hourly db"
  have raws: "device_network_metrics ?db = filter (\<lambda>x. now - raw \<le> nt_observed_at x) (device_network_metrics db)"
    by (simp add: ApplyNetworkMetricsRetention_def del_where_def not_less)
  have "distinct (map net_hour_key (device_network_metrics_hourly ?db))"
    using assms(1) by (simp add: ApplyNetworkMetricsRetention_def distinct_del_where)
  note roll = RollupHourlyNetworkMetrics_hour(1) [OF this assms(2), of "(d, b)"]
  have "(d, b) \<in> set (past_buckets nt_device_id nt_observed_at later (device_network_metrics ?db))"
    unfolding past_buckets_iff raws using assms(3-7) by (auto simp: bucket_key_def)
  then have "find_row (\<lambda>h. net_hour_key h = (d, b)) (device_network_metrics_hourly db') =
      Some (net_hour_of (device_network_metrics ?db) (d, b))"
    using roll by simp
  then show ?thesis
    by (simp add: net_hour_of_def bucket_rows_def bucket_key_def raws Let_def conj_ac)
qed

text \<open>The hour of the first witness had 30 bytes; ten are gone after the second sweep.\<close>

lemma demo_rolled_again:
  "RollupHourlyNetworkMetrics (2 * hour) (ApplyNetworkMetricsRetention (2 * hour) (80 * minute) day demo_metrics) \<noteq> None"
  by (simp add: RollupHourlyNetworkMetrics_def ApplyNetworkMetricsRetention_def demo_metrics_def demo_net_def past_buckets_def
      bucket_key_def net_hour_of_def bucket_rows_def hour_start_def duration_defs net_hour_fits_def in_bigint_def Let_def)

theorem rollup_after_retention_is_partial_witness:
  "\<exists>db'. RollupHourlyNetworkMetrics (2 * hour) (ApplyNetworkMetricsRetention (2 * hour) (80 * minute) day demo_metrics) = Some db' \<and>
     map_option nh_sent_total (find_row (\<lambda>h. net_hour_key h = (1, 0)) (device_network_metrics_hourly db')) = Some 20"
proof -
  obtain db' where db': "RollupHourlyNetworkMetrics (2 * hour) (ApplyNetworkMetricsRetention (2 * hour) (80 * minute) day demo_metrics) = Some db'"
    using demo_rolled_again by auto
  have d: "distinct (map net_hour_key (device_network_metrics_hourly demo_metrics))"
    "demo_net (50 * minute) 20 \<in> set (device_network_metrics demo_metrics)" by (simp_all add: demo_metrics_def)
  have "map_option nh_sent_total (find_row (\<lambda>h. net_hour_key h = (1, 0)) (device_network_metrics_hourly db')) =
    Some (sum_list (map nt_sent_total (filter (\<lambda>x. nt_device_id x = 1 \<and> hour_start (nt_observed_at x) = 0 \<and>
      2 * hour - 80 * minute \<le> nt_observed_at x) (device_network_metrics demo_metrics))))"
    by (rule rollup_after_retention_is_partial [OF d(1) db' d(2)]) (simp_all add: demo_net_def hour_start_def duration_defs)
  then show ?thesis using db'
    by (simp add: demo_metrics_def demo_net_def hour_start_def duration_defs del: find_row_None)
qed

end
