(* ===== verification/Health.thy ===== *)
theory Health
  imports Metrics Go_Strings
begin

text \<open>
  Device health (\<open>internal/monitoring/health.go\<close>): the evaluation of one device
  against the thresholds, the test for a sustained condition, and the comparison of agent
  versions. The texts of the reasons contain formatted floating-point numbers;
  \<open>reason_text\<close> stands for that formatting.
\<close>

section \<open>Versions\<close>

datatype version = Ver int int int

instantiation version :: linorder
begin

fun less_eq_version :: "version \<Rightarrow> version \<Rightarrow> bool" where
  "Ver a b c \<le> Ver d e f \<longleftrightarrow> a < d \<or> a = d \<and> (b < e \<or> b = e \<and> c \<le> f)"

fun less_version :: "version \<Rightarrow> version \<Rightarrow> bool" where
  "Ver a b c < Ver d e f \<longleftrightarrow> a < d \<or> a = d \<and> (b < e \<or> b = e \<and> c < f)"

instance
proof
  fix x y z :: version
  show "(x < y) = (x \<le> y \<and> \<not> y \<le> x)" by (cases x; cases y) auto
  show "x \<le> x" by (cases x) simp
  show "x \<le> y \<Longrightarrow> y \<le> z \<Longrightarrow> x \<le> z" by (cases x; cases y; cases z) auto
  show "x \<le> y \<Longrightarrow> y \<le> x \<Longrightarrow> x = y" by (cases x; cases y) auto
  show "x \<le> y \<or> y \<le> x" by (cases x; cases y) auto
qed

end

text \<open>\<open>atoiStrict\<close>: the accumulator is an \<open>int\<close> of 64 bits.\<close>

fun atoi_digits :: "int \<Rightarrow> string \<Rightarrow> int option" where
  "atoi_digits n [] = Some n"
| "atoi_digits n (c # s) = (if \<not> is_digit c then None else atoi_digits (wrap64 (n * 10 + int (digit_val c))) s)"

definition atoiStrict :: "string \<Rightarrow> int option" where
  "atoiStrict s = (if s = [] then None else atoi_digits 0 s)"

text \<open>The loop of \<open>ParseVersion\<close>: the bytes still to read, the bytes of the component
  being read, and the components stored in \<open>out\<close> so far.\<close>

definition store_component :: "string \<Rightarrow> int list \<Rightarrow> int list option" where
  "store_component cur out =
     (if length out > 2 then None else map_option (\<lambda>n. out @ [n]) (atoiStrict cur))"

fun version_loop :: "string \<Rightarrow> string \<Rightarrow> int list \<Rightarrow> int list option" where
  "version_loop [] cur out = store_component cur out"
| "version_loop (c # s) cur out =
     (if c = CHR ''.'' then (case store_component cur out of None \<Rightarrow> None | Some out' \<Rightarrow> version_loop s [] out')
      else version_loop s (cur @ [c]) out)"

text \<open>Components that are not given stay zero in the array.\<close>

definition version_of :: "int list \<Rightarrow> version" where
  "version_of ns = (case ns @ [0, 0, 0] of a # b # c # _ \<Rightarrow> Ver a b c)"

definition ParseVersion :: "string \<Rightarrow> version option" where
  "ParseVersion v = map_option version_of (version_loop v [] [])"

definition IsOlderVersion :: "string \<Rightarrow> string \<Rightarrow> bool" where
  "IsOlderVersion v minimum =
     (case (ParseVersion v, ParseVersion minimum) of
        (Some (Ver a b c), Some (Ver d e f)) \<Rightarrow>
          (if a \<noteq> d then a < d else if b \<noteq> e then b < e else if c \<noteq> f then c < f else False)
      | _ \<Rightarrow> False)"

lemma version_loop_split:
  "version_loop s cur out =
     (case split_on CHR ''.'' s of
        [] \<Rightarrow> None
      | p # ps \<Rightarrow>
          if length out + Suc (length ps) \<le> 3 then map_option ((@) out) (those (map atoiStrict ((cur @ p) # ps))) else None)"
proof (induction s arbitrary: cur out)
  case Nil
  then show ?case by (cases "atoiStrict cur") (auto simp: store_component_def)
next
  case (Cons c s)
  obtain p ps where sp: "split_on CHR ''.'' s = p # ps" by (cases "split_on CHR ''.'' s") auto
  show ?case
  proof (cases "c = CHR ''.''")
    case True
    have "(@) (out @ [a]) = (\<lambda>x. out @ a # x)" for a by auto
    with True show ?thesis
      using Cons.IH [of "[]"] sp
      by (cases "atoiStrict cur") (auto simp: store_component_def option.map_comp o_def)
  next
    case False
    then show ?thesis using Cons.IH [of "cur @ [c]"] sp by simp
  qed
qed

lemma atoi_digits_val:
  "list_all is_digit s \<Longrightarrow> foldl (\<lambda>n c. 10 * n + digit_val c) k s < 2 ^ 63 \<Longrightarrow>
   atoi_digits (int k) s = Some (int (foldl (\<lambda>n c. 10 * n + digit_val c) k s))"
proof (induction s arbitrary: k)
  case (Cons c s)
  have grow: "m \<le> foldl (\<lambda>n c. 10 * n + digit_val c) m s" for m
  proof (induction s arbitrary: m)
    case (Cons c s)
    from Cons [of "10 * m + digit_val c"] show ?case by simp
  qed simp
  let ?m = "10 * k + digit_val c"
  have m: "?m < 2 ^ 63" using grow [of ?m] Cons.prems(2) by simp
  then have "int ?m < 2 ^ 63" by (metis of_nat_less_iff of_nat_numeral of_nat_power)
  then have "wrap64 (int ?m) = int ?m" by (intro wrap64_id) simp_all
  then have "wrap64 (int k * 10 + int (digit_val c)) = int ?m" by (simp add: mult.commute)
  then show ?case using Cons.IH [of ?m] Cons.prems by (simp del: of_nat_add of_nat_mult)
qed simp

lemma atoiStrict_show: "n < 2 ^ 63 \<Longrightarrow> atoiStrict (show_nat n) = Some (int n)"
  using atoi_digits_val [of "show_nat n" 0] show_nat_digits [of n] digits_val_show_nat [of n]
  by (simp add: atoiStrict_def digits_val_def)

definition version_string :: "nat \<Rightarrow> nat \<Rightarrow> nat \<Rightarrow> string" where
  "version_string a b c = join_with CHR ''.'' [show_nat a, show_nat b, show_nat c]"

lemma ParseVersion_string:
  assumes "a < 2 ^ 63" "b < 2 ^ 63" "c < 2 ^ 63"
  shows "ParseVersion (version_string a b c) = Some (Ver (int a) (int b) (int c))"
proof -
  have "\<not> is_digit CHR ''.''" by (simp add: is_digit_def)
  then have "split_on CHR ''.'' (version_string a b c) = [show_nat a, show_nat b, show_nat c]"
    unfolding version_string_def by (intro split_on_join) (auto simp: digit_not_in_show_nat)
  then show ?thesis
    using assms by (simp add: ParseVersion_def version_loop_split atoiStrict_show version_of_def)
qed

lemma IsOlderVersion_iff:
  "IsOlderVersion v m \<longleftrightarrow> (case (ParseVersion v, ParseVersion m) of (Some x, Some y) \<Rightarrow> x < y | _ \<Rightarrow> False)"
  by (auto simp: IsOlderVersion_def split: option.split version.split)

section \<open>Sustained conditions\<close>

fun oldest_scan :: "('p \<Rightarrow> bool) \<Rightarrow> ('p \<Rightarrow> time) \<Rightarrow> 'p list \<Rightarrow> time \<Rightarrow> time option" where
  "oldest_scan p ts [] oldest = Some oldest"
| "oldest_scan p ts (x # xs) oldest =
     (if \<not> p x then None else oldest_scan p ts xs (if ts x < oldest then ts x else oldest))"

fun newest_scan :: "('p \<Rightarrow> time) \<Rightarrow> 'p list \<Rightarrow> time \<Rightarrow> time" where
  "newest_scan ts [] latest = latest"
| "newest_scan ts (x # xs) latest = newest_scan ts xs (if ts x > latest then ts x else latest)"

definition sustainedAbove :: "('p \<Rightarrow> time) \<Rightarrow> 'p list \<Rightarrow> duration \<Rightarrow> ('p \<Rightarrow> bool) \<Rightarrow> bool" where
  "sustainedAbove ts history window p =
     (case history of
        [] \<Rightarrow> False
      | h # _ \<Rightarrow>
          (case oldest_scan p ts history (ts h) of
             None \<Rightarrow> False
           | Some oldest \<Rightarrow> newest_scan ts history (ts h) - oldest \<ge> window - minute))"

lemma Min_insert_twice: "finite A \<Longrightarrow> Min (insert t (insert (a :: int) A)) = Min (insert (if a < t then a else t) A)"
  by (cases "A = {}") (auto simp: min_def)

lemma Max_insert_twice: "finite A \<Longrightarrow> Max (insert t (insert (a :: int) A)) = Max (insert (if a > t then a else t) A)"
  by (cases "A = {}") (auto simp: max_def)

lemma oldest_scan_eq:
  "oldest_scan p ts xs t = (if list_all p xs then Some (Min (insert t (ts ` set xs))) else None)"
  by (induction xs arbitrary: t) (simp_all add: Min_insert_twice del: Min_insert)

lemma newest_scan_eq: "newest_scan ts xs t = Max (insert t (ts ` set xs))"
  by (induction xs arbitrary: t) (simp_all add: Max_insert_twice del: Max_insert)

section \<open>Evaluation\<close>

record thresholds =
  th_disk_warning :: rat
  th_disk_critical :: rat
  th_ram_warning :: rat
  th_cpu_warning :: rat
  th_window :: duration
  th_min_version :: string

definition DefaultThresholds :: thresholds where
  "DefaultThresholds = \<lparr>th_disk_warning = 90, th_disk_critical = 97, th_ram_warning = 90, th_cpu_warning = 95,
     th_window = 10 * minute, th_min_version = ''0.1.0''\<rparr>"

datatype reason =
    DiskReason string rat rat bool
  | CpuReason rat duration
  | RamReason rat duration
  | VersionReason string string

record monitor_state =
  mon_devices :: device_db
  mon_metrics :: metrics_db

definition fs_percent :: "filesystem_usage \<Rightarrow> rat" where
  "fs_percent f = of_int (fs_used_bytes f) / of_int (fs_total_bytes f) * 100"

text \<open>The loop over the filesystems, with its three variables.\<close>

fun disk_loop :: "thresholds \<Rightarrow> filesystem_usage list \<Rightarrow> bool \<times> bool \<times> reason list \<Rightarrow> bool \<times> bool \<times> reason list" where
  "disk_loop th [] acc = acc"
| "disk_loop th (f # fs) (critical, warning, reasons) =
     (if fs_total_bytes f = 0 \<or> fs_removable f then disk_loop th fs (critical, warning, reasons)
      else if fs_percent f \<ge> th_disk_critical th
      then disk_loop th fs (True, warning, reasons @ [DiskReason (fs_path f) (fs_percent f) (th_disk_critical th) True])
      else if fs_percent f \<ge> th_disk_warning th
      then disk_loop th fs (critical, True, reasons @ [DiskReason (fs_path f) (fs_percent f) (th_disk_warning th) False])
      else disk_loop th fs (critical, warning, reasons))"

definition cpu_high :: "thresholds \<Rightarrow> metrics_row \<Rightarrow> bool" where
  "cpu_high th p \<longleftrightarrow> mt_cpu_percent p \<ge> th_cpu_warning th"

definition ram_high :: "thresholds \<Rightarrow> metrics_row \<Rightarrow> bool" where
  "ram_high th p \<longleftrightarrow> (if mt_memory_total p = 0 then False
     else of_int (mt_memory_used p) / of_int (mt_memory_total p) * 100 \<ge> th_ram_warning th)"

definition metric_findings :: "thresholds \<Rightarrow> time \<Rightarrow> uuid \<Rightarrow> metrics_db \<Rightarrow> bool \<times> bool \<times> reason list" where
  "metric_findings th now i db =
     (case LatestMetrics i db of
        None \<Rightarrow> (False, False, [])
      | Some latest \<Rightarrow>
          (let (critical, warning, reasons) = disk_loop th (mt_filesystems latest) (False, False, []);
               history = RecentMetrics i (now - th_window th) now 200 db;
               cpu = sustainedAbove mt_observed_at history (th_window th) (cpu_high th);
               ram = sustainedAbove mt_observed_at history (th_window th) (ram_high th)
           in (critical, warning \<or> cpu \<or> ram,
               reasons @ (if cpu then [CpuReason (th_cpu_warning th) (th_window th)] else []) @
               (if ram then [RamReason (th_ram_warning th) (th_window th)] else []))))"

definition Evaluate ::
  "(reason \<Rightarrow> string) \<Rightarrow> thresholds \<Rightarrow> time \<Rightarrow> uuid \<Rightarrow> monitor_state \<Rightarrow>
   (device_error + (health \<times> string list)) \<times> monitor_state" where
  "Evaluate reason_text th now i st =
     (case GetDevice i (mon_devices st) of
        Inl e \<Rightarrow> (Inl e, st)
      | Inr d \<Rightarrow>
          if d_status d = StatusOffline \<or> d_status d = StatusRevoked
          then let h = (if d_status d = StatusRevoked then HealthUnknown else HealthOffline)
               in (Inr (h, []), st\<lparr>mon_devices := UpdateHealth i h [] (mon_devices st)\<rparr>)
          else let (critical, warning, reasons) = metric_findings th now i (mon_metrics st);
                   old = (d_agent_version d \<noteq> [] \<and> IsOlderVersion (d_agent_version d) (th_min_version th));
                   texts = map reason_text (reasons @ (if old then [VersionReason (d_agent_version d) (th_min_version th)] else []));
                   h = (if critical then HealthCritical else if warning \<or> old then HealthWarning else HealthHealthy)
               in (Inr (h, texts), st\<lparr>mon_devices := UpdateHealth i h texts (mon_devices st)\<rparr>))"

lemma disk_loop_flags:
  "disk_loop th fs (c, w, r) = (c', w', r') \<Longrightarrow>
   (c' \<longleftrightarrow> c \<or> (\<exists>f \<in> set fs. fs_total_bytes f \<noteq> 0 \<and> \<not> fs_removable f \<and> fs_percent f \<ge> th_disk_critical th)) \<and>
   (w' \<longleftrightarrow> w \<or> (\<exists>f \<in> set fs. fs_total_bytes f \<noteq> 0 \<and> \<not> fs_removable f \<and> fs_percent f \<ge> th_disk_warning th \<and>
       \<not> fs_percent f \<ge> th_disk_critical th)) \<and>
   (r' = [] \<longleftrightarrow> r = [] \<and> (\<forall>f \<in> set fs. fs_total_bytes f = 0 \<or> fs_removable f \<or>
       \<not> fs_percent f \<ge> th_disk_critical th \<and> \<not> fs_percent f \<ge> th_disk_warning th))"
proof (induction fs arbitrary: c w r)
  case (Cons f fs)
  consider (skip) "fs_total_bytes f = 0 \<or> fs_removable f"
    | (crit) "fs_total_bytes f \<noteq> 0" "\<not> fs_removable f" "fs_percent f \<ge> th_disk_critical th"
    | (warn) "fs_total_bytes f \<noteq> 0" "\<not> fs_removable f" "\<not> fs_percent f \<ge> th_disk_critical th" "fs_percent f \<ge> th_disk_warning th"
    | (fine) "fs_total_bytes f \<noteq> 0" "\<not> fs_removable f" "\<not> fs_percent f \<ge> th_disk_critical th" "\<not> fs_percent f \<ge> th_disk_warning th"
    by blast
  then show ?case
  proof cases
    case skip
    with Cons.IH [of c w r] Cons.prems show ?thesis by auto
  next
    case crit
    with Cons.IH [of True w "r @ [DiskReason (fs_path f) (fs_percent f) (th_disk_critical th) True]"] Cons.prems show ?thesis by auto
  next
    case warn
    with Cons.IH [of c True "r @ [DiskReason (fs_path f) (fs_percent f) (th_disk_warning th) False]"] Cons.prems show ?thesis by auto
  next
    case fine
    with Cons.IH [of c w r] Cons.prems show ?thesis by auto
  qed
qed auto

lemma sustainedAbove_iff:
  "sustainedAbove ts history window p \<longleftrightarrow> history \<noteq> [] \<and> (\<forall>x \<in> set history. p x) \<and>
     Max (ts ` set history) - Min (ts ` set history) \<ge> window - minute"
  by (cases history)
    (auto simp: sustainedAbove_def oldest_scan_eq newest_scan_eq list_all_iff simp del: oldest_scan.simps newest_scan.simps)

lemma metric_findings_flags:
  assumes "metric_findings th now i db = (c, w, r)"
  shows "c \<longleftrightarrow> (\<exists>latest. LatestMetrics i db = Some latest \<and> (\<exists>f \<in> set (mt_filesystems latest).
        fs_total_bytes f \<noteq> 0 \<and> \<not> fs_removable f \<and> fs_percent f \<ge> th_disk_critical th))"
    and "c \<or> w \<longleftrightarrow> r \<noteq> []"
proof -
  obtain c1 w1 r1 where d: "LatestMetrics i db = Some l \<Longrightarrow> disk_loop th (mt_filesystems l) (False, False, []) = (c1, w1, r1)" for l
    by (cases "LatestMetrics i db"; cases "disk_loop th (mt_filesystems (the (LatestMetrics i db))) (False, False, [])") auto
  show "c \<longleftrightarrow> (\<exists>latest. LatestMetrics i db = Some latest \<and> (\<exists>f \<in> set (mt_filesystems latest).
        fs_total_bytes f \<noteq> 0 \<and> \<not> fs_removable f \<and> fs_percent f \<ge> th_disk_critical th))" "c \<or> w \<longleftrightarrow> r \<noteq> []"
    using assms disk_loop_flags [OF d] by (auto simp: metric_findings_def d Let_def split: option.splits)
qed

section \<open>Properties\<close>

text \<open>The comparison of agent versions is the lexicographic order of their three
  numbers: for versions written as three decimal numbers of 63 bits,
  \<open>IsOlderVersion\<close> holds exactly when the first is smaller, and a version that cannot be
  read is never older.\<close>

theorem IsOlderVersion_lexicographic:
  assumes "a < 2 ^ 63" "b < 2 ^ 63" "c < 2 ^ 63" "d < 2 ^ 63" "e < 2 ^ 63" "f < 2 ^ 63"
  shows "(IsOlderVersion (version_string a b c) (version_string d e f) \<longleftrightarrow> a < d \<or> a = d \<and> (b < e \<or> b = e \<and> c < f)) \<and>
         (ParseVersion v = None \<longrightarrow> \<not> IsOlderVersion v m \<and> \<not> IsOlderVersion m v)"
  using assms by (auto simp: IsOlderVersion_iff ParseVersion_string split: option.split)

theorem IsOlderVersion_lexicographic_witness:
  "IsOlderVersion (version_string 0 9 12) (version_string 0 10 1) \<and> \<not> IsOlderVersion ''1.x'' ''2.0.0''"
proof -
  have "ParseVersion ''1.x'' = None" by code_simp
  then show ?thesis using IsOlderVersion_lexicographic [of 0 9 12 0 10 1 "''1.x''" "''2.0.0''"] by simp
qed

text \<open>The evaluation stores what it returns, and its result is determined by the
  device's state: offline or unknown exactly for an offline or revoked device, critical
  exactly when the latest report shows a fixed filesystem at or above the critical
  threshold, and healthy exactly when there is no reason to report.\<close>

theorem Evaluate_classifies:
  assumes "GetDevice i (mon_devices st) = Inr d" "Evaluate txt th now i st = (Inr (h, texts), st')"
  shows "GetDevice i (mon_devices st') = Inr (d\<lparr>d_health := h, d_health_reasons := texts\<rparr>) \<and>
    (h = HealthOffline \<longleftrightarrow> d_status d = StatusOffline) \<and> (h = HealthUnknown \<longleftrightarrow> d_status d = StatusRevoked) \<and>
    (h = HealthCritical \<longleftrightarrow> d_status d \<notin> {StatusOffline, StatusRevoked} \<and>
       (\<exists>latest. LatestMetrics i (mon_metrics st) = Some latest \<and> (\<exists>f \<in> set (mt_filesystems latest).
          fs_total_bytes f \<noteq> 0 \<and> \<not> fs_removable f \<and> fs_percent f \<ge> th_disk_critical th))) \<and>
    (h = HealthHealthy \<longleftrightarrow> d_status d \<notin> {StatusOffline, StatusRevoked} \<and> texts = [])"
proof -
  have find: "find_row (\<lambda>d. d_id d = i) (devices (mon_devices st)) = Some d"
    using assms(1) by (auto simp: GetDevice_def split: option.splits)
  have upd: "GetDevice i (UpdateHealth i h' r (mon_devices st)) = Inr (d\<lparr>d_health := h', d_health_reasons := r\<rparr>)" for h' r
    using find find_row_SomeD [OF find] by (simp add: GetDevice_def UpdateHealth_def upd_device_def)
  obtain c w r where m: "metric_findings th now i (mon_metrics st) = (c, w, r)" by (metis prod_cases3)
  note flags = metric_findings_flags [OF m]
  show ?thesis
  proof (cases "d_status d = StatusOffline \<or> d_status d = StatusRevoked")
    case True
    then show ?thesis using assms upd by (auto simp: Evaluate_def Let_def split: if_splits)
  next
    case False
    define old where "old \<longleftrightarrow> d_agent_version d \<noteq> [] \<and> IsOlderVersion (d_agent_version d) (th_min_version th)"
    have r: "texts = map txt (r @ (if old then [VersionReason (d_agent_version d) (th_min_version th)] else []))"
      "h = (if c then HealthCritical else if w \<or> old then HealthWarning else HealthHealthy)"
      "st' = st\<lparr>mon_devices := UpdateHealth i h texts (mon_devices st)\<rparr>"
      using assms False by (auto simp: Evaluate_def m old_def Let_def)
    have "texts = [] \<longleftrightarrow> \<not> c \<and> \<not> w \<and> \<not> old" using r(1) flags(2) by auto
    moreover have "h = HealthHealthy \<longleftrightarrow> \<not> c \<and> \<not> w \<and> \<not> old" "h = HealthCritical \<longleftrightarrow> c" "h \<noteq> HealthOffline" "h \<noteq> HealthUnknown"
      using r(2) by auto
    ultimately show ?thesis using False upd r(3) flags(1) by auto
  qed
qed

definition demo_disk :: "int \<Rightarrow> metrics_db" where
  "demo_disk used = \<lparr>device_metrics = [\<lparr>mt_device_id = 2, mt_observed_at = 5, mt_cpu_percent = 10, mt_memory_used = 1,
     mt_memory_total = 4, mt_filesystems = [\<lparr>fs_path = ''/'', fs_used_bytes = used, fs_total_bytes = 100, fs_removable = False\<rparr>],
     mt_uptime_seconds = 1, mt_disk_used = used, mt_disk_total = 100\<rparr>], device_metrics_hourly = [],
     device_network_metrics = [], device_network_metrics_hourly = []\<rparr>"

definition demo_monitor :: "int \<Rightarrow> monitor_state" where
  "demo_monitor used = \<lparr>mon_devices = demo_devices, mon_metrics = demo_disk used\<rparr>"

theorem Evaluate_classifies_witness:
  "\<exists>texts st'. Evaluate (\<lambda>_. ''r'') DefaultThresholds 6 2 (demo_monitor 98) = (Inr (HealthCritical, texts), st')"
proof -
  obtain d where d: "GetDevice 2 (mon_devices (demo_monitor 98)) = Inr d" "d_status d = StatusOnline"
    by (simp add: GetDevice_def demo_monitor_def demo_devices_def demo_device_def)
  obtain c w r where "metric_findings DefaultThresholds 6 2 (mon_metrics (demo_monitor 98)) = (c, w, r)" by (metis prod_cases3)
  then obtain h texts st' where e: "Evaluate (\<lambda>_. ''r'') DefaultThresholds 6 2 (demo_monitor 98) = (Inr (h, texts), st')"
    by (simp add: Evaluate_def d Let_def)
  have "LatestMetrics 2 (mon_metrics (demo_monitor 98)) = Some (hd (device_metrics (demo_disk 98)))"
    by (simp add: LatestMetrics_def newest_def demo_monitor_def demo_disk_def)
  then have "h = HealthCritical"
    using Evaluate_classifies [OF d(1) e] d(2)
    by (auto simp: demo_disk_def fs_percent_def DefaultThresholds_def)
  with e show ?thesis by auto
qed

end
