(* ===== verification/Protocol.thy ===== *)
theory Protocol
  imports Prelude
begin

text \<open>
  The wire protocol between server and agent (\<open>internal/protocol\<close>): the outer
  envelope of a control message (\<open>codec.go\<close>) and the binary frame that carries
  terminal, tunnel and file data (\<open>stream.go\<close>). JSON encoding is an argument.
\<close>

section \<open>Binary stream frames\<close>

datatype frame_error = FrameTooShort nat | FrameVersion byte

definition StreamFrameHeaderLen :: nat where "StreamFrameHeaderLen = 18"

definition streamFrameVersion :: byte where "streamFrameVersion = 1"

definition StreamKindTerminal :: byte where "StreamKindTerminal = 1"
definition StreamKindTunnel :: byte where "StreamKindTunnel = 2"
definition StreamKindFile :: byte where "StreamKindFile = 3"

definition EncodeStreamFrame :: "byte \<Rightarrow> uuid \<Rightarrow> bytes \<Rightarrow> bytes" where
  "EncodeStreamFrame kind streamID payload =
     [streamFrameVersion, kind] @ uuid_bytes streamID @ payload"

definition DecodeStreamFrame :: "bytes \<Rightarrow> frame_error + (byte \<times> uuid \<times> bytes)" where
  "DecodeStreamFrame frame =
     (if length frame < StreamFrameHeaderLen then Inl (FrameTooShort (length frame))
      else if frame ! 0 \<noteq> streamFrameVersion then Inl (FrameVersion (frame ! 0))
      else Inr (frame ! 1, uuid_of_bytes (take 16 (drop 2 frame)), drop 18 frame))"

lemma DecodeStreamFrame_Encode:
  "DecodeStreamFrame (EncodeStreamFrame k i p) = Inr (k, i, p)"
  by (simp add: DecodeStreamFrame_def EncodeStreamFrame_def StreamFrameHeaderLen_def)

lemma EncodeStreamFrame_Decode:
  assumes "DecodeStreamFrame f = Inr (k, i, p)"
  shows "EncodeStreamFrame k i p = f"
proof -
  have len: "18 \<le> length f" and v: "f ! 0 = streamFrameVersion" and k: "k = f ! 1"
    and i: "i = uuid_of_bytes (take 16 (drop 2 f))" and p: "p = drop 18 f"
    using assms by (auto simp: DecodeStreamFrame_def StreamFrameHeaderLen_def split: if_splits)
  obtain a b f' where f: "f = a # b # f'" using len by (cases f; cases "tl f") auto
  have u: "uuid_bytes i = take 16 f'" using len by (simp add: i f uuid_bytes_uuid_of_bytes)
  have "EncodeStreamFrame k i p = [a, b] @ take 16 f' @ drop 16 f'"
    using v by (simp add: EncodeStreamFrame_def k p u f)
  then show ?thesis by (simp add: f)
qed

section \<open>Envelopes\<close>

definition Version :: int where "Version = 1"
definition MaxControlMessageBytes :: nat where "MaxControlMessageBytes = 256 * 1024"
definition MaxInventoryBytes :: nat where "MaxInventoryBytes = 1024 * 1024"
definition MaxEventBatchBytes :: nat where "MaxEventBatchBytes = 1024 * 1024"
definition MaxTerminalControlBytes :: nat where "MaxTerminalControlBytes = 64 * 1024"

datatype msg_type =
    TypeHello | TypeHelloAck | TypeHeartbeat | TypeHeartbeatAck | TypeInventoryRequest | TypeInventoryResponse
  | TypeMetricsReport | TypeCommandResult | TypeSessionOpen | TypeSessionOpenResult | TypeSessionClose
  | TypeSessionPrivilegeUpdate | TypeTerminalOpen | TypeTerminalResize | TypeTerminalSignal | TypeTerminalClose
  | TypeTunnelPrepare | TypeProtocolError | TypeControlChallenge | TypeDeviceCommand | TypeSupportCredentialReport
  | TypeNetworkMetricsBatch

fun type_name :: "msg_type \<Rightarrow> string" where
  "type_name TypeHello = ''hello''"
| "type_name TypeHelloAck = ''hello_ack''"
| "type_name TypeHeartbeat = ''heartbeat''"
| "type_name TypeHeartbeatAck = ''heartbeat_ack''"
| "type_name TypeInventoryRequest = ''inventory_request''"
| "type_name TypeInventoryResponse = ''inventory_response''"
| "type_name TypeMetricsReport = ''metrics_report''"
| "type_name TypeCommandResult = ''command_result''"
| "type_name TypeSessionOpen = ''session_open''"
| "type_name TypeSessionOpenResult = ''session_open_result''"
| "type_name TypeSessionClose = ''session_close''"
| "type_name TypeSessionPrivilegeUpdate = ''session_privilege_update''"
| "type_name TypeTerminalOpen = ''terminal_open''"
| "type_name TypeTerminalResize = ''terminal_resize''"
| "type_name TypeTerminalSignal = ''terminal_signal''"
| "type_name TypeTerminalClose = ''terminal_close''"
| "type_name TypeTunnelPrepare = ''tunnel_prepare''"
| "type_name TypeProtocolError = ''protocol_error''"
| "type_name TypeControlChallenge = ''control_challenge''"
| "type_name TypeDeviceCommand = ''device_command''"
| "type_name TypeSupportCredentialReport = ''support_credential_report''"
| "type_name TypeNetworkMetricsBatch = ''network_metrics_batch''"

lemma type_name_nonempty [simp]: "type_name t \<noteq> []"
  by (cases t) simp_all

lemma type_name_inj [simp]: "type_name t = type_name u \<longleftrightarrow> t = u"
  by (cases t; cases u; simp)

record envelope =
  env_protocol :: int
  env_type :: string
  env_message_id :: string
  env_request_id :: "string option"
  env_timestamp :: time
  env_payload :: bytes

datatype codec_error = ErrMarshalPayload | ErrDecodeEnvelope | ErrInvalidEnvelope | ErrDecodePayload

text \<open>\<open>json.Marshal\<close> and \<open>json.Unmarshal\<close> of an envelope.\<close>

record json_env =
  marshal_envelope :: "envelope \<Rightarrow> bytes"
  unmarshal_envelope :: "bytes \<Rightarrow> envelope option"

definition Encode ::
  "json_env \<Rightarrow> time \<Rightarrow> string \<Rightarrow> string \<Rightarrow> string option \<Rightarrow> bytes option \<Rightarrow> codec_error + bytes" where
  "Encode js now messageID msgType requestID body =
     (case body of
        None \<Rightarrow> Inl ErrMarshalPayload
      | Some b \<Rightarrow> Inr (marshal_envelope js
          \<lparr>env_protocol = Version, env_type = msgType, env_message_id = messageID, env_request_id = requestID,
           env_timestamp = now, env_payload = b\<rparr>))"

definition Decode :: "json_env \<Rightarrow> bytes \<Rightarrow> codec_error + envelope" where
  "Decode js raw =
     (case unmarshal_envelope js raw of
        None \<Rightarrow> Inl ErrDecodeEnvelope
      | Some env \<Rightarrow>
          if env_protocol env = 0 \<or> env_type env = [] \<or> env_message_id env = [] then Inl ErrInvalidEnvelope
          else Inr env)"

definition DecodePayload :: "(bytes \<Rightarrow> 'p option) \<Rightarrow> envelope \<Rightarrow> codec_error + 'p" where
  "DecodePayload unmarshal env =
     (if env_payload env = [] then Inl ErrInvalidEnvelope
      else case unmarshal (env_payload env) of None \<Rightarrow> Inl ErrDecodePayload | Some p \<Rightarrow> Inr p)"

lemma Decode_InrD:
  "Decode js raw = Inr env \<Longrightarrow> env_protocol env \<noteq> 0 \<and> env_type env \<noteq> [] \<and> env_message_id env \<noteq> []"
  by (auto simp: Decode_def split: option.splits if_splits)

text \<open>A message encoded with a type and a message id is decoded by the other side as the
  same envelope, whenever \<open>json.Unmarshal\<close> inverts \<open>json.Marshal\<close> on
  envelopes.\<close>

lemma envelope_round_trip:
  assumes "\<And>env. unmarshal_envelope js (marshal_envelope js env) = Some env"
    and "mid \<noteq> []" and "Encode js now mid (type_name t) rid body = Inr raw"
  shows "\<exists>env. Decode js raw = Inr env \<and> env_type env = type_name t \<and> env_message_id env = mid \<and>
           env_request_id env = rid \<and> Some (env_payload env) = body"
  using assms by (auto simp: Encode_def Decode_def Version_def split: option.splits)

section \<open>Properties\<close>

text \<open>C32: a byte string is accepted as a stream frame with kind \<open>k\<close>, stream
  \<open>i\<close> and payload \<open>p\<close> exactly when it is the encoding of these three, so
  decoding inverts encoding, and no two byte strings are the same frame.\<close>

theorem stream_frame_round_trip:
  "DecodeStreamFrame f = Inr (k, i, p) \<longleftrightarrow> f = EncodeStreamFrame k i p"
  using DecodeStreamFrame_Encode EncodeStreamFrame_Decode by auto

end
