(* ===== verification/Relay.thy ===== *)
theory Relay
  imports Protocol "HOL-Library.Sublist"
begin

text \<open>
  The stream broker (\<open>internal/relay/broker.go\<close>), which routes binary frames of
  an agent to the browser connection that reads them. Channels are shared objects, so
  they live in a store and a stream holds the address of its channel; sending on a
  closed channel panics, as in Go.
\<close>

section \<open>Channels\<close>

record channel =
  ch_queue :: "bytes list"
  ch_closed :: bool

datatype go_panic = SendOnClosedChannel | CloseOfClosedChannel

type_synonym chans = "channel list"

definition chan_capacity :: nat where "chan_capacity = 64"

text \<open>\<open>select { case c <- v: default: }\<close>\<close>

definition chan_try_send :: "nat \<Rightarrow> bytes \<Rightarrow> chans \<Rightarrow> go_panic + chans" where
  "chan_try_send a v cs =
     (if ch_closed (cs ! a) then Inl SendOnClosedChannel
      else if length (ch_queue (cs ! a)) < chan_capacity
      then Inr (cs[a := (cs ! a)\<lparr>ch_queue := ch_queue (cs ! a) @ [v]\<rparr>]) else Inr cs)"

definition chan_close :: "nat \<Rightarrow> chans \<Rightarrow> go_panic + chans" where
  "chan_close a cs =
     (if ch_closed (cs ! a) then Inl CloseOfClosedChannel else Inr (cs[a := (cs ! a)\<lparr>ch_closed := True\<rparr>]))"

text \<open>The result of a receive: a value, the end of a closed and drained channel, or
  nothing yet.\<close>

datatype receipt = Received bytes | Drained | Blocked

definition chan_recv :: "nat \<Rightarrow> chans \<Rightarrow> receipt \<times> chans" where
  "chan_recv a cs =
     (case ch_queue (cs ! a) of
        v # vs \<Rightarrow> (Received v, cs[a := (cs ! a)\<lparr>ch_queue := vs\<rparr>])
      | [] \<Rightarrow> (if ch_closed (cs ! a) then Drained else Blocked, cs))"

section \<open>The broker\<close>

record stream =
  st_id :: uuid
  st_device_id :: uuid
  st_kind :: byte
  st_to_browser :: nat

record broker =
  b_streams :: "uuid \<Rightarrow> stream option"
  b_chans :: chans

definition NewBroker :: broker where
  "NewBroker = \<lparr>b_streams = (\<lambda>_. None), b_chans = []\<rparr>"

definition Register :: "uuid \<Rightarrow> uuid \<Rightarrow> byte \<Rightarrow> broker \<Rightarrow> stream \<times> broker" where
  "Register streamID deviceID kind b =
     (let s = \<lparr>st_id = streamID, st_device_id = deviceID, st_kind = kind, st_to_browser = length (b_chans b)\<rparr>
      in (s, b\<lparr>b_streams := (b_streams b)(streamID := Some s),
               b_chans := b_chans b @ [\<lparr>ch_queue = [], ch_closed = False\<rparr>]\<rparr>))"

definition GetStream :: "uuid \<Rightarrow> broker \<Rightarrow> stream option" where
  "GetStream streamID b = b_streams b streamID"

definition Unregister :: "uuid \<Rightarrow> broker \<Rightarrow> go_panic + broker" where
  "Unregister streamID b =
     (case b_streams b streamID of
        None \<Rightarrow> Inr b
      | Some s \<Rightarrow>
          (case chan_close (st_to_browser s) (b_chans b) of
             Inl p \<Rightarrow> Inl p
           | Inr cs \<Rightarrow> Inr (b\<lparr>b_streams := (b_streams b)(streamID := None), b_chans := cs\<rparr>)))"

text \<open>\<open>handleInbound\<close> looks the stream up under the lock and sends after releasing
  it: two atomic actions, between which another goroutine may run.\<close>

definition inbound_lookup :: "uuid \<Rightarrow> byte \<Rightarrow> uuid \<Rightarrow> broker \<Rightarrow> stream option" where
  "inbound_lookup deviceID kind streamID b =
     (case b_streams b streamID of
        None \<Rightarrow> None
      | Some s \<Rightarrow> if st_device_id s \<noteq> deviceID \<or> st_kind s \<noteq> kind then None else Some s)"

definition inbound_send :: "stream option \<Rightarrow> bytes \<Rightarrow> broker \<Rightarrow> go_panic + broker" where
  "inbound_send found payload b =
     (case found of
        None \<Rightarrow> Inr b
      | Some s \<Rightarrow> map_sum id (\<lambda>cs. b\<lparr>b_chans := cs\<rparr>) (chan_try_send (st_to_browser s) payload (b_chans b)))"

definition handleInbound :: "uuid \<Rightarrow> byte \<Rightarrow> uuid \<Rightarrow> bytes \<Rightarrow> broker \<Rightarrow> go_panic + broker" where
  "handleInbound deviceID kind streamID payload b =
     inbound_send (inbound_lookup deviceID kind streamID b) payload b"

text \<open>What the writing goroutine of a browser connection does with its stream.\<close>

definition FromAgent :: "stream \<Rightarrow> broker \<Rightarrow> receipt \<times> broker" where
  "FromAgent s b = (let (r, cs) = chan_recv (st_to_browser s) (b_chans b) in (r, b\<lparr>b_chans := cs\<rparr>))"

section \<open>Invariant\<close>

text \<open>Registered streams have their own open channels, and no channel holds more than
  its capacity.\<close>

definition broker_ok :: "broker \<Rightarrow> bool" where
  "broker_ok b \<longleftrightarrow>
     (\<forall>i s. b_streams b i = Some s \<longrightarrow> st_id s = i \<and> st_to_browser s < length (b_chans b) \<and>
        \<not> ch_closed (b_chans b ! st_to_browser s)) \<and>
     (\<forall>i j s t. b_streams b i = Some s \<longrightarrow> b_streams b j = Some t \<longrightarrow> st_to_browser s = st_to_browser t \<longrightarrow> i = j) \<and>
     (\<forall>c \<in> set (b_chans b). length (ch_queue c) \<le> chan_capacity)"

lemma broker_okD:
  assumes "broker_ok b" "b_streams b i = Some s"
  shows "st_id s = i" "st_to_browser s < length (b_chans b)" "\<not> ch_closed (b_chans b ! st_to_browser s)"
    "length (ch_queue (b_chans b ! st_to_browser s)) \<le> chan_capacity"
  using assms by (auto simp: broker_ok_def)

lemma broker_ok_own:
  "broker_ok b \<Longrightarrow> b_streams b i = Some s \<Longrightarrow> b_streams b j = Some t \<Longrightarrow> st_to_browser s = st_to_browser t \<Longrightarrow> i = j"
  by (metis broker_ok_def)

lemma broker_ok_bound: "broker_ok b \<Longrightarrow> c \<in> set (b_chans b) \<Longrightarrow> length (ch_queue c) \<le> chan_capacity"
  by (simp add: broker_ok_def)

lemma broker_okI:
  assumes "\<And>i s. b_streams b i = Some s \<Longrightarrow>
      st_id s = i \<and> st_to_browser s < length (b_chans b) \<and> \<not> ch_closed (b_chans b ! st_to_browser s)"
    and "\<And>i j s t. b_streams b i = Some s \<Longrightarrow> b_streams b j = Some t \<Longrightarrow> st_to_browser s = st_to_browser t \<Longrightarrow> i = j"
    and "\<And>c. c \<in> set (b_chans b) \<Longrightarrow> length (ch_queue c) \<le> chan_capacity"
  shows "broker_ok b"
  using assms unfolding broker_ok_def by blast

lemma nth_update: "xs[a := x] ! j = (if j = a \<and> a < length xs then x else xs ! j)"
  by (cases "a < length xs") (simp_all add: nth_list_update list_update_beyond)

lemma NewBroker_ok: "broker_ok NewBroker"
  by (simp add: broker_ok_def NewBroker_def)

lemma Register_ok:
  assumes ok: "broker_ok b"
  shows "broker_ok (snd (Register i d k b))"
proof (rule broker_okI)
  fix j s assume "b_streams (snd (Register i d k b)) j = Some s"
  then show "st_id s = j \<and> st_to_browser s < length (b_chans (snd (Register i d k b))) \<and>
    \<not> ch_closed (b_chans (snd (Register i d k b)) ! st_to_browser s)"
    using broker_okD [OF ok, of j s] by (auto simp: Register_def Let_def nth_append split: if_splits)
next
  fix j l s t assume "b_streams (snd (Register i d k b)) j = Some s" "b_streams (snd (Register i d k b)) l = Some t"
    "st_to_browser s = st_to_browser t"
  then show "j = l"
    using broker_okD(2) [OF ok, of j s] broker_okD(2) [OF ok, of l t] broker_ok_own [OF ok, of j s l t]
    by (auto simp: Register_def Let_def split: if_splits)
qed (use broker_ok_bound [OF ok] in \<open>auto simp: Register_def Let_def chan_capacity_def\<close>)

lemma queue_update_ok:
  assumes ok: "broker_ok b" and q: "length q \<le> chan_capacity"
  shows "broker_ok (b\<lparr>b_chans := (b_chans b)[a := (b_chans b ! a)\<lparr>ch_queue := q\<rparr>]\<rparr>)"
proof (rule broker_okI)
  fix c assume "c \<in> set (b_chans (b\<lparr>b_chans := (b_chans b)[a := (b_chans b ! a)\<lparr>ch_queue := q\<rparr>]\<rparr>))"
  then have "c = (b_chans b ! a)\<lparr>ch_queue := q\<rparr> \<or> c \<in> set (b_chans b)"
    using set_update_subset_insert by fastforce
  then show "length (ch_queue c) \<le> chan_capacity" using q broker_ok_bound [OF ok] by auto
qed (use broker_okD [OF ok] broker_ok_own [OF ok] in \<open>auto simp: nth_update\<close>)

lemma Unregister_ok:
  assumes "broker_ok b"
  shows "\<exists>b'. Unregister i b = Inr b' \<and> broker_ok b' \<and> GetStream i b' = None"
proof (cases "b_streams b i")
  case (Some s)
  let ?cs = "(b_chans b)[st_to_browser s := (b_chans b ! st_to_browser s)\<lparr>ch_closed := True\<rparr>]"
  have u: "Unregister i b = Inr (b\<lparr>b_streams := (b_streams b)(i := None), b_chans := ?cs\<rparr>)"
    using broker_okD [OF assms Some] by (simp add: Unregister_def Some chan_close_def)
  have "broker_ok (b\<lparr>b_streams := (b_streams b)(i := None), b_chans := ?cs\<rparr>)"
  proof (rule broker_okI)
    fix j t assume "b_streams (b\<lparr>b_streams := (b_streams b)(i := None), b_chans := ?cs\<rparr>) j = Some t"
    then have t: "b_streams b j = Some t" "j \<noteq> i" by (auto split: if_splits)
    then have "st_to_browser t \<noteq> st_to_browser s" using broker_ok_own [OF assms t(1) Some] by blast
    then show "st_id t = j \<and> st_to_browser t < length (b_chans (b\<lparr>b_streams := (b_streams b)(i := None), b_chans := ?cs\<rparr>)) \<and>
        \<not> ch_closed (b_chans (b\<lparr>b_streams := (b_streams b)(i := None), b_chans := ?cs\<rparr>) ! st_to_browser t)"
      using broker_okD [OF assms t(1)] by simp
  next
    fix c assume "c \<in> set (b_chans (b\<lparr>b_streams := (b_streams b)(i := None), b_chans := ?cs\<rparr>))"
    then have "c = (b_chans b ! st_to_browser s)\<lparr>ch_closed := True\<rparr> \<or> c \<in> set (b_chans b)"
      using set_update_subset_insert by fastforce
    then show "length (ch_queue c) \<le> chan_capacity"
      using broker_okD(4) [OF assms Some] broker_ok_bound [OF assms] by auto
  qed (use broker_ok_own [OF assms] in \<open>auto split: if_splits\<close>)
  with u show ?thesis by (simp add: GetStream_def)
qed (use assms in \<open>simp add: Unregister_def GetStream_def\<close>)

lemma handleInbound_ok:
  assumes "broker_ok b"
  shows "\<exists>b'. handleInbound d k i p b = Inr b' \<and> broker_ok b' \<and> b_streams b' = b_streams b"
proof (cases "inbound_lookup d k i b")
  case (Some s)
  then have "b_streams b i = Some s" by (auto simp: inbound_lookup_def split: option.splits if_splits)
  note s = broker_okD [OF assms this]
  show ?thesis
    using s assms queue_update_ok [OF assms, of "ch_queue (b_chans b ! st_to_browser s) @ [p]" "st_to_browser s"]
    by (auto simp: handleInbound_def inbound_send_def Some chan_try_send_def)
qed (use assms in \<open>simp add: handleInbound_def inbound_send_def\<close>)

lemma FromAgent_ok:
  assumes "broker_ok b" "b_streams b i = Some s"
  shows "broker_ok (snd (FromAgent s b))"
  using assms broker_okD(4) [OF assms] queue_update_ok [OF assms(1), of "tl (ch_queue (b_chans b ! st_to_browser s))" "st_to_browser s"]
  by (auto simp: FromAgent_def chan_recv_def split: list.splits)

section \<open>Delivery\<close>

datatype relay_event =
    RInbound uuid byte uuid bytes
  | RRead uuid
  | RRegister uuid uuid byte
  | RUnregister uuid

fun relay_step :: "relay_event \<Rightarrow> broker \<Rightarrow> broker" where
  "relay_step (RInbound d k i p) b = (case handleInbound d k i p b of Inl _ \<Rightarrow> b | Inr b' \<Rightarrow> b')"
| "relay_step (RRead i) b = (case GetStream i b of None \<Rightarrow> b | Some s \<Rightarrow> snd (FromAgent s b))"
| "relay_step (RRegister i d k) b = snd (Register i d k b)"
| "relay_step (RUnregister i) b = (case Unregister i b of Inl _ \<Rightarrow> b | Inr b' \<Rightarrow> b')"

lemma relay_step_inbound:
  assumes "broker_ok b"
  shows "inbound_lookup d k i b = None \<Longrightarrow> relay_step (RInbound d k i p) b = b"
    and "inbound_lookup d k i b = Some s \<Longrightarrow> relay_step (RInbound d k i p) b =
      (if length (ch_queue (b_chans b ! st_to_browser s)) < chan_capacity
       then b\<lparr>b_chans := (b_chans b)[st_to_browser s := (b_chans b ! st_to_browser s)
              \<lparr>ch_queue := ch_queue (b_chans b ! st_to_browser s) @ [p]\<rparr>]\<rparr> else b)"
proof -
  assume l: "inbound_lookup d k i b = Some s"
  then have "b_streams b i = Some s" by (auto simp: inbound_lookup_def split: option.splits if_splits)
  then have "\<not> ch_closed (b_chans b ! st_to_browser s)" by (rule broker_okD(3) [OF assms])
  then show "relay_step (RInbound d k i p) b =
      (if length (ch_queue (b_chans b ! st_to_browser s)) < chan_capacity
       then b\<lparr>b_chans := (b_chans b)[st_to_browser s := (b_chans b ! st_to_browser s)
              \<lparr>ch_queue := ch_queue (b_chans b ! st_to_browser s) @ [p]\<rparr>]\<rparr> else b)"
    by (simp add: handleInbound_def inbound_send_def l chan_try_send_def)
qed (simp add: handleInbound_def inbound_send_def)

interpretation relay: invariant relay_step broker_ok
proof
  fix b e assume ok: "broker_ok b"
  show "broker_ok (relay_step e b)"
  proof (cases e)
    case (RInbound d k i p)
    then show ?thesis using handleInbound_ok [OF ok, of d k i p] by auto
  next
    case (RRead i)
    then show ?thesis using FromAgent_ok [OF ok, of i] ok by (auto simp: GetStream_def split: option.split)
  next
    case (RUnregister i)
    then show ?thesis using Unregister_ok [OF ok, of i] by auto
  qed (simp add: Register_ok [OF ok])
qed

text \<open>What the browser of stream \<open>i\<close> has read in a run, what waits in its channel,
  and what its device sent for it.\<close>

definition waiting :: "uuid \<Rightarrow> broker \<Rightarrow> bytes list" where
  "waiting i b = (case b_streams b i of None \<Rightarrow> [] | Some s \<Rightarrow> ch_queue (b_chans b ! st_to_browser s))"

fun read_by :: "uuid \<Rightarrow> relay_event list \<Rightarrow> broker \<Rightarrow> bytes list" where
  "read_by i [] b = []"
| "read_by i (e # es) b = (if e = RRead i then take 1 (waiting i b) else []) @ read_by i es (relay_step e b)"

fun sent_to :: "uuid \<Rightarrow> byte \<Rightarrow> uuid \<Rightarrow> relay_event list \<Rightarrow> bytes list" where
  "sent_to d k i [] = []"
| "sent_to d k i (RInbound d' k' i' p # es) = (if (d', k', i') = (d, k, i) then p # sent_to d k i es else sent_to d k i es)"
| "sent_to d k i (_ # es) = sent_to d k i es"

definition keeps_stream :: "uuid \<Rightarrow> relay_event list \<Rightarrow> bool" where
  "keeps_stream i es \<longleftrightarrow> (\<forall>e \<in> set es. (\<forall>d k. e \<noteq> RRegister i d k) \<and> e \<noteq> RUnregister i)"

text \<open>One event, seen from stream \<open>i\<close>.\<close>

lemma relay_step_stream:
  assumes ok: "broker_ok b" and s: "b_streams b i = Some s" and keep: "keeps_stream i [e]"
  shows "b_streams (relay_step e b) i = Some s"
    and "waiting i (relay_step e b) =
      (if e = RRead i then drop 1 (waiting i b)
       else if length (waiting i b) < chan_capacity then waiting i b @ sent_to (st_device_id s) (st_kind s) i [e]
       else waiting i b)"
proof -
  note own = broker_ok_own [OF ok s] and d = broker_okD [OF ok s]
  have "b_streams (relay_step e b) i = Some s \<and> waiting i (relay_step e b) =
      (if e = RRead i then drop 1 (waiting i b)
       else if length (waiting i b) < chan_capacity then waiting i b @ sent_to (st_device_id s) (st_kind s) i [e]
       else waiting i b)"
  proof (cases e)
    case (RInbound d' k j p)
    show ?thesis
    proof (cases "inbound_lookup d' k j b")
      case None
      then show ?thesis using s
        by (auto simp: RInbound relay_step_inbound(1) [OF ok None] inbound_lookup_def simp del: relay_step.simps
            split: option.splits if_splits)
    next
      case (Some t)
      then have t: "b_streams b j = Some t" "st_device_id t = d'" "st_kind t = k"
        by (auto simp: inbound_lookup_def split: option.splits if_splits)
      show ?thesis
      proof (cases "j = i")
        case True
        then have "t = s" using t s by simp
        then show ?thesis using t s d
          by (simp only: RInbound relay_step_inbound(2) [OF ok Some]) (simp add: True waiting_def)
      next
        case False
        then have "st_to_browser t \<noteq> st_to_browser s" using own [OF t(1)] by auto
        then show ?thesis using s False
          by (simp add: RInbound relay_step_inbound(2) [OF ok Some] waiting_def del: relay_step.simps)
      qed
    qed
  next
    case (RRead j)
    show ?thesis
    proof (cases "b_streams b j")
      case None
      then show ?thesis using s by (auto simp: RRead GetStream_def waiting_def)
    next
      case (Some t)
      then have "j \<noteq> i \<longrightarrow> st_to_browser t \<noteq> st_to_browser s" using own [OF Some] by auto
      then show ?thesis using s d Some
        by (auto simp: RRead GetStream_def waiting_def FromAgent_def chan_recv_def split: list.splits)
    qed
  next
    case (RRegister j d' k)
    then show ?thesis using s d keep by (auto simp: keeps_stream_def Register_def Let_def waiting_def nth_append)
  next
    case (RUnregister j)
    then have j: "j \<noteq> i" using keep by (auto simp: keeps_stream_def)
    then have "st_to_browser t \<noteq> st_to_browser s" if "b_streams b j = Some t" for t using own [OF that] by auto
    then show ?thesis using s d j broker_okD [OF ok, of j]
      by (auto simp: RUnregister Unregister_def chan_close_def waiting_def split: option.splits)
  qed
  then show "b_streams (relay_step e b) i = Some s" and "waiting i (relay_step e b) =
      (if e = RRead i then drop 1 (waiting i b)
       else if length (waiting i b) < chan_capacity then waiting i b @ sent_to (st_device_id s) (st_kind s) i [e]
       else waiting i b)" by blast+
qed

lemma sent_to_Cons: "sent_to d k i (e # es) = sent_to d k i [e] @ sent_to d k i es"
  by (cases e) auto

lemma read_not_sent: "sent_to d k i [RRead j] = []"
  by simp

lemma delivery:
  assumes "broker_ok b" "b_streams b i = Some s" "keeps_stream i es"
  shows "subseq (read_by i es b @ waiting i (run relay_step es b)) (waiting i b @ sent_to (st_device_id s) (st_kind s) i es)"
  using assms
proof (induction es arbitrary: b)
  case (Cons e es)
  let ?b = "relay_step e b"
  let ?sent = "sent_to (st_device_id s) (st_kind s) i"
  have keep: "keeps_stream i [e]" "keeps_stream i es" using Cons.prems(3) by (auto simp: keeps_stream_def)
  note st = relay_step_stream [OF Cons.prems(1,2) keep(1)]
  have ih: "subseq (read_by i es ?b @ waiting i (run relay_step es ?b)) (waiting i ?b @ ?sent es)"
    using Cons.IH [OF relay.step_keeps [OF Cons.prems(1)] st(1) keep(2)] .
  have "subseq ((if e = RRead i then take 1 (waiting i b) else []) @ waiting i ?b) (waiting i b @ ?sent [e])"
    by (auto simp: st(2) append_take_drop_id)
  then have "subseq ((if e = RRead i then take 1 (waiting i b) else []) @ waiting i ?b @ ?sent es) (waiting i b @ ?sent (e # es))"
    unfolding sent_to_Cons [of _ _ _ e es] append_assoc [symmetric] by (rule list_emb_append_mono) simp
  moreover have "subseq ((if e = RRead i then take 1 (waiting i b) else []) @ read_by i es ?b @ waiting i (run relay_step es ?b))
      ((if e = RRead i then take 1 (waiting i b) else []) @ waiting i ?b @ ?sent es)"
    by (rule list_emb_append_mono [OF _ ih]) simp
  ultimately show ?case by (auto simp del: read_by.simps simp: read_by.simps(2) intro: subseq_order.trans)
qed simp

text \<open>With room for everything, nothing is dropped.\<close>

lemma delivery_complete:
  assumes "broker_ok b" "b_streams b i = Some s" "keeps_stream i es"
    and "length (waiting i b) + length (sent_to (st_device_id s) (st_kind s) i es) \<le> chan_capacity"
  shows "read_by i es b @ waiting i (run relay_step es b) = waiting i b @ sent_to (st_device_id s) (st_kind s) i es"
  using assms
proof (induction es arbitrary: b)
  case (Cons e es)
  let ?b = "relay_step e b"
  let ?sent = "sent_to (st_device_id s) (st_kind s) i"
  have keep: "keeps_stream i [e]" "keeps_stream i es" using Cons.prems(3) by (auto simp: keeps_stream_def)
  note st = relay_step_stream [OF Cons.prems(1,2) keep(1)]
  have one: "(if e = RRead i then take 1 (waiting i b) else []) @ waiting i ?b = waiting i b @ ?sent [e]"
  proof (cases "length (waiting i b) < chan_capacity")
    case False
    then have "length (?sent [e]) = 0" using Cons.prems(4) unfolding sent_to_Cons [of _ _ _ e es] length_append by linarith
    then have "?sent [e] = []" by (simp only: length_0_conv)
    then show ?thesis by (auto simp: st(2) append_take_drop_id)
  qed (auto simp: st(2) append_take_drop_id)
  then have "length (waiting i ?b) + length (?sent es) \<le> chan_capacity"
    using Cons.prems(4) arg_cong [OF one, of length] unfolding sent_to_Cons [of _ _ _ e es] length_append by linarith
  from Cons.IH [OF relay.step_keeps [OF Cons.prems(1)] st(1) keep(2) this] one show ?case
    unfolding sent_to_Cons [of _ _ _ e es] by (simp del: relay_step.simps)
qed simp

section \<open>Properties\<close>


text \<open>Two devices, one stream: the frame of the other device and the one of the other
  kind do not arrive.\<close>

definition demo_traffic :: "relay_event list" where
  "demo_traffic = [RInbound 1 1 7 [65], RInbound 2 1 7 [66], RRead 7, RInbound 1 2 7 [67], RInbound 1 1 7 [68], RRead 7]"

lemma demo_traffic_keeps: "keeps_stream 7 demo_traffic"
  by (simp add: keeps_stream_def demo_traffic_def)

lemma demo_traffic_sent: "sent_to 1 1 7 demo_traffic = [[65], [68]]"
  by (simp add: demo_traffic_def)


text \<open>The lookup and the send of \<open>handleInbound\<close> are not one atomic action. When
  the stream is unregistered between them, the send hits a closed channel and panics, for
  every stream that is registered and every payload.\<close>

theorem inbound_races_with_unregister:
  assumes "broker_ok b" "inbound_lookup d k i b = Some s"
  shows "\<exists>b'. Unregister i b = Inr b' \<and> inbound_send (inbound_lookup d k i b) p b' = Inl SendOnClosedChannel"
proof -
  have s: "b_streams b i = Some s" using assms(2) by (auto simp: inbound_lookup_def split: option.splits if_splits)
  show ?thesis
    using broker_okD [OF assms(1) s]
    by (simp add: Unregister_def s chan_close_def inbound_send_def assms(2) chan_try_send_def)
qed

lemma demo_registered:
  "broker_ok (snd (Register 7 1 1 NewBroker))"
  "inbound_lookup 1 1 7 (snd (Register 7 1 1 NewBroker)) = Some (fst (Register 7 1 1 NewBroker))"
  by (rule Register_ok [OF NewBroker_ok]) (simp add: inbound_lookup_def Register_def Let_def)

theorem inbound_races_with_unregister_witness:
  "\<exists>b'. Unregister 7 (snd (Register 7 1 1 NewBroker)) = Inr b' \<and>
     inbound_send (inbound_lookup 1 1 7 (snd (Register 7 1 1 NewBroker))) [65] b' = Inl SendOnClosedChannel"
  by (rule inbound_races_with_unregister [OF demo_registered])

end
