(* ===== verification/Audit_Log.thy ===== *)
theory Audit_Log
  imports Prelude
begin

text \<open>
  The append-only audit log of \<open>internal/audit/audit.go\<close>: recording an
  event (\<open>Record\<close>), the hash chain (\<open>computeEntryHash\<close>,
  \<open>VerifyChain\<close>) and the filtered listing (\<open>List\<close>).

  SHA-256, \<open>encoding/json\<close>, the RFC 3339 formatting of an instant, the
  UUID text form and PostgreSQL's \<open>inet\<close> and \<open>jsonb\<close> columns are the
  fields of the environment \<open>audit_env\<close>; the theorems hold for every
  choice of them, under the laws their statements name. A NULL and an empty
  \<open>bytea\<close> are both the empty list, as in the Go code, which only looks at
  the length.
\<close>

section \<open>Data\<close>

datatype actor_type = ActorUser | ActorAgent | ActorSystem

fun actor_type_string :: "actor_type \<Rightarrow> string" where
  "actor_type_string ActorUser = ''user''"
| "actor_type_string ActorAgent = ''agent''"
| "actor_type_string ActorSystem = ''system''"

datatype audit_result = ResultSuccess | ResultFailure | ResultDenied

fun audit_result_string :: "audit_result \<Rightarrow> string" where
  "audit_result_string ResultSuccess = ''success''"
| "audit_result_string ResultFailure = ''failure''"
| "audit_result_string ResultDenied = ''denied''"

text \<open>An event handed to \<open>Record\<close>; the metadata map is of type \<open>'m\<close>,
  \<open>None\<close> being Go's nil map.\<close>

record 'm event =
  ev_actor_type :: actor_type
  ev_actor_id :: "uuid option"
  ev_session_id :: "uuid option"
  ev_device_id :: "uuid option"
  ev_customer_id :: "uuid option"
  ev_event_type :: string
  ev_result :: audit_result
  ev_source_ip :: string
  ev_request_id :: "uuid option"
  ev_metadata :: "'m option"

text \<open>A row of \<open>audit_log\<close>.\<close>

record audit_row =
  a_id :: int
  a_occurred_at :: time
  a_actor_type :: string
  a_actor_id :: "uuid option"
  a_session_id :: "uuid option"
  a_device_id :: "uuid option"
  a_customer_id :: "uuid option"
  a_event_type :: string
  a_result :: string
  a_source_ip :: "string option"
  a_request_id :: "uuid option"
  a_metadata :: bytes
  a_prev_hash :: bytes
  a_entry_hash :: bytes

record audit_log =
  log_rows :: "audit_row list"
  log_next_id :: int

record 'm audit_env = lib_env +
  rfc3339nano :: "time \<Rightarrow> string"
  json_marshal :: "'m option \<Rightarrow> bytes option"
  json_unmarshal :: "bytes \<Rightarrow> 'm option option"
  jsonb_text :: "bytes \<Rightarrow> bytes"
  inet_host :: "string \<Rightarrow> string option"
  empty_map :: 'm

datatype audit_error = MarshalMetadata | InsertFailed | UnmarshalStored int

record chainable_fields =
  f_occurred_at :: time
  f_actor_type :: string
  f_actor_id :: "uuid option"
  f_session_id :: "uuid option"
  f_device_id :: "uuid option"
  f_customer_id :: "uuid option"
  f_event_type :: string
  f_result :: string
  f_source_ip :: string
  f_request_id :: "uuid option"
  f_metadata_json :: bytes

record chain_verification =
  cv_valid :: bool
  cv_entries_check :: int
  cv_entries_pre_chain :: int
  cv_broken_at_id :: "int option"

section \<open>Operations\<close>

fun writeUUIDPtr :: "'m audit_env \<Rightarrow> uuid option \<Rightarrow> bytes" where
  "writeUUIDPtr env None = []"
| "writeUUIDPtr env (Some u) = bytes_of (uuid_string env u)"

text \<open>The bytes written to the hash after \<open>prevHash\<close>.\<close>

definition chain_payload :: "'m audit_env \<Rightarrow> chainable_fields \<Rightarrow> bytes" where
  "chain_payload env f =
     bytes_of (rfc3339nano env (f_occurred_at f)) @ bytes_of (f_actor_type f) @
     writeUUIDPtr env (f_actor_id f) @ writeUUIDPtr env (f_session_id f) @
     writeUUIDPtr env (f_device_id f) @ writeUUIDPtr env (f_customer_id f) @
     bytes_of (f_event_type f) @ bytes_of (f_result f) @ bytes_of (f_source_ip f) @
     writeUUIDPtr env (f_request_id f) @ f_metadata_json f"

definition computeEntryHash :: "'m audit_env \<Rightarrow> bytes \<Rightarrow> chainable_fields \<Rightarrow> bytes" where
  "computeEntryHash env prevHash f = sha256 env (prevHash @ chain_payload env f)"

fun bytesEqual :: "bytes \<Rightarrow> bytes \<Rightarrow> bool" where
  "bytesEqual [] [] \<longleftrightarrow> True"
| "bytesEqual (a # as) (b # bs) \<longleftrightarrow> a = b \<and> bytesEqual as bs"
| "bytesEqual _ _ \<longleftrightarrow> False"

definition truncate_micro :: "time \<Rightarrow> time" where
  "truncate_micro t = t - t mod 1000"

text \<open>The last stored hash, \<open>SELECT entry_hash ... ORDER BY id DESC LIMIT 1\<close>.\<close>

definition last_entry_hash :: "audit_row list \<Rightarrow> bytes" where
  "last_entry_hash rows = (if rows = [] then [] else a_entry_hash (last rows))"

definition event_fields :: "time \<Rightarrow> 'm event \<Rightarrow> bytes \<Rightarrow> chainable_fields" where
  "event_fields occurredAt ev metaJSON =
     \<lparr>f_occurred_at = occurredAt, f_actor_type = actor_type_string (ev_actor_type ev),
      f_actor_id = ev_actor_id ev, f_session_id = ev_session_id ev,
      f_device_id = ev_device_id ev, f_customer_id = ev_customer_id ev,
      f_event_type = ev_event_type ev, f_result = audit_result_string (ev_result ev),
      f_source_ip = ev_source_ip ev, f_request_id = ev_request_id ev,
      f_metadata_json = metaJSON\<rparr>"

text \<open>The row \<open>Record\<close> inserts, given the source address as the
  \<open>inet\<close> column stores it.\<close>

definition insert_row :: "'m audit_env \<Rightarrow> time \<Rightarrow> 'm event \<Rightarrow> audit_log \<Rightarrow> bytes \<Rightarrow> string option \<Rightarrow> audit_row" where
  "insert_row env now ev l metaJSON sourceIP =
     (let prevHash = last_entry_hash (log_rows l);
          occurredAt = truncate_micro now
      in \<lparr>a_id = log_next_id l, a_occurred_at = occurredAt,
          a_actor_type = actor_type_string (ev_actor_type ev),
          a_actor_id = ev_actor_id ev, a_session_id = ev_session_id ev,
          a_device_id = ev_device_id ev, a_customer_id = ev_customer_id ev,
          a_event_type = ev_event_type ev, a_result = audit_result_string (ev_result ev),
          a_source_ip = sourceIP, a_request_id = ev_request_id ev,
          a_metadata = jsonb_text env metaJSON, a_prev_hash = prevHash,
          a_entry_hash = computeEntryHash env prevHash (event_fields occurredAt ev metaJSON)\<rparr>)"

text \<open>\<open>Record\<close>. The advisory lock makes the read of the previous hash and
  the insert one atomic step. An \<open>inet\<close> column refuses text it cannot
  parse, and reads back in PostgreSQL's own spelling.\<close>

definition Record :: "'m audit_env \<Rightarrow> time \<Rightarrow> 'm event \<Rightarrow> audit_log \<Rightarrow> audit_error + audit_log" where
  "Record env now ev l =
     (let meta = (case ev_metadata ev of None \<Rightarrow> Some (empty_map env) | Some m \<Rightarrow> Some m) in
      case json_marshal env meta of
        None \<Rightarrow> Inl MarshalMetadata
      | Some metaJSON \<Rightarrow>
          let commit = (\<lambda>ip. Inr (l\<lparr>log_rows := log_rows l @ [insert_row env now ev l metaJSON ip],
                                    log_next_id := log_next_id l + 1\<rparr>))
          in if ev_source_ip ev = [] then commit None
             else (case inet_host env (ev_source_ip ev) of
                     None \<Rightarrow> Inl InsertFailed
                   | Some host \<Rightarrow> commit (Some host)))"

text \<open>The fields \<open>VerifyChain\<close> recomputes a stored row's hash from, with
  the metadata decoded and encoded again.\<close>

definition row_meta_json :: "'m audit_env \<Rightarrow> audit_row \<Rightarrow> audit_error + bytes" where
  "row_meta_json env r =
     (case (if a_metadata r = [] then Some None else json_unmarshal env (a_metadata r)) of
        None \<Rightarrow> Inl (UnmarshalStored (a_id r))
      | Some m \<Rightarrow> (case json_marshal env m of None \<Rightarrow> Inl MarshalMetadata | Some b \<Rightarrow> Inr b))"

definition row_fields :: "audit_row \<Rightarrow> bytes \<Rightarrow> chainable_fields" where
  "row_fields r metaJSON =
     \<lparr>f_occurred_at = a_occurred_at r, f_actor_type = a_actor_type r,
      f_actor_id = a_actor_id r, f_session_id = a_session_id r,
      f_device_id = a_device_id r, f_customer_id = a_customer_id r,
      f_event_type = a_event_type r, f_result = a_result r,
      f_source_ip = (case a_source_ip r of None \<Rightarrow> '''' | Some s \<Rightarrow> s),
      f_request_id = a_request_id r, f_metadata_json = metaJSON\<rparr>"

text \<open>The loop of \<open>VerifyChain\<close> over the rows in id order.\<close>

fun verify_loop ::
  "'m audit_env \<Rightarrow> bytes \<Rightarrow> int \<Rightarrow> int \<Rightarrow> bool \<Rightarrow> audit_row list \<Rightarrow> audit_error + chain_verification" where
  "verify_loop env expectedPrev count preChain chainStarted [] =
     Inr \<lparr>cv_valid = True, cv_entries_check = count, cv_entries_pre_chain = preChain,
          cv_broken_at_id = None\<rparr>"
| "verify_loop env expectedPrev count preChain chainStarted (r # rows) =
     (if \<not> chainStarted \<and> length (a_entry_hash r) = 0
      then verify_loop env expectedPrev count (preChain + 1) chainStarted rows
      else (case row_meta_json env r of
              Inl e \<Rightarrow> Inl e
            | Inr metaJSON \<Rightarrow>
                let recomputed = computeEntryHash env expectedPrev (row_fields r metaJSON) in
                if \<not> bytesEqual (a_prev_hash r) expectedPrev \<or> \<not> bytesEqual (a_entry_hash r) recomputed
                then Inr \<lparr>cv_valid = False, cv_entries_check = count + 1,
                          cv_entries_pre_chain = preChain, cv_broken_at_id = Some (a_id r)\<rparr>
                else verify_loop env (a_entry_hash r) (count + 1) preChain True rows))"

definition VerifyChain :: "'m audit_env \<Rightarrow> audit_log \<Rightarrow> audit_error + chain_verification" where
  "VerifyChain env l = verify_loop env [] 0 0 False (log_rows l)"

text \<open>Listing. A zero \<open>time.Time\<close> in the filter is \<open>None\<close>.\<close>

record audit_filter =
  flt_actor_id :: "uuid option"
  flt_device_id :: "uuid option"
  flt_event_type :: string
  flt_from :: "time option"
  flt_to :: "time option"
  flt_limit :: int

definition list_limit :: "int \<Rightarrow> int" where
  "list_limit n = (if n \<le> 0 \<or> n > 1000 then 200 else n)"

definition filter_to :: "time \<Rightarrow> audit_filter \<Rightarrow> time" where
  "filter_to now f = (case flt_to f of None \<Rightarrow> now | Some t \<Rightarrow> t)"

definition filter_from :: "time \<Rightarrow> audit_filter \<Rightarrow> time" where
  "filter_from now f = (case flt_from f of None \<Rightarrow> filter_to now f - 30 * day | Some t \<Rightarrow> t)"

definition filter_matches :: "time \<Rightarrow> audit_filter \<Rightarrow> audit_row \<Rightarrow> bool" where
  "filter_matches now f r \<longleftrightarrow>
     filter_from now f \<le> a_occurred_at r \<and> a_occurred_at r \<le> filter_to now f \<and>
     (flt_actor_id f \<noteq> None \<longrightarrow> a_actor_id r = flt_actor_id f) \<and>
     (flt_device_id f \<noteq> None \<longrightarrow> a_device_id r = flt_device_id f) \<and>
     (flt_event_type f \<noteq> '''' \<longrightarrow> a_event_type r = flt_event_type f)"

definition ListAudit :: "time \<Rightarrow> audit_filter \<Rightarrow> audit_log \<Rightarrow> audit_row list" where
  "ListAudit now f l =
     take (nat (list_limit (flt_limit f)))
       (sort_key (\<lambda>r. - a_occurred_at r) (filter (filter_matches now f) (log_rows l)))"

section \<open>The chain as a relation between neighbouring rows\<close>

lemma bytesEqual_iff [simp]: "bytesEqual a b \<longleftrightarrow> a = b"
  by (induction a b rule: bytesEqual.induct) auto

text \<open>The bytes a stored row contributes to its hash, if its metadata decodes.\<close>

definition row_payload :: "'m audit_env \<Rightarrow> audit_row \<Rightarrow> bytes option" where
  "row_payload env r =
     (case row_meta_json env r of Inl _ \<Rightarrow> None | Inr j \<Rightarrow> Some (chain_payload env (row_fields r j)))"

text \<open>\<open>row_links env p r\<close>: row \<open>r\<close> passes the two comparisons of
  \<open>VerifyChain\<close> when \<open>p\<close> is the expected previous hash.\<close>

definition row_links :: "'m audit_env \<Rightarrow> bytes \<Rightarrow> audit_row \<Rightarrow> bool" where
  "row_links env p r \<longleftrightarrow>
     (case row_meta_json env r of Inl _ \<Rightarrow> False
      | Inr j \<Rightarrow> a_prev_hash r = p \<and> a_entry_hash r = computeEntryHash env p (row_fields r j))"

text \<open>What a hash chain over rows of any kind gives, from the one law that a row
  is linked exactly when it stores its predecessor's hash and the hash of that
  and its own payload.\<close>

fun chain :: "(bytes \<Rightarrow> 'r \<Rightarrow> bool) \<Rightarrow> ('r \<Rightarrow> bytes) \<Rightarrow> bytes \<Rightarrow> 'r list \<Rightarrow> bool" where
  "chain links stored p [] \<longleftrightarrow> True"
| "chain links stored p (r # rs) \<longleftrightarrow> links p r \<and> chain links stored (stored r) rs"

definition chain_end :: "('r \<Rightarrow> bytes) \<Rightarrow> bytes \<Rightarrow> 'r list \<Rightarrow> bytes" where
  "chain_end stored p rs = (if rs = [] then p else stored (last rs))"

lemma chain_append:
  "chain links stored p (rs @ ss) \<longleftrightarrow>
     chain links stored p rs \<and> chain links stored (chain_end stored p rs) ss"
  by (induction rs arbitrary: p) (auto simp: chain_end_def)

text \<open>The strings hashed along a list of rows.\<close>

definition hash_inputs :: "('r \<Rightarrow> bytes option) \<Rightarrow> ('r \<Rightarrow> bytes) \<Rightarrow> 'r list \<Rightarrow> bytes set" where
  "hash_inputs payload prev rs = set (map (\<lambda>r. prev r @ the (payload r)) rs)"

locale hash_chain =
  fixes hash :: "bytes \<Rightarrow> bytes" and payload :: "'r \<Rightarrow> bytes option"
    and prev :: "'r \<Rightarrow> bytes" and stored :: "'r \<Rightarrow> bytes" and links :: "bytes \<Rightarrow> 'r \<Rightarrow> bool"
  assumes links_iff:
    "links p r \<longleftrightarrow> (\<exists>b. payload r = Some b \<and> prev r = p \<and> stored r = hash (p @ b))"
begin

lemma chain_end_length:
  assumes "length rs = length ss" "chain links stored p rs" "chain links stored p ss"
    and "\<And>x. length (hash x) = n"
  shows "length (chain_end stored p rs) = length (chain_end stored p ss)"
proof (cases "rs = []")
  case True
  then show ?thesis using assms(1) by (simp add: chain_end_def)
next
  case False
  then obtain xs x ys y where "rs = xs @ [x]" "ss = ys @ [y]"
    using assms(1) by (metis append_butlast_last_id length_0_conv)
  then show ?thesis
    using assms by (auto simp: chain_append chain_end_def links_iff)
qed

theorem same_end_same_chain:
  assumes "length rs = length ss"
    and "chain links stored p rs" "chain links stored p ss"
    and "chain_end stored p rs = chain_end stored p ss"
    and "inj_on hash (hash_inputs payload prev rs \<union> hash_inputs payload prev ss)"
    and "\<And>x. length (hash x) = n"
  shows "map payload rs = map payload ss \<and> map stored rs = map stored ss"
  using assms
proof (induction rs arbitrary: ss rule: rev_induct)
  case Nil
  then show ?case by simp
next
  case (snoc r rs)
  from snoc.prems(1) obtain ts t where ss: "ss = ts @ [t]"
    by (cases ss rule: rev_cases) auto
  let ?q = "chain_end stored p rs" and ?q' = "chain_end stored p ts"
  have chains: "chain links stored p rs" "chain links stored p ts" "links ?q r" "links ?q' t"
    using snoc.prems(2,3) by (auto simp: ss chain_append)
  obtain b b' where r: "payload r = Some b" "prev r = ?q" "stored r = hash (?q @ b)"
    and t: "payload t = Some b'" "prev t = ?q'" "stored t = hash (?q' @ b')"
    using chains(3,4) by (auto simp: links_iff)
  have last: "hash (?q @ b) = hash (?q' @ b')"
    using snoc.prems(4) r(3) t(3) by (simp add: chain_end_def ss)
  have in1: "?q @ b \<in> hash_inputs payload prev (rs @ [r]) \<union> hash_inputs payload prev ss"
    unfolding hash_inputs_def using r(1,2) by force
  have in2: "?q' @ b' \<in> hash_inputs payload prev (rs @ [r]) \<union> hash_inputs payload prev ss"
    unfolding hash_inputs_def ss using t(1,2) by force
  have "?q @ b = ?q' @ b'"
    using last inj_onD [OF snoc.prems(5) _ in1 in2] by blast
  moreover have "length ?q = length ?q'"
    using snoc.prems(1) by (intro chain_end_length [OF _ chains(1,2) snoc.prems(6)]) (simp add: ss)
  ultimately have eq: "?q = ?q'" "b = b'" by simp_all
  have "inj_on hash (hash_inputs payload prev rs \<union> hash_inputs payload prev ts)"
    using snoc.prems(5) by (rule inj_on_subset) (auto simp: ss hash_inputs_def)
  then have "map payload rs = map payload ts \<and> map stored rs = map stored ts"
    using snoc.IH [of ts] snoc.prems(1,6) chains(1,2) eq(1) by (simp add: ss)
  then show ?case using eq r t by (simp add: ss)
qed

end

interpretation audit_chain:
  hash_chain "sha256 env" "row_payload env" a_prev_hash a_entry_hash "row_links env" for env
  by unfold_locales
     (auto simp: row_links_def row_payload_def computeEntryHash_def split: sum.splits)

abbreviation audit_links :: "'m audit_env \<Rightarrow> bytes \<Rightarrow> audit_row list \<Rightarrow> bool" where
  "audit_links env \<equiv> chain (row_links env) a_entry_hash"

section \<open>What VerifyChain decides\<close>

definition pre_chain :: "audit_row list \<Rightarrow> audit_row list" where
  "pre_chain rows = takeWhile (\<lambda>r. a_entry_hash r = []) rows"

definition chained :: "audit_row list \<Rightarrow> audit_row list" where
  "chained rows = dropWhile (\<lambda>r. a_entry_hash r = []) rows"

definition verified :: "int \<Rightarrow> int \<Rightarrow> chain_verification" where
  "verified count pre = \<lparr>cv_valid = True, cv_entries_check = count, cv_entries_pre_chain = pre,
                         cv_broken_at_id = None\<rparr>"

lemma verify_loop_pre:
  "verify_loop env p c pc False rows =
   verify_loop env p c (pc + int (length (pre_chain rows))) False (chained rows)"
  by (induction rows arbitrary: pc) (auto simp: pre_chain_def chained_def ac_simps)

lemma verify_loop_started:
  "rows = [] \<or> a_entry_hash (hd rows) \<noteq> [] \<Longrightarrow>
   verify_loop env p c pc False rows = verify_loop env p c pc True rows"
  by (cases rows) auto

lemma VerifyChain_loop:
  "VerifyChain env l =
   verify_loop env [] 0 (int (length (pre_chain (log_rows l)))) True (chained (log_rows l))"
proof -
  have "chained rows = [] \<or> a_entry_hash (hd (chained rows)) \<noteq> []" for rows
    unfolding chained_def by (metis (mono_tags, lifting) hd_dropWhile)
  then show ?thesis
    unfolding VerifyChain_def by (subst verify_loop_pre) (simp add: verify_loop_started)
qed

lemma verify_loop_links:
  "audit_links env p rows \<Longrightarrow>
   verify_loop env p c pc True rows = Inr (verified (c + int (length rows)) pc)"
  by (induction rows arbitrary: p c) (auto simp: row_links_def verified_def split: sum.splits)

lemma verify_loop_valid:
  "verify_loop env p c pc True rows = Inr v \<Longrightarrow> cv_valid v \<Longrightarrow> audit_links env p rows"
  by (induction rows arbitrary: p c)
     (auto simp: row_links_def Let_def split: sum.splits if_splits)

lemma verify_loop_broken:
  "verify_loop env p c pc True rows = Inr v \<Longrightarrow> \<not> cv_valid v \<Longrightarrow>
   \<exists>good bad rest. rows = good @ bad # rest \<and> audit_links env p good \<and>
     \<not> row_links env (chain_end a_entry_hash p good) bad \<and> cv_broken_at_id v = Some (a_id bad) \<and>
     cv_entries_check v = c + int (length good) + 1"
proof (induction rows arbitrary: p c)
  case (Cons r rows)
  show ?case
  proof (cases "row_links env p r")
    case True
    then have "verify_loop env (a_entry_hash r) (c + 1) pc True rows = Inr v"
      using Cons.prems(1) by (auto simp: row_links_def split: sum.splits)
    then obtain good bad rest where "rows = good @ bad # rest" "audit_links env (a_entry_hash r) good"
      "\<not> row_links env (chain_end a_entry_hash (a_entry_hash r) good) bad"
      "cv_broken_at_id v = Some (a_id bad)" "cv_entries_check v = c + 1 + int (length good) + 1"
      using Cons.IH Cons.prems(2) by blast
    with True show ?thesis
      by (intro exI [of _ "r # good"] exI [of _ bad] exI [of _ rest]) (auto simp: chain_end_def)
  next
    case False
    then have "cv_broken_at_id v = Some (a_id r) \<and> cv_entries_check v = c + 1"
      using Cons.prems(1) by (auto simp: row_links_def Let_def split: sum.splits if_splits)
    then show ?thesis
      using False by (intro exI [of _ "[]"] exI [of _ r] exI [of _ rows]) (simp add: chain_end_def)
  qed
qed auto

lemma VerifyChain_verified:
  "VerifyChain env l = Inr v \<Longrightarrow> cv_valid v \<Longrightarrow>
   audit_links env [] (chained (log_rows l)) \<and>
   v = verified (int (length (chained (log_rows l)))) (int (length (pre_chain (log_rows l))))"
  unfolding VerifyChain_loop using verify_loop_valid verify_loop_links by fastforce

lemma VerifyChain_links:
  "audit_links env [] (chained (log_rows l)) \<Longrightarrow>
   VerifyChain env l = Inr (verified (int (length (chained (log_rows l))))
                                     (int (length (pre_chain (log_rows l)))))"
  unfolding VerifyChain_loop by (simp add: verify_loop_links)

section \<open>Recording keeps the chain\<close>

text \<open>The callers ignore the error of \<open>Record\<close> and go on.\<close>

definition audit_step :: "'m audit_env \<Rightarrow> time \<times> 'm event \<Rightarrow> audit_log \<Rightarrow> audit_log" where
  "audit_step env e l = (case Record env (fst e) (snd e) l of Inl _ \<Rightarrow> l | Inr l' \<Rightarrow> l')"

definition empty_log :: audit_log where
  "empty_log = \<lparr>log_rows = [], log_next_id = 1\<rparr>"

text \<open>The event survives the trip through the columns: its metadata, decoded and
  encoded again, gives the same JSON text, and \<open>host(source_ip)\<close> prints the
  address as it was written.\<close>

definition stable_event :: "'m audit_env \<Rightarrow> 'm event \<Rightarrow> bool" where
  "stable_event env ev \<longleftrightarrow>
     (case json_marshal env (Some (case ev_metadata ev of None \<Rightarrow> empty_map env | Some m \<Rightarrow> m)) of
        None \<Rightarrow> True
      | Some b \<Rightarrow> jsonb_text env b \<noteq> [] \<and>
          (case json_unmarshal env (jsonb_text env b) of
             None \<Rightarrow> False | Some m \<Rightarrow> json_marshal env m = Some b)) \<and>
     (ev_source_ip ev = [] \<or> inet_host env (ev_source_ip ev) = None \<or>
      inet_host env (ev_source_ip ev) = Some (ev_source_ip ev))"

lemma insert_row_links:
  assumes "json_unmarshal env (jsonb_text env j) = Some m" "json_marshal env m = Some j"
    "jsonb_text env j \<noteq> []" "ev_source_ip ev = (case ip of None \<Rightarrow> [] | Some s \<Rightarrow> s)"
  shows "row_links env (last_entry_hash (log_rows l)) (insert_row env now ev l j ip)"
  using assms
  by (simp add: row_links_def row_meta_json_def row_fields_def event_fields_def insert_row_def Let_def)

lemma Record_row:
  assumes "Record env now ev l = Inr l'" "stable_event env ev"
  obtains r where "log_rows l' = log_rows l @ [r]" "row_links env (last_entry_hash (log_rows l)) r"
    "a_entry_hash r \<in> range (sha256 env)"
proof -
  let ?meta = "Some (case ev_metadata ev of None \<Rightarrow> empty_map env | Some m \<Rightarrow> m)"
  have meta: "(case ev_metadata ev of None \<Rightarrow> Some (empty_map env) | Some m \<Rightarrow> Some m) = ?meta"
    by (simp split: option.splits)
  obtain j where j: "json_marshal env ?meta = Some j"
    using assms(1) by (auto simp: Record_def meta split: option.splits)
  obtain m where m: "json_unmarshal env (jsonb_text env j) = Some m" "json_marshal env m = Some j"
    "jsonb_text env j \<noteq> []"
    using assms(2) j by (auto simp: stable_event_def split: option.splits)
  define ip where "ip = (if ev_source_ip ev = [] then None else Some (ev_source_ip ev))"
  have "log_rows l' = log_rows l @ [insert_row env now ev l j ip]"
    "ev_source_ip ev = (case ip of None \<Rightarrow> [] | Some s \<Rightarrow> s)"
    using assms by (auto simp: Record_def meta j ip_def Let_def stable_event_def split: if_splits option.splits)
  with that [of "insert_row env now ev l j ip"] insert_row_links [OF m] show thesis
    by (simp add: insert_row_def Let_def computeEntryHash_def)
qed

lemma last_entry_hash_chain:
  "last_entry_hash rows = chain_end a_entry_hash [] (chained rows)"
proof (cases "chained rows = []")
  case True
  then have "\<forall>r \<in> set rows. a_entry_hash r = []" by (simp add: chained_def dropWhile_eq_Nil_conv)
  then show ?thesis using True by (simp add: last_entry_hash_def chain_end_def)
next
  case False
  moreover have "rows = pre_chain rows @ chained rows" by (simp add: pre_chain_def chained_def)
  ultimately have "last rows = last (chained rows)" by (metis last_append)
  with False show ?thesis by (auto simp: last_entry_hash_def chain_end_def chained_def)
qed

lemma chained_snoc:
  "a_entry_hash r \<noteq> [] \<Longrightarrow>
   chained (rows @ [r]) = chained rows @ [r] \<and> pre_chain (rows @ [r]) = pre_chain rows"
  by (induction rows) (auto simp: chained_def pre_chain_def)

text \<open>The log is well formed when its chained part is linked and it counts its
  rows; this is what every \<open>Record\<close> keeps.\<close>

definition log_ok :: "'m audit_env \<Rightarrow> nat \<Rightarrow> audit_log \<Rightarrow> bool" where
  "log_ok env pre l \<longleftrightarrow>
     audit_links env [] (chained (log_rows l)) \<and> length (pre_chain (log_rows l)) = pre"

lemma Record_log_ok:
  assumes "log_ok env pre l" "stable_event env (snd e)" "\<And>x. sha256 env x \<noteq> []"
  shows "log_ok env pre (audit_step env e l)"
proof (cases "Record env (fst e) (snd e) l")
  case (Inr l')
  then obtain r where r: "log_rows l' = log_rows l @ [r]"
    "row_links env (last_entry_hash (log_rows l)) r" "a_entry_hash r \<in> range (sha256 env)"
    using assms(2) by (elim Record_row)
  then have "a_entry_hash r \<noteq> []" using assms(3) by (metis rangeE)
  with r Inr assms(1) show ?thesis
    by (simp add: audit_step_def log_ok_def chained_snoc chain_append last_entry_hash_chain)
qed (use assms(1) in \<open>simp add: audit_step_def\<close>)

lemma run_log_ok:
  assumes "log_ok env pre l" "\<And>x. sha256 env x \<noteq> []" "list_all (\<lambda>e. stable_event env (snd e)) es"
  shows "log_ok env pre (run (audit_step env) es l)"
  using assms by (induction es arbitrary: l) (auto intro: Record_log_ok)

section \<open>Properties\<close>

text \<open>A concrete environment for evaluating the model: the digest is a marker
  byte, the sum of the input and its last 30 bytes, metadata is a byte string encoded
  behind a tag, addresses are kept as written.\<close>

definition demo_env :: "bytes audit_env" where
  "demo_env = \<lparr>sha256 = (\<lambda>x. 1 # sum_list x # take 30 (rev x @ replicate 30 0)), uuid_string = (\<lambda>u. if u = 1 then ''A'' else ''B''),
     uuid_parse = (\<lambda>_. None), rfc3339nano = (\<lambda>t. ''t''),
     json_marshal = (\<lambda>m. Some (case m of None \<Rightarrow> [0] | Some b \<Rightarrow> 1 # b)),
     json_unmarshal = (\<lambda>b. if b = [] then None else Some (if hd b = 0 then None else Some (tl b))),
     jsonb_text = (\<lambda>b. b), inet_host = Some,
     empty_map = []\<rparr>"

definition demo_event :: "bytes event" where
  "demo_event = \<lparr>ev_actor_type = ActorUser, ev_actor_id = Some 1, ev_session_id = None,
     ev_device_id = Some 2, ev_customer_id = None, ev_event_type = ''e'',
     ev_result = ResultSuccess, ev_source_ip = ''9'', ev_request_id = None, ev_metadata = None\<rparr>"

definition demo_log :: audit_log where
  "demo_log = run (audit_step demo_env) [(5000, demo_event), (9000, demo_event)] empty_log"

lemmas demo_audit_defs = demo_env_def demo_event_def demo_log_def empty_log_def audit_step_def
  Record_def insert_row_def last_entry_hash_def

text \<open>Every log that \<open>VerifyChain\<close> accepts is still accepted after any
  sequence of \<open>Record\<close> calls, each successful call adding exactly one checked
  entry: recording never breaks the chain (provided a digest is never empty and
  the recorded events read back from their columns as they were written).\<close>

theorem record_keeps_chain_valid:
  assumes "VerifyChain env l = Inr v" "cv_valid v"
    and "\<And>x. sha256 env x \<noteq> []"
    and "list_all (\<lambda>e. stable_event env (snd e)) es"
  shows "VerifyChain env (run (audit_step env) es l) =
         Inr (verified (int (length (log_rows (run (audit_step env) es l)) - length (pre_chain (log_rows l))))
                       (int (length (pre_chain (log_rows l)))))"
proof -
  let ?l' = "run (audit_step env) es l"
  have "log_ok env (length (pre_chain (log_rows l))) l"
    using VerifyChain_verified [OF assms(1,2)] by (simp add: log_ok_def)
  from run_log_ok [OF this assms(3,4)]
  have ok: "audit_links env [] (chained (log_rows ?l'))"
    "length (pre_chain (log_rows ?l')) = length (pre_chain (log_rows l))"
    by (simp_all add: log_ok_def)
  have "length (log_rows ?l') = length (pre_chain (log_rows ?l')) + length (chained (log_rows ?l'))"
    by (metis chained_def length_append pre_chain_def takeWhile_dropWhile_id)
  then show ?thesis using VerifyChain_links [OF ok(1)] ok(2) by simp
qed

theorem record_keeps_chain_valid_witness:
  "VerifyChain demo_env (run (audit_step demo_env) [(5000, demo_event), (9000, demo_event)] empty_log) =
   Inr (verified 2 0)"
proof -
  let ?es = "[(5000, demo_event), (9000, demo_event)]"
  have "VerifyChain demo_env empty_log = Inr (verified 0 0)"
    by (simp add: VerifyChain_def empty_log_def verified_def)
  moreover have "list_all (\<lambda>e. stable_event demo_env (snd e)) ?es"
    by (simp add: stable_event_def demo_env_def demo_event_def)
  moreover have "length (log_rows (run (audit_step demo_env) ?es empty_log)) = 2"
    by (simp add: demo_audit_defs)
  ultimately show ?thesis
    using record_keeps_chain_valid [of demo_env empty_log "verified 0 0" ?es]
    by (simp add: verified_def pre_chain_def empty_log_def demo_env_def)
qed

text \<open>C8: \<open>VerifyChain\<close> reports the log valid exactly when, after the leading
  rows without a hash, every row stores its predecessor's hash and the hash of
  that together with its own fields; and then it counts all of them.\<close>

theorem VerifyChain_valid_iff:
  "(\<exists>v. VerifyChain env l = Inr v \<and> cv_valid v) \<longleftrightarrow>
   chain (row_links env) a_entry_hash [] (chained (log_rows l))"
  using VerifyChain_verified VerifyChain_links by (metis (no_types) chain_verification.select_convs(1) verified_def)

text \<open>When \<open>VerifyChain\<close> reports a break, the id it names is that of the
  first row that does not link: all chained rows before it do, it does not, and the
  count is its position.\<close>

theorem VerifyChain_first_break:
  assumes "VerifyChain env l = Inr v" "\<not> cv_valid v"
  shows "\<exists>good bad rest. chained (log_rows l) = good @ bad # rest \<and>
           chain (row_links env) a_entry_hash [] good \<and>
           \<not> row_links env (last_entry_hash good) bad \<and>
           cv_broken_at_id v = Some (a_id bad) \<and> cv_entries_check v = int (length good) + 1"
  using verify_loop_broken [OF assms [unfolded VerifyChain_loop]]
  by (simp add: chain_end_def last_entry_hash_def)

definition tampered_log :: audit_log where
  "tampered_log = demo_log\<lparr>log_rows := (log_rows demo_log)[1 := (log_rows demo_log ! 1)\<lparr>a_result := ''denied''\<rparr>]\<rparr>"

lemma tampered_log_verdict:
  "VerifyChain demo_env tampered_log =
   Inr \<lparr>cv_valid = False, cv_entries_check = 2, cv_entries_pre_chain = 0, cv_broken_at_id = Some 2\<rparr>"
  by code_simp

theorem VerifyChain_first_break_witness:
  "\<exists>good bad rest. chained (log_rows tampered_log) = good @ bad # rest \<and>
     chain (row_links demo_env) a_entry_hash [] good \<and>
     \<not> row_links demo_env (last_entry_hash good) bad \<and> a_id bad = 2 \<and> length good = 1"
  using VerifyChain_first_break [OF tampered_log_verdict] by fastforce


text \<open>The second log differs from the first in its rows, not in the bytes they
  hash: the device id of its first row has moved to the customer id.\<close>

definition moved_log :: audit_log where
  "moved_log = demo_log\<lparr>log_rows := (log_rows demo_log)[0 := (log_rows demo_log ! 0)
     \<lparr>a_device_id := None, a_customer_id := Some 2\<rparr>]\<rparr>"


text \<open>The hash does not separate its fields. Moving a row's device id into its
  empty customer id leaves the verdict of \<open>VerifyChain\<close> as it was, whatever the
  digest: such an edit of a stored row is not detected.\<close>

theorem VerifyChain_misses_moved_id:
  assumes "log_rows l = before @ r # after" "a_device_id r = d" "a_customer_id r = None"
  shows "VerifyChain env
           (l\<lparr>log_rows := before @ r\<lparr>a_device_id := None, a_customer_id := d\<rparr> # after\<rparr>) =
         VerifyChain env l"
proof -
  let ?r' = "r\<lparr>a_device_id := None, a_customer_id := d\<rparr>"
  have payload: "computeEntryHash env p (row_fields ?r' j) = computeEntryHash env p (row_fields r j)" for p j
    using assms(2,3) by (simp add: computeEntryHash_def chain_payload_def row_fields_def)
  have meta: "row_meta_json env ?r' = row_meta_json env r"
    by (simp add: row_meta_json_def split: option.splits)
  have "verify_loop env p c pc st (before @ ?r' # after) = verify_loop env p c pc st (before @ r # after)"
    for p c pc st
    by (induction before arbitrary: p c pc st) (auto simp: payload meta Let_def split: sum.splits)
  then show ?thesis by (simp add: VerifyChain_def assms(1))
qed

theorem VerifyChain_misses_moved_id_witness:
  "\<exists>r rest. log_rows demo_log = r # rest \<and> a_device_id r = Some 2 \<and>
     VerifyChain demo_env (demo_log\<lparr>log_rows := r\<lparr>a_device_id := None, a_customer_id := Some 2\<rparr> # rest\<rparr>) =
     VerifyChain demo_env demo_log"
proof -
  obtain r rest where r: "log_rows demo_log = [] @ r # rest" and "a_device_id r = Some 2" "a_customer_id r = None"
    by (simp add: demo_audit_defs Let_def)
  with VerifyChain_misses_moved_id [OF r, of "Some 2" demo_env] show ?thesis by auto
qed

text \<open>Dropping the newest rows is not detected either: every prefix of an
  accepted log is accepted.\<close>

theorem VerifyChain_accepts_prefix:
  assumes "VerifyChain env l = Inr v" "cv_valid v"
  shows "\<exists>v'. VerifyChain env (l\<lparr>log_rows := take n (log_rows l)\<rparr>) = Inr v' \<and> cv_valid v'"
proof -
  have "\<exists>k. chained (take n rows) = take k (chained rows)" for rows
  proof (induction rows arbitrary: n)
    case (Cons r rows)
    then show ?case by (cases n) (auto simp: chained_def intro: exI [of _ "Suc _"] exI [of _ 0])
  qed (simp add: chained_def)
  then obtain k where "chained (take n (log_rows l)) = take k (chained (log_rows l))" by blast
  moreover have "audit_links env [] (take k (chained (log_rows l)))"
    using VerifyChain_verified [OF assms] chain_append
    by (metis append_take_drop_id)
  ultimately show ?thesis
    using VerifyChain_links [of env "l\<lparr>log_rows := take n (log_rows l)\<rparr>"] by (simp add: verified_def)
qed

theorem VerifyChain_accepts_prefix_witness:
  "\<exists>v'. VerifyChain demo_env (demo_log\<lparr>log_rows := take 1 (log_rows demo_log)\<rparr>) = Inr v' \<and> cv_valid v'"
proof -
  have "VerifyChain demo_env demo_log = Inr (verified 2 0)" by code_simp
  then show ?thesis by (rule VerifyChain_accepts_prefix) (simp add: verified_def)
qed

text \<open>A listing never returns more than 1000 rows, every row it returns is a
  row of the log that passes the filter, and the rows are ordered newest first.\<close>

theorem ListAudit_bounded_newest_first:
  "length (ListAudit now f l) \<le> 1000 \<and>
   set (ListAudit now f l) \<subseteq> {r \<in> set (log_rows l). filter_matches now f r} \<and>
   sorted_wrt (\<lambda>a b. a_occurred_at b \<le> a_occurred_at a) (ListAudit now f l)"
proof -
  let ?rows = "sort_key (\<lambda>r. - a_occurred_at r) (filter (filter_matches now f) (log_rows l))"
  have "sorted (map (\<lambda>r. - a_occurred_at r) ?rows)" by simp
  then have "sorted_wrt (\<lambda>a b. a_occurred_at b \<le> a_occurred_at a) ?rows"
    by (simp add: sorted_wrt_map)
  then have "sorted_wrt (\<lambda>a b. a_occurred_at b \<le> a_occurred_at a) (ListAudit now f l)"
    unfolding ListAudit_def by (rule sorted_wrt_take)
  moreover have "nat (list_limit (flt_limit f)) \<le> 1000" by (auto simp: list_limit_def)
  ultimately show ?thesis
    by (auto simp: ListAudit_def dest!: in_set_takeD)
qed

end
