(* ===== verification/Remote_Session.thy ===== *)
theory Remote_Session
  imports Relay Audit_Log
begin

text \<open>
  Remote sessions (\<open>internal/remotesession\<close>): terminals (\<open>session.go\<close>),
  temporary privileges (\<open>privilege.go\<close>) and tunnels with their helper tickets
  (\<open>tunnel.go\<close>), the maintenance records they open (\<open>internal/maintenance\<close>), and
  the callbacks that \<open>NewRouter\<close> registers for agent disconnects and
  agent-initiated closes.

  Opening a session waits for the agent's answer; while it waits, other requests run. So
  \<open>OpenTerminal\<close> and \<open>OpenTunnel\<close> are two steps, the request and the reply, and
  \<open>r_waiting\<close> holds the calls in between. What is written to an agent connection is
  appended to \<open>r_sent\<close>, what is handed to \<open>audit.Record\<close> to \<open>r_audit\<close>.
\<close>

section \<open>State\<close>

datatype rstate =
    StateRequested | StateOpening | StateActive | StateClosing | StateClosed | StateFailed
  | StateInterrupted | StateExpired

datatype rkind = KindTerminal | KindSSHTunnel | KindRDPTunnel

record rsession =
  rs_id :: uuid
  rs_device_id :: uuid
  rs_user_id :: uuid
  rs_kind :: rkind
  rs_state :: rstate
  rs_opened_at :: time
  rs_closed_at :: "time option"
  rs_expires_at :: time
  rs_close_reason :: string
  rs_maintenance_id :: "uuid option"

record privilege =
  pv_id :: uuid
  pv_remote_session_id :: uuid
  pv_user_id :: uuid
  pv_device_id :: uuid
  pv_created_at :: time
  pv_valid_until :: time
  pv_reason :: string
  pv_revoked_at :: "time option"

datatype target_type = TargetSSHLocal | TargetRDPLocal

datatype tunnel_state = TicketIssued | TunnelActive | TunnelClosed | TunnelExpired

record tunnel =
  tn_id :: uuid
  tn_remote_session_id :: uuid
  tn_device_id :: uuid
  tn_user_id :: uuid
  tn_target_type :: target_type
  tn_state :: tunnel_state
  tn_ticket_hash :: bytes
  tn_expires_at :: time
  tn_connected_at :: "time option"
  tn_closed_at :: "time option"
  tn_bytes_up :: int
  tn_bytes_down :: int

record maintenance_session =
  ms_id :: uuid
  ms_device_id :: uuid
  ms_customer_id :: "uuid option"
  ms_user_id :: uuid
  ms_started_at :: time
  ms_ended_at :: "time option"
  ms_result :: string
  ms_summary :: string

record maintenance_event =
  me_session_id :: uuid
  me_event_type :: string
  me_summary :: string
  me_reference_id :: "uuid option"

datatype agent_msg =
    MsgSessionOpen uuid rkind time
  | MsgSessionClose uuid string
  | MsgPrivilege uuid bool time "uuid option"
  | MsgTerminalResize uuid int int

datatype meta_value = MStr string | MUuid uuid | MTime time | MInt int | MBool bool | MStrings "string list" | MNull

type_synonym audit_event = "(string \<times> meta_value) list event"

record remote_state =
  remote_sessions :: "rsession list"
  privilege_sessions :: "privilege list"
  tunnel_sessions :: "tunnel list"
  maintenance_sessions :: "maintenance_session list"
  maintenance_events :: "maintenance_event list"
  r_broker :: broker
  r_connected :: "uuid list"
  r_waiting :: "uuid list"
  r_sent :: "(uuid \<times> agent_msg) list"
  r_audit :: "audit_event list"

datatype remote_error = ErrSessionNotFound | ErrDeviceOffline | ErrAgentRejected string | ErrNotActive
  | ErrTicketInvalid | ErrRemoteDatabase

definition system_event :: "string \<Rightarrow> uuid option \<Rightarrow> uuid option \<Rightarrow> (string \<times> meta_value) list \<Rightarrow> audit_event" where
  "system_event et dev sess meta =
     \<lparr>ev_actor_type = ActorSystem, ev_actor_id = None, ev_session_id = sess, ev_device_id = dev, ev_customer_id = None,
      ev_event_type = et, ev_result = ResultSuccess, ev_source_ip = [], ev_request_id = None, ev_metadata = Some meta\<rparr>"

definition record_audit :: "audit_event \<Rightarrow> remote_state \<Rightarrow> remote_state" where
  "record_audit e st = st\<lparr>r_audit := r_audit st @ [e]\<rparr>"

section \<open>Maintenance records\<close>

definition OpenMaintenance :: "time \<Rightarrow> uuid \<Rightarrow> uuid \<Rightarrow> uuid option \<Rightarrow> uuid \<Rightarrow> remote_state \<Rightarrow> uuid option \<times> remote_state" where
  "OpenMaintenance now newID deviceID customerID userID st =
     (case insert_unique ms_id \<lparr>ms_id = newID, ms_device_id = deviceID, ms_customer_id = customerID, ms_user_id = userID,
             ms_started_at = now, ms_ended_at = None, ms_result = [], ms_summary = []\<rparr> (maintenance_sessions st) of
        None \<Rightarrow> (None, st) | Some ms \<Rightarrow> (Some newID, st\<lparr>maintenance_sessions := ms\<rparr>))"

definition AddEvent :: "uuid \<Rightarrow> string \<Rightarrow> string \<Rightarrow> uuid option \<Rightarrow> remote_state \<Rightarrow> remote_state" where
  "AddEvent i eventType summary ref st =
     st\<lparr>maintenance_events := maintenance_events st @
       [\<lparr>me_session_id = i, me_event_type = eventType, me_summary = summary, me_reference_id = ref\<rparr>]\<rparr>"

definition CloseMaintenance :: "time \<Rightarrow> uuid \<Rightarrow> string \<Rightarrow> string \<Rightarrow> remote_state \<Rightarrow> remote_state" where
  "CloseMaintenance now i result summary st =
     st\<lparr>maintenance_sessions := upd_where (\<lambda>m. ms_id m = i)
       (\<lambda>m. m\<lparr>ms_ended_at := Some now, ms_result := result, ms_summary := summary\<rparr>) (maintenance_sessions st)\<rparr>"

definition ListMaintenanceForDevice :: "uuid \<Rightarrow> remote_state \<Rightarrow> maintenance_session list" where
  "ListMaintenanceForDevice d st =
     take 200 (sort_key (\<lambda>m. - ms_started_at m) (filter (\<lambda>m. ms_device_id m = d) (maintenance_sessions st)))"

section \<open>The session repository\<close>

definition CreateRemote :: "time \<Rightarrow> uuid \<Rightarrow> uuid \<Rightarrow> uuid \<Rightarrow> rkind \<Rightarrow> time \<Rightarrow> remote_state \<Rightarrow> (remote_error + rsession) \<times> remote_state" where
  "CreateRemote now newID deviceID userID kind expiresAt st =
     (let s = \<lparr>rs_id = newID, rs_device_id = deviceID, rs_user_id = userID, rs_kind = kind, rs_state = StateRequested,
               rs_opened_at = now, rs_closed_at = None, rs_expires_at = expiresAt, rs_close_reason = [],
               rs_maintenance_id = None\<rparr>
      in case insert_unique rs_id s (remote_sessions st) of
           None \<Rightarrow> (Inl ErrRemoteDatabase, st) | Some ss \<Rightarrow> (Inr s, st\<lparr>remote_sessions := ss\<rparr>))"

definition GetRemote :: "uuid \<Rightarrow> remote_state \<Rightarrow> remote_error + rsession" where
  "GetRemote i st = (case find_row (\<lambda>s. rs_id s = i) (remote_sessions st) of
     None \<Rightarrow> Inl ErrSessionNotFound | Some s \<Rightarrow> Inr s)"

definition upd_remote :: "uuid \<Rightarrow> (rsession \<Rightarrow> rsession) \<Rightarrow> remote_state \<Rightarrow> remote_state" where
  "upd_remote i f st = st\<lparr>remote_sessions := upd_where (\<lambda>s. rs_id s = i) f (remote_sessions st)\<rparr>"

definition SetMaintenanceSession :: "uuid \<Rightarrow> uuid \<Rightarrow> remote_state \<Rightarrow> remote_state" where
  "SetMaintenanceSession i m = upd_remote i (\<lambda>s. s\<lparr>rs_maintenance_id := Some m\<rparr>)"

definition SetState :: "uuid \<Rightarrow> rstate \<Rightarrow> remote_state \<Rightarrow> remote_state" where
  "SetState i state = upd_remote i (\<lambda>s. s\<lparr>rs_state := state\<rparr>)"

definition CloseRemote :: "time \<Rightarrow> uuid \<Rightarrow> rstate \<Rightarrow> string \<Rightarrow> remote_state \<Rightarrow> remote_state" where
  "CloseRemote now i state reason =
     upd_remote i (\<lambda>s. s\<lparr>rs_state := state, rs_closed_at := Some now, rs_close_reason := reason\<rparr>)"

definition interruptible :: "rsession \<Rightarrow> bool" where
  "interruptible s \<longleftrightarrow> rs_state s \<in> {StateRequested, StateOpening, StateActive}"

text \<open>\<open>UPDATE ... WHERE ... RETURNING id, maintenance_session_id\<close>\<close>

definition interrupt_where :: "(rsession \<Rightarrow> bool) \<Rightarrow> string \<Rightarrow> time \<Rightarrow> remote_state \<Rightarrow> (uuid \<times> uuid option) list \<times> remote_state" where
  "interrupt_where p reason now st =
     (map (\<lambda>s. (rs_id s, rs_maintenance_id s)) (filter (\<lambda>s. p s \<and> interruptible s) (remote_sessions st)),
      st\<lparr>remote_sessions := upd_where (\<lambda>s. p s \<and> interruptible s)
        (\<lambda>s. s\<lparr>rs_state := StateInterrupted, rs_closed_at := Some now, rs_close_reason := reason\<rparr>) (remote_sessions st)\<rparr>)"

definition InterruptAllForDevice :: "time \<Rightarrow> uuid \<Rightarrow> remote_state \<Rightarrow> (uuid \<times> uuid option) list \<times> remote_state" where
  "InterruptAllForDevice now d = interrupt_where (\<lambda>s. rs_device_id s = d) ''agent_disconnected'' now"

definition InterruptAllActive :: "time \<Rightarrow> remote_state \<Rightarrow> (uuid \<times> uuid option) list \<times> remote_state" where
  "InterruptAllActive now = interrupt_where (\<lambda>s. True) ''server_restart'' now"

section \<open>Opening and closing\<close>

text \<open>\<open>hub.SendMessage\<close>: an error when the device is not connected, which every
  caller here ignores.\<close>

definition SendMessage :: "uuid \<Rightarrow> agent_msg \<Rightarrow> remote_state \<Rightarrow> remote_state" where
  "SendMessage d m st = (if d \<in> set (r_connected st) then st\<lparr>r_sent := r_sent st @ [(d, m)]\<rparr> else st)"

text \<open>\<open>hub.SendAndWait\<close> up to the wait.\<close>

definition send_open :: "time \<Rightarrow> rsession \<Rightarrow> remote_state \<Rightarrow> (remote_error + uuid) \<times> remote_state" where
  "send_open now s st =
     (if rs_device_id s \<in> set (r_connected st)
      then (Inr (rs_id s), st\<lparr>r_sent := r_sent st @ [(rs_device_id s, MsgSessionOpen (rs_id s) (rs_kind s) (rs_expires_at s))],
                             r_waiting := r_waiting st @ [rs_id s]\<rparr>)
      else (Inl ErrDeviceOffline, CloseRemote now (rs_id s) StateFailed ''agent_unreachable'' st))"

definition OpenTerminal_request ::
  "time \<Rightarrow> uuid \<Rightarrow> uuid \<Rightarrow> uuid \<Rightarrow> uuid \<Rightarrow> uuid option \<Rightarrow> duration \<Rightarrow> remote_state \<Rightarrow> (remote_error + uuid) \<times> remote_state" where
  "OpenTerminal_request now newID maintID deviceID userID customerID ttl st =
     (case CreateRemote now newID deviceID userID KindTerminal (now + ttl) st of
        (Inl e, st1) \<Rightarrow> (Inl e, st1)
      | (Inr s, st1) \<Rightarrow>
          (case OpenMaintenance now maintID deviceID customerID userID st1 of
             (Some m, st2) \<Rightarrow> send_open now s (AddEvent m ''terminal_opened'' ''Remote terminal session opened'' (Some (rs_id s))
                                (SetMaintenanceSession (rs_id s) m st2))
           | (None, st2) \<Rightarrow> send_open now s st2))"

text \<open>The outcome of the wait: no answer in time or the connection lost, or the agent's
  \<open>session_open_result\<close> (\<open>None\<close> when it cannot be decoded).\<close>

datatype open_reply = NoReply | Reply "(string \<times> string) option"

definition open_outcome :: "time \<Rightarrow> uuid \<Rightarrow> open_reply \<Rightarrow> remote_state \<Rightarrow> (remote_error + uuid) \<times> remote_state" where
  "open_outcome now i reply st =
     (case reply of
        NoReply \<Rightarrow> (Inl ErrDeviceOffline, CloseRemote now i StateFailed ''agent_unreachable'' st)
      | Reply r \<Rightarrow>
          if r = None \<or> fst (the r) \<noteq> ''success''
          then (let msg = (case r of None \<Rightarrow> [] | Some (_, m) \<Rightarrow> m)
                in (Inl (ErrAgentRejected (if msg = [] then ''no reason given by agent'' else msg)),
                    CloseRemote now i StateFailed ''agent_rejected'' st))
          else (Inr i, SetState i StateActive st))"

definition end_wait :: "uuid \<Rightarrow> remote_state \<Rightarrow> remote_state" where
  "end_wait i st = st\<lparr>r_waiting := removeAll i (r_waiting st)\<rparr>"

text \<open>The rest of \<open>OpenTerminal\<close> and of its caller \<open>handleCreateSession\<close>, which
  registers the stream.\<close>

definition OpenTerminal_reply :: "time \<Rightarrow> uuid \<Rightarrow> uuid \<Rightarrow> open_reply \<Rightarrow> remote_state \<Rightarrow> (remote_error + uuid) \<times> remote_state" where
  "OpenTerminal_reply now d i reply st =
     (case open_outcome now i reply (end_wait i st) of
        (Inl e, st1) \<Rightarrow> (Inl e, st1)
      | (Inr _, st1) \<Rightarrow> (Inr i, st1\<lparr>r_broker := snd (Register i d StreamKindTerminal (r_broker st1))\<rparr>))"

definition unregister_stream :: "uuid \<Rightarrow> remote_state \<Rightarrow> remote_state" where
  "unregister_stream i st = (case Unregister i (r_broker st) of Inl _ \<Rightarrow> st | Inr b \<Rightarrow> st\<lparr>r_broker := b\<rparr>)"

definition CloseService :: "time \<Rightarrow> rsession \<Rightarrow> string \<Rightarrow> remote_state \<Rightarrow> remote_state" where
  "CloseService now s reason st =
     (let st1 = SendMessage (rs_device_id s) (MsgSessionClose (rs_id s) reason) st;
          st2 = (case rs_maintenance_id s of
                   None \<Rightarrow> st1
                 | Some m \<Rightarrow> CloseMaintenance now m ''completed'' (''Terminal session closed: '' @ reason)
                     (AddEvent m ''terminal_closed'' (''Remote terminal session closed: '' @ reason) (Some (rs_id s)) st1))
      in CloseRemote now (rs_id s) StateClosed reason st2)"

definition Resize :: "rsession \<Rightarrow> int \<Rightarrow> int \<Rightarrow> remote_state \<Rightarrow> remote_state" where
  "Resize s cols rows = SendMessage (rs_device_id s) (MsgTerminalResize (rs_id s) cols rows)"

text \<open>What a caller of \<open>Close\<close> does first: load the session and stop unless it is
  active (\<open>handleCloseSession\<close>, the end of \<open>handleSessionStream\<close> and the handler of
  agent-initiated closes).\<close>

definition handleCloseSession :: "time \<Rightarrow> uuid \<Rightarrow> uuid \<Rightarrow> string \<Rightarrow> remote_state \<Rightarrow> remote_state" where
  "handleCloseSession now userID i ip st =
     (case GetRemote i st of
        Inl _ \<Rightarrow> st
      | Inr s \<Rightarrow>
          if rs_state s \<noteq> StateActive then st
          else record_audit \<lparr>ev_actor_type = ActorUser, ev_actor_id = Some userID, ev_session_id = Some i,
                 ev_device_id = Some (rs_device_id s), ev_customer_id = None, ev_event_type = ''remote_session.closed'',
                 ev_result = ResultSuccess, ev_source_ip = ip, ev_request_id = None, ev_metadata = None\<rparr>
                 (unregister_stream i (CloseService now s ''admin_closed'' st)))"

definition browser_disconnected :: "time \<Rightarrow> uuid \<Rightarrow> remote_state \<Rightarrow> remote_state" where
  "browser_disconnected now i st =
     (let st1 = unregister_stream i st
      in case GetRemote i st1 of
           Inl _ \<Rightarrow> st1
         | Inr s \<Rightarrow>
             if rs_state s \<noteq> StateActive then st1
             else record_audit \<lparr>ev_actor_type = ActorUser, ev_actor_id = Some (rs_user_id s), ev_session_id = Some i,
                    ev_device_id = Some (rs_device_id s), ev_customer_id = None, ev_event_type = ''remote_session.closed'',
                    ev_result = ResultSuccess, ev_source_ip = [], ev_request_id = None,
                    ev_metadata = Some [(''reason'', MStr ''browser_disconnected'')]\<rparr>
                    (CloseService now s ''browser_disconnected'' st1))"

definition on_agent_close :: "time \<Rightarrow> uuid \<Rightarrow> uuid option \<Rightarrow> string \<Rightarrow> remote_state \<Rightarrow> remote_state" where
  "on_agent_close now deviceID sessionID reason st =
     (case sessionID of
        None \<Rightarrow> st
      | Some i \<Rightarrow>
          (case GetRemote i st of
             Inl _ \<Rightarrow> st
           | Inr s \<Rightarrow> if rs_device_id s \<noteq> deviceID \<or> rs_state s \<noteq> StateActive then st
                      else CloseService now s (''agent_'' @ reason) (unregister_stream i st)))"

text \<open>The disconnect callback, and the start-up code of \<open>NewRouter\<close>.\<close>

definition after_interrupt :: "time \<Rightarrow> string \<Rightarrow> uuid option \<Rightarrow> string \<Rightarrow> (uuid \<times> uuid option) \<Rightarrow> remote_state \<Rightarrow> remote_state" where
  "after_interrupt now summary dev reason im st =
     (let (i, m) = im;
          st1 = (if dev = None then st else unregister_stream i st);
          st2 = (case m of None \<Rightarrow> st1 | Some mi \<Rightarrow> CloseMaintenance now mi ''interrupted'' summary st1)
      in record_audit (system_event ''remote_session.interrupted'' dev (Some i) [(''reason'', MStr reason)]) st2)"

definition on_disconnect :: "time \<Rightarrow> uuid \<Rightarrow> remote_state \<Rightarrow> remote_state" where
  "on_disconnect now d st =
     (let (is, st1) = InterruptAllForDevice now d st
      in fold (after_interrupt now ''Agent disconnected while session was active'' (Some d) ''agent_disconnected'') is st1)"

section \<open>Privileges\<close>

definition CreatePrivilege :: "time \<Rightarrow> uuid \<Rightarrow> uuid \<Rightarrow> uuid \<Rightarrow> uuid \<Rightarrow> time \<Rightarrow> string \<Rightarrow> remote_state \<Rightarrow> (remote_error + privilege) \<times> remote_state" where
  "CreatePrivilege now newID i u d validUntil reason st =
     (let p = \<lparr>pv_id = newID, pv_remote_session_id = i, pv_user_id = u, pv_device_id = d, pv_created_at = now,
               pv_valid_until = validUntil, pv_reason = reason, pv_revoked_at = None\<rparr>
      in case insert_unique pv_id p (privilege_sessions st) of
           None \<Rightarrow> (Inl ErrRemoteDatabase, st) | Some ps \<Rightarrow> (Inr p, st\<lparr>privilege_sessions := ps\<rparr>))"

definition ActiveForSession :: "time \<Rightarrow> uuid \<Rightarrow> remote_state \<Rightarrow> privilege option" where
  "ActiveForSession now i st =
     (case sort_key (\<lambda>p. - pv_created_at p)
             (filter (\<lambda>p. pv_remote_session_id p = i \<and> pv_revoked_at p = None \<and> pv_valid_until p > now) (privilege_sessions st)) of
        [] \<Rightarrow> None | p # _ \<Rightarrow> Some p)"

definition RevokePrivilegeRow :: "time \<Rightarrow> uuid \<Rightarrow> remote_state \<Rightarrow> remote_state" where
  "RevokePrivilegeRow now i st =
     st\<lparr>privilege_sessions := upd_where (\<lambda>p. pv_id p = i \<and> pv_revoked_at p = None)
       (\<lambda>p. p\<lparr>pv_revoked_at := Some now\<rparr>) (privilege_sessions st)\<rparr>"

definition expiredButNotRevoked :: "time \<Rightarrow> remote_state \<Rightarrow> privilege list" where
  "expiredButNotRevoked now st = filter (\<lambda>p. pv_revoked_at p = None \<and> pv_valid_until p \<le> now) (privilege_sessions st)"

definition GrantPrivilege :: "time \<Rightarrow> uuid \<Rightarrow> rsession \<Rightarrow> duration \<Rightarrow> duration \<Rightarrow> string \<Rightarrow> remote_state \<Rightarrow> (remote_error + privilege) \<times> remote_state" where
  "GrantPrivilege now newID s dur maxDuration reason st =
     (if rs_state s \<noteq> StateActive then (Inl ErrNotActive, st)
      else let dur = (if dur \<le> 0 \<or> dur > maxDuration then maxDuration else dur)
           in case CreatePrivilege now newID (rs_id s) (rs_user_id s) (rs_device_id s) (now + dur) reason st of
                (Inl e, st1) \<Rightarrow> (Inl e, st1)
              | (Inr p, st1) \<Rightarrow>
                  (Inr p, SendMessage (rs_device_id s) (MsgPrivilege (rs_id s) True (now + dur) (Some (pv_id p))) st1))"

definition RevokePrivilege :: "time \<Rightarrow> privilege \<Rightarrow> remote_state \<Rightarrow> remote_state" where
  "RevokePrivilege now p st =
     SendMessage (pv_device_id p) (MsgPrivilege (pv_remote_session_id p) False 0 None) (RevokePrivilegeRow now (pv_id p) st)"

text \<open>One tick of \<open>RunPrivilegeExpirySweeper\<close>.\<close>

definition expire_privilege :: "time \<Rightarrow> privilege \<Rightarrow> remote_state \<Rightarrow> remote_state" where
  "expire_privilege now p st =
     record_audit (system_event ''privilege.expired'' (Some (pv_device_id p)) (Some (pv_remote_session_id p))
       [(''privilege_session_id'', MUuid (pv_id p))]) (RevokePrivilege now p st)"

definition sweep_privileges :: "time \<Rightarrow> remote_state \<Rightarrow> remote_state" where
  "sweep_privileges now st = fold (expire_privilege now) (expiredButNotRevoked now st) st"

section \<open>Tunnels\<close>

text \<open>The environment: base64url, and the configured \<open>privilege_ttl\<close>.\<close>

record ticket_env = lib_env +
  b64url_encode_t :: "bytes \<Rightarrow> string"
  b64url_decode_t :: "string \<Rightarrow> bytes option"
  privilege_ttl :: duration

definition ticket_prefix :: string where "ticket_prefix = ''wr_tunnel_''"

definition generateTicket :: "ticket_env \<Rightarrow> bytes \<Rightarrow> string \<times> bytes" where
  "generateTicket env raw = (ticket_prefix @ b64url_encode_t env raw, sha256 env raw)"

definition hashTicket :: "ticket_env \<Rightarrow> string \<Rightarrow> remote_error + bytes" where
  "hashTicket env ticket =
     (if length ticket \<le> length ticket_prefix \<or> take (length ticket_prefix) ticket \<noteq> ticket_prefix then Inl ErrTicketInvalid
      else case b64url_decode_t env (drop (length ticket_prefix) ticket) of
             None \<Rightarrow> Inl ErrTicketInvalid | Some raw \<Rightarrow> Inr (sha256 env raw))"

fun kindForTarget :: "target_type \<Rightarrow> rkind \<times> byte" where
  "kindForTarget TargetSSHLocal = (KindSSHTunnel, StreamKindTunnel)"
| "kindForTarget TargetRDPLocal = (KindRDPTunnel, StreamKindTunnel)"

definition createTunnel :: "uuid \<Rightarrow> uuid \<Rightarrow> uuid \<Rightarrow> uuid \<Rightarrow> target_type \<Rightarrow> bytes \<Rightarrow> time \<Rightarrow> remote_state \<Rightarrow> (remote_error + uuid) \<times> remote_state" where
  "createTunnel newID i d u target ticketHash expiresAt st =
     (case insert_unique tn_id \<lparr>tn_id = newID, tn_remote_session_id = i, tn_device_id = d, tn_user_id = u, tn_target_type = target,
             tn_state = TicketIssued, tn_ticket_hash = ticketHash, tn_expires_at = expiresAt, tn_connected_at = None,
             tn_closed_at = None, tn_bytes_up = 0, tn_bytes_down = 0\<rparr> (tunnel_sessions st) of
        None \<Rightarrow> (Inl ErrRemoteDatabase, st) | Some ts \<Rightarrow> (Inr newID, st\<lparr>tunnel_sessions := ts\<rparr>))"

definition upd_tunnel :: "uuid \<Rightarrow> (tunnel \<Rightarrow> tunnel) \<Rightarrow> remote_state \<Rightarrow> remote_state" where
  "upd_tunnel i f st = st\<lparr>tunnel_sessions := upd_where (\<lambda>t. tn_id t = i) f (tunnel_sessions st)\<rparr>"

definition ConsumeTicket :: "ticket_env \<Rightarrow> time \<Rightarrow> string \<Rightarrow> remote_state \<Rightarrow> (remote_error + tunnel) \<times> remote_state" where
  "ConsumeTicket env now ticket st =
     (case hashTicket env ticket of
        Inl e \<Rightarrow> (Inl e, st)
      | Inr hash \<Rightarrow>
          (case find_row (\<lambda>t. tn_ticket_hash t = hash) (tunnel_sessions st) of
             None \<Rightarrow> (Inl ErrTicketInvalid, st)
           | Some t \<Rightarrow>
               if tn_state t \<noteq> TicketIssued \<or> now > tn_expires_at t then (Inl ErrTicketInvalid, st)
               else (Inr (t\<lparr>tn_state := TunnelActive\<rparr>),
                     upd_tunnel (tn_id t) (\<lambda>t. t\<lparr>tn_state := TunnelActive, tn_connected_at := Some now\<rparr>) st)))"

definition UpdateBytes :: "uuid \<Rightarrow> int \<Rightarrow> int \<Rightarrow> remote_state \<Rightarrow> remote_state" where
  "UpdateBytes i up down = upd_tunnel i (\<lambda>t. t\<lparr>tn_bytes_up := up, tn_bytes_down := down\<rparr>)"

definition CloseTunnel :: "time \<Rightarrow> uuid \<Rightarrow> tunnel_state \<Rightarrow> remote_state \<Rightarrow> remote_state" where
  "CloseTunnel now i state = upd_tunnel i (\<lambda>t. t\<lparr>tn_state := state, tn_closed_at := Some now\<rparr>)"

definition InvalidateAllOutstanding :: "time \<Rightarrow> remote_state \<Rightarrow> remote_state" where
  "InvalidateAllOutstanding now st =
     st\<lparr>tunnel_sessions := upd_where (\<lambda>t. tn_state t = TicketIssued)
       (\<lambda>t. t\<lparr>tn_state := TunnelExpired, tn_closed_at := Some now\<rparr>) (tunnel_sessions st)\<rparr>"

definition OpenTunnel_request ::
  "time \<Rightarrow> uuid \<Rightarrow> uuid \<Rightarrow> uuid \<Rightarrow> target_type \<Rightarrow> duration \<Rightarrow> remote_state \<Rightarrow> (remote_error + uuid) \<times> remote_state" where
  "OpenTunnel_request now newID deviceID userID target sessionTTL st =
     (case CreateRemote now newID deviceID userID (fst (kindForTarget target)) (now + sessionTTL) st of
        (Inl e, st1) \<Rightarrow> (Inl e, st1) | (Inr s, st1) \<Rightarrow> send_open now s st1)"

text \<open>The rest of \<open>OpenTunnel\<close> and of \<open>handleCreateTunnel\<close>, given the
  random bytes of the ticket.\<close>

definition OpenTunnel_reply ::
  "ticket_env \<Rightarrow> time \<Rightarrow> uuid \<Rightarrow> uuid \<Rightarrow> uuid \<Rightarrow> target_type \<Rightarrow> bytes \<Rightarrow> uuid \<Rightarrow> duration \<Rightarrow> open_reply \<Rightarrow> remote_state \<Rightarrow>
   (remote_error + (string \<times> uuid)) \<times> remote_state" where
  "OpenTunnel_reply env now i d u target raw newID ticketTTL reply st =
     (case open_outcome now i reply (end_wait i st) of
        (Inl e, st1) \<Rightarrow> (Inl e, st1)
      | (Inr _, st1) \<Rightarrow>
          (let (ticket, hash) = generateTicket env raw
           in case createTunnel newID i d u target hash (now + ticketTTL) st1 of
                (Inl e, st2) \<Rightarrow> (Inl e, st2)
              | (Inr tid, st2) \<Rightarrow>
                  (Inr (ticket, tid), st2\<lparr>r_broker := snd (Register i d StreamKindTunnel (r_broker st2))\<rparr>)))"

text \<open>The two ends of \<open>handleTunnelStream\<close>: redeeming the ticket, and the clean-up when
  the helper disconnects.\<close>

definition tunnel_connect :: "ticket_env \<Rightarrow> time \<Rightarrow> string \<Rightarrow> string \<Rightarrow> remote_state \<Rightarrow> (remote_error + tunnel) \<times> remote_state" where
  "tunnel_connect env now ip ticket st =
     (case ConsumeTicket env now ticket st of
        (Inl e, st1) \<Rightarrow> (Inl e, st1)
      | (Inr t, st1) \<Rightarrow>
          (case GetRemote (tn_remote_session_id t) st1 of
             Inl e \<Rightarrow> (Inl ErrNotActive, st1)
           | Inr s \<Rightarrow>
               if rs_state s \<noteq> StateActive then (Inl ErrNotActive, st1)
               else if GetStream (rs_id s) (r_broker st1) = None then (Inl ErrSessionNotFound, st1)
               else (Inr t, record_audit \<lparr>ev_actor_type = ActorUser, ev_actor_id = Some (tn_user_id t),
                        ev_session_id = Some (rs_id s), ev_device_id = Some (tn_device_id t), ev_customer_id = None,
                        ev_event_type = ''tunnel.connected'', ev_result = ResultSuccess, ev_source_ip = ip,
                        ev_request_id = None, ev_metadata = Some [(''tunnel_id'', MUuid (tn_id t))]\<rparr> st1)))"

definition tunnel_disconnected :: "time \<Rightarrow> tunnel \<Rightarrow> int \<Rightarrow> int \<Rightarrow> remote_state \<Rightarrow> remote_state" where
  "tunnel_disconnected now t up down st =
     (let i = tn_remote_session_id t;
          st1 = CloseTunnel now (tn_id t) TunnelClosed (UpdateBytes (tn_id t) up down (unregister_stream i st));
          st2 = (case GetRemote i st1 of
                   Inl _ \<Rightarrow> st1
                 | Inr s \<Rightarrow> if rs_state s = StateActive then CloseService now s ''helper_disconnected'' st1 else st1)
      in record_audit \<lparr>ev_actor_type = ActorUser, ev_actor_id = Some (tn_user_id t),
           ev_session_id = Some i, ev_device_id = Some (tn_device_id t), ev_customer_id = None,
           ev_event_type = ''tunnel.closed'', ev_result = ResultSuccess, ev_source_ip = [], ev_request_id = None,
           ev_metadata = Some [(''tunnel_id'', MUuid (tn_id t)), (''reason'', MStr ''helper_disconnected'')]\<rparr> st2)"

text \<open>A restart of the server: connections, streams and waiting calls are gone, then the
  start-up code runs.\<close>

definition restart :: "time \<Rightarrow> remote_state \<Rightarrow> remote_state" where
  "restart now st =
     (let st1 = InvalidateAllOutstanding now (st\<lparr>r_connected := [], r_waiting := [], r_broker := NewBroker\<rparr>);
          (is, st2) = InterruptAllActive now st1
      in fold (after_interrupt now ''Server restarted while session was active'' None ''server_restart'') is st2)"

section \<open>Events\<close>

datatype remote_event =
    SConnect uuid
  | SDisconnect time uuid
  | SOpenTerminal time uuid uuid uuid uuid "uuid option" duration
  | SOpenTunnel time uuid uuid uuid target_type duration
  | STerminalReply time uuid open_reply
  | STunnelReply time uuid target_type bytes uuid duration open_reply
  | SClose time uuid uuid string
  | SBrowserGone time uuid
  | SAgentClose time uuid "uuid option" string
  | SGrant time uuid uuid duration string
  | SRevokePrivilege time privilege
  | SSweep time
  | SRedeem time string string
  | STunnelGone time tunnel int int
  | SResize uuid int int
  | SRestart time

fun remote_step :: "ticket_env \<Rightarrow> remote_event \<Rightarrow> remote_state \<Rightarrow> remote_state" where
  "remote_step env (SConnect d) st = st\<lparr>r_connected := d # removeAll d (r_connected st)\<rparr>"
| "remote_step env (SDisconnect now d) st = on_disconnect now d (st\<lparr>r_connected := removeAll d (r_connected st)\<rparr>)"
| "remote_step env (SOpenTerminal now i m d u c ttl) st = snd (OpenTerminal_request now i m d u c ttl st)"
| "remote_step env (SOpenTunnel now i d u target ttl) st = snd (OpenTunnel_request now i d u target ttl st)"
| "remote_step env (STerminalReply now i reply) st =
     (case find_row (\<lambda>s. rs_id s = i) (remote_sessions st) of
        None \<Rightarrow> st
      | Some s \<Rightarrow> if i \<in> set (r_waiting st) \<and> rs_kind s = KindTerminal
                  then snd (OpenTerminal_reply now (rs_device_id s) i reply st) else st)"
| "remote_step env (STunnelReply now i target raw newID ttl reply) st =
     (case find_row (\<lambda>s. rs_id s = i) (remote_sessions st) of
        None \<Rightarrow> st
      | Some s \<Rightarrow> if i \<in> set (r_waiting st) \<and> rs_kind s = fst (kindForTarget target)
                  then snd (OpenTunnel_reply env now i (rs_device_id s) (rs_user_id s) target raw newID ttl reply st) else st)"
| "remote_step env (SClose now u i ip) st = handleCloseSession now u i ip st"
| "remote_step env (SBrowserGone now i) st = browser_disconnected now i st"
| "remote_step env (SAgentClose now d i reason) st = on_agent_close now d i reason st"
| "remote_step env (SGrant now newID i dur reason) st =
     (case GetRemote i st of Inl _ \<Rightarrow> st | Inr s \<Rightarrow> snd (GrantPrivilege now newID s dur (privilege_ttl env) reason st))"
| "remote_step env (SRevokePrivilege now p) st = RevokePrivilege now p st"
| "remote_step env (SSweep now) st = sweep_privileges now st"
| "remote_step env (SRedeem now ip ticket) st = snd (tunnel_connect env now ip ticket st)"
| "remote_step env (STunnelGone now t up down) st = tunnel_disconnected now t up down st"
| "remote_step env (SResize i cols rows) st = (case GetRemote i st of Inl _ \<Rightarrow> st | Inr s \<Rightarrow> Resize s cols rows st)"
| "remote_step env (SRestart now) st = restart now st"

section \<open>What each operation leaves alone\<close>

lemma frame_simps [simp]:
  "remote_sessions (record_audit e st) = remote_sessions st" "r_waiting (record_audit e st) = r_waiting st"
  "tunnel_sessions (record_audit e st) = tunnel_sessions st" "privilege_sessions (record_audit e st) = privilege_sessions st"
  "r_connected (record_audit e st) = r_connected st" "r_broker (record_audit e st) = r_broker st"
  "remote_sessions (SendMessage d m st) = remote_sessions st" "r_waiting (SendMessage d m st) = r_waiting st"
  "tunnel_sessions (SendMessage d m st) = tunnel_sessions st" "privilege_sessions (SendMessage d m st) = privilege_sessions st"
  "r_audit (SendMessage d m st) = r_audit st" "r_connected (SendMessage d m st) = r_connected st"
  "remote_sessions (AddEvent i et su ref st) = remote_sessions st" "r_waiting (AddEvent i et su ref st) = r_waiting st"
  "tunnel_sessions (AddEvent i et su ref st) = tunnel_sessions st" "privilege_sessions (AddEvent i et su ref st) = privilege_sessions st"
  "r_connected (AddEvent i et su ref st) = r_connected st"
  "remote_sessions (CloseMaintenance now i re su st) = remote_sessions st" "r_waiting (CloseMaintenance now i re su st) = r_waiting st"
  "tunnel_sessions (CloseMaintenance now i re su st) = tunnel_sessions st"
  "privilege_sessions (CloseMaintenance now i re su st) = privilege_sessions st"
  "r_waiting (upd_remote i f st) = r_waiting st" "tunnel_sessions (upd_remote i f st) = tunnel_sessions st"
  "privilege_sessions (upd_remote i f st) = privilege_sessions st" "r_connected (upd_remote i f st) = r_connected st"
  "remote_sessions (upd_tunnel i g st) = remote_sessions st" "r_waiting (upd_tunnel i g st) = r_waiting st"
  "privilege_sessions (upd_tunnel i g st) = privilege_sessions st"
  "remote_sessions (end_wait i st) = remote_sessions st" "tunnel_sessions (end_wait i st) = tunnel_sessions st"
  "privilege_sessions (end_wait i st) = privilege_sessions st"
  "remote_sessions (RevokePrivilegeRow now i st) = remote_sessions st" "r_waiting (RevokePrivilegeRow now i st) = r_waiting st"
  "tunnel_sessions (RevokePrivilegeRow now i st) = tunnel_sessions st"
  "r_connected (RevokePrivilegeRow now i st) = r_connected st" "r_audit (RevokePrivilegeRow now i st) = r_audit st"
  by (simp_all add: record_audit_def SendMessage_def AddEvent_def CloseMaintenance_def upd_remote_def upd_tunnel_def
      end_wait_def RevokePrivilegeRow_def)

lemma unregister_frame [simp]:
  "remote_sessions (unregister_stream i st) = remote_sessions st" "r_waiting (unregister_stream i st) = r_waiting st"
  "tunnel_sessions (unregister_stream i st) = tunnel_sessions st" "privilege_sessions (unregister_stream i st) = privilege_sessions st"
  by (simp_all add: unregister_stream_def split: sum.split)

lemma OpenMaintenance_frame [simp]:
  "remote_sessions (snd (OpenMaintenance now m d c u st)) = remote_sessions st"
  "r_waiting (snd (OpenMaintenance now m d c u st)) = r_waiting st"
  "tunnel_sessions (snd (OpenMaintenance now m d c u st)) = tunnel_sessions st"
  "privilege_sessions (snd (OpenMaintenance now m d c u st)) = privilege_sessions st"
  by (simp_all add: OpenMaintenance_def split: option.split)

lemma after_interrupt_frame [simp]:
  "remote_sessions (fold (after_interrupt now su dev re) is st) = remote_sessions st"
  "r_waiting (fold (after_interrupt now su dev re) is st) = r_waiting st"
  "tunnel_sessions (fold (after_interrupt now su dev re) is st) = tunnel_sessions st"
  "privilege_sessions (fold (after_interrupt now su dev re) is st) = privilege_sessions st"
  by (induction "is" arbitrary: st) (simp_all add: after_interrupt_def Let_def split: prod.split option.split)

section \<open>How sessions change\<close>

definition ended_states :: "rstate set" where
  "ended_states = {StateClosed, StateFailed, StateInterrupted}"

text \<open>Elementary changes of the table, when the calls in \<open>W\<close> wait for an answer.\<close>

inductive rsession_change :: "uuid set \<Rightarrow> rsession list \<Rightarrow> rsession list \<Rightarrow> bool" for W where
  rc_new: "rs_id s \<notin> rs_id ` set ss \<Longrightarrow> rs_state s = StateRequested \<Longrightarrow> rsession_change W ss (ss @ [s])"
| rc_link: "rsession_change W ss (upd_where p (\<lambda>s. s\<lparr>rs_maintenance_id := m\<rparr>) ss)"
| rc_activate: "i \<in> W \<Longrightarrow> rsession_change W ss (upd_where (\<lambda>s. rs_id s = i) (\<lambda>s. s\<lparr>rs_state := StateActive\<rparr>) ss)"
| rc_end: "x \<in> ended_states \<Longrightarrow>
    rsession_change W ss (upd_where p (\<lambda>s. s\<lparr>rs_state := x, rs_closed_at := Some now, rs_close_reason := r\<rparr>) ss)"

abbreviation rsession_changes :: "uuid set \<Rightarrow> rsession list \<Rightarrow> rsession list \<Rightarrow> bool" where
  "rsession_changes W \<equiv> (rsession_change W)\<^sup>*\<^sup>*"

lemmas rc_intros = rc_new rc_link rc_activate rc_end

lemma rc_into: "rsession_change W a b \<Longrightarrow> rsession_changes W a b"
  by (rule r_into_rtranclp)

lemma CloseRemote_change:
  "x \<in> ended_states \<Longrightarrow> rsession_change W (remote_sessions st) (remote_sessions (CloseRemote now i x r st))"
  by (simp add: CloseRemote_def upd_remote_def rc_end)

lemma CloseService_change:
  "rsession_change W (remote_sessions st) (remote_sessions (CloseService now s r st))"
proof -
  have "remote_sessions (CloseService now s r st) = remote_sessions (CloseRemote now (rs_id s) StateClosed r st)"
    by (simp add: CloseService_def CloseRemote_def upd_remote_def Let_def split: option.split)
  then show ?thesis using CloseRemote_change [of StateClosed] by (simp add: ended_states_def)
qed

lemma send_open_change:
  "rsession_changes W (remote_sessions st) (remote_sessions (snd (send_open now s st)))"
  using CloseRemote_change [of StateFailed W st now "rs_id s"] by (auto simp: send_open_def ended_states_def)

lemma CreateRemote_change:
  "rsession_changes W (remote_sessions st) (remote_sessions (snd (CreateRemote now i d u k e st)))"
  by (auto simp: CreateRemote_def Let_def split: option.split dest!: insert_unique_SomeD intro!: rc_into rc_intros)

lemma OpenTerminal_request_change:
  "rsession_changes W (remote_sessions st) (remote_sessions (snd (OpenTerminal_request now i m d u c ttl st)))"
proof -
  obtain r st1 where c: "CreateRemote now i d u KindTerminal (now + ttl) st = (r, st1)" by force
  have c1: "rsession_changes W (remote_sessions st) (remote_sessions st1)"
    using CreateRemote_change [of W st now i d u KindTerminal "now + ttl"] by (simp add: c)
  obtain m' st2 where o: "OpenMaintenance now m d c u st1 = (m', st2)" by force
  have st2: "remote_sessions st2 = remote_sessions st1" using OpenMaintenance_frame(1) [of now m d c u st1] by (simp add: o)
  have link: "rsession_changes W (remote_sessions st1) (remote_sessions (SetMaintenanceSession j k st2))" for j k
    by (auto simp: SetMaintenanceSession_def upd_remote_def st2 intro: rc_into rc_intros)
  show ?thesis
  proof (cases r)
    case (Inr s)
    show ?thesis
    proof (cases m')
      case None
      then show ?thesis using c1 send_open_change [of W st2 now s] Inr
        by (auto simp: OpenTerminal_request_def c o st2 intro: rtranclp_trans)
    next
      case (Some k)
      let ?st = "AddEvent k ''terminal_opened'' ''Remote terminal session opened'' (Some (rs_id s)) (SetMaintenanceSession (rs_id s) k st2)"
      have "rsession_changes W (remote_sessions st) (remote_sessions ?st)"
        using c1 link [of "rs_id s" k] by auto
      then show ?thesis using send_open_change [of W ?st now s] Inr Some
        by (auto simp: OpenTerminal_request_def c o intro: rtranclp_trans)
    qed
  qed (use c1 in \<open>simp add: OpenTerminal_request_def c\<close>)
qed

lemma OpenTunnel_request_change:
  "rsession_changes W (remote_sessions st) (remote_sessions (snd (OpenTunnel_request now i d u target ttl st)))"
proof -
  obtain r st1 where c: "CreateRemote now i d u (fst (kindForTarget target)) (now + ttl) st = (r, st1)" by force
  have c1: "rsession_changes W (remote_sessions st) (remote_sessions st1)"
    using CreateRemote_change [of W st now i d u "fst (kindForTarget target)" "now + ttl"] by (simp add: c)
  then show ?thesis
    using send_open_change [of W st1 now] by (auto simp: OpenTunnel_request_def c split: sum.split intro: rtranclp_trans)
qed

lemma open_outcome_change:
  "i \<in> W \<Longrightarrow> rsession_change W (remote_sessions st) (remote_sessions (snd (open_outcome now i reply st)))"
  using CloseRemote_change [of StateFailed W st now i]
  by (auto simp: open_outcome_def SetState_def upd_remote_def ended_states_def Let_def
      split: open_reply.split intro: rc_activate)

lemma OpenTerminal_reply_sessions:
  "remote_sessions (snd (OpenTerminal_reply now d i reply st)) = remote_sessions (snd (open_outcome now i reply (end_wait i st)))"
  by (simp add: OpenTerminal_reply_def split: prod.split sum.split)

lemma OpenTunnel_reply_sessions:
  "remote_sessions (snd (OpenTunnel_reply env now i d u target raw newID ttl reply st)) =
   remote_sessions (snd (open_outcome now i reply (end_wait i st)))"
proof -
  have "remote_sessions (snd (createTunnel a b c e f g h s)) = remote_sessions s" for a b c e f g h s
    by (simp add: createTunnel_def split: option.split)
  then show ?thesis
    by (auto simp: OpenTunnel_reply_def generateTicket_def split: prod.split sum.split) (metis snd_conv)+
qed

lemma interrupt_change:
  "rsession_change W (remote_sessions st) (remote_sessions (snd (interrupt_where p r now st)))"
  using rc_end [of StateInterrupted] by (simp add: interrupt_where_def ended_states_def)

lemma sweep_frame [simp]:
  "remote_sessions (sweep_privileges now st) = remote_sessions st" "r_waiting (sweep_privileges now st) = r_waiting st"
  "tunnel_sessions (sweep_privileges now st) = tunnel_sessions st" "r_connected (sweep_privileges now st) = r_connected st"
proof -
  have "remote_sessions (fold (expire_privilege now) ps st) = remote_sessions st \<and>
    r_waiting (fold (expire_privilege now) ps st) = r_waiting st \<and>
    tunnel_sessions (fold (expire_privilege now) ps st) = tunnel_sessions st \<and>
    r_connected (fold (expire_privilege now) ps st) = r_connected st" for ps
    by (induction ps arbitrary: st) (simp_all add: expire_privilege_def RevokePrivilege_def)
  then show "remote_sessions (sweep_privileges now st) = remote_sessions st"
    "r_waiting (sweep_privileges now st) = r_waiting st"
    "tunnel_sessions (sweep_privileges now st) = tunnel_sessions st"
    "r_connected (sweep_privileges now st) = r_connected st"
    by (simp_all add: sweep_privileges_def)
qed

lemma remote_step_change:
  "rsession_changes (set (r_waiting st)) (remote_sessions st) (remote_sessions (remote_step env e st))"
proof -
  let ?W = "set (r_waiting st)"
  note close = CloseService_change [THEN rc_into] and int = interrupt_change [THEN rc_into]
  show ?thesis
  proof (cases e)
    case (SDisconnect now d)
    then show ?thesis
      using int [of ?W "st\<lparr>r_connected := removeAll d (r_connected st)\<rparr>" "\<lambda>s. rs_device_id s = d" "''agent_disconnected''" now]
      by (auto simp: on_disconnect_def InterruptAllForDevice_def split: prod.split)
  next
    case (SOpenTerminal now i m d u c ttl)
    then show ?thesis using OpenTerminal_request_change by simp
  next
    case (SOpenTunnel now i d u target ttl)
    then show ?thesis using OpenTunnel_request_change by simp
  next
    case (STerminalReply now i reply)
    then show ?thesis using open_outcome_change [of i ?W "end_wait i st" now reply, THEN rc_into]
      by (auto simp: OpenTerminal_reply_sessions split: option.split)
  next
    case (STunnelReply now i target raw newID ttl reply)
    then show ?thesis using open_outcome_change [of i ?W "end_wait i st" now reply, THEN rc_into]
      by (auto simp: OpenTunnel_reply_sessions split: option.split)
  next
    case (SClose now u i ip)
    then show ?thesis using close [of ?W st now _ "''admin_closed''"] by (auto simp: handleCloseSession_def split: sum.split)
  next
    case (SBrowserGone now i)
    then show ?thesis using close [of ?W "unregister_stream i st" now _ "''browser_disconnected''"]
      by (auto simp: browser_disconnected_def Let_def split: sum.split)
  next
    case (SAgentClose now d j reason)
    then show ?thesis using close [of ?W "unregister_stream (the j) st" now _ "''agent_'' @ reason"]
      by (auto simp: on_agent_close_def split: sum.split option.split)
  next
    case (SGrant now newID i dur reason)
    then show ?thesis by (auto simp: GrantPrivilege_def CreatePrivilege_def Let_def split: sum.split option.split prod.split)
  next
    case (SRedeem now ip ticket)
    then show ?thesis by (auto simp: tunnel_connect_def ConsumeTicket_def split: sum.split option.split prod.split)
  next
    case (STunnelGone now t up down)
    let ?st = "CloseTunnel now (tn_id t) TunnelClosed (UpdateBytes (tn_id t) up down (unregister_stream (tn_remote_session_id t) st))"
    have "remote_sessions ?st = remote_sessions st" by (simp add: CloseTunnel_def UpdateBytes_def)
    with STunnelGone close [of ?W ?st now _ "''helper_disconnected''"] show ?thesis
      by (auto simp: tunnel_disconnected_def Let_def split: sum.split)
  next
    case (SRestart now)
    then show ?thesis
      using int [of ?W "InvalidateAllOutstanding now (st\<lparr>r_connected := [], r_waiting := [], r_broker := NewBroker\<rparr>)"
          "\<lambda>s. True" "''server_restart''" now]
      by (auto simp: restart_def InterruptAllActive_def InvalidateAllOutstanding_def Let_def split: prod.split)
  qed (auto simp: RevokePrivilege_def Resize_def split: sum.split)
qed

lemma CreateRemote_waiting [simp]: "r_waiting (snd (CreateRemote now i d u k e st)) = r_waiting st"
  by (simp add: CreateRemote_def Let_def split: option.split)

lemma CreateRemote_fresh:
  "CreateRemote now i d u k e st = (Inr s, st') \<Longrightarrow> rs_id s = i \<and> i \<notin> rs_id ` set (remote_sessions st) \<and> r_waiting st' = r_waiting st"
  by (auto simp: CreateRemote_def Let_def split: option.splits dest!: insert_unique_SomeD)

lemma send_open_waiting: "set (r_waiting (snd (send_open now s st))) \<subseteq> insert (rs_id s) (set (r_waiting st))"
  by (auto simp: send_open_def CloseRemote_def)

lemma open_outcome_waiting [simp]: "r_waiting (snd (open_outcome now i reply st)) = r_waiting st"
  by (simp add: open_outcome_def CloseRemote_def SetState_def Let_def split: open_reply.split)

lemma CloseService_waiting [simp]: "r_waiting (CloseService now s r st) = r_waiting st"
  by (simp add: CloseService_def CloseRemote_def Let_def split: option.split)

text \<open>Only a newly created session starts to wait.\<close>

lemma remote_step_waiting:
  "set (r_waiting (remote_step env e st)) \<subseteq> set (r_waiting st) \<union> (- rs_id ` set (remote_sessions st))"
proof (cases e)
  case (SOpenTerminal now i m d u c ttl)
  obtain r st1 where cr: "CreateRemote now i d u KindTerminal (now + ttl) st = (r, st1)" by force
  obtain m' st2 where o: "OpenMaintenance now m d c u st1 = (m', st2)" by force
  have "r_waiting st2 = r_waiting st1" using OpenMaintenance_frame(2) [of now m d c u st1] by (simp add: o)
  with cr CreateRemote_waiting [of now i d u KindTerminal "now + ttl" st] have w: "r_waiting st2 = r_waiting st" "r_waiting st1 = r_waiting st"
    by simp_all
  show ?thesis
  proof (cases r)
    case (Inr s)
    then have s: "rs_id s = i" "i \<notin> rs_id ` set (remote_sessions st)"
      using CreateRemote_fresh [of now i d u KindTerminal "now + ttl" st] cr by auto
    have "set (r_waiting (remote_step env e st)) \<subseteq> insert i (set (r_waiting st))"
    proof (cases m')
      case None
      then show ?thesis using send_open_waiting [of now s st2] w s(1) by (simp add: SOpenTerminal OpenTerminal_request_def cr Inr o)
    next
      case (Some k)
      then show ?thesis
        using send_open_waiting [of now s "AddEvent k ''terminal_opened'' ''Remote terminal session opened'' (Some (rs_id s)) (SetMaintenanceSession (rs_id s) k st2)"] w s(1)
        by (simp add: SOpenTerminal OpenTerminal_request_def cr Inr o SetMaintenanceSession_def)
    qed
    then show ?thesis using s(2) by blast
  qed (simp add: SOpenTerminal OpenTerminal_request_def cr w)
next
  case (SOpenTunnel now i d u target ttl)
  obtain r st1 where cr: "CreateRemote now i d u (fst (kindForTarget target)) (now + ttl) st = (r, st1)" by force
  have w: "r_waiting st1 = r_waiting st"
    using CreateRemote_waiting [of now i d u "fst (kindForTarget target)" "now + ttl" st] by (simp add: cr)
  show ?thesis
  proof (cases r)
    case (Inr s)
    then have s: "rs_id s = i" "i \<notin> rs_id ` set (remote_sessions st)"
      using CreateRemote_fresh [of now i d u "fst (kindForTarget target)" "now + ttl" st] cr by auto
    have "set (r_waiting (remote_step env e st)) \<subseteq> insert i (set (r_waiting st))"
      using send_open_waiting [of now s st1] w s(1) by (simp add: SOpenTunnel OpenTunnel_request_def cr Inr)
    then show ?thesis using s(2) by blast
  qed (simp add: SOpenTunnel OpenTunnel_request_def cr w)
next
  case (STerminalReply now i reply)
  obtain r st1 where oo: "open_outcome now i reply (end_wait i st) = (r, st1)" by force
  have "r_waiting st1 = removeAll i (r_waiting st)"
    using open_outcome_waiting [of now i reply "end_wait i st"] unfolding oo snd_conv by (simp add: end_wait_def)
  then have "set (r_waiting (snd (OpenTerminal_reply now d i reply st))) \<subseteq> set (r_waiting st)" for d
    by (auto simp: OpenTerminal_reply_def oo split: sum.splits)
  then show ?thesis by (auto simp: STerminalReply split: option.split)
next
  case (STunnelReply now i target raw newID ttl reply)
  have t: "r_waiting (snd (createTunnel a b c e f g h s)) = r_waiting s" for a b c e f g h s
    by (simp add: createTunnel_def split: option.split)
  obtain r st1 where oo: "open_outcome now i reply (end_wait i st) = (r, st1)" by force
  have w: "r_waiting st1 = removeAll i (r_waiting st)"
    using open_outcome_waiting [of now i reply "end_wait i st"] unfolding oo snd_conv by (simp add: end_wait_def)
  have "r_waiting (snd (OpenTunnel_reply env now i d u target raw newID ttl reply st)) = removeAll i (r_waiting st)" for d u
  proof -
    obtain r' st2 where ct: "createTunnel newID i d u target (sha256 env raw) (now + ttl) st1 = (r', st2)" by force
    have "r_waiting st2 = r_waiting st1" using t [of newID i d u target "sha256 env raw" "now + ttl" st1] unfolding ct snd_conv .
    then show ?thesis by (simp add: OpenTunnel_reply_def oo generateTicket_def ct w split: sum.split)
  qed
  then have "set (r_waiting (snd (OpenTunnel_reply env now i d u target raw newID ttl reply st))) \<subseteq> set (r_waiting st)" for d u
    by auto
  then show ?thesis by (auto simp: STunnelReply split: option.split)
qed (auto simp: on_disconnect_def InterruptAllForDevice_def interrupt_where_def handleCloseSession_def browser_disconnected_def
    on_agent_close_def GrantPrivilege_def CreatePrivilege_def RevokePrivilege_def tunnel_connect_def ConsumeTicket_def
    tunnel_disconnected_def CloseTunnel_def UpdateBytes_def Resize_def restart_def InterruptAllActive_def
    InvalidateAllOutstanding_def Let_def split: sum.splits option.splits prod.splits)

section \<open>Ended sessions\<close>

definition session_ended :: "uuid \<Rightarrow> remote_state \<Rightarrow> bool" where
  "session_ended i st \<longleftrightarrow> i \<notin> set (r_waiting st) \<and>
     (\<exists>s. find_row (\<lambda>s. rs_id s = i) (remote_sessions st) = Some s \<and> rs_state s \<in> ended_states)"

lemma rsession_change_ended:
  assumes "rsession_change W ss ss'" "find_row (\<lambda>s. rs_id s = i) ss = Some s" "rs_state s \<in> ended_states" "i \<notin> W"
  shows "\<exists>s'. find_row (\<lambda>s. rs_id s = i) ss' = Some s' \<and> rs_state s' \<in> ended_states"
  using assms find_row_SomeD [OF assms(2)] by (cases rule: rsession_change.cases) auto

lemma rsession_changes_ended:
  assumes "rsession_changes W ss ss'" "\<exists>s. find_row (\<lambda>s. rs_id s = i) ss = Some s \<and> rs_state s \<in> ended_states" "i \<notin> W"
  shows "\<exists>s'. find_row (\<lambda>s. rs_id s = i) ss' = Some s' \<and> rs_state s' \<in> ended_states"
  using assms by (induction rule: rtranclp_induct) (use rsession_change_ended in blast)+

interpretation ended_session: invariant "remote_step env" "session_ended i" for env i
proof
  fix st e assume e: "session_ended i st"
  then obtain s where s: "find_row (\<lambda>s. rs_id s = i) (remote_sessions st) = Some s" by (auto simp: session_ended_def)
  have "i \<in> rs_id ` set (remote_sessions st)" using find_row_SomeD [OF s] by auto
  then have "i \<notin> set (r_waiting (remote_step env e st))" using remote_step_waiting [of env e st] e by (auto simp: session_ended_def)
  moreover have "\<exists>s'. find_row (\<lambda>s. rs_id s = i) (remote_sessions (remote_step env e st)) = Some s' \<and> rs_state s' \<in> ended_states"
    using rsession_changes_ended [OF remote_step_change] e by (auto simp: session_ended_def)
  ultimately show "session_ended i (remote_step env e st)" by (simp add: session_ended_def)
qed

section \<open>Tickets\<close>

inductive tunnel_change :: "tunnel list \<Rightarrow> tunnel list \<Rightarrow> bool" where
  tn_new: "tn_id t \<notin> tn_id ` set ts \<Longrightarrow> tunnel_change ts (ts @ [t])"
| tn_move: "(\<And>t. tn_id (f t) = tn_id t) \<Longrightarrow> (\<And>t. tn_state t \<noteq> TicketIssued \<Longrightarrow> tn_state (f t) \<noteq> TicketIssued) \<Longrightarrow>
    tunnel_change ts (upd_where p f ts)"

lemma tn_into: "tunnel_change a b \<Longrightarrow> tunnel_change\<^sup>*\<^sup>* a b"
  by (rule r_into_rtranclp)

lemma OpenTunnel_reply_tunnels:
  "tunnel_change\<^sup>*\<^sup>* (tunnel_sessions st) (tunnel_sessions (snd (OpenTunnel_reply env now i d u target raw newID ttl reply st)))"
proof -
  obtain r st1 where oo: "open_outcome now i reply (end_wait i st) = (r, st1)" by force
  have "tunnel_sessions (snd (open_outcome now i reply s)) = tunnel_sessions s" for s
    by (simp add: open_outcome_def CloseRemote_def SetState_def Let_def split: open_reply.split)
  from this [of "end_wait i st"] have w: "tunnel_sessions st1 = tunnel_sessions st" unfolding oo snd_conv by simp
  show ?thesis
    by (auto simp: OpenTunnel_reply_def oo generateTicket_def createTunnel_def w split: sum.split option.split
        dest!: insert_unique_SomeD intro!: tn_into tn_new)
qed

lemma other_tunnels [simp]:
  "tunnel_sessions (snd (CreateRemote now i d u k e st)) = tunnel_sessions st"
  "tunnel_sessions (snd (send_open now s st)) = tunnel_sessions st"
  "tunnel_sessions (CloseService now s r st) = tunnel_sessions st"
  "tunnel_sessions (snd (open_outcome now i reply st)) = tunnel_sessions st"
  by (simp_all add: CreateRemote_def send_open_def CloseRemote_def CloseService_def open_outcome_def SetState_def Let_def
      split: option.split open_reply.split)

lemma OpenTerminal_tunnels:
  "tunnel_sessions (snd (OpenTerminal_request now i m d u c ttl st)) = tunnel_sessions st"
  "tunnel_sessions (snd (OpenTunnel_request now i d u target ttl st)) = tunnel_sessions st"
  "tunnel_sessions (snd (OpenTerminal_reply now d i reply st)) = tunnel_sessions st"
proof -
  have a: "CreateRemote now i d u k e st = (r, s') \<Longrightarrow> tunnel_sessions s' = tunnel_sessions st" for k e r s'
    using other_tunnels(1) by (metis snd_conv)
  have b: "OpenMaintenance now m d c u s = (r, s') \<Longrightarrow> tunnel_sessions s' = tunnel_sessions s" for s r s'
    using OpenMaintenance_frame(3) by (metis snd_conv)
  have c: "open_outcome now i reply (end_wait i st) = (r, s') \<Longrightarrow> tunnel_sessions s' = tunnel_sessions st" for r s'
    using other_tunnels(4) frame_simps by (metis snd_conv)
  show "tunnel_sessions (snd (OpenTerminal_request now i m d u c ttl st)) = tunnel_sessions st"
    by (auto simp: OpenTerminal_request_def SetMaintenanceSession_def split: prod.split sum.split option.split dest!: a b)
  show "tunnel_sessions (snd (OpenTunnel_request now i d u target ttl st)) = tunnel_sessions st"
    by (auto simp: OpenTunnel_request_def split: prod.split sum.split dest!: a)
  show "tunnel_sessions (snd (OpenTerminal_reply now d i reply st)) = tunnel_sessions st"
    by (auto simp: OpenTerminal_reply_def split: prod.split sum.split dest!: c)
qed

lemma ConsumeTicket_tunnels:
  "tunnel_change\<^sup>*\<^sup>* (tunnel_sessions st) (tunnel_sessions (snd (ConsumeTicket env now ticket st)))"
  by (auto simp: ConsumeTicket_def upd_tunnel_def split: sum.split option.split intro!: tn_into tn_move)

lemma remote_step_tunnels:
  "tunnel_change\<^sup>*\<^sup>* (tunnel_sessions st) (tunnel_sessions (remote_step env e st))"
proof (cases e)
  case (STunnelReply now i target raw newID ttl reply)
  then show ?thesis using OpenTunnel_reply_tunnels by (auto split: option.split)
next
  case (SRedeem now ip ticket)
  then show ?thesis using ConsumeTicket_tunnels [of st env now ticket]
    by (auto simp: tunnel_connect_def split: prod.split sum.split)
next
  case (STunnelGone now t up down)
  let ?st = "unregister_stream (tn_remote_session_id t) st"
  have "tunnel_change\<^sup>*\<^sup>* (tunnel_sessions st) (tunnel_sessions (UpdateBytes (tn_id t) up down ?st))"
    by (auto simp: UpdateBytes_def upd_tunnel_def intro!: tn_into tn_move)
  also have "tunnel_change\<^sup>*\<^sup>* \<dots> (tunnel_sessions (CloseTunnel now (tn_id t) TunnelClosed (UpdateBytes (tn_id t) up down ?st)))"
    by (auto simp: CloseTunnel_def upd_tunnel_def intro!: tn_into tn_move)
  finally show ?thesis by (simp add: STunnelGone tunnel_disconnected_def Let_def split: sum.split)
next
  case (SRestart now)
  then show ?thesis
    by (auto simp: restart_def InterruptAllActive_def interrupt_where_def InvalidateAllOutstanding_def intro!: tn_into tn_move)
qed (auto simp: OpenTerminal_tunnels on_disconnect_def InterruptAllForDevice_def interrupt_where_def handleCloseSession_def
    browser_disconnected_def on_agent_close_def GrantPrivilege_def CreatePrivilege_def RevokePrivilege_def Resize_def Let_def
    split: sum.splits option.splits prod.splits)

definition tunnels_ok :: "remote_state \<Rightarrow> bool" where
  "tunnels_ok st \<longleftrightarrow> distinct (map tn_id (tunnel_sessions st))"

definition ticket_open :: "uuid \<Rightarrow> remote_state \<Rightarrow> bool" where
  "ticket_open i st = (case find_row (\<lambda>t. tn_id t = i) (tunnel_sessions st) of
     None \<Rightarrow> True | Some t \<Rightarrow> tn_state t = TicketIssued)"

text \<open>The event redeems the ticket of tunnel \<open>i\<close>.\<close>

fun redeems :: "ticket_env \<Rightarrow> uuid \<Rightarrow> remote_event \<Rightarrow> remote_state \<Rightarrow> bool" where
  "redeems env i (SRedeem now ip ticket) st = (case fst (ConsumeTicket env now ticket st) of Inl _ \<Rightarrow> False | Inr t \<Rightarrow> tn_id t = i)"
| "redeems env i _ st = False"

lemma tunnel_changes_ok:
  "tunnel_change\<^sup>*\<^sup>* ts ts' \<Longrightarrow> distinct (map tn_id ts) \<Longrightarrow> distinct (map tn_id ts')"
  by (induction rule: rtranclp_induct) (auto elim!: tunnel_change.cases)

lemma tunnel_changes_spent:
  "tunnel_change\<^sup>*\<^sup>* ts ts' \<Longrightarrow> \<exists>t. find_row (\<lambda>t. tn_id t = i) ts = Some t \<and> tn_state t \<noteq> TicketIssued \<Longrightarrow>
   \<exists>t. find_row (\<lambda>t. tn_id t = i) ts' = Some t \<and> tn_state t \<noteq> TicketIssued"
  by (induction rule: rtranclp_induct) (auto elim!: tunnel_change.cases)

lemma ConsumeTicket_success:
  assumes "fst (ConsumeTicket env now ticket st) = Inr t"
  shows "\<exists>r \<in> set (tunnel_sessions st). t = r\<lparr>tn_state := TunnelActive\<rparr> \<and> tn_state r = TicketIssued \<and> now \<le> tn_expires_at r \<and>
      hashTicket env ticket = Inr (tn_ticket_hash r) \<and>
      snd (ConsumeTicket env now ticket st) =
        upd_tunnel (tn_id r) (\<lambda>t. t\<lparr>tn_state := TunnelActive, tn_connected_at := Some now\<rparr>) st"
  using assms unfolding ConsumeTicket_def by (auto split: sum.splits option.splits if_splits dest: find_row_SomeD)

interpretation ticket_use: single_use "remote_step env" tunnels_ok "redeems env i" "ticket_open i" for env i
proof
  fix st e assume ok: "tunnels_ok st"
  show "tunnels_ok (remote_step env e st)"
    using tunnel_changes_ok [OF remote_step_tunnels] ok by (simp add: tunnels_ok_def)
  {
    assume "\<not> ticket_open i st"
    then show "\<not> ticket_open i (remote_step env e st)"
      using tunnel_changes_spent [OF remote_step_tunnels, of i st env e]
      by (auto simp: ticket_open_def simp del: find_row_None split: option.splits)
  }
  assume "redeems env i e st"
  then obtain now ip ticket t where e: "e = SRedeem now ip ticket" and t: "fst (ConsumeTicket env now ticket st) = Inr t" "tn_id t = i"
    by (cases "(env, i, e, st)" rule: redeems.cases) (auto split: sum.splits)
  from ConsumeTicket_success [OF t(1)] obtain r where r: "r \<in> set (tunnel_sessions st)" "tn_id r = i" "tn_state r = TicketIssued"
    "snd (ConsumeTicket env now ticket st) = upd_tunnel i (\<lambda>t. t\<lparr>tn_state := TunnelActive, tn_connected_at := Some now\<rparr>) st"
    using t(2) by auto
  have f: "find_row (\<lambda>t. tn_id t = i) (tunnel_sessions st) = Some r"
    using find_row_distinct [of tn_id _ r] ok r(1,2) by (auto simp: tunnels_ok_def)
  then show "ticket_open i st" using r by (simp add: ticket_open_def)
  have "tunnel_sessions (snd (tunnel_connect env now ip ticket st)) = tunnel_sessions (snd (ConsumeTicket env now ticket st))"
    by (auto simp: tunnel_connect_def split: prod.split sum.split)
  then show "\<not> ticket_open i (remote_step env e st)"
    using f r(2) by (simp add: ticket_open_def e r(4) upd_tunnel_def)
qed

section \<open>Privileges over time\<close>

definition privileges_within :: "duration \<Rightarrow> remote_state \<Rightarrow> bool" where
  "privileges_within m st \<longleftrightarrow> distinct (map pv_id (privilege_sessions st)) \<and>
     (\<forall>p \<in> set (privilege_sessions st). pv_valid_until p \<le> pv_created_at p + m)"

lemma GrantPrivilege_within:
  "privileges_within m st \<Longrightarrow> privileges_within m (snd (GrantPrivilege now newID s dur m reason st))"
  by (auto simp: GrantPrivilege_def CreatePrivilege_def privileges_within_def Let_def split: option.split prod.split sum.split
      dest!: insert_unique_SomeD)

lemma revoke_fuse:
  "upd_where (\<lambda>q. pv_id q \<in> S \<and> pv_revoked_at q = None) (pv_revoked_at_update (\<lambda>_. Some now))
     (upd_where (\<lambda>q. pv_id q = a \<and> pv_revoked_at q = None) (pv_revoked_at_update (\<lambda>_. Some now)) ps) =
   upd_where (\<lambda>q. pv_id q \<in> insert a S \<and> pv_revoked_at q = None) (pv_revoked_at_update (\<lambda>_. Some now)) ps"
  by (induction ps) auto

lemma expire_all:
  "privilege_sessions (fold (expire_privilege now) ps st) =
     upd_where (\<lambda>p. pv_id p \<in> pv_id ` set ps \<and> pv_revoked_at p = None) (\<lambda>p. p\<lparr>pv_revoked_at := Some now\<rparr>) (privilege_sessions st) \<and>
   r_audit (fold (expire_privilege now) ps st) = r_audit st @ map (\<lambda>p. system_event ''privilege.expired'' (Some (pv_device_id p))
     (Some (pv_remote_session_id p)) [(''privilege_session_id'', MUuid (pv_id p))]) ps"
proof (induction ps arbitrary: st)
  case Nil
  then show ?case by (simp add: upd_where_def)
next
  case (Cons p ps)
  have one: "privilege_sessions (expire_privilege now p st) =
      upd_where (\<lambda>q. pv_id q = pv_id p \<and> pv_revoked_at q = None) (\<lambda>p. p\<lparr>pv_revoked_at := Some now\<rparr>) (privilege_sessions st)"
    by (simp add: expire_privilege_def RevokePrivilege_def RevokePrivilegeRow_def)
  have audit: "r_audit (expire_privilege now p st) = r_audit st @ [system_event ''privilege.expired'' (Some (pv_device_id p))
      (Some (pv_remote_session_id p)) [(''privilege_session_id'', MUuid (pv_id p))]]"
    by (simp add: expire_privilege_def RevokePrivilege_def record_audit_def)
  show ?case using Cons.IH [of "expire_privilege now p st"] revoke_fuse [of "pv_id ` set ps" now "pv_id p"]
    by (simp add: one audit)
qed

lemma other_privileges [simp]:
  "privilege_sessions (snd (CreateRemote now i d u k e st)) = privilege_sessions st"
  "privilege_sessions (snd (send_open now s st)) = privilege_sessions st"
  "privilege_sessions (CloseService now s r st) = privilege_sessions st"
  "privilege_sessions (snd (open_outcome now i reply st)) = privilege_sessions st"
  "privilege_sessions (snd (createTunnel n i d u target h ex st)) = privilege_sessions st"
  "privilege_sessions (snd (ConsumeTicket env now ticket st)) = privilege_sessions st"
  by (simp_all add: CreateRemote_def send_open_def CloseRemote_def CloseService_def open_outcome_def SetState_def
      createTunnel_def ConsumeTicket_def Let_def split: option.split open_reply.split sum.split)

lemma opening_privileges [simp]:
  "privilege_sessions (snd (OpenTerminal_request now i m d u c ttl st)) = privilege_sessions st"
  "privilege_sessions (snd (OpenTunnel_request now i d u target ttl st)) = privilege_sessions st"
  "privilege_sessions (snd (OpenTerminal_reply now d i reply st)) = privilege_sessions st"
  "privilege_sessions (snd (OpenTunnel_reply env now i d u target raw n ttl reply st)) = privilege_sessions st"
  "privilege_sessions (snd (tunnel_connect env now ip ticket st)) = privilege_sessions st"
proof -
  have a: "CreateRemote now i d u k e st = (r, s') \<Longrightarrow> privilege_sessions s' = privilege_sessions st" for k e r s'
    using other_privileges(1) by (metis snd_conv)
  have b: "OpenMaintenance now m d c u s = (r, s') \<Longrightarrow> privilege_sessions s' = privilege_sessions s" for s r s'
    using OpenMaintenance_frame(4) by (metis snd_conv)
  have c: "open_outcome now i reply (end_wait i st) = (r, s') \<Longrightarrow> privilege_sessions s' = privilege_sessions st" for r s'
    using other_privileges(4) frame_simps by (metis snd_conv)
  have d: "createTunnel n i d u target h ex s = (r, s') \<Longrightarrow> privilege_sessions s' = privilege_sessions s" for h ex s r s'
    using other_privileges(5) by (metis snd_conv)
  have e: "ConsumeTicket env now ticket st = (r, s') \<Longrightarrow> privilege_sessions s' = privilege_sessions st" for r s'
    using other_privileges(6) by (metis snd_conv)
  show "privilege_sessions (snd (OpenTerminal_request now i m d u c ttl st)) = privilege_sessions st"
    by (auto simp: OpenTerminal_request_def SetMaintenanceSession_def split: prod.split sum.split option.split dest!: a b)
  show "privilege_sessions (snd (OpenTunnel_request now i d u target ttl st)) = privilege_sessions st"
    by (auto simp: OpenTunnel_request_def split: prod.split sum.split dest!: a)
  show "privilege_sessions (snd (OpenTerminal_reply now d i reply st)) = privilege_sessions st"
    by (auto simp: OpenTerminal_reply_def split: prod.split sum.split dest!: c)
  show "privilege_sessions (snd (OpenTunnel_reply env now i d u target raw n ttl reply st)) = privilege_sessions st"
    by (auto simp: OpenTunnel_reply_def generateTicket_def split: prod.split sum.split dest!: c d)
  show "privilege_sessions (snd (tunnel_connect env now ip ticket st)) = privilege_sessions st"
    by (auto simp: tunnel_connect_def split: prod.split sum.split dest!: e)
qed

interpretation granted: invariant "remote_step env" "privileges_within (privilege_ttl env)" for env
proof
  fix st e assume ok: "privileges_within (privilege_ttl env) st"
  show "privileges_within (privilege_ttl env) (remote_step env e st)"
  proof (cases e)
    case (SGrant now newID i dur reason)
    then show ?thesis using GrantPrivilege_within [OF ok] ok by (auto split: sum.split)
  next
    case (SRevokePrivilege now p)
    then show ?thesis using ok by (simp add: RevokePrivilege_def RevokePrivilegeRow_def privileges_within_def)
  next
    case (SSweep now)
    then show ?thesis using ok expire_all [of now "expiredButNotRevoked now st" st]
      by (simp add: sweep_privileges_def privileges_within_def)
  next
    case (STunnelGone now t up down)
    then show ?thesis using ok by (simp add: tunnel_disconnected_def CloseTunnel_def UpdateBytes_def Let_def privileges_within_def split: sum.split)
  next
    case (SRestart now)
    then show ?thesis using ok
      by (simp add: restart_def InterruptAllActive_def interrupt_where_def InvalidateAllOutstanding_def privileges_within_def)
  next
    case (SDisconnect now d)
    then show ?thesis using ok by (simp add: on_disconnect_def InterruptAllForDevice_def interrupt_where_def privileges_within_def)
  qed (use ok in \<open>auto simp: privileges_within_def handleCloseSession_def browser_disconnected_def on_agent_close_def Resize_def Let_def
        split: sum.splits option.splits\<close>)
qed

section \<open>Properties\<close>

definition init_remote :: remote_state where
  "init_remote = \<lparr>remote_sessions = [], privilege_sessions = [], tunnel_sessions = [], maintenance_sessions = [],
     maintenance_events = [], r_broker = NewBroker, r_connected = [], r_waiting = [], r_sent = [], r_audit = []\<rparr>"

text \<open>C12: a tunnel ticket is redeemed at most once, in every run from an empty database,
  restarts and concurrent redemptions included.\<close>

theorem tunnel_ticket_redeemed_once:
  "win_count (redeems env i) (remote_step env) es init_remote \<le> 1"
  by (rule ticket_use.at_most_one_win) (simp add: tunnels_ok_def init_remote_def)

text \<open>C33: a session that is closed, failed or interrupted, and for which no agent answer is
  still awaited, never becomes active again, whatever happens afterwards.\<close>

theorem ended_session_stays_ended:
  assumes "session_ended i st"
  shows "\<exists>s. GetRemote i (run (remote_step env) es st) = Inr s \<and> rs_state s \<in> ended_states"
  using ended_session.run_keeps [OF assms, of env es] by (auto simp: session_ended_def GetRemote_def)

text \<open>A terminal that was opened and closed by its administrator.\<close>

definition demo_ticket_env :: ticket_env where
  "demo_ticket_env = \<lparr>sha256 = (\<lambda>b. b), uuid_string = (\<lambda>_. []), uuid_parse = (\<lambda>_. None),
     b64url_encode_t = map (\<lambda>b. char_of (unat b)), b64url_decode_t = (\<lambda>s. Some (bytes_of s)), privilege_ttl = 600\<rparr>"

definition demo_opening :: "remote_event list" where
  "demo_opening = [SConnect 1, SOpenTerminal 10 5 6 1 2 None 1800]"

definition demo_closed :: remote_state where
  "demo_closed = run (remote_step demo_ticket_env)
     (demo_opening @ [STerminalReply 11 5 (Reply (Some (''success'', []))), SClose 20 2 5 ''::1'']) init_remote"

lemma demo_closed_ended: "session_ended 5 demo_closed"
proof -
  have "5 \<notin> set (r_waiting demo_closed)" by code_simp
  moreover have "map_option rs_state (find_row (\<lambda>s. rs_id s = 5) (remote_sessions demo_closed)) = Some StateClosed" by code_simp
  ultimately show ?thesis by (auto simp: session_ended_def ended_states_def)
qed

theorem ended_session_stays_ended_witness:
  "\<exists>s. GetRemote 5 (run (remote_step demo_ticket_env) [SRestart 30] demo_closed) = Inr s \<and> rs_state s \<in> ended_states"
  by (rule ended_session_stays_ended [OF demo_closed_ended])

text \<open>While an answer is awaited the promise does not hold. When the agent's connection
  drops after it answered and before the answer is processed, the session is interrupted and
  then set active again, with its end time and close reason still in place.\<close>

theorem interrupted_session_reactivated:
  assumes "find_row (\<lambda>s. rs_id s = i) (remote_sessions st) = Some s" "i \<in> set (r_waiting st)"
    and "rs_kind s = KindTerminal" "rs_state s = StateRequested"
  shows "\<exists>s1 s2. GetRemote i (remote_step env (SDisconnect now (rs_device_id s)) st) = Inr s1 \<and> rs_state s1 = StateInterrupted \<and>
           GetRemote i (remote_step env (STerminalReply now' i (Reply (Some (''success'', m))))
             (remote_step env (SDisconnect now (rs_device_id s)) st)) = Inr s2 \<and>
           rs_state s2 = StateActive \<and> rs_closed_at s2 = Some now"
proof -
  let ?s1 = "s\<lparr>rs_state := StateInterrupted, rs_closed_at := Some now, rs_close_reason := ''agent_disconnected''\<rparr>"
  let ?st = "remote_step env (SDisconnect now (rs_device_id s)) st"
  have s1: "find_row (\<lambda>s. rs_id s = i) (remote_sessions ?st) = Some ?s1"
    using assms(1,4)
    by (simp add: on_disconnect_def InterruptAllForDevice_def interrupt_where_def interruptible_def)
  have w: "i \<in> set (r_waiting ?st)"
    using assms(2) by (simp add: on_disconnect_def InterruptAllForDevice_def interrupt_where_def)
  let ?r = "remote_step env (STerminalReply now' i (Reply (Some (''success'', m)))) ?st"
  have "remote_sessions ?r = upd_where (\<lambda>s. rs_id s = i) (\<lambda>s. s\<lparr>rs_state := StateActive\<rparr>) (remote_sessions ?st)"
    using s1 w assms(3)
    by (simp add: OpenTerminal_reply_sessions open_outcome_def SetState_def upd_remote_def
        del: remote_step.simps add: remote_step.simps(5))
  then have "find_row (\<lambda>s. rs_id s = i) (remote_sessions ?r) = Some (?s1\<lparr>rs_state := StateActive\<rparr>)"
    using s1 find_row_SomeD [OF s1] by simp
  with s1 show ?thesis by (simp add: GetRemote_def del: remote_step.simps)
qed

definition demo_waiting :: remote_state where
  "demo_waiting = run (remote_step demo_ticket_env) demo_opening init_remote"

lemma demo_waiting_row:
  "\<exists>s. find_row (\<lambda>s. rs_id s = 5) (remote_sessions demo_waiting) = Some s \<and> rs_kind s = KindTerminal \<and>
     rs_state s = StateRequested \<and> rs_device_id s = 1" "5 \<in> set (r_waiting demo_waiting)"
proof -
  have "map_option (\<lambda>s. (rs_kind s, rs_state s, rs_device_id s)) (find_row (\<lambda>s. rs_id s = 5) (remote_sessions demo_waiting)) =
      Some (KindTerminal, StateRequested, 1)" by code_simp
  then show "\<exists>s. find_row (\<lambda>s. rs_id s = 5) (remote_sessions demo_waiting) = Some s \<and> rs_kind s = KindTerminal \<and>
     rs_state s = StateRequested \<and> rs_device_id s = 1" by auto
  show "5 \<in> set (r_waiting demo_waiting)" by code_simp
qed

theorem interrupted_session_reactivated_witness:
  "\<exists>s2. GetRemote 5 (remote_step demo_ticket_env (STerminalReply 13 5 (Reply (Some (''success'', []))))
      (remote_step demo_ticket_env (SDisconnect 12 1) demo_waiting)) = Inr s2 \<and> rs_state s2 = StateActive \<and> rs_closed_at s2 = Some 12"
proof -
  obtain s where s: "find_row (\<lambda>s. rs_id s = 5) (remote_sessions demo_waiting) = Some s" "rs_kind s = KindTerminal"
    "rs_state s = StateRequested" "rs_device_id s = 1" using demo_waiting_row(1) by blast
  from interrupted_session_reactivated [OF s(1) demo_waiting_row(2) s(2,3), of demo_ticket_env 12 13 "[]"]
  show ?thesis unfolding s(4) by blast
qed

lemma sort_key_hd: "sort_key f xs = p # ps \<Longrightarrow> p \<in> set xs"
  by (drule arg_cong [of _ _ set]) auto

text \<open>C34: a privilege is never in force longer than the configured lifetime: in every run
  from an empty database, the privilege that \<open>ActiveForSession\<close> reports at an instant was
  granted for that session less than \<open>privilege_ttl\<close> before it, and is not revoked.\<close>

theorem privilege_never_outlives_ttl:
  assumes "ActiveForSession now i (run (remote_step env) es init_remote) = Some p"
  shows "pv_remote_session_id p = i \<and> pv_revoked_at p = None \<and> now < pv_valid_until p \<and>
         now < pv_created_at p + privilege_ttl env"
proof -
  let ?st = "run (remote_step env) es init_remote"
  have "privileges_within (privilege_ttl env) ?st"
    by (rule granted.run_keeps) (simp add: privileges_within_def init_remote_def)
  moreover have "p \<in> set (filter (\<lambda>p. pv_remote_session_id p = i \<and> pv_revoked_at p = None \<and> pv_valid_until p > now)
      (privilege_sessions ?st))"
    using assms unfolding ActiveForSession_def by (auto split: list.splits dest!: sort_key_hd)
  ultimately show ?thesis by (auto simp: privileges_within_def)
qed

definition demo_granting :: "remote_event list" where
  "demo_granting = demo_opening @ [STerminalReply 11 5 (Reply (Some (''success'', []))), SGrant 100 8 5 9999 ''admin_requested'']"

theorem privilege_never_outlives_ttl_witness:
  "\<exists>p. ActiveForSession 699 5 (run (remote_step demo_ticket_env) demo_granting init_remote) = Some p \<and>
     699 < pv_created_at p + 600"
proof -
  have "ActiveForSession 699 5 (run (remote_step demo_ticket_env) demo_granting init_remote) \<noteq> None" by code_simp
  then obtain p where p: "ActiveForSession 699 5 (run (remote_step demo_ticket_env) demo_granting init_remote) = Some p" by auto
  have "privilege_ttl demo_ticket_env = 600" by (simp add: demo_ticket_env_def)
  with privilege_never_outlives_ttl [OF p] p show ?thesis by auto
qed

text \<open>One tick of the expiry sweeper leaves no expired privilege unrevoked, records
  exactly one \<open>privilege.expired\<close> event per privilege it revokes, in their order, and
  leaves every privilege that is still valid as it was.\<close>

theorem sweep_revokes_exactly_expired:
  assumes "distinct (map pv_id (privilege_sessions st))"
  shows "expiredButNotRevoked now (sweep_privileges now st) = [] \<and>
         map ev_event_type (drop (length (r_audit st)) (r_audit (sweep_privileges now st))) =
           replicate (length (expiredButNotRevoked now st)) ''privilege.expired'' \<and>
         filter (\<lambda>p. pv_valid_until p > now) (privilege_sessions (sweep_privileges now st)) =
           filter (\<lambda>p. pv_valid_until p > now) (privilege_sessions st)"
proof -
  let ?E = "expiredButNotRevoked now st" and ?f = "pv_revoked_at_update (\<lambda>_. Some now)"
  note all = expire_all [of now ?E st, folded sweep_privileges_def]
  have same: "p \<in> set ps \<Longrightarrow> set ps \<subseteq> set (privilege_sessions st) \<Longrightarrow>
      (pv_id p \<in> pv_id ` set ?E \<and> pv_revoked_at p = None) = (pv_revoked_at p = None \<and> pv_valid_until p \<le> now)" for p ps
    using assms by (auto simp: expiredButNotRevoked_def distinct_map inj_on_def image_iff)
  have "set ps \<subseteq> set (privilege_sessions st) \<Longrightarrow>
      upd_where (\<lambda>p. pv_id p \<in> pv_id ` set ?E \<and> pv_revoked_at p = None) ?f ps =
      upd_where (\<lambda>p. pv_revoked_at p = None \<and> pv_valid_until p \<le> now) ?f ps" for ps
    unfolding upd_where_def by (rule map_cong) (use same in auto)
  then have u: "privilege_sessions (sweep_privileges now st) =
      upd_where (\<lambda>p. pv_revoked_at p = None \<and> pv_valid_until p \<le> now) ?f (privilege_sessions st)"
    using all by simp
  have f: "filter (\<lambda>p. pv_revoked_at p = None \<and> pv_valid_until p \<le> now)
      (upd_where (\<lambda>p. pv_revoked_at p = None \<and> pv_valid_until p \<le> now) ?f ps) = []"
    "filter (\<lambda>p. pv_valid_until p > now) (upd_where (\<lambda>p. pv_revoked_at p = None \<and> pv_valid_until p \<le> now) ?f ps) =
     filter (\<lambda>p. pv_valid_until p > now) ps" for ps
    by (induction ps) auto
  have "expiredButNotRevoked now (sweep_privileges now st) = []"
    unfolding expiredButNotRevoked_def [of _ "sweep_privileges now st"] u by (rule f(1))
  moreover have "map ev_event_type (drop (length (r_audit st)) (r_audit (sweep_privileges now st))) =
      replicate (length ?E) ''privilege.expired''"
    by (simp add: conjunct2 [OF all] o_def system_event_def map_replicate_const)
  ultimately show ?thesis unfolding u f(2) by simp
qed

definition demo_granted :: remote_state where
  "demo_granted = run (remote_step demo_ticket_env) demo_granting init_remote"

theorem sweep_revokes_exactly_expired_witness:
  "length (expiredButNotRevoked 700 demo_granted) = 1 \<and> expiredButNotRevoked 700 (sweep_privileges 700 demo_granted) = []"
proof -
  have "distinct (map pv_id (privilege_sessions demo_granted))" by code_simp
  from sweep_revokes_exactly_expired [OF this, of 700]
  have "expiredButNotRevoked 700 (sweep_privileges 700 demo_granted) = []" by blast
  moreover have "length (expiredButNotRevoked 700 demo_granted) = 1" by code_simp
  ultimately show ?thesis by simp
qed

lemma after_interrupt_audit:
  "r_audit (fold (after_interrupt now su dev re) is st) =
   r_audit st @ map (\<lambda>(i, m). system_event ''remote_session.interrupted'' dev (Some i) [(''reason'', MStr re)]) is"
proof (induction "is" arbitrary: st)
  case (Cons x xs)
  have "r_audit (unregister_stream i s) = r_audit s" "r_audit (CloseMaintenance n j a b s) = r_audit s" for i s n j a b
    by (simp_all add: unregister_stream_def CloseMaintenance_def split: sum.split)
  then have "r_audit (after_interrupt now su dev re x st) =
      r_audit st @ [(\<lambda>(i, m). system_event ''remote_session.interrupted'' dev (Some i) [(''reason'', MStr re)]) x]"
    by (simp add: after_interrupt_def record_audit_def Let_def split: prod.split option.split)
  with Cons.IH show ?case by simp
qed simp

lemma after_interrupt_broker:
  "dev = None \<Longrightarrow> r_broker (fold (after_interrupt now su dev re) is st) = r_broker st"
  by (induction "is" arbitrary: st) (simp_all add: after_interrupt_def Let_def CloseMaintenance_def split: prod.split option.split)

text \<open>A restart of the server leaves no session requested, opening or active, no
  unused tunnel ticket and no routable stream, and records one event per session it
  interrupts.\<close>

theorem restart_interrupts_everything:
  "filter interruptible (remote_sessions (restart now st)) = [] \<and>
   filter (\<lambda>t. tn_state t = TicketIssued) (tunnel_sessions (restart now st)) = [] \<and>
   b_streams (r_broker (restart now st)) i = None \<and>
   r_audit (restart now st) = r_audit st @ map (\<lambda>s. system_event ''remote_session.interrupted'' None (Some (rs_id s))
     [(''reason'', MStr ''server_restart'')]) (filter interruptible (remote_sessions st))"
proof -
  have "filter interruptible (upd_where interruptible
      (\<lambda>s. s\<lparr>rs_state := StateInterrupted, rs_closed_at := Some now, rs_close_reason := ''server_restart''\<rparr>) ss) = []" for ss
    by (induction ss) (auto simp: interruptible_def)
  moreover have "filter (\<lambda>t. tn_state t = TicketIssued) (upd_where (\<lambda>t. tn_state t = TicketIssued)
      (\<lambda>t. t\<lparr>tn_state := TunnelExpired, tn_closed_at := Some now\<rparr>) ts) = []" for ts
    by (induction ts) auto
  ultimately show ?thesis
    by (simp add: restart_def InterruptAllActive_def interrupt_where_def InvalidateAllOutstanding_def after_interrupt_audit
        after_interrupt_broker NewBroker_def o_def)
qed

end
