(* ===== verification/Settings.thy ===== *)
theory Settings
  imports Device_Registry Go_Strings
begin

text \<open>
  The administrative data of the server: runtime settings
  (\<open>internal/appsettings/appsettings.go\<close>), the reported remote-support accounts and
  their scheduled rotation (\<open>internal/support\<close>), the Telegram configuration
  (\<open>internal/notify/telegram.go\<close>), and customers with their device groups
  (\<open>internal/customer/customer.go\<close>). AES-GCM under the server's key is the pair
  \<open>secret_seal\<close>, \<open>secret_open\<close> of the environment.
\<close>

section \<open>State\<close>

record setting =
  sg_key :: string
  sg_value :: string
  sg_updated_at :: time

record support_credential =
  sc_device_id :: uuid
  sc_username :: string
  sc_ciphertext :: bytes
  sc_nonce :: bytes
  sc_updated_at :: time

record telegram_row =
  tg_ciphertext :: bytes
  tg_nonce :: bytes
  tg_chat_id :: string
  tg_updated_at :: time

record customer =
  cu_id :: uuid
  cu_name :: string
  cu_number :: string
  cu_status :: string
  cu_notes :: string

record device_group =
  gr_id :: uuid
  gr_customer_id :: "uuid option"
  gr_name :: string

record admin_data =
  app_settings :: "setting list"
  device_support_credentials :: "support_credential list"
  telegram_config :: "telegram_row option"
  customers :: "customer list"
  device_groups :: "device_group list"

record secret_env =
  secret_seal :: "bytes \<Rightarrow> bytes \<Rightarrow> bytes"
  secret_open :: "bytes \<Rightarrow> bytes \<Rightarrow> bytes option"

datatype admin_error = ErrAdminNotFound | ErrNotPositive | ErrDecrypt | ErrNotConfigured | ErrAdminDatabase

section \<open>Runtime settings\<close>

definition KeyMetricsRawRetentionHours :: string where
  "KeyMetricsRawRetentionHours = ''metrics.raw_retention_hours''"
definition KeyMetricsHourlyRetentionHours :: string where
  "KeyMetricsHourlyRetentionHours = ''metrics.hourly_retention_hours''"
definition KeyNetworkRawRetentionHours :: string where
  "KeyNetworkRawRetentionHours = ''network_metrics.raw_retention_hours''"
definition KeyNetworkHourlyRetentionHours :: string where
  "KeyNetworkHourlyRetentionHours = ''network_metrics.hourly_retention_hours''"
definition KeySupportCredentialRotationDays :: string where
  "KeySupportCredentialRotationDays = ''support_credential.rotation_days''"

lemmas setting_keys = KeyMetricsRawRetentionHours_def KeyMetricsHourlyRetentionHours_def KeyNetworkRawRetentionHours_def
  KeyNetworkHourlyRetentionHours_def KeySupportCredentialRotationDays_def

definition GetSetting :: "string \<Rightarrow> admin_data \<Rightarrow> string option" where
  "GetSetting k ad = map_option sg_value (find_row (\<lambda>s. sg_key s = k) (app_settings ad))"

definition SetSetting :: "time \<Rightarrow> string \<Rightarrow> string \<Rightarrow> admin_data \<Rightarrow> admin_data" where
  "SetSetting now k v ad =
     ad\<lparr>app_settings := upsert sg_key \<lparr>sg_key = k, sg_value = v, sg_updated_at = now\<rparr> (app_settings ad)\<rparr>"

lemma GetSetting_SetSetting [simp]:
  "GetSetting k (SetSetting now k' v ad) = (if k = k' then Some v else GetSetting k ad)"
  by (simp add: GetSetting_def SetSetting_def find_row_upsert del: find_row_None)

text \<open>An override in hours, when it is there, a number and positive; else the default. The
  product is an \<open>int64\<close> multiplication.\<close>

definition hours_or :: "duration \<Rightarrow> string option \<Rightarrow> duration" where
  "hours_or dflt v = (case v of
     None \<Rightarrow> dflt
   | Some s \<Rightarrow> (case atoi s of None \<Rightarrow> dflt | Some h \<Rightarrow> if h > 0 then wrap64 (h * hour) else dflt))"

definition MetricsRetention :: "duration \<Rightarrow> duration \<Rightarrow> admin_data \<Rightarrow> duration \<times> duration" where
  "MetricsRetention defaultRaw defaultHourly ad =
     (hours_or defaultRaw (GetSetting KeyMetricsRawRetentionHours ad),
      hours_or defaultHourly (GetSetting KeyMetricsHourlyRetentionHours ad))"

definition NetworkMetricsRetention :: "duration \<Rightarrow> duration \<Rightarrow> admin_data \<Rightarrow> duration \<times> duration" where
  "NetworkMetricsRetention defaultRaw defaultHourly ad =
     (hours_or defaultRaw (GetSetting KeyNetworkRawRetentionHours ad),
      hours_or defaultHourly (GetSetting KeyNetworkHourlyRetentionHours ad))"

text \<open>\<open>strconv.Itoa(int(d.Hours()))\<close> of a positive duration.\<close>

definition hours_text :: "duration \<Rightarrow> string" where
  "hours_text d = show_int (d div hour)"

definition set_retention :: "string \<Rightarrow> string \<Rightarrow> time \<Rightarrow> duration \<Rightarrow> duration \<Rightarrow> admin_data \<Rightarrow> (admin_error + unit) \<times> admin_data" where
  "set_retention kraw khourly now raw hourly ad =
     (if raw \<le> 0 \<or> hourly \<le> 0 then (Inl ErrNotPositive, ad)
      else (Inr (), SetSetting now khourly (hours_text hourly) (SetSetting now kraw (hours_text raw) ad)))"

definition SetMetricsRetention :: "time \<Rightarrow> duration \<Rightarrow> duration \<Rightarrow> admin_data \<Rightarrow> (admin_error + unit) \<times> admin_data" where
  "SetMetricsRetention = set_retention KeyMetricsRawRetentionHours KeyMetricsHourlyRetentionHours"

definition SetNetworkMetricsRetention :: "time \<Rightarrow> duration \<Rightarrow> duration \<Rightarrow> admin_data \<Rightarrow> (admin_error + unit) \<times> admin_data" where
  "SetNetworkMetricsRetention = set_retention KeyNetworkRawRetentionHours KeyNetworkHourlyRetentionHours"

definition SupportCredentialRotationDays :: "admin_data \<Rightarrow> int" where
  "SupportCredentialRotationDays ad =
     (case GetSetting KeySupportCredentialRotationDays ad of
        None \<Rightarrow> 0
      | Some v \<Rightarrow> (case atoi v of None \<Rightarrow> 0 | Some days \<Rightarrow> if days < 0 then 0 else days))"

definition SetSupportCredentialRotationDays :: "time \<Rightarrow> int \<Rightarrow> admin_data \<Rightarrow> (admin_error + unit) \<times> admin_data" where
  "SetSupportCredentialRotationDays now days ad =
     (if days < 0 then (Inl ErrNotPositive, ad)
      else (Inr (), SetSetting now KeySupportCredentialRotationDays (show_int days) ad))"

text \<open>The body of the two retention handlers (\<open>handleSetRetentionSettings\<close> and
  \<open>handleSetNetworkRetentionSettings\<close>) after the permission check: the request's numbers
  of hours are \<open>int\<close>s, the durations their \<open>int64\<close> products.\<close>

definition set_retention_hours ::
  "(time \<Rightarrow> duration \<Rightarrow> duration \<Rightarrow> admin_data \<Rightarrow> (admin_error + unit) \<times> admin_data) \<Rightarrow>
   time \<Rightarrow> int \<Rightarrow> int \<Rightarrow> admin_data \<Rightarrow> (admin_error + unit) \<times> admin_data" where
  "set_retention_hours setter now rawHours hourlyHours ad =
     (if rawHours \<le> 0 \<or> hourlyHours \<le> 0 then (Inl ErrNotPositive, ad)
      else setter now (wrap64 (rawHours * hour)) (wrap64 (hourlyHours * hour)) ad)"

section \<open>Remote-support accounts\<close>

definition UpsertSupport :: "secret_env \<Rightarrow> time \<Rightarrow> bytes \<Rightarrow> uuid \<Rightarrow> string \<Rightarrow> string \<Rightarrow> admin_data \<Rightarrow> admin_data" where
  "UpsertSupport env now nonce deviceID username password ad =
     ad\<lparr>device_support_credentials := upsert sc_device_id
       \<lparr>sc_device_id = deviceID, sc_username = username, sc_ciphertext = secret_seal env nonce (bytes_of password),
        sc_nonce = nonce, sc_updated_at = now\<rparr> (device_support_credentials ad)\<rparr>"

definition GetSupportStatus :: "uuid \<Rightarrow> admin_data \<Rightarrow> time option" where
  "GetSupportStatus i ad = map_option sc_updated_at (find_row (\<lambda>c. sc_device_id c = i) (device_support_credentials ad))"

definition GetSupport :: "secret_env \<Rightarrow> uuid \<Rightarrow> admin_data \<Rightarrow> admin_error + (string \<times> string \<times> time)" where
  "GetSupport env i ad =
     (case find_row (\<lambda>c. sc_device_id c = i) (device_support_credentials ad) of
        None \<Rightarrow> Inl ErrAdminNotFound
      | Some c \<Rightarrow> (case secret_open env (sc_nonce c) (sc_ciphertext c) of
                     None \<Rightarrow> Inl ErrDecrypt | Some p \<Rightarrow> Inr (sc_username c, string_of p, sc_updated_at c)))"

definition ListDueForRotation :: "time \<Rightarrow> duration \<Rightarrow> admin_data \<Rightarrow> uuid list" where
  "ListDueForRotation now olderThan ad =
     map sc_device_id (filter (\<lambda>c. sc_updated_at c < now - olderThan) (device_support_credentials ad))"

text \<open>One tick of \<open>RunRotationSweeper\<close>: the devices that are sent the rotation command,
  given the connected ones.\<close>

definition rotation_tick :: "time \<Rightarrow> uuid list \<Rightarrow> admin_data \<Rightarrow> uuid list" where
  "rotation_tick now online ad =
     (let days = SupportCredentialRotationDays ad
      in if days \<le> 0 then []
         else filter (\<lambda>i. i \<in> set online) (ListDueForRotation now (wrap64 (wrap64 (days * 24) * hour)) ad))"

section \<open>Telegram\<close>

definition SetTelegram :: "secret_env \<Rightarrow> time \<Rightarrow> bytes \<Rightarrow> string \<Rightarrow> string \<Rightarrow> admin_data \<Rightarrow> admin_data" where
  "SetTelegram env now nonce botToken chatID ad =
     ad\<lparr>telegram_config := Some \<lparr>tg_ciphertext = secret_seal env nonce (bytes_of botToken), tg_nonce = nonce,
          tg_chat_id = chatID, tg_updated_at = now\<rparr>\<rparr>"

definition GetTelegramStatus :: "admin_data \<Rightarrow> (string \<times> time) option" where
  "GetTelegramStatus ad = map_option (\<lambda>t. (tg_chat_id t, tg_updated_at t)) (telegram_config ad)"

definition get_telegram :: "secret_env \<Rightarrow> admin_data \<Rightarrow> admin_error + (string \<times> string)" where
  "get_telegram env ad =
     (case telegram_config ad of
        None \<Rightarrow> Inl ErrNotConfigured
      | Some t \<Rightarrow> (case secret_open env (tg_nonce t) (tg_ciphertext t) of
                     None \<Rightarrow> Inl ErrDecrypt | Some p \<Rightarrow> Inr (string_of p, tg_chat_id t)))"

section \<open>Customers and groups\<close>

definition ListCustomers :: "admin_data \<Rightarrow> customer list" where
  "ListCustomers ad = sort_key cu_name (customers ad)"

definition CreateCustomer :: "uuid \<Rightarrow> string \<Rightarrow> string \<Rightarrow> string \<Rightarrow> admin_data \<Rightarrow> (admin_error + customer) \<times> admin_data" where
  "CreateCustomer newID name number notes ad =
     (let c = \<lparr>cu_id = newID, cu_name = name, cu_number = number, cu_status = ''active'', cu_notes = notes\<rparr>
      in case insert_unique cu_id c (customers ad) of
           None \<Rightarrow> (Inl ErrAdminDatabase, ad) | Some cs \<Rightarrow> (Inr c, ad\<lparr>customers := cs\<rparr>))"

text \<open>A status other than the two of the column's check constraint makes the statement
  fail.\<close>

definition UpdateCustomer :: "uuid \<Rightarrow> string \<Rightarrow> string \<Rightarrow> string \<Rightarrow> string \<Rightarrow> admin_data \<Rightarrow> (admin_error + unit) \<times> admin_data" where
  "UpdateCustomer i name number notes status ad =
     (if count_where (\<lambda>c. cu_id c = i) (customers ad) = 0 then (Inl ErrAdminNotFound, ad)
      else if status \<notin> {''active'', ''disabled''} then (Inl ErrAdminDatabase, ad)
      else (Inr (), ad\<lparr>customers := upd_where (\<lambda>c. cu_id c = i)
             (\<lambda>c. c\<lparr>cu_name := name, cu_number := number, cu_notes := notes, cu_status := status\<rparr>) (customers ad)\<rparr>))"

definition GetCustomer :: "uuid \<Rightarrow> admin_data \<Rightarrow> admin_error + customer" where
  "GetCustomer i ad = (case find_row (\<lambda>c. cu_id c = i) (customers ad) of None \<Rightarrow> Inl ErrAdminNotFound | Some c \<Rightarrow> Inr c)"

definition ListGroups :: "uuid option \<Rightarrow> admin_data \<Rightarrow> device_group list" where
  "ListGroups cust ad = sort_key gr_name
     (case cust of None \<Rightarrow> device_groups ad | Some c \<Rightarrow> filter (\<lambda>g. gr_customer_id g = Some c) (device_groups ad))"

text \<open>The foreign key to \<open>customers\<close> refuses an unknown customer.\<close>

definition CreateGroup :: "uuid \<Rightarrow> uuid option \<Rightarrow> string \<Rightarrow> admin_data \<Rightarrow> (admin_error + device_group) \<times> admin_data" where
  "CreateGroup newID cust name ad =
     (let g = \<lparr>gr_id = newID, gr_customer_id = cust, gr_name = name\<rparr>
      in if (case cust of None \<Rightarrow> False | Some c \<Rightarrow> c \<notin> set (map cu_id (customers ad))) then (Inl ErrAdminDatabase, ad)
         else case insert_unique gr_id g (device_groups ad) of
           None \<Rightarrow> (Inl ErrAdminDatabase, ad) | Some gs \<Rightarrow> (Inr g, ad\<lparr>device_groups := gs\<rparr>))"

definition RenameGroup :: "uuid \<Rightarrow> string \<Rightarrow> admin_data \<Rightarrow> (admin_error + unit) \<times> admin_data" where
  "RenameGroup i name ad =
     (if count_where (\<lambda>g. gr_id g = i) (device_groups ad) = 0 then (Inl ErrAdminNotFound, ad)
      else (Inr (), ad\<lparr>device_groups := upd_where (\<lambda>g. gr_id g = i) (\<lambda>g. g\<lparr>gr_name := name\<rparr>) (device_groups ad)\<rparr>))"

text \<open>Deleting a group clears \<open>devices.group_id\<close> (\<open>ON DELETE SET NULL\<close>).\<close>

definition DeleteGroup :: "uuid \<Rightarrow> admin_data \<times> device_db \<Rightarrow> (admin_error + unit) \<times> admin_data \<times> device_db" where
  "DeleteGroup i st =
     (let (ad, db) = st
      in if count_where (\<lambda>g. gr_id g = i) (device_groups ad) = 0 then (Inl ErrAdminNotFound, ad, db)
         else (Inr (), ad\<lparr>device_groups := del_where (\<lambda>g. gr_id g = i) (device_groups ad)\<rparr>, ClearGroup i db))"

section \<open>Contracts\<close>

interpretation settings: keyed_store sg_key "\<lambda>k ad. find_row (\<lambda>s. sg_key s = k) (app_settings ad)"
  "\<lambda>s ad. ad\<lparr>app_settings := upsert sg_key s (app_settings ad)\<rparr>" "\<lambda>ad. True"
  by unfold_locales (simp_all add: find_row_upsert del: find_row_None)

interpretation support_accounts: keyed_store sc_device_id "\<lambda>k ad. find_row (\<lambda>c. sc_device_id c = k) (device_support_credentials ad)"
  "\<lambda>c ad. ad\<lparr>device_support_credentials := upsert sc_device_id c (device_support_credentials ad)\<rparr>" "\<lambda>ad. True"
  by unfold_locales (simp_all add: find_row_upsert del: find_row_None)

lemma hour_simps [simp]: "hour \<noteq> 0" "0 \<le> hour"
  by (simp_all add: duration_defs)

lemma wrap64_hours:
  assumes "0 < h" "h * hour < 2 ^ 63"
  shows "wrap64 (h * hour) = h * hour"
proof (rule wrap64_id)
  have "0 \<le> h * hour" using assms(1) by simp
  then show "- (2 ^ 63) \<le> h * hour" by (rule order_trans [rotated]) simp
qed (rule assms)

lemma hours_text_round_trip:
  assumes "0 < h" "h * hour < 2 ^ 63"
  shows "hours_or dflt (Some (hours_text (wrap64 (h * hour)))) = h * hour"
proof -
  have w: "wrap64 (h * hour) = h * hour" using assms by (rule wrap64_hours)
  have "h \<le> h * hour" using assms(1) by (simp add: duration_defs)
  then have "h < 2 ^ 63" using assms(2) by (rule order.strict_trans1)
  then have "atoi (show_int h) = Some h" using assms(1) by (intro atoi_show_int) simp_all
  then show ?thesis using assms by (simp add: hours_or_def hours_text_def w)
qed

section \<open>Properties\<close>

text \<open>The retention windows an administrator saves are the ones the sweeper reads, as
  long as each is positive and its length in nanoseconds fits in 63 bits; each of the two
  pairs of windows leaves the other as it is.\<close>

theorem retention_settings_round_trip:
  assumes "0 < r" "r * hour < 2 ^ 63" "0 < h" "h * hour < 2 ^ 63"
  shows "fst (set_retention_hours SetMetricsRetention now r h ad) = Inr () \<and>
    MetricsRetention dr dh (snd (set_retention_hours SetMetricsRetention now r h ad)) = (r * hour, h * hour) \<and>
    NetworkMetricsRetention dr dh (snd (set_retention_hours SetMetricsRetention now r h ad)) = NetworkMetricsRetention dr dh ad \<and>
    NetworkMetricsRetention dr dh (snd (set_retention_hours SetNetworkMetricsRetention now r h ad)) = (r * hour, h * hour)"
proof -
  have "wrap64 (r * hour) = r * hour" "wrap64 (h * hour) = h * hour" using assms by (simp_all only: wrap64_hours)
  moreover have "\<not> r * hour \<le> 0" "\<not> h * hour \<le> 0" using assms by (simp_all add: not_le)
  ultimately show ?thesis
    using assms hours_text_round_trip [of r] hours_text_round_trip [of h]
    by (simp add: set_retention_hours_def SetMetricsRetention_def SetNetworkMetricsRetention_def set_retention_def
        MetricsRetention_def NetworkMetricsRetention_def setting_keys)
qed

definition no_admin_data :: admin_data where
  "no_admin_data = \<lparr>app_settings = [], device_support_credentials = [], telegram_config = None, customers = [], device_groups = []\<rparr>"

theorem retention_settings_round_trip_witness:
  "MetricsRetention day day (snd (set_retention_hours SetMetricsRetention 0 48 8760 no_admin_data)) = (48 * hour, 8760 * hour)"
proof -
  have "(48 :: int) * hour < 2 ^ 63" "(8760 :: int) * hour < 2 ^ 63" by (simp_all add: duration_defs)
  then show ?thesis using retention_settings_round_trip [of 48 8760 0 no_admin_data day day] by simp
qed

text \<open>Larger values are accepted and lost. There are numbers of hours for which the
  request is answered with success while the multiplication wraps around, zero is stored,
  and the windows in force remain the defaults.\<close>

theorem retention_settings_overflow:
  "\<exists>r > 0. fst (set_retention_hours SetMetricsRetention now r r ad) = Inr () \<and>
     MetricsRetention dr dh (snd (set_retention_hours SetMetricsRetention now r r ad)) = (dr, dh)"
proof (intro exI [of _ 5124096] conjI)
  have w: "wrap64 (5124096 * hour) = 1526290448384" by (simp add: wrap64_def duration_defs)
  have z: "hours_text 1526290448384 = ''0''" "atoi ''0'' = Some 0"
    by (simp add: hours_text_def duration_defs show_int_def, code_simp) code_simp
  show "fst (set_retention_hours SetMetricsRetention now 5124096 5124096 ad) = Inr ()"
    "MetricsRetention dr dh (snd (set_retention_hours SetMetricsRetention now 5124096 5124096 ad)) = (dr, dh)"
    by (simp_all add: set_retention_hours_def SetMetricsRetention_def set_retention_def MetricsRetention_def w setting_keys
        hours_or_def z)
qed simp

text \<open>A remote-support password that an agent reports is the one an administrator is
  shown, until the agent reports another one, whenever opening inverts sealing; the
  accounts of other devices stay as they are.\<close>

theorem support_credential_round_trip:
  assumes "\<And>n p. secret_open env n (secret_seal env n p) = Some p"
  shows "GetSupport env j (UpsertSupport env now nonce i user pass ad) =
    (if j = i then Inr (user, pass, now) else GetSupport env j ad)"
  using support_accounts.get_put [of j _ ad] assms
  by (simp add: GetSupport_def UpsertSupport_def eq_commute [of i j] del: find_row_None)

definition demo_secret :: secret_env where
  "demo_secret = \<lparr>secret_seal = (\<lambda>n p. map (\<lambda>b. b + 1) p), secret_open = (\<lambda>n c. Some (map (\<lambda>b. b - 1) c))\<rparr>"

theorem support_credential_round_trip_witness:
  "GetSupport demo_secret 3 (UpsertSupport demo_secret 7 [] 3 ''wr-support'' ''pw'' no_admin_data) = Inr (''wr-support'', ''pw'', 7)"
  using support_credential_round_trip [of demo_secret 3 7 "[]" 3 "''wr-support''" "''pw''" no_admin_data]
  by (simp add: demo_secret_def o_def)

end
