(* ===== verification/Agent_Update.thy ===== *)
theory Agent_Update
  imports Go_Strings
begin

text \<open>
  Signed self-updates of the agent: the verification of an artifact
  (\<open>internal/agentupdate/verify.go\<close>), the swap of the binary and its reversal
  (\<open>stage.go\<close>), the marker that survives a restart (\<open>marker.go\<close>), the
  update command (\<open>internal/agentcore/update.go\<close>), what the agent does with the marker
  when it starts and when it first connects (\<open>cmd/wr-agent/main.go\<close>), and the offline
  signing tool (\<open>cmd/wr-release-sign\<close>).

  The file system maps paths to contents. Every system call that the code checks for an error
  has its outcome in an \<open>io\<close> argument, so that each failure path is a branch.
\<close>

section \<open>Files\<close>

type_synonym fs = "string \<Rightarrow> bytes option"

text \<open>\<open>os.WriteFile\<close> succeeds, or fails and leaves something behind.\<close>

datatype io_write = WriteOk | WriteFails "bytes option"

definition os_write :: "io_write \<Rightarrow> string \<Rightarrow> bytes \<Rightarrow> fs \<Rightarrow> bool \<times> fs" where
  "os_write io path data fs =
     (case io of WriteOk \<Rightarrow> (True, fs(path := Some data)) | WriteFails left \<Rightarrow> (False, fs(path := left)))"

text \<open>\<open>os.Rename\<close> replaces the target; it fails when the source is missing.\<close>

definition os_rename :: "bool \<Rightarrow> string \<Rightarrow> string \<Rightarrow> fs \<Rightarrow> bool \<times> fs" where
  "os_rename io a b fs = (if io \<and> fs a \<noteq> None then (True, (fs(b := fs a))(a := None)) else (False, fs))"

definition os_remove :: "bool \<Rightarrow> string \<Rightarrow> fs \<Rightarrow> bool \<times> fs" where
  "os_remove io path fs = (if io \<and> fs path \<noteq> None then (True, fs(path := None)) else (False, fs))"

lemmas os_defs = os_write_def os_rename_def os_remove_def

section \<open>Library functions\<close>

record marker =
  mk_version :: string
  mk_backup_path :: string
  mk_boot_attempts :: int

datatype http_response = GetFails | Response int bytes

record update_env = lib_env +
  hex_encode :: "bytes \<Rightarrow> string"
  hex_decode :: "string \<Rightarrow> bytes option"
  base64_encode :: "bytes \<Rightarrow> string"
  base64_decode :: "string \<Rightarrow> bytes option"
  ed25519_sign :: "bytes \<Rightarrow> bytes \<Rightarrow> bytes"
  ed25519_verify :: "bytes \<Rightarrow> bytes \<Rightarrow> bytes \<Rightarrow> bool"
  marshal_marker :: "marker \<Rightarrow> bytes"
  unmarshal_marker :: "bytes \<Rightarrow> marker option"
  http_get :: "string \<Rightarrow> http_response"

datatype update_error =
    ErrNoTrustedKey | ErrHashMismatch | ErrSignatureInvalid
  | ErrWriteStaged | ErrBackUp | ErrMoveIntoPlace | ErrBackupMissing | ErrRestore
  | ErrNoReleaseKey | ErrReleaseKeyMalformed | ErrDownload | ErrTooLarge | ErrExecutable
  | ErrLoadMarker | ErrSaveMarker | ErrSignKey | ErrReadFile

definition PublicKeySize :: nat where "PublicKeySize = 32"
definition PrivateKeySize :: nat where "PrivateKeySize = 64"
definition Sha256Size :: nat where "Sha256Size = 32"

section \<open>Verification\<close>

definition VerifyArtifact :: "update_env \<Rightarrow> bytes \<Rightarrow> bytes \<Rightarrow> string \<Rightarrow> string \<Rightarrow> update_error + unit" where
  "VerifyArtifact env pubKey data expectedSHA256Hex sigB64 =
     (if length pubKey \<noteq> PublicKeySize then Inl ErrNoTrustedKey
      else let sum = sha256 env data
           in case hex_decode env expectedSHA256Hex of
                None \<Rightarrow> Inl ErrHashMismatch
              | Some expected \<Rightarrow>
                  if length expected \<noteq> length sum then Inl ErrHashMismatch
                  else if sum \<noteq> expected then Inl ErrHashMismatch
                  else (case base64_decode env sigB64 of
                          None \<Rightarrow> Inl ErrSignatureInvalid
                        | Some sig \<Rightarrow> if \<not> ed25519_verify env pubKey sum sig then Inl ErrSignatureInvalid else Inr ()))"

definition VerifyHashAndSignature :: "update_env \<Rightarrow> bytes \<Rightarrow> bytes \<Rightarrow> bytes \<Rightarrow> update_error + unit" where
  "VerifyHashAndSignature env pubKey sha256Sum sig =
     (if length pubKey \<noteq> PublicKeySize then Inl ErrNoTrustedKey
      else if length sha256Sum \<noteq> Sha256Size then Inl ErrHashMismatch
      else if \<not> ed25519_verify env pubKey sha256Sum sig then Inl ErrSignatureInvalid
      else Inr ())"

section \<open>The signing tool\<close>

text \<open>\<open>runSign\<close>: reads the private key and the artifact, and writes the two
  sidecar files.\<close>

record sign_io =
  si_sum :: io_write
  si_sig :: io_write

definition runSign :: "update_env \<Rightarrow> sign_io \<Rightarrow> string \<Rightarrow> string \<Rightarrow> fs \<Rightarrow> (update_error + unit) \<times> fs" where
  "runSign env io artifactPath keyPath fs =
     (if keyPath = [] then (Inl ErrSignKey, fs)
      else case fs keyPath of
        None \<Rightarrow> (Inl ErrReadFile, fs)
      | Some priv \<Rightarrow>
          if length priv \<noteq> PrivateKeySize then (Inl ErrSignKey, fs)
          else (case fs artifactPath of
                  None \<Rightarrow> (Inl ErrReadFile, fs)
                | Some data \<Rightarrow>
                    let sum = sha256 env data; sig = ed25519_sign env priv sum;
                        (ok1, fs1) = os_write (si_sum io) (artifactPath @ ''.sha256'') (bytes_of (hex_encode env sum)) fs
                    in if \<not> ok1 then (Inl ErrWriteStaged, fs1)
                       else let (ok2, fs2) = os_write (si_sig io) (artifactPath @ ''.sig'') (bytes_of (base64_encode env sig)) fs1
                            in if \<not> ok2 then (Inl ErrWriteStaged, fs2) else (Inr (), fs2)))"

section \<open>Swapping the binary\<close>

record swap_io =
  sw_stage :: io_write
  sw_drop_old :: bool
  sw_backup :: bool
  sw_unstage :: bool
  sw_place :: bool
  sw_undo :: bool

definition StageAndSwap :: "swap_io \<Rightarrow> string \<Rightarrow> bytes \<Rightarrow> fs \<Rightarrow> (update_error + string) \<times> fs" where
  "StageAndSwap io currentPath newData fs =
     (let staged = currentPath @ ''.new''; (ok1, fs1) = os_write (sw_stage io) staged newData fs
      in if \<not> ok1 then (Inl ErrWriteStaged, fs1)
         else let backupPath = currentPath @ ''.old'';
                  (_, fs2) = os_remove (sw_drop_old io) backupPath fs1;
                  (ok3, fs3) = os_rename (sw_backup io) currentPath backupPath fs2
              in if \<not> ok3 then (Inl ErrBackUp, snd (os_remove (sw_unstage io) staged fs3))
                 else let (ok4, fs4) = os_rename (sw_place io) staged currentPath fs3
                      in if \<not> ok4 then (Inl ErrMoveIntoPlace, snd (os_rename (sw_undo io) backupPath currentPath fs4))
                         else (Inr backupPath, fs4))"

record restore_io =
  ri_remove :: bool
  ri_rename :: bool

definition RestoreBackup :: "restore_io \<Rightarrow> string \<Rightarrow> string \<Rightarrow> fs \<Rightarrow> (update_error + unit) \<times> fs" where
  "RestoreBackup io currentPath backupPath fs =
     (if fs backupPath = None then (Inl ErrBackupMissing, fs)
      else let (_, fs1) = os_remove (ri_remove io) currentPath fs;
               (ok, fs2) = os_rename (ri_rename io) backupPath currentPath fs1
           in if \<not> ok then (Inl ErrRestore, fs2) else (Inr (), fs2))"

section \<open>The marker\<close>

definition MaxBootAttempts :: int where "MaxBootAttempts = 3"

text \<open>\<open>None\<close> is the missing file.\<close>

definition LoadMarker :: "update_env \<Rightarrow> string \<Rightarrow> fs \<Rightarrow> update_error + marker option" where
  "LoadMarker env path fs =
     (case fs path of
        None \<Rightarrow> Inr None
      | Some data \<Rightarrow> (case unmarshal_marker env data of None \<Rightarrow> Inl ErrLoadMarker | Some m \<Rightarrow> Inr (Some m)))"

definition SaveMarker :: "update_env \<Rightarrow> io_write \<Rightarrow> string \<Rightarrow> marker \<Rightarrow> fs \<Rightarrow> (update_error + unit) \<times> fs" where
  "SaveMarker env io path m fs =
     (let (ok, fs1) = os_write io path (marshal_marker env m) fs
      in if ok then (Inr (), fs1) else (Inl ErrSaveMarker, fs1))"

definition DeleteMarker :: "bool \<Rightarrow> string \<Rightarrow> fs \<Rightarrow> fs" where
  "DeleteMarker io path fs = snd (os_remove io path fs)"

section \<open>The update command\<close>

record update_params =
  up_version :: string
  up_artifact_url :: string
  up_artifact_sha256_hex :: string
  up_signature_base64 :: string

record update_io =
  ui_executable :: "string option"
  ui_swap :: swap_io
  ui_marker :: io_write

definition maxArtifactBytes :: nat where "maxArtifactBytes = 256 * 2 ^ 20"

text \<open>The key that the build embeds, in hexadecimal.\<close>

definition releasePublicKey :: "update_env \<Rightarrow> string \<Rightarrow> update_error + bytes" where
  "releasePublicKey env ReleasePublicKeyHex =
     (if ReleasePublicKeyHex = [] then Inl ErrNoReleaseKey
      else case hex_decode env ReleasePublicKeyHex of
        None \<Rightarrow> Inl ErrReleaseKeyMalformed
      | Some raw \<Rightarrow> if length raw \<noteq> PublicKeySize then Inl ErrReleaseKeyMalformed else Inr raw)"

text \<open>The body is read through a \<open>LimitReader\<close> of one byte more than allowed.\<close>

definition download :: "update_env \<Rightarrow> string \<Rightarrow> update_error + bytes" where
  "download env url =
     (case http_get env url of
        GetFails \<Rightarrow> Inl ErrDownload
      | Response status body \<Rightarrow>
          if status \<noteq> 200 then Inl ErrDownload
          else let data = take (maxArtifactBytes + 1) body
               in if length data > maxArtifactBytes then Inl ErrTooLarge else Inr data)"

definition marker_path :: "string \<Rightarrow> string" where
  "marker_path dataDir = dataDir @ ''/update.marker''"

text \<open>A marker that cannot be written is only logged.\<close>

definition beginUpdate ::
  "update_env \<Rightarrow> string \<Rightarrow> string \<Rightarrow> update_io \<Rightarrow> update_params \<Rightarrow> fs \<Rightarrow> (update_error + unit) \<times> fs" where
  "beginUpdate env keyHex dataDir io p fs =
     (case releasePublicKey env keyHex of
        Inl e \<Rightarrow> (Inl e, fs)
      | Inr pubKey \<Rightarrow>
        (case download env (up_artifact_url p) of
           Inl e \<Rightarrow> (Inl e, fs)
         | Inr data \<Rightarrow>
           (case VerifyArtifact env pubKey data (up_artifact_sha256_hex p) (up_signature_base64 p) of
              Inl e \<Rightarrow> (Inl e, fs)
            | Inr _ \<Rightarrow>
              (case ui_executable io of
                 None \<Rightarrow> (Inl ErrExecutable, fs)
               | Some exePath \<Rightarrow>
                 (case StageAndSwap (ui_swap io) exePath data fs of
                    (Inl e, fs1) \<Rightarrow> (Inl e, fs1)
                  | (Inr backupPath, fs1) \<Rightarrow>
                      (Inr (), if dataDir = [] then fs1
                               else snd (SaveMarker env (ui_marker io) (marker_path dataDir)
                                 \<lparr>mk_version = up_version p, mk_backup_path = backupPath, mk_boot_attempts = 0\<rparr> fs1)))))))"

section \<open>Starting and connecting\<close>

text \<open>What \<open>reconcilePendingUpdate\<close> does to the start of the agent: go on, go on
  after logging an error, or exit for the service manager to start the restored binary.\<close>

datatype boot_outcome = BootContinue | BootLogged update_error | BootExit

record boot_io =
  bi_executable :: "string option"
  bi_restore :: restore_io
  bi_delete :: bool
  bi_save :: io_write

definition reconcilePendingUpdate :: "update_env \<Rightarrow> boot_io \<Rightarrow> string \<Rightarrow> fs \<Rightarrow> boot_outcome \<times> fs" where
  "reconcilePendingUpdate env io dataDir fs =
     (if dataDir = [] then (BootContinue, fs)
      else case LoadMarker env (marker_path dataDir) fs of
        Inl e \<Rightarrow> (BootLogged e, fs)
      | Inr None \<Rightarrow> (BootContinue, fs)
      | Inr (Some m0) \<Rightarrow>
          let m = m0\<lparr>mk_boot_attempts := wrap64 (mk_boot_attempts m0 + 1)\<rparr>
          in if mk_boot_attempts m > MaxBootAttempts
             then (case bi_executable io of
                     None \<Rightarrow> (BootLogged ErrExecutable, fs)
                   | Some exePath \<Rightarrow>
                     (case RestoreBackup (bi_restore io) exePath (mk_backup_path m) fs of
                        (Inl e, fs1) \<Rightarrow> (BootLogged e, fs1)
                      | (Inr _, fs1) \<Rightarrow> (BootExit, DeleteMarker (bi_delete io) (marker_path dataDir) fs1)))
             else (case SaveMarker env (bi_save io) (marker_path dataDir) m fs of
                     (Inl e, fs1) \<Rightarrow> (BootLogged e, fs1) | (Inr _, fs1) \<Rightarrow> (BootContinue, fs1)))"

record commit_io =
  ci_remove :: bool
  ci_delete :: bool

definition commitPendingUpdate :: "update_env \<Rightarrow> commit_io \<Rightarrow> string \<Rightarrow> fs \<Rightarrow> fs" where
  "commitPendingUpdate env io dataDir fs =
     (if dataDir = [] then fs
      else case LoadMarker env (marker_path dataDir) fs of
        Inr (Some m) \<Rightarrow> DeleteMarker (ci_delete io) (marker_path dataDir) (snd (os_remove (ci_remove io) (mk_backup_path m) fs))
      | _ \<Rightarrow> fs)"

text \<open>Starts of the agent that do not get as far as a connection.\<close>

fun failed_boots :: "update_env \<Rightarrow> boot_io \<Rightarrow> string \<Rightarrow> nat \<Rightarrow> fs \<Rightarrow> boot_outcome list \<times> fs" where
  "failed_boots env io dataDir 0 fs = ([], fs)"
| "failed_boots env io dataDir (Suc n) fs =
     (let (r, fs1) = reconcilePendingUpdate env io dataDir fs; (rs, fs2) = failed_boots env io dataDir n fs1
      in (r # rs, fs2))"

lemma failed_boots_add:
  "failed_boots env io d (m + n) fs =
     (let (rs, fs1) = failed_boots env io d m fs; (rs', fs2) = failed_boots env io d n fs1 in (rs @ rs', fs2))"
  by (induction m arbitrary: fs) (simp_all split: prod.splits)

section \<open>Lemmas\<close>

lemma VerifyArtifact_iff:
  "VerifyArtifact env pub data h s = Inr () \<longleftrightarrow>
     length pub = PublicKeySize \<and> hex_decode env h = Some (sha256 env data) \<and>
     (\<exists>sig. base64_decode env s = Some sig \<and> ed25519_verify env pub (sha256 env data) sig)"
  by (auto simp: VerifyArtifact_def Let_def split: option.splits if_splits)

lemma StageAndSwap_outcome:
  assumes "fs cur = Some old"
  shows "StageAndSwap io cur data fs = (r, fs') \<Longrightarrow>
     (case r of Inr b \<Rightarrow> b = cur @ ''.old'' \<and> fs' cur = Some data \<and> fs' b = Some old
      | Inl _ \<Rightarrow> fs' cur = Some old \<or>
          \<not> sw_place io \<and> \<not> sw_undo io \<and> fs' cur = None \<and> fs' (cur @ ''.old'') = Some old)"
  using assms by (auto simp: StageAndSwap_def os_defs Let_def split: io_write.splits if_splits)

lemma StageAndSwap_frame:
  "StageAndSwap io cur data fs = (r, fs') \<Longrightarrow> p \<noteq> cur \<Longrightarrow> p \<noteq> cur @ ''.old'' \<Longrightarrow> p \<noteq> cur @ ''.new'' \<Longrightarrow> fs' p = fs p"
  by (auto simp: StageAndSwap_def os_defs Let_def split: io_write.splits if_splits)

lemma download_InrD:
  "download env url = Inr data \<Longrightarrow> http_get env url = Response 200 data \<and> length data \<le> maxArtifactBytes"
  by (auto simp: download_def Let_def split: http_response.splits if_splits)

text \<open>The state between a swap and its commit or rollback, after \<open>n\<close> starts.\<close>

definition update_pending :: "update_env \<Rightarrow> string \<Rightarrow> string \<Rightarrow> bytes \<Rightarrow> bytes \<Rightarrow> string \<Rightarrow> int \<Rightarrow> fs \<Rightarrow> bool" where
  "update_pending env dataDir exe old new v n fs \<longleftrightarrow>
     fs exe = Some new \<and> fs (exe @ ''.old'') = Some old \<and>
     fs (marker_path dataDir) = Some (marshal_marker env \<lparr>mk_version = v, mk_backup_path = exe @ ''.old'', mk_boot_attempts = n\<rparr>)"

text \<open>The data directory is not where the binary is, and the system calls of a start
  succeed.\<close>

definition separate_paths :: "string \<Rightarrow> string \<Rightarrow> bool" where
  "separate_paths dataDir exe \<longleftrightarrow> dataDir \<noteq> [] \<and> marker_path dataDir \<notin> {exe, exe @ ''.old'', exe @ ''.new''}"

definition boot_works :: "string \<Rightarrow> boot_io" where
  "boot_works exe = \<lparr>bi_executable = Some exe, bi_restore = \<lparr>ri_remove = True, ri_rename = True\<rparr>, bi_delete = True, bi_save = WriteOk\<rparr>"

lemma reconcile_no_marker: "fs (marker_path d) = None \<Longrightarrow> reconcilePendingUpdate env io d fs = (BootContinue, fs)"
  by (simp add: reconcilePendingUpdate_def LoadMarker_def)

lemma failed_boots_no_marker:
  "fs (marker_path d) = None \<Longrightarrow> failed_boots env io d k fs = (replicate k BootContinue, fs)"
  by (induction k) (simp_all add: reconcile_no_marker)

lemma reconcile_pending:
  assumes json: "\<And>m. unmarshal_marker env (marshal_marker env m) = Some m"
    and "update_pending env d exe old new v n fs" "separate_paths d exe" "- 1 \<le> n" "n < MaxBootAttempts"
  shows "\<exists>fs'. reconcilePendingUpdate env (boot_works exe) d fs = (BootContinue, fs') \<and>
           update_pending env d exe old new v (n + 1) fs'"
proof -
  have "wrap64 (n + 1) = n + 1" using assms(4,5) by (intro wrap64_id) (simp_all add: MaxBootAttempts_def)
  then show ?thesis
    using assms by (auto simp: reconcilePendingUpdate_def LoadMarker_def SaveMarker_def os_write_def boot_works_def
        update_pending_def separate_paths_def)
qed

lemma reconcile_rolls_back:
  assumes json: "\<And>m. unmarshal_marker env (marshal_marker env m) = Some m"
    and "update_pending env d exe old new v MaxBootAttempts fs" "separate_paths d exe"
  shows "\<exists>fs'. reconcilePendingUpdate env (boot_works exe) d fs = (BootExit, fs') \<and>
           fs' exe = Some old \<and> fs' (marker_path d) = None"
  using assms by (auto simp: reconcilePendingUpdate_def LoadMarker_def RestoreBackup_def DeleteMarker_def os_defs boot_works_def
      update_pending_def separate_paths_def MaxBootAttempts_def wrap64_def)

lemma failed_boots_pending:
  assumes json: "\<And>m. unmarshal_marker env (marshal_marker env m) = Some m"
    and "update_pending env d exe old new v n fs" "separate_paths d exe" "- 1 \<le> n" "n + int k \<le> MaxBootAttempts"
  shows "\<exists>fs'. failed_boots env (boot_works exe) d k fs = (replicate k BootContinue, fs') \<and>
           update_pending env d exe old new v (n + int k) fs'"
  using assms(2,4,5)
proof (induction k arbitrary: n fs)
  case (Suc k)
  obtain fs1 where r: "reconcilePendingUpdate env (boot_works exe) d fs = (BootContinue, fs1)"
    and p: "update_pending env d exe old new v (n + 1) fs1"
    using reconcile_pending [OF json Suc.prems(1) assms(3)] Suc.prems by auto
  then show ?case using Suc.IH [OF p] Suc.prems by (auto simp: algebra_simps)
qed simp

lemma beginUpdate_pending:
  assumes "beginUpdate env keyHex d io p fs = (Inr (), fs')" "fs exe = Some old" "ui_executable io = Some exe"
    "ui_marker io = WriteOk" "separate_paths d exe"
  obtains data where "http_get env (up_artifact_url p) = Response 200 data"
    "update_pending env d exe old data (up_version p) 0 fs'"
proof -
  obtain pub data b fs1 where d: "download env (up_artifact_url p) = Inr data"
    and s: "StageAndSwap (ui_swap io) exe data fs = (Inr b, fs1)"
    and fs': "fs' = snd (SaveMarker env WriteOk (marker_path d) \<lparr>mk_version = up_version p, mk_backup_path = b, mk_boot_attempts = 0\<rparr> fs1)"
    using assms by (auto simp: beginUpdate_def separate_paths_def split: sum.splits prod.splits)
  have "http_get env (up_artifact_url p) = Response 200 data" using download_InrD [OF d] by simp
  moreover have "update_pending env d exe old data (up_version p) 0 fs'"
    using StageAndSwap_outcome [of fs exe old, OF assms(2) s] assms(5)
    by (auto simp: fs' SaveMarker_def os_write_def update_pending_def separate_paths_def)
  ultimately show thesis by (rule that)
qed

section \<open>Properties\<close>

text \<open>C14: the update command replaces the running binary only by an artifact that it
  downloaded completely, whose hash is the announced one and whose signature over that hash
  verifies under the key embedded in the build; the old binary is then the backup. Whenever it
  fails, the old binary is still in place, or, if both the move of the new binary and the move
  back failed, it is the backup.\<close>

theorem update_installs_only_verified:
  assumes "beginUpdate env keyHex d io p fs = (r, fs')" "fs exe = Some old" "ui_executable io = Some exe"
    "separate_paths d exe"
  shows "case r of
      Inr _ \<Rightarrow> \<exists>pub data sig. hex_decode env keyHex = Some pub \<and> length pub = PublicKeySize \<and>
        http_get env (up_artifact_url p) = Response 200 data \<and>
        hex_decode env (up_artifact_sha256_hex p) = Some (sha256 env data) \<and>
        base64_decode env (up_signature_base64 p) = Some sig \<and> ed25519_verify env pub (sha256 env data) sig \<and>
        fs' exe = Some data \<and> fs' (exe @ ''.old'') = Some old
    | Inl _ \<Rightarrow> fs' exe = Some old \<or>
        \<not> sw_place (ui_swap io) \<and> \<not> sw_undo (ui_swap io) \<and> fs' exe = None \<and> fs' (exe @ ''.old'') = Some old"
proof (cases r)
  case (Inl e)
  then show ?thesis
    using assms(1-3) StageAndSwap_outcome [of fs exe old, OF assms(2)]
    by (auto simp: beginUpdate_def split: sum.splits prod.splits) fastforce+
next
  case (Inr u)
  obtain pub data b fs1 where k: "releasePublicKey env keyHex = Inr pub" and d: "download env (up_artifact_url p) = Inr data"
    and v: "VerifyArtifact env pub data (up_artifact_sha256_hex p) (up_signature_base64 p) = Inr ()"
    and s: "StageAndSwap (ui_swap io) exe data fs = (Inr b, fs1)"
    and fs': "fs' = snd (SaveMarker env (ui_marker io) (marker_path d) \<lparr>mk_version = up_version p, mk_backup_path = b, mk_boot_attempts = 0\<rparr> fs1)"
    using assms Inr by (auto simp: beginUpdate_def separate_paths_def split: sum.splits prod.splits)
  have "hex_decode env keyHex = Some pub" using k by (auto simp: releasePublicKey_def split: if_splits option.splits)
  moreover have "fs' exe = Some data" "fs' (exe @ ''.old'') = Some old"
    using StageAndSwap_outcome [of fs exe old, OF assms(2) s] assms(4)
    by (auto simp: fs' SaveMarker_def os_write_def separate_paths_def split: io_write.splits prod.splits)
  ultimately show ?thesis
    using v download_InrD [OF d] by (auto simp: VerifyArtifact_iff Inr)
qed

text \<open>A concrete instance of the library functions.\<close>

definition demo_text :: "string \<Rightarrow> bytes" where
  "demo_text s = concat (map (\<lambda>c. [1, byte_of c]) s) @ [0, 0]"

fun demo_untext :: "bytes \<Rightarrow> string \<times> bytes" where
  "demo_untext (t # b # r) = (if t = 1 then let (s, r') = demo_untext r in (char_of (unat b) # s, r') else ([], r))"
| "demo_untext _ = ([], [])"

lemma demo_untext_text [simp]: "demo_untext (demo_text s @ r) = (s, r)"
proof -
  have "char_of (unat (byte_of c)) = c" for c
    using string_of_bytes_of [of "[c]"] by (simp add: string_of_def)
  then show ?thesis by (induction s) (simp_all add: demo_text_def)
qed

definition demo_marshal :: "marker \<Rightarrow> bytes" where
  "demo_marshal m = demo_text (mk_version m) @ demo_text (mk_backup_path m) @
     demo_text (replicate (nat \<bar>mk_boot_attempts m\<bar>) CHR ''1'') @ [if mk_boot_attempts m < 0 then 1 else 0]"

definition demo_unmarshal :: "bytes \<Rightarrow> marker option" where
  "demo_unmarshal b = (let (v, b1) = demo_untext b; (p, b2) = demo_untext b1; (n, b3) = demo_untext b2
     in Some \<lparr>mk_version = v, mk_backup_path = p,
              mk_boot_attempts = (if b3 = [1] then - int (length n) else int (length n))\<rparr>)"

definition demo_update_env :: update_env where
  "demo_update_env = \<lparr>sha256 = (\<lambda>d. replicate 32 (sum_list d)), uuid_string = (\<lambda>_. []), uuid_parse = (\<lambda>_. None),
     hex_encode = string_of, hex_decode = (\<lambda>s. Some (bytes_of s)), base64_encode = string_of, base64_decode = (\<lambda>s. Some (bytes_of s)),
     ed25519_sign = (\<lambda>k m. take 32 k @ m), ed25519_verify = (\<lambda>k m s. s = k @ m),
     marshal_marker = demo_marshal, unmarshal_marker = demo_unmarshal, http_get = (\<lambda>_. Response 200 [7, 8])\<rparr>"

lemma demo_marker_json: "unmarshal_marker demo_update_env (marshal_marker demo_update_env m) = Some m"
  by (cases m) (simp add: demo_update_env_def demo_marshal_def demo_unmarshal_def)

definition demo_params :: update_params where
  "demo_params = \<lparr>up_version = ''2'', up_artifact_url = ''u'', up_artifact_sha256_hex = string_of (replicate 32 15),
     up_signature_base64 = string_of (replicate 32 1 @ replicate 32 15)\<rparr>"

definition demo_io :: update_io where
  "demo_io = \<lparr>ui_executable = Some ''a'', ui_swap = \<lparr>sw_stage = WriteOk, sw_drop_old = True, sw_backup = True, sw_unstage = True,
     sw_place = True, sw_undo = True\<rparr>, ui_marker = WriteOk\<rparr>"

definition demo_fs :: fs where
  "demo_fs = (\<lambda>_. None)(''a'' := Some [1])"

definition demo_key_hex :: string where
  "demo_key_hex = string_of (replicate 32 1)"

definition demo_updated :: fs where
  "demo_updated = snd (beginUpdate demo_update_env demo_key_hex ''d'' demo_io demo_params demo_fs)"

lemma demo_begin: "beginUpdate demo_update_env demo_key_hex ''d'' demo_io demo_params demo_fs = (Inr (), demo_updated)"
proof -
  have "releasePublicKey demo_update_env demo_key_hex = Inr (replicate 32 1)"
    using bytes_of_string_of [of "replicate 32 1"]
    by (auto simp: releasePublicKey_def demo_update_env_def PublicKeySize_def demo_key_hex_def string_of_def)
  moreover have "download demo_update_env ''u'' = Inr [7, 8]"
    by (simp add: download_def demo_update_env_def maxArtifactBytes_def take_Cons')
  moreover have "VerifyArtifact demo_update_env (replicate 32 1) [7, 8] (up_artifact_sha256_hex demo_params) (up_signature_base64 demo_params) = Inr ()"
    by (simp add: VerifyArtifact_iff demo_update_env_def PublicKeySize_def demo_params_def)
  moreover have "StageAndSwap (ui_swap demo_io) ''a'' [7, 8] demo_fs =
      (Inr ''a.old'', ((demo_fs(''a'' := None, ''a.new'' := None))(''a.old'' := Some [1]))(''a'' := Some [7, 8]))"
    by (auto simp: StageAndSwap_def os_defs demo_io_def demo_fs_def fun_eq_iff Let_def)
  ultimately have "fst (beginUpdate demo_update_env demo_key_hex ''d'' demo_io demo_params demo_fs) = Inr ()"
    by (simp add: beginUpdate_def demo_params_def demo_io_def)
  then show ?thesis by (simp add: demo_updated_def prod_eq_iff)
qed

lemma demo_io_simps:
  "ui_executable demo_io = Some ''a''" "ui_marker demo_io = WriteOk" "demo_fs ''a'' = Some [1]" "separate_paths ''d'' ''a''"
  by (simp_all add: demo_io_def demo_fs_def separate_paths_def marker_path_def)

theorem update_installs_only_verified_witness:
  "demo_updated ''a'' = Some [7, 8] \<and> demo_updated ''a.old'' = Some [1]"
  using update_installs_only_verified [OF demo_begin demo_io_simps(3,1,4)] by (simp add: demo_update_env_def)



text \<open>An update that reached the server is kept. When a connection follows at most
  three starts after a successful update command, the backup and the marker are gone, and no
  number of later starts, whatever their system calls do, changes the binary again.\<close>

theorem committed_update_is_kept:
  assumes json: "\<And>m. unmarshal_marker env (marshal_marker env m) = Some m"
    and "beginUpdate env keyHex d io p fs = (Inr (), fs1)" "fs exe = Some old" "ui_executable io = Some exe"
    "ui_marker io = WriteOk" "separate_paths d exe" "k \<le> 3"
    and fs2: "fs2 = commitPendingUpdate env \<lparr>ci_remove = True, ci_delete = True\<rparr> d (snd (failed_boots env (boot_works exe) d k fs1))"
  shows "http_get env (up_artifact_url p) = Response 200 (the (fs2 exe)) \<and> fs2 exe \<noteq> None \<and> fs2 (exe @ ''.old'') = None \<and>
     failed_boots env bio d n fs2 = (replicate n BootContinue, fs2)"
proof -
  obtain data where g: "http_get env (up_artifact_url p) = Response 200 data"
    and p: "update_pending env d exe old data (up_version p) 0 fs1"
    using beginUpdate_pending [OF assms(2-6)] .
  obtain fs' where b: "failed_boots env (boot_works exe) d k fs1 = (replicate k BootContinue, fs')"
    and p': "update_pending env d exe old data (up_version p) (int k) fs'"
    using failed_boots_pending [OF json p assms(6), of k] assms(7) by (auto simp: MaxBootAttempts_def)
  have "fs2 exe = Some data" "fs2 (exe @ ''.old'') = None" and m: "fs2 (marker_path d) = None"
    using p' assms(6) unfolding fs2 b
    by (auto simp: commitPendingUpdate_def LoadMarker_def DeleteMarker_def os_remove_def update_pending_def separate_paths_def json)
  then show ?thesis using g failed_boots_no_marker [of fs2 d env bio n, OF m] by simp
qed

theorem committed_update_is_kept_witness:
  "commitPendingUpdate demo_update_env \<lparr>ci_remove = True, ci_delete = True\<rparr> ''d''
     (snd (failed_boots demo_update_env (boot_works ''a'') ''d'' 1 demo_updated)) ''a'' = Some [7, 8]"
proof -
  have "http_get demo_update_env u = Response 200 [7, 8]" for u by (simp add: demo_update_env_def)
  then show ?thesis
    using committed_update_is_kept [OF demo_marker_json demo_begin demo_io_simps(3,1,2,4) _ refl, of 1] by auto
qed

text \<open>What the signing tool writes is what the agent accepts. The two sidecar files of
  an artifact signed with a private key make the agent's verification succeed for exactly that
  artifact's bytes under the matching public key, up to collisions of the hash.\<close>

theorem signed_artifact_verifies:
  assumes "\<And>m. ed25519_verify env pub m (ed25519_sign env priv m)" "length pub = PublicKeySize"
    and "\<And>b. hex_decode env (hex_encode env b) = Some b" "\<And>b. base64_decode env (base64_encode env b) = Some b"
    and "runSign env io artifact key fs = (Inr (), fs')" "fs key = Some priv" "fs artifact = Some data"
  shows "\<exists>h s. fs' (artifact @ ''.sha256'') = Some (bytes_of h) \<and> fs' (artifact @ ''.sig'') = Some (bytes_of s) \<and>
     (\<forall>x. VerifyArtifact env pub x h s = Inr () \<longleftrightarrow> sha256 env x = sha256 env data)"
proof -
  let ?h = "hex_encode env (sha256 env data)" and ?s = "base64_encode env (ed25519_sign env priv (sha256 env data))"
  have "fs' (artifact @ ''.sha256'') = Some (bytes_of ?h) \<and> fs' (artifact @ ''.sig'') = Some (bytes_of ?s)"
    using assms(5-7) by (auto simp: runSign_def Let_def os_write_def split: if_splits io_write.splits)
  moreover have "VerifyArtifact env pub x ?h ?s = Inr () \<longleftrightarrow> sha256 env x = sha256 env data" for x
    using assms(1-4) by (auto simp: VerifyArtifact_iff)
  ultimately show ?thesis by blast
qed

definition demo_sign_fs :: fs where
  "demo_sign_fs = (\<lambda>_. None)(''k'' := Some (replicate 64 1), ''a'' := Some [7, 8])"

theorem signed_artifact_verifies_witness:
  "\<exists>h s. snd (runSign demo_update_env \<lparr>si_sum = WriteOk, si_sig = WriteOk\<rparr> ''a'' ''k'' demo_sign_fs) ''a.sig'' = Some (bytes_of s) \<and>
     VerifyArtifact demo_update_env (replicate 32 1) [7, 8] h s = Inr ()"
proof -
  let ?r = "runSign demo_update_env \<lparr>si_sum = WriteOk, si_sig = WriteOk\<rparr> ''a'' ''k'' demo_sign_fs"
  have r: "?r = (Inr (), snd ?r)"
    by (simp add: runSign_def Let_def os_write_def demo_sign_fs_def PrivateKeySize_def)
  have k: "demo_sign_fs ''k'' = Some (replicate 64 1)" "demo_sign_fs ''a'' = Some [7, 8]"
    by (simp_all add: demo_sign_fs_def)
  have "take 32 (replicate 64 1) = replicate 32 (1 :: byte)" by (simp add: take_replicate)
  then have e: "\<And>m. ed25519_verify demo_update_env (replicate 32 1) m (ed25519_sign demo_update_env (replicate 64 1) m)"
    "\<And>b. hex_decode demo_update_env (hex_encode demo_update_env b) = Some b"
    "\<And>b. base64_decode demo_update_env (base64_encode demo_update_env b) = Some b"
    by (simp_all add: demo_update_env_def)
  show ?thesis
    using signed_artifact_verifies [OF e(1) _ e(2,3) r k] by (auto simp: PublicKeySize_def)
qed

end
