(* ===== verification/Agent_Release.thy ===== *)
theory Agent_Release
  imports Agent_Update
begin

text \<open>
  The release manifest of the server: the table \<open>agent_versions\<close>
  (\<open>internal/agentrelease/agentrelease.go\<close>), the import of releases from GitHub
  (\<open>githubsync.go\<close>) and the validation of a release submitted by an administrator
  (\<open>internal/httpapi/handlers_releases.go\<close>). The identifiers and times that the
  database generates are arguments.
\<close>

section \<open>The manifest\<close>

record release_row =
  rr_id :: uuid
  rr_version :: string
  rr_os_family :: string
  rr_architecture :: string
  rr_channel :: string
  rr_artifact_url :: string
  rr_artifact_sha256 :: bytes
  rr_signature :: bytes
  rr_published_at :: time
  rr_minimum_supported :: bool
  rr_blocked :: bool

record release =
  rl_id :: uuid
  rl_version :: string
  rl_os_family :: string
  rl_architecture :: string
  rl_channel :: string
  rl_artifact_url :: string
  rl_artifact_sha256_hex :: string
  rl_signature_base64 :: string
  rl_published_at :: time
  rl_minimum_supported :: bool
  rl_blocked :: bool

datatype release_error =
    ErrReleaseNotFound | ErrArtifactHash | ErrSignatureEncoding | ErrReleaseSignature update_error | ErrReleaseConflict

definition scanRelease :: "update_env \<Rightarrow> release_row \<Rightarrow> release" where
  "scanRelease env r = \<lparr>rl_id = rr_id r, rl_version = rr_version r, rl_os_family = rr_os_family r,
     rl_architecture = rr_architecture r, rl_channel = rr_channel r, rl_artifact_url = rr_artifact_url r,
     rl_artifact_sha256_hex = hex_encode env (rr_artifact_sha256 r), rl_signature_base64 = base64_encode env (rr_signature r),
     rl_published_at = rr_published_at r, rl_minimum_supported = rr_minimum_supported r, rl_blocked = rr_blocked r\<rparr>"

definition newest_first :: "release_row list \<Rightarrow> release_row list" where
  "newest_first rows = sort_key (\<lambda>r. - rr_published_at r) rows"

definition ListReleases :: "update_env \<Rightarrow> release_row list \<Rightarrow> release list" where
  "ListReleases env rows = map (scanRelease env) (newest_first rows)"

text \<open>\<open>UNIQUE(version, os_family, architecture, channel)\<close>\<close>

definition release_key :: "release_row \<Rightarrow> string \<times> string \<times> string \<times> string" where
  "release_key r = (rr_version r, rr_os_family r, rr_architecture r, rr_channel r)"

definition row_of :: "uuid \<times> time \<Rightarrow> release \<Rightarrow> bytes \<Rightarrow> bytes \<Rightarrow> release_row" where
  "row_of stamp rl digest sig = \<lparr>rr_id = fst stamp, rr_version = rl_version rl, rr_os_family = rl_os_family rl,
     rr_architecture = rl_architecture rl, rr_channel = rl_channel rl, rr_artifact_url = rl_artifact_url rl,
     rr_artifact_sha256 = digest, rr_signature = sig, rr_published_at = snd stamp,
     rr_minimum_supported = rl_minimum_supported rl, rr_blocked = False\<rparr>"

definition CreateRelease ::
  "update_env \<Rightarrow> uuid \<times> time \<Rightarrow> release \<Rightarrow> bytes \<Rightarrow> release_row list \<Rightarrow> (release_error + release) \<times> release_row list" where
  "CreateRelease env stamp rl trustedPubKey rows =
     (case hex_decode env (rl_artifact_sha256_hex rl) of
        None \<Rightarrow> (Inl ErrArtifactHash, rows)
      | Some digest \<Rightarrow>
          if length digest \<noteq> 32 then (Inl ErrArtifactHash, rows)
          else (case base64_decode env (rl_signature_base64 rl) of
                  None \<Rightarrow> (Inl ErrSignatureEncoding, rows)
                | Some sig \<Rightarrow>
                    (case VerifyHashAndSignature env trustedPubKey digest sig of
                       Inl e \<Rightarrow> (Inl (ErrReleaseSignature e), rows)
                     | Inr _ \<Rightarrow>
                         (case insert_unique release_key (row_of stamp rl digest sig) rows of
                            None \<Rightarrow> (Inl ErrReleaseConflict, rows)
                          | Some rows' \<Rightarrow> (Inr (rl\<lparr>rl_id := fst stamp, rl_published_at := snd stamp\<rparr>), rows')))))"

definition release_matches :: "string \<Rightarrow> string \<Rightarrow> string \<Rightarrow> release_row \<Rightarrow> bool" where
  "release_matches osFamily architecture channel r \<longleftrightarrow>
     rr_os_family r = osFamily \<and> rr_architecture r = architecture \<and> rr_channel r = channel \<and> \<not> rr_blocked r"

definition Latest :: "update_env \<Rightarrow> string \<Rightarrow> string \<Rightarrow> string \<Rightarrow> release_row list \<Rightarrow> release_error + release" where
  "Latest env osFamily architecture channel rows =
     (case newest_first (filter (release_matches osFamily architecture channel) rows) of
        [] \<Rightarrow> Inl ErrReleaseNotFound | r # _ \<Rightarrow> Inr (scanRelease env r))"

definition IsVersionBlocked :: "string \<Rightarrow> string \<Rightarrow> string \<Rightarrow> release_row list \<Rightarrow> bool" where
  "IsVersionBlocked osFamily architecture version rows \<longleftrightarrow>
     list_ex rr_blocked (filter (\<lambda>r. rr_os_family r = osFamily \<and> rr_architecture r = architecture \<and> rr_version r = version) rows)"

definition SetBlocked :: "uuid \<Rightarrow> bool \<Rightarrow> release_row list \<Rightarrow> (release_error + unit) \<times> release_row list" where
  "SetBlocked i blocked rows =
     (if count_where (\<lambda>r. rr_id r = i) rows = 0 then (Inl ErrReleaseNotFound, rows)
      else (Inr (), upd_where (\<lambda>r. rr_id r = i) (\<lambda>r. r\<lparr>rr_blocked := blocked\<rparr>) rows))"

text \<open>The body of \<open>handleCreateRelease\<close> after the permission check.\<close>

datatype release_reply = NotConfigured | InvalidRelease | ReleaseRejected release_error | ReleaseCreated release

definition handleCreateRelease ::
  "update_env \<Rightarrow> bytes \<Rightarrow> uuid \<times> time \<Rightarrow> release \<Rightarrow> release_row list \<Rightarrow> release_reply \<times> release_row list" where
  "handleCreateRelease env key stamp body rows =
     (if length key \<noteq> PublicKeySize then (NotConfigured, rows)
      else if rl_version body = [] \<or> rl_os_family body = [] \<or> rl_architecture body = [] \<or> rl_artifact_url body = [] \<or>
              rl_artifact_sha256_hex body = [] \<or> rl_signature_base64 body = [] then (InvalidRelease, rows)
      else let channel = (if rl_channel body = [] then ''stable'' else rl_channel body)
           in case CreateRelease env stamp (body\<lparr>rl_channel := channel\<rparr>) key rows of
                (Inl e, rows') \<Rightarrow> (ReleaseRejected e, rows')
              | (Inr rl, rows') \<Rightarrow> (ReleaseCreated rl, rows'))"

section \<open>Import from GitHub\<close>

record gh_asset =
  ga_name :: string
  ga_url :: string

record gh_release =
  gr_tag_name :: string
  gr_prerelease :: bool
  gr_assets :: "gh_asset list"

text \<open>\<open>^wr-agent-([a-z0-9]+)-([a-z0-9]+)(\.exe)?$\<close>\<close>

definition asset_char :: "char \<Rightarrow> bool" where
  "asset_char c \<longleftrightarrow> is_digit c \<or> (97 \<le> (of_char c :: nat) \<and> (of_char c :: nat) \<le> 122)"

definition asset_part :: "string \<Rightarrow> bool" where
  "asset_part s \<longleftrightarrow> s \<noteq> [] \<and> list_all asset_char s"

definition match_asset :: "string \<Rightarrow> (string \<times> string) option" where
  "match_asset name =
     (if \<not> has_prefix ''wr-agent-'' name then None
      else let rest = drop (length ''wr-agent-'') name;
               base = (if has_suffix ''.exe'' rest then take (length rest - length ''.exe'') rest else rest)
           in case split_on CHR ''-'' base of
                [os, arch] \<Rightarrow> if asset_part os \<and> asset_part arch then Some (os, arch) else None
              | _ \<Rightarrow> None)"

text \<open>A map filled in the order of the assets: the last one of a name counts.\<close>

definition assets_by_name :: "gh_asset list \<Rightarrow> string \<Rightarrow> gh_asset option" where
  "assets_by_name assets n = find_row (\<lambda>a. ga_name a = n) (rev assets)"

definition fetchText :: "update_env \<Rightarrow> string \<Rightarrow> string option" where
  "fetchText env url =
     (case http_get env url of
        GetFails \<Rightarrow> None
      | Response status body \<Rightarrow> if status \<noteq> 200 then None else Some (trim_space (string_of (take 4096 body))))"

datatype sync_error =
    MissingSum string string | MissingSig string string | FetchSum string | FetchSig string | CreateFailed string release_error

record sync_state =
  sy_rows :: "release_row list"
  sy_seen :: "string list"
  sy_imported :: int
  sy_skipped :: int
  sy_errors :: "sync_error list"

definition seen_key :: "string \<Rightarrow> string \<Rightarrow> string \<Rightarrow> string" where
  "seen_key version osFamily arch = version @ ''|'' @ osFamily @ ''|'' @ arch"

text \<open>The last part of the inner loop: one entry is created, or the error is collected.\<close>

definition import_release :: "update_env \<Rightarrow> bytes \<Rightarrow> uuid \<times> time \<Rightarrow> string \<Rightarrow> release \<Rightarrow> sync_state \<Rightarrow> sync_state" where
  "import_release env pubKey stamp name rl st =
     (case CreateRelease env stamp rl pubKey (sy_rows st) of
        (Inl e, rows) \<Rightarrow> st\<lparr>sy_rows := rows, sy_errors := sy_errors st @ [CreateFailed name e]\<rparr>
      | (Inr _, rows) \<Rightarrow> st\<lparr>sy_rows := rows, sy_imported := sy_imported st + 1,
          sy_seen := seen_key (rl_version rl) (rl_os_family rl) (rl_architecture rl) # sy_seen st\<rparr>)"

text \<open>The body of the inner loop; \<open>stamps n\<close> is what the database generates for
  the row that is inserted behind \<open>n\<close> others.\<close>

definition sync_asset ::
  "update_env \<Rightarrow> bytes \<Rightarrow> (nat \<Rightarrow> uuid \<times> time) \<Rightarrow> gh_release \<Rightarrow> gh_asset \<Rightarrow> sync_state \<Rightarrow> sync_state" where
  "sync_asset env pubKey stamps gr a st =
     (let version = trim_prefix ''v'' (trim_prefix ''agent-'' (gr_tag_name gr));
          channel = (if gr_prerelease gr then ''beta'' else ''stable'')
      in case match_asset (ga_name a) of
           None \<Rightarrow> st
         | Some (osFamily, arch) \<Rightarrow>
             let key = seen_key version osFamily arch
             in if key \<in> set (sy_seen st) then st\<lparr>sy_skipped := sy_skipped st + 1\<rparr>
                else (case assets_by_name (gr_assets gr) (ga_name a @ ''.sha256'') of
                        None \<Rightarrow> st\<lparr>sy_errors := sy_errors st @ [MissingSum (ga_name a) (gr_tag_name gr)]\<rparr>
                      | Some sumAsset \<Rightarrow>
                     (case assets_by_name (gr_assets gr) (ga_name a @ ''.sig'') of
                        None \<Rightarrow> st\<lparr>sy_errors := sy_errors st @ [MissingSig (ga_name a) (gr_tag_name gr)]\<rparr>
                      | Some sigAsset \<Rightarrow>
                     (case fetchText env (ga_url sumAsset) of
                        None \<Rightarrow> st\<lparr>sy_errors := sy_errors st @ [FetchSum (ga_name a)]\<rparr>
                      | Some sumHex \<Rightarrow>
                     (case fetchText env (ga_url sigAsset) of
                        None \<Rightarrow> st\<lparr>sy_errors := sy_errors st @ [FetchSig (ga_name a)]\<rparr>
                      | Some sigB64 \<Rightarrow>
                     import_release env pubKey (stamps (length (sy_rows st))) (ga_name a)
                       \<lparr>rl_id = 0, rl_version = version, rl_os_family = osFamily, rl_architecture = arch, rl_channel = channel,
                        rl_artifact_url = ga_url a, rl_artifact_sha256_hex = sumHex, rl_signature_base64 = sigB64,
                        rl_published_at = 0, rl_minimum_supported = False, rl_blocked = False\<rparr> st)))))"

definition sync_release ::
  "update_env \<Rightarrow> bytes \<Rightarrow> (nat \<Rightarrow> uuid \<times> time) \<Rightarrow> gh_release \<Rightarrow> sync_state \<Rightarrow> sync_state" where
  "sync_release env pubKey stamps gr st =
     (if \<not> has_prefix ''agent-'' (gr_tag_name gr) then st
      else fold (sync_asset env pubKey stamps gr) (gr_assets gr) st)"

definition sync_start :: "update_env \<Rightarrow> release_row list \<Rightarrow> sync_state" where
  "sync_start env rows = \<lparr>sy_rows = rows,
     sy_seen = map (\<lambda>e. seen_key (rl_version e) (rl_os_family e) (rl_architecture e)) (ListReleases env rows),
     sy_imported = 0, sy_skipped = 0, sy_errors = []\<rparr>"

text \<open>\<open>None\<close> as the fetched releases is a failed request to GitHub, which ends the
  synchronisation before it starts.\<close>

definition SyncOnce ::
  "update_env \<Rightarrow> bytes \<Rightarrow> (nat \<Rightarrow> uuid \<times> time) \<Rightarrow> gh_release list option \<Rightarrow> release_row list \<Rightarrow>
   (unit + (int \<times> int \<times> sync_error list)) \<times> release_row list" where
  "SyncOnce env pubKey stamps fetched rows =
     (case fetched of
        None \<Rightarrow> (Inl (), rows)
      | Some releases \<Rightarrow>
          let st = fold (sync_release env pubKey stamps) releases (sync_start env rows)
          in (Inr (sy_imported st, sy_skipped st, sy_errors st), sy_rows st))"

section \<open>Invariant\<close>

text \<open>Every entry carries a signature of its hash under the trusted key, and no two entries
  share version, system, architecture and channel.\<close>

definition row_signed :: "update_env \<Rightarrow> bytes \<Rightarrow> release_row \<Rightarrow> bool" where
  "row_signed env pubKey r \<longleftrightarrow>
     VerifyHashAndSignature env pubKey (rr_artifact_sha256 r) (rr_signature r) = Inr ()"

definition manifest_ok :: "update_env \<Rightarrow> bytes \<Rightarrow> release_row list \<Rightarrow> bool" where
  "manifest_ok env pubKey rows \<longleftrightarrow> list_all (row_signed env pubKey) rows \<and> distinct (map release_key rows)"

datatype release_event =
    RCreate "uuid \<times> time" release
  | RSetBlocked uuid bool
  | RSync "nat \<Rightarrow> uuid \<times> time" "gh_release list option"

fun release_step :: "update_env \<Rightarrow> bytes \<Rightarrow> release_event \<Rightarrow> release_row list \<Rightarrow> release_row list" where
  "release_step env pubKey (RCreate stamp body) rows = snd (handleCreateRelease env pubKey stamp body rows)"
| "release_step env pubKey (RSetBlocked i b) rows = snd (SetBlocked i b rows)"
| "release_step env pubKey (RSync stamps fetched) rows = snd (SyncOnce env pubKey stamps fetched rows)"

lemma CreateRelease_cases:
  assumes "CreateRelease env stamp rl pub rows = (r, rows')"
  obtains (failed) e where "r = Inl e" "rows' = rows"
  | (created) digest sig where "r = Inr (rl\<lparr>rl_id := fst stamp, rl_published_at := snd stamp\<rparr>)"
      "rows' = rows @ [row_of stamp rl digest sig]" "row_signed env pub (row_of stamp rl digest sig)"
      "release_key (row_of stamp rl digest sig) \<notin> release_key ` set rows"
  using assms
  by (auto simp: CreateRelease_def row_signed_def row_of_def insert_unique_def split: option.splits if_splits sum.splits)

lemma CreateRelease_ok:
  "CreateRelease env stamp rl pub rows = (r, rows') \<Longrightarrow> manifest_ok env pub rows \<Longrightarrow> manifest_ok env pub rows'"
  by (erule CreateRelease_cases) (auto simp: manifest_ok_def)

lemma SetBlocked_ok: "manifest_ok env pub rows \<Longrightarrow> manifest_ok env pub (snd (SetBlocked i b rows))"
  by (auto simp: SetBlocked_def manifest_ok_def row_signed_def release_key_def [abs_def] list_all_iff)

lemma handleCreateRelease_ok: "manifest_ok env pub rows \<Longrightarrow> manifest_ok env pub (snd (handleCreateRelease env pub stamp body rows))"
  by (auto simp: handleCreateRelease_def Let_def split: prod.splits sum.splits dest: CreateRelease_ok)

text \<open>What one asset changes: nothing but the counters, or one new entry that is then seen.\<close>

inductive sync_change :: "update_env \<Rightarrow> bytes \<Rightarrow> sync_state \<Rightarrow> sync_state \<Rightarrow> bool" for env pub where
  sc_same: "sy_rows st' = sy_rows st \<Longrightarrow> sy_seen st' = sy_seen st \<Longrightarrow> sy_imported st' = sy_imported st \<Longrightarrow>
    sync_change env pub st st'"
| sc_new: "CreateRelease env stamp rl pub (sy_rows st) = (Inr rl', sy_rows st') \<Longrightarrow>
    seen_key (rl_version rl) (rl_os_family rl) (rl_architecture rl) \<notin> set (sy_seen st) \<Longrightarrow>
    sy_seen st' = seen_key (rl_version rl) (rl_os_family rl) (rl_architecture rl) # sy_seen st \<Longrightarrow>
    sync_change env pub st st'"

lemma CreateRelease_InlD: "CreateRelease env stamp rl pub rows = (Inl e, rows') \<Longrightarrow> rows' = rows"
  by (auto elim: CreateRelease_cases)

lemma import_release_change:
  "seen_key (rl_version rl) (rl_os_family rl) (rl_architecture rl) \<notin> set (sy_seen st) \<Longrightarrow>
   sync_change env pub st (import_release env pub stamp name rl st)"
proof -
  assume new: "seen_key (rl_version rl) (rl_os_family rl) (rl_architecture rl) \<notin> set (sy_seen st)"
  obtain r rows where c: "CreateRelease env stamp rl pub (sy_rows st) = (r, rows)" by fastforce
  show ?thesis
  proof (cases r)
    case (Inl e)
    then show ?thesis using c CreateRelease_InlD [of env stamp rl pub "sy_rows st" e rows]
      by (simp add: import_release_def sc_same)
  next
    case (Inr rl')
    then show ?thesis using c new by (auto simp: import_release_def intro: sc_new)
  qed
qed

lemma sync_asset_change: "sync_change env pub st (sync_asset env pub stamps gr a st)"
proof (cases "match_asset (ga_name a)")
  case None
  then show ?thesis by (simp add: sync_asset_def Let_def sc_same)
next
  case (Some oa)
  then show ?thesis
    unfolding sync_asset_def Let_def
    by (cases oa) (simp split: option.split add: sc_same import_release_change)
qed

abbreviation row_seen :: "release_row \<Rightarrow> string" where
  "row_seen r \<equiv> seen_key (rr_version r) (rr_os_family r) (rr_architecture r)"

text \<open>Along a synchronisation the seen keys are those of the entries, entries are only
  added, and each counts.\<close>

definition sync_ok :: "update_env \<Rightarrow> bytes \<Rightarrow> sync_state \<Rightarrow> bool" where
  "sync_ok env pub st \<longleftrightarrow> manifest_ok env pub (sy_rows st) \<and> set (sy_seen st) = row_seen ` set (sy_rows st)"

lemma sync_change_ok:
  assumes "sync_change env pub st st'" "sync_ok env pub st"
  shows "sync_ok env pub st'" "set (sy_seen st) \<subseteq> set (sy_seen st')"
proof -
  show "sync_ok env pub st'"
    using assms
  proof cases
    case (sc_new stamp rl rl')
    have "manifest_ok env pub (sy_rows st')" using sc_new(1) assms(2) by (auto simp: sync_ok_def dest: CreateRelease_ok)
    moreover have "row_seen ` set (sy_rows st') =
        insert (seen_key (rl_version rl) (rl_os_family rl) (rl_architecture rl)) (row_seen ` set (sy_rows st))"
      using sc_new(1) by (rule CreateRelease_cases) (auto simp: row_of_def)
    ultimately show ?thesis using sc_new(3) assms(2) by (simp add: sync_ok_def)
  qed (simp add: sync_ok_def)
  show "set (sy_seen st) \<subseteq> set (sy_seen st')" using assms(1) by cases auto
qed

lemma sync_start_ok: "manifest_ok env pub rows \<Longrightarrow> sync_ok env pub (sync_start env rows)"
  by (auto simp: sync_ok_def sync_start_def ListReleases_def scanRelease_def newest_first_def image_image)

text \<open>The loops keep what each asset keeps.\<close>

lemma sync_assets_keep:
  "sync_ok env pub st \<Longrightarrow> sync_ok env pub (fold (sync_asset env pub stamps gr) as st) \<and>
     set (sy_seen st) \<subseteq> set (sy_seen (fold (sync_asset env pub stamps gr) as st))"
proof (induction as arbitrary: st)
  case (Cons a as)
  have "sync_ok env pub (sync_asset env pub stamps gr a st)"
    "set (sy_seen st) \<subseteq> set (sy_seen (sync_asset env pub stamps gr a st))"
    using sync_change_ok [OF sync_asset_change Cons.prems] by blast+
  then show ?case using Cons.IH [of "sync_asset env pub stamps gr a st"] by auto
qed simp

lemma sync_release_keeps:
  "sync_ok env pub st \<Longrightarrow> sync_ok env pub (sync_release env pub stamps gr st) \<and>
     set (sy_seen st) \<subseteq> set (sy_seen (sync_release env pub stamps gr st))"
  using sync_assets_keep by (simp add: sync_release_def)

lemma sync_releases_keep:
  "sync_ok env pub st \<Longrightarrow> sync_ok env pub (fold (sync_release env pub stamps) grs st) \<and>
     set (sy_seen st) \<subseteq> set (sy_seen (fold (sync_release env pub stamps) grs st))"
proof (induction grs arbitrary: st)
  case (Cons gr grs)
  show ?case
    using sync_release_keeps [OF Cons.prems, of stamps gr] Cons.IH [of "sync_release env pub stamps gr st"] by auto
qed simp

lemma SyncOnce_ok: "manifest_ok env pub rows \<Longrightarrow> manifest_ok env pub (snd (SyncOnce env pub stamps fetched rows))"
  using sync_releases_keep [OF sync_start_ok]
  by (auto simp: SyncOnce_def Let_def sync_ok_def split: option.splits)

interpretation manifest: invariant "release_step env pub" "manifest_ok env pub" for env pub
proof
  fix rows e assume "manifest_ok env pub rows"
  then show "manifest_ok env pub (release_step env pub e rows)"
    by (cases e) (simp_all add: handleCreateRelease_ok SetBlocked_ok SyncOnce_ok)
qed

section \<open>Synchronising twice\<close>

text \<open>The entry an asset stands for, and whether it can be created, do not depend on the
  manifest.\<close>

definition asset_release :: "update_env \<Rightarrow> gh_release \<Rightarrow> gh_asset \<Rightarrow> release option" where
  "asset_release env gr a =
     (case (match_asset (ga_name a), assets_by_name (gr_assets gr) (ga_name a @ ''.sha256''),
            assets_by_name (gr_assets gr) (ga_name a @ ''.sig'')) of
        (Some (osFamily, arch), Some sumAsset, Some sigAsset) \<Rightarrow>
          (case (fetchText env (ga_url sumAsset), fetchText env (ga_url sigAsset)) of
             (Some sumHex, Some sigB64) \<Rightarrow> Some
               \<lparr>rl_id = 0, rl_version = trim_prefix ''v'' (trim_prefix ''agent-'' (gr_tag_name gr)), rl_os_family = osFamily,
                rl_architecture = arch, rl_channel = (if gr_prerelease gr then ''beta'' else ''stable''),
                rl_artifact_url = ga_url a, rl_artifact_sha256_hex = sumHex, rl_signature_base64 = sigB64,
                rl_published_at = 0, rl_minimum_supported = False, rl_blocked = False\<rparr>
           | _ \<Rightarrow> None)
      | _ \<Rightarrow> None)"

abbreviation release_seen :: "release \<Rightarrow> string" where
  "release_seen rl \<equiv> seen_key (rl_version rl) (rl_os_family rl) (rl_architecture rl)"

definition creatable :: "update_env \<Rightarrow> bytes \<Rightarrow> release \<Rightarrow> bool" where
  "creatable env pub rl \<longleftrightarrow> (\<exists>rl' rows. CreateRelease env (0, 0) rl pub [] = (Inr rl', rows))"

lemma CreateRelease_result:
  "(\<exists>rl'. fst (CreateRelease env stamp rl pub rows) = Inr rl') \<longleftrightarrow>
     creatable env pub rl \<and> (rl_version rl, rl_os_family rl, rl_architecture rl, rl_channel rl) \<notin> release_key ` set rows"
  by (auto simp: creatable_def CreateRelease_def insert_unique_def release_key_def row_of_def
      split: option.splits sum.splits if_splits)

lemma sync_asset_unseen:
  assumes "asset_release env gr a = Some rl" "release_seen rl \<notin> set (sy_seen st)"
  shows "sync_asset env pub stamps gr a st = import_release env pub (stamps (length (sy_rows st))) (ga_name a) rl st"
  using assms by (auto simp: asset_release_def sync_asset_def Let_def split: option.splits)

lemma sync_asset_none:
  assumes "asset_release env gr a = None"
  shows "sy_rows (sync_asset env pub stamps gr a st) = sy_rows st" "sy_seen (sync_asset env pub stamps gr a st) = sy_seen st"
    "sy_imported (sync_asset env pub stamps gr a st) = sy_imported st"
  using assms by (auto simp: asset_release_def sync_asset_def Let_def split: option.split option.splits)

lemma sync_asset_seen:
  assumes "asset_release env gr a = Some rl" "release_seen rl \<in> set (sy_seen st)"
  shows "sync_asset env pub stamps gr a st = st\<lparr>sy_skipped := sy_skipped st + 1\<rparr>"
  using assms by (auto simp: asset_release_def sync_asset_def Let_def split: option.splits)

text \<open>A creatable asset is seen once it has been processed.\<close>

definition settled :: "update_env \<Rightarrow> bytes \<Rightarrow> gh_release \<Rightarrow> string list \<Rightarrow> gh_asset \<Rightarrow> bool" where
  "settled env pub gr seen a \<longleftrightarrow>
     (case asset_release env gr a of None \<Rightarrow> True | Some rl \<Rightarrow> creatable env pub rl \<longrightarrow> release_seen rl \<in> set seen)"

lemma sync_asset_settles:
  assumes "sync_ok env pub st"
  shows "settled env pub gr (sy_seen (sync_asset env pub stamps gr a st)) a"
proof (cases "asset_release env gr a")
  case (Some rl)
  show ?thesis
  proof (cases "release_seen rl \<in> set (sy_seen st)")
    case True
    then show ?thesis by (simp add: settled_def Some sync_asset_seen [OF Some])
  next
    case False
    have "(rl_version rl, rl_os_family rl, rl_architecture rl, rl_channel rl) \<notin> release_key ` set (sy_rows st)"
      using False assms by (auto simp: sync_ok_def release_key_def image_iff)
    then have "creatable env pub rl \<Longrightarrow> \<exists>rl'. fst (CreateRelease env (stamps (length (sy_rows st))) rl pub (sy_rows st)) = Inr rl'"
      by (simp add: CreateRelease_result)
    then show ?thesis
      unfolding sync_asset_unseen [OF Some False]
      by (auto simp: settled_def Some import_release_def split: prod.split sum.split)
  qed
qed (simp add: settled_def)

lemma settled_mono: "settled env pub gr seen a \<Longrightarrow> set seen \<subseteq> set seen' \<Longrightarrow> settled env pub gr seen' a"
  by (auto simp: settled_def split: option.splits)

lemma sync_assets_settle:
  assumes "sync_ok env pub st" "a \<in> set as"
  shows "settled env pub gr (sy_seen (fold (sync_asset env pub stamps gr) as st)) a"
  using assms
proof (induction as arbitrary: st)
  case (Cons b as)
  let ?st = "sync_asset env pub stamps gr b st"
  have ok: "sync_ok env pub ?st" using sync_change_ok [OF sync_asset_change Cons.prems(1)] by blast
  show ?case
  proof (cases "a \<in> set as")
    case False
    then have "a = b" using Cons.prems(2) by simp
    then have "settled env pub gr (sy_seen ?st) a" using sync_asset_settles [OF Cons.prems(1)] by simp
    then show ?thesis using settled_mono sync_assets_keep [OF ok, of stamps gr as] by simp
  qed (use Cons.IH [OF ok] in simp)
qed simp

lemma sync_releases_settle:
  assumes "sync_ok env pub st" "gr \<in> set grs" "has_prefix ''agent-'' (gr_tag_name gr)" "a \<in> set (gr_assets gr)"
  shows "settled env pub gr (sy_seen (fold (sync_release env pub stamps) grs st)) a"
  using assms(1,2)
proof (induction grs arbitrary: st)
  case (Cons g grs)
  let ?st = "sync_release env pub stamps g st"
  have ok: "sync_ok env pub ?st" using sync_release_keeps [OF Cons.prems(1)] by blast
  show ?case
  proof (cases "gr \<in> set grs")
    case False
    then have "gr = g" using Cons.prems(2) by simp
    then have "settled env pub gr (sy_seen ?st) a"
      using sync_assets_settle [OF Cons.prems(1) assms(4), of gr stamps] assms(3) by (simp add: sync_release_def)
    then show ?thesis using settled_mono sync_releases_keep [OF ok, of stamps grs] by simp
  qed (use Cons.IH [OF ok] in simp)
qed simp

text \<open>Processing settled assets changes neither the entries nor the seen keys.\<close>

lemma sync_asset_idle:
  assumes "settled env pub gr (sy_seen st) a"
  shows "sy_rows (sync_asset env pub stamps gr a st) = sy_rows st" "sy_seen (sync_asset env pub stamps gr a st) = sy_seen st"
    "sy_imported (sync_asset env pub stamps gr a st) = sy_imported st"
proof -
  have "sy_rows (sync_asset env pub stamps gr a st) = sy_rows st \<and> sy_seen (sync_asset env pub stamps gr a st) = sy_seen st \<and>
    sy_imported (sync_asset env pub stamps gr a st) = sy_imported st"
  proof (cases "asset_release env gr a")
    case (Some rl)
    show ?thesis
    proof (cases "release_seen rl \<in> set (sy_seen st)")
      case False
      let ?stamp = "stamps (length (sy_rows st))"
      have "\<not> creatable env pub rl" using assms False by (auto simp: settled_def Some)
      then obtain e where e: "fst (CreateRelease env ?stamp rl pub (sy_rows st)) = Inl e"
        using CreateRelease_result [of env ?stamp rl pub "sy_rows st"] by (cases "fst (CreateRelease env ?stamp rl pub (sy_rows st))") auto
      then have "CreateRelease env ?stamp rl pub (sy_rows st) = (Inl e, sy_rows st)"
        using CreateRelease_InlD [of env ?stamp rl pub "sy_rows st" e] by (simp add: prod_eq_iff)
      then show ?thesis unfolding sync_asset_unseen [OF Some False] by (simp add: import_release_def)
    qed (simp add: sync_asset_seen [OF Some])
  qed (simp add: sync_asset_none)
  then show "sy_rows (sync_asset env pub stamps gr a st) = sy_rows st" "sy_seen (sync_asset env pub stamps gr a st) = sy_seen st"
    "sy_imported (sync_asset env pub stamps gr a st) = sy_imported st" by blast+
qed

lemma sync_idle:
  assumes "\<And>gr a. gr \<in> set grs \<Longrightarrow> has_prefix ''agent-'' (gr_tag_name gr) \<Longrightarrow> a \<in> set (gr_assets gr) \<Longrightarrow> settled env pub gr (sy_seen st) a"
  shows "sy_rows (fold (sync_release env pub stamps) grs st) = sy_rows st \<and>
    sy_imported (fold (sync_release env pub stamps) grs st) = sy_imported st"
proof -
  have assets: "sy_rows (fold (sync_asset env pub stamps gr) as st) = sy_rows st \<and>
      sy_seen (fold (sync_asset env pub stamps gr) as st) = sy_seen st \<and>
      sy_imported (fold (sync_asset env pub stamps gr) as st) = sy_imported st"
    if "\<And>a. a \<in> set as \<Longrightarrow> settled env pub gr (sy_seen st) a" for gr as st
    using that by (induction as arbitrary: st) (simp_all add: sync_asset_idle)
  have "sy_rows (fold (sync_release env pub stamps) grs st) = sy_rows st \<and>
      sy_seen (fold (sync_release env pub stamps) grs st) = sy_seen st \<and>
      sy_imported (fold (sync_release env pub stamps) grs st) = sy_imported st"
    using assms
  proof (induction grs arbitrary: st)
    case (Cons g grs)
    have g: "sy_rows (sync_release env pub stamps g st) = sy_rows st \<and>
        sy_seen (sync_release env pub stamps g st) = sy_seen st \<and> sy_imported (sync_release env pub stamps g st) = sy_imported st"
      using assets [of "gr_assets g" g st] Cons.prems by (simp add: sync_release_def)
    then show ?case using Cons.IH [of "sync_release env pub stamps g st"] Cons.prems by simp
  qed simp
  then show ?thesis by blast
qed

lemma sync_start_seen: "set (sy_seen (sync_start env rows)) = row_seen ` set rows"
  by (auto simp: sync_start_def ListReleases_def scanRelease_def newest_first_def image_image)

section \<open>Properties\<close>

text \<open>C17: server and agent agree on what may be installed. After any sequence of submitted
  releases, synchronisations and blockings that starts from an empty manifest, the release that is
  offered to a device is for its system, architecture and channel, is not blocked, and the agent's own
  verification under the same key accepts exactly the artifacts with the release's hash.\<close>

theorem offered_release_verifies:
  assumes "\<And>b. hex_decode env (hex_encode env b) = Some b" "\<And>b. base64_decode env (base64_encode env b) = Some b"
    and "Latest env os arch ch (run (release_step env pub) es []) = Inr rl"
  shows "rl_os_family rl = os \<and> rl_architecture rl = arch \<and> rl_channel rl = ch \<and> \<not> rl_blocked rl \<and>
    (VerifyArtifact env pub data (rl_artifact_sha256_hex rl) (rl_signature_base64 rl) = Inr () \<longleftrightarrow>
     hex_encode env (sha256 env data) = rl_artifact_sha256_hex rl)"
proof -
  let ?rows = "run (release_step env pub) es []"
  have ok: "manifest_ok env pub ?rows" by (rule manifest.run_keeps) (simp add: manifest_ok_def)
  obtain r where r: "r \<in> set ?rows" "release_matches os arch ch r" and rl: "rl = scanRelease env r"
  proof -
    obtain r rs where l: "newest_first (filter (release_matches os arch ch) ?rows) = r # rs" "rl = scanRelease env r"
      using assms(3) by (auto simp: Latest_def split: list.splits)
    have "r \<in> set (newest_first (filter (release_matches os arch ch) ?rows))" by (simp add: l(1))
    then show thesis using that l(2) by (auto simp: newest_first_def)
  qed
  have "row_signed env pub r" using ok r(1) by (auto simp: manifest_ok_def list_all_iff)
  moreover have "hex_encode env x = hex_encode env y \<longleftrightarrow> x = y" for x y
    using assms(1) by (metis option.inject)
  ultimately show ?thesis
    using assms(1,2) r(2)
    by (auto simp: rl scanRelease_def release_matches_def VerifyArtifact_iff row_signed_def VerifyHashAndSignature_def split: if_splits)
qed

definition demo_release :: release where
  "demo_release = \<lparr>rl_id = 0, rl_version = ''2'', rl_os_family = ''linux'', rl_architecture = ''amd64'', rl_channel = [],
     rl_artifact_url = ''u'', rl_artifact_sha256_hex = string_of (replicate 32 15),
     rl_signature_base64 = string_of (replicate 32 1 @ replicate 32 15), rl_published_at = 0, rl_minimum_supported = False, rl_blocked = False\<rparr>"

lemma demo_manifest:
  "run (release_step demo_update_env (replicate 32 1)) [RCreate (5, 9) demo_release] [] =
     [row_of (5, 9) (demo_release\<lparr>rl_channel := ''stable''\<rparr>) (replicate 32 15) (replicate 32 1 @ replicate 32 15)]"
proof -
  have ne: "string_of (b # bs) \<noteq> []" for b bs by (simp add: string_of_def)
  have v: "VerifyHashAndSignature demo_update_env (replicate 32 1) (replicate 32 15) (replicate 32 1 @ replicate 32 15) = Inr ()"
    by (simp add: VerifyHashAndSignature_def demo_update_env_def PublicKeySize_def Sha256Size_def)
  have "CreateRelease demo_update_env (5, 9) (demo_release\<lparr>rl_channel := ''stable''\<rparr>) (replicate 32 1) [] =
     (Inr (demo_release\<lparr>rl_channel := ''stable'', rl_id := 5, rl_published_at := 9\<rparr>),
      [row_of (5, 9) (demo_release\<lparr>rl_channel := ''stable''\<rparr>) (replicate 32 15) (replicate 32 1 @ replicate 32 15)])"
    using v by (simp add: CreateRelease_def demo_release_def demo_update_env_def insert_unique_def)
  moreover have "rl_artifact_sha256_hex demo_release \<noteq> []" "rl_signature_base64 demo_release \<noteq> []"
    by (simp_all add: demo_release_def string_of_def)
  ultimately show ?thesis
    by (simp add: handleCreateRelease_def PublicKeySize_def Let_def demo_release_def)
qed

theorem offered_release_verifies_witness:
  "VerifyArtifact demo_update_env (replicate 32 1) [7, 8] (string_of (replicate 32 15)) (string_of (replicate 32 1 @ replicate 32 15)) = Inr ()"
proof -
  let ?rl = "scanRelease demo_update_env (row_of (5, 9) (demo_release\<lparr>rl_channel := ''stable''\<rparr>) (replicate 32 15) (replicate 32 1 @ replicate 32 15))"
  have e: "\<And>b. hex_decode demo_update_env (hex_encode demo_update_env b) = Some b"
    "\<And>b. base64_decode demo_update_env (base64_encode demo_update_env b) = Some b"
    by (simp_all add: demo_update_env_def)
  have "Latest demo_update_env ''linux'' ''amd64'' ''stable'' (run (release_step demo_update_env (replicate 32 1)) [RCreate (5, 9) demo_release] []) = Inr ?rl"
    unfolding demo_manifest by (simp add: Latest_def newest_first_def release_matches_def row_of_def demo_release_def)
  from offered_release_verifies [OF e this, of "[7, 8]"] show ?thesis
    by (simp add: scanRelease_def row_of_def demo_update_env_def)
qed

text \<open>Synchronising again with the same GitHub releases imports nothing and leaves the
  manifest as it is, whatever went wrong with some of the assets the first time.\<close>

theorem SyncOnce_idempotent:
  assumes "manifest_ok env pub rows" "SyncOnce env pub stamps fetched rows = (r, rows')"
  shows "snd (SyncOnce env pub stamps' fetched rows') = rows' \<and>
    (case fst (SyncOnce env pub stamps' fetched rows') of Inl _ \<Rightarrow> fetched = None | Inr (imported, _, _) \<Rightarrow> imported = 0)"
proof (cases fetched)
  case (Some grs)
  let ?st = "fold (sync_release env pub stamps) grs (sync_start env rows)"
  have ok: "sync_ok env pub ?st" using sync_releases_keep [OF sync_start_ok [OF assms(1)]] by blast
  have rows': "rows' = sy_rows ?st" using assms(2) by (auto simp: SyncOnce_def Some Let_def)
  have "set (sy_seen (sync_start env rows')) = set (sy_seen ?st)"
    using ok by (simp add: sync_start_seen rows' sync_ok_def)
  then have "settled env pub gr (sy_seen (sync_start env rows')) a"
    if "gr \<in> set grs" "has_prefix ''agent-'' (gr_tag_name gr)" "a \<in> set (gr_assets gr)" for gr a
    using sync_releases_settle [OF sync_start_ok [OF assms(1)] that] settled_mono by blast
  then have "sy_rows (fold (sync_release env pub stamps') grs (sync_start env rows')) = sy_rows (sync_start env rows') \<and>
      sy_imported (fold (sync_release env pub stamps') grs (sync_start env rows')) = sy_imported (sync_start env rows')"
    by (rule sync_idle)
  then show ?thesis by (simp add: SyncOnce_def Some Let_def sync_start_def)
qed (use assms(2) in \<open>auto simp: SyncOnce_def\<close>)

definition demo_sync_env :: update_env where
  "demo_sync_env = demo_update_env\<lparr>http_get := (\<lambda>u. Response 200
     (if u = ''sum'' then replicate 32 15 else replicate 32 1 @ replicate 32 15))\<rparr>"

definition demo_gh_releases :: "gh_release list" where
  "demo_gh_releases = [\<lparr>gr_tag_name = ''agent-v2'', gr_prerelease = False,
     gr_assets = [\<lparr>ga_name = ''wr-agent-linux-amd64'', ga_url = ''bin''\<rparr>, \<lparr>ga_name = ''wr-agent-linux-amd64.sha256'', ga_url = ''sum''\<rparr>,
       \<lparr>ga_name = ''wr-agent-linux-amd64.sig'', ga_url = ''sig''\<rparr>]\<rparr>]"

lemma demo_sync: "fst (SyncOnce demo_sync_env (replicate 32 1) (\<lambda>n. (5, 9)) (Some demo_gh_releases) []) = Inr (1, 0, [])"
  by code_simp

theorem SyncOnce_idempotent_witness:
  "fst (SyncOnce demo_sync_env (replicate 32 1) (\<lambda>n. (5, 9)) (Some demo_gh_releases) []) = Inr (1, 0, []) \<and>
   (let rows' = snd (SyncOnce demo_sync_env (replicate 32 1) (\<lambda>n. (5, 9)) (Some demo_gh_releases) [])
    in snd (SyncOnce demo_sync_env (replicate 32 1) (\<lambda>n. (6, 9)) (Some demo_gh_releases) rows') = rows')"
proof -
  have "manifest_ok demo_sync_env (replicate 32 1) []" by (simp add: manifest_ok_def)
  from SyncOnce_idempotent [OF this prod.collapse [symmetric]] show ?thesis
    using demo_sync by (simp add: Let_def)
qed

end
