(* ===== verification/Device_Commands.thy ===== *)
theory Device_Commands
  imports Agent_Update
begin

text \<open>
  The commands a server sends to an agent in a \<open>device_command\<close> message and the result it
  gets back (\<open>internal/protocol/commands.go\<close>, \<open>internal/protocol/session.go\<close>): one
  constructor for each command type with its parameters, and the name each has on the wire.
\<close>

record logs_query =
  lq_query :: string
  lq_since :: "time option"
  lq_until :: "time option"
  lq_level :: string
  lq_limit :: int

datatype device_command =
    CmdServicesList
  | CmdServiceStart string
  | CmdServiceStop string
  | CmdServiceRestart string
  | CmdProcessesList
  | CmdProcessTerminate int int  \<comment> \<open>pid, start time\<close>
  | CmdFilesList string
  | CmdFilesMkdir string
  | CmdFilesRename string string
  | CmdFilesDelete string
  | CmdFilesDownload string string  \<comment> \<open>path, stream id\<close>
  | CmdFilesUpload string string
  | CmdLogsQuery logs_query
  | CmdAgentUpdate update_params
  | CmdRotateSupportCredential

fun command_type :: "device_command \<Rightarrow> string" where
  "command_type CmdServicesList = ''services.list''"
| "command_type (CmdServiceStart _) = ''services.start''"
| "command_type (CmdServiceStop _) = ''services.stop''"
| "command_type (CmdServiceRestart _) = ''services.restart''"
| "command_type CmdProcessesList = ''processes.list''"
| "command_type (CmdProcessTerminate _ _) = ''processes.terminate''"
| "command_type (CmdFilesList _) = ''files.list''"
| "command_type (CmdFilesMkdir _) = ''files.mkdir''"
| "command_type (CmdFilesRename _ _) = ''files.rename''"
| "command_type (CmdFilesDelete _) = ''files.delete''"
| "command_type (CmdFilesDownload _ _) = ''files.download''"
| "command_type (CmdFilesUpload _ _) = ''files.upload''"
| "command_type (CmdLogsQuery _) = ''logs.query''"
| "command_type (CmdAgentUpdate _) = ''agent.update''"
| "command_type CmdRotateSupportCredential = ''support_credential.rotate''"

text \<open>\<open>CommandResultPayload\<close>; its data is JSON that the server passes on.\<close>

record command_result =
  cmd_status :: string
  cmd_code :: string
  cmd_message :: string
  cmd_data :: bytes

end
