(* ===== verification/Control_Hub.thy ===== *)
theory Control_Hub
  imports Health Remote_Session Settings Agent_Release Device_Commands
begin

text \<open>
  The control channel between server and agents (\<open>internal/controlhub/hub.go\<close>): the
  handshake, the table of live connections, the read loop with its message handlers, the
  correlation of replies with waiting callers, and the sweeper of silent devices. The callbacks
  that \<open>NewRouter\<close> registers are those of \<open>Remote_Session\<close>,
  \<open>Settings\<close> and \<open>Agent_Release\<close>.

  A connection object is known by a number. Each critical section and each handled message is
  one step; a failing read or write is a choice of the environment. The decoders of JSON payloads
  are fields of \<open>hub_env\<close>.
\<close>

section \<open>State\<close>

record timing =
  tm_heartbeat_interval :: duration
  tm_connection_lost_after :: duration
  tm_offline_after :: duration
  tm_status_interval :: duration
  tm_network_upload_interval :: duration

record hello_payload =
  hl_device_id :: string
  hl_install_id :: string
  hl_agent_version :: string
  hl_os :: string
  hl_arch :: string
  hl_capabilities :: "string list"
  hl_nonce :: string
  hl_signature :: string
  hl_secure :: bool

record inventory_payload =
  iv_hostname :: string
  iv_os_family :: string
  iv_os_distribution :: string
  iv_os_version :: string
  iv_interfaces :: string
  iv_agent_version :: string

record metrics_payload =
  mp_cpu_percent :: rat
  mp_memory_used :: int
  mp_memory_total :: int
  mp_filesystems :: "filesystem_usage list"
  mp_uptime_seconds :: int

record hub_env = update_env +
  he_json :: json_env
  he_hello :: "bytes \<Rightarrow> hello_payload option"
  he_heartbeat :: "bytes \<Rightarrow> unit option"
  he_inventory :: "bytes \<Rightarrow> inventory_payload option"
  he_metrics :: "bytes \<Rightarrow> metrics_payload option"
  he_network :: "bytes \<Rightarrow> net_sample list option"
  he_support :: "bytes \<Rightarrow> (string \<times> string) option"
  he_session_close :: "bytes \<Rightarrow> (string \<times> string) option"
  he_quote :: "string \<Rightarrow> string"
  he_secret :: secret_env
  he_reason_text :: "reason \<Rightarrow> string"
  he_thresholds :: thresholds
  he_timing :: timing

text \<open>A waiter is the channel of capacity one that \<open>sendAndWait\<close> and
  \<open>waitForID\<close> make.\<close>

record waiter =
  wt_conn :: nat
  wt_id :: string
  wt_buffer :: "envelope option"

record connection =
  cn_id :: nat
  cn_device_id :: uuid
  cn_install_id :: uuid
  cn_remote_ip :: string
  cn_pending :: "(string \<times> nat) list"
  cn_cancelled :: bool

datatype out_msg = OutProtocolError string string | OutRequest string "device_command option" string
  | OutMessage string "device_command option" | OutFrame bytes

record hub_state =
  h_monitor :: monitor_state
  h_conns :: "(uuid \<times> nat) list"
  h_running :: "connection list"
  h_next :: nat
  h_waiters :: "waiter list"
  h_out :: "(nat \<times> out_msg) list"
  h_remote :: remote_state
  h_admin :: admin_data
  h_releases :: "release_row list"

abbreviation h_devices :: "hub_state \<Rightarrow> device_db" where
  "h_devices st \<equiv> mon_devices (h_monitor st)"

definition on_devices :: "(device_db \<Rightarrow> device_db) \<Rightarrow> hub_state \<Rightarrow> hub_state" where
  "on_devices f st = st\<lparr>h_monitor := (h_monitor st)\<lparr>mon_devices := f (mon_devices (h_monitor st))\<rparr>\<rparr>"

definition evaluate_health :: "hub_env \<Rightarrow> time \<Rightarrow> uuid \<Rightarrow> hub_state \<Rightarrow> hub_state" where
  "evaluate_health env now i st =
     st\<lparr>h_monitor := snd (Evaluate (he_reason_text env) (he_thresholds env) now i (h_monitor st))\<rparr>"

definition agent_event :: "string \<Rightarrow> audit_result \<Rightarrow> uuid \<Rightarrow> string \<Rightarrow> (string \<times> meta_value) list option \<Rightarrow> audit_event" where
  "agent_event et res i ip meta = \<lparr>ev_actor_type = ActorAgent, ev_actor_id = None, ev_session_id = None, ev_device_id = Some i,
     ev_customer_id = None, ev_event_type = et, ev_result = res, ev_source_ip = ip, ev_request_id = None, ev_metadata = meta\<rparr>"

definition hub_audit :: "audit_event \<Rightarrow> hub_state \<Rightarrow> hub_state" where
  "hub_audit e st = st\<lparr>h_remote := record_audit e (h_remote st)\<rparr>"

text \<open>The table of connections; the remote sessions see its keys.\<close>

definition set_conns :: "(uuid \<times> nat) list \<Rightarrow> hub_state \<Rightarrow> hub_state" where
  "set_conns cs st = st\<lparr>h_conns := cs, h_remote := (h_remote st)\<lparr>r_connected := map fst cs\<rparr>\<rparr>"

definition getConn :: "uuid \<Rightarrow> hub_state \<Rightarrow> nat option" where
  "getConn i st = map_of (h_conns st) i"

definition IsOnline :: "uuid \<Rightarrow> hub_state \<Rightarrow> bool" where
  "IsOnline i st \<longleftrightarrow> getConn i st \<noteq> None"

definition the_conn :: "nat \<Rightarrow> hub_state \<Rightarrow> connection option" where
  "the_conn c st = find_row (\<lambda>k. cn_id k = c) (h_running st)"

definition cancel :: "nat \<Rightarrow> hub_state \<Rightarrow> hub_state" where
  "cancel c st = st\<lparr>h_running := upd_where (\<lambda>k. cn_id k = c) (\<lambda>k. k\<lparr>cn_cancelled := True\<rparr>) (h_running st)\<rparr>"

definition send_out :: "nat \<Rightarrow> out_msg \<Rightarrow> hub_state \<Rightarrow> hub_state" where
  "send_out c m st = st\<lparr>h_out := h_out st @ [(c, m)]\<rparr>"

section \<open>Handshake\<close>

definition osFamilyOf :: "string \<Rightarrow> string" where
  "osFamilyOf os = (if os = [] then ''unknown'' else os)"

text \<open>The checks, on the answer to the challenge \<open>nonce\<close>; \<open>None\<close> is
  a failed read.\<close>

definition check_hello :: "hub_env \<Rightarrow> time \<Rightarrow> bytes \<Rightarrow> bytes option \<Rightarrow> hub_state \<Rightarrow> (envelope \<times> hello_payload \<times> device \<times> uuid) option" where
  "check_hello env now nonce answer st =
     (case answer of None \<Rightarrow> None | Some raw \<Rightarrow>
      (case Decode (he_json env) raw of Inl _ \<Rightarrow> None | Inr ev \<Rightarrow>
       if env_type ev \<noteq> type_name TypeHello \<or> env_protocol ev \<noteq> Version then None else
       (case DecodePayload (he_hello env) ev of Inl _ \<Rightarrow> None | Inr hello \<Rightarrow>
        if hl_nonce hello \<noteq> base64_encode env nonce then None else
        (case uuid_parse env (hl_device_id hello) of None \<Rightarrow> None | Some devID \<Rightarrow>
         (case uuid_parse env (hl_install_id hello) of None \<Rightarrow> None | Some instID \<Rightarrow>
          (case GetDevice devID (h_devices st) of Inl _ \<Rightarrow> None | Inr d \<Rightarrow>
           if d_install_id d \<noteq> instID \<or> d_status d = StatusRevoked \<or> d_credential_status d \<noteq> CredActive then None
           else if IsVersionBlocked (osFamilyOf (hl_os hello)) (hl_arch hello) (hl_agent_version hello) (h_releases st) then None
           else (case ActiveCredentialPublicKey now devID (h_devices st) of Inl _ \<Rightarrow> None | Inr pubKey \<Rightarrow>
            if length pubKey \<noteq> PublicKeySize then None else
            (case base64_decode env (hl_signature hello) of None \<Rightarrow> None | Some sig \<Rightarrow>
             if \<not> ed25519_verify env pubKey nonce sig then None
             else Some (ev, hello, d, instID)))))))))"

text \<open>What a completed handshake stores.\<close>

definition store_hello :: "hello_payload \<Rightarrow> device \<Rightarrow> device_db \<Rightarrow> device_db" where
  "store_hello hello d db =
     (let devID = d_id d;
          db1 = (if hl_capabilities hello \<noteq> [] then SetCapabilities devID (hl_capabilities hello) db else db);
          db2 = ApplyInventory devID (d_hostname d) (osFamilyOf (hl_os hello)) (d_os_name d) (d_os_version d)
                  (hl_arch hello) (hl_agent_version hello) db1
      in UpdateTransportSecurity devID (hl_secure hello) db2)"

definition handshake :: "hub_env \<Rightarrow> time \<Rightarrow> bytes \<Rightarrow> bytes option \<Rightarrow> bool \<Rightarrow> hub_state \<Rightarrow> (uuid \<times> uuid) option \<times> hub_state" where
  "handshake env now nonce answer ackSent st =
     (case check_hello env now nonce answer st of
        None \<Rightarrow> (None, st)
      | Some (ev, hello, d, instID) \<Rightarrow>
          if \<not> ackSent then (None, st)
          else (Some (d_id d, instID), on_devices (store_hello hello d) st))"

section \<open>Connections\<close>

text \<open>A connection is taken out of the table, its context cancelled and its socket closed.\<close>

definition closeConn :: "uuid \<Rightarrow> hub_state \<Rightarrow> hub_state" where
  "closeConn i st =
     (case getConn i st of
        None \<Rightarrow> st
      | Some c \<Rightarrow> cancel c (set_conns (del_where (\<lambda>e. fst e = i) (h_conns st)) st))"

text \<open>The critical section of \<open>ServeAgentWS\<close>: an older connection of the device is
  taken out of the table and cancelled, the new one takes its place.\<close>

definition register_conn :: "uuid \<Rightarrow> uuid \<Rightarrow> string \<Rightarrow> hub_state \<Rightarrow> hub_state" where
  "register_conn deviceID installID ip st =
     (let c = h_next st;
          st1 = closeConn deviceID st;
          st2 = st1\<lparr>h_running := h_running st1 @ [\<lparr>cn_id = c, cn_device_id = deviceID, cn_install_id = installID,
                  cn_remote_ip = ip, cn_pending = [], cn_cancelled = False\<rparr>], h_next := Suc c\<rparr>
      in set_conns ((deviceID, c) # h_conns st2) st2)"

text \<open>\<open>ServeAgentWS\<close> up to the read loop.\<close>

definition ServeAgentWS_start :: "hub_env \<Rightarrow> time \<Rightarrow> bytes \<Rightarrow> bytes option \<Rightarrow> bool \<Rightarrow> string \<Rightarrow> hub_state \<Rightarrow> hub_state" where
  "ServeAgentWS_start env now nonce answer ackSent ip st =
     (case handshake env now nonce answer ackSent st of
        (None, st1) \<Rightarrow> st1
      | (Some (deviceID, installID), st1) \<Rightarrow>
          hub_audit (agent_event ''device.connected'' ResultSuccess deviceID ip None)
            (evaluate_health env now deviceID
              (on_devices (UpdateConnectivity now deviceID StatusOnline ip) (register_conn deviceID installID ip st1))))"

text \<open>The rest of \<open>ServeAgentWS\<close>, after the read loop has returned.\<close>

definition ServeAgentWS_end :: "time \<Rightarrow> nat \<Rightarrow> hub_state \<Rightarrow> hub_state" where
  "ServeAgentWS_end now c st =
     (case the_conn c st of
        None \<Rightarrow> st
      | Some k \<Rightarrow>
          let deviceID = cn_device_id k;
              st1 = st\<lparr>h_running := del_where (\<lambda>x. cn_id x = c) (h_running st)\<rparr>;
              st2 = (if getConn deviceID st1 = Some c then set_conns (del_where (\<lambda>e. fst e = deviceID) (h_conns st1)) st1 else st1);
              st3 = on_devices (UpdateStatusOnly deviceID StatusConnectionLost) st2;
              st4 = hub_audit (agent_event ''device.disconnected'' ResultSuccess deviceID [] None) st3
          in st4\<lparr>h_remote := on_disconnect now deviceID (h_remote st4)\<rparr>)"

section \<open>Waiting for replies\<close>

text \<open>The first half of \<open>sendAndWait\<close>: the waiter is registered under the id of
  the new message, then the message is written. A failed write removes it again.\<close>

definition add_waiter :: "nat \<Rightarrow> string \<Rightarrow> hub_state \<Rightarrow> hub_state" where
  "add_waiter c i st = st\<lparr>h_waiters := h_waiters st @ [\<lparr>wt_conn = c, wt_id = i, wt_buffer = None\<rparr>],
     h_running := upd_where (\<lambda>k. cn_id k = c)
       (\<lambda>k. k\<lparr>cn_pending := (i, length (h_waiters st)) # del_where (\<lambda>e. fst e = i) (cn_pending k)\<rparr>) (h_running st)\<rparr>"

definition drop_waiter :: "nat \<Rightarrow> string \<Rightarrow> hub_state \<Rightarrow> hub_state" where
  "drop_waiter c i st = st\<lparr>h_running := upd_where (\<lambda>k. cn_id k = c)
     (\<lambda>k. k\<lparr>cn_pending := del_where (\<lambda>e. fst e = i) (cn_pending k)\<rparr>) (h_running st)\<rparr>"

definition SendAndWait_send :: "uuid \<Rightarrow> string \<Rightarrow> device_command option \<Rightarrow> string \<Rightarrow> bool \<Rightarrow> hub_state \<Rightarrow> nat option \<times> hub_state" where
  "SendAndWait_send deviceID msgType cmd msgID writeOK st =
     (case getConn deviceID st of
        None \<Rightarrow> (None, st)
      | Some c \<Rightarrow>
          let st1 = add_waiter c msgID st
          in if writeOK then (Some (length (h_waiters st)), send_out c (OutRequest msgType cmd msgID) st1)
             else (None, drop_waiter c msgID st1))"

definition WaitForCorrelation_start :: "uuid \<Rightarrow> string \<Rightarrow> hub_state \<Rightarrow> nat option \<times> hub_state" where
  "WaitForCorrelation_start deviceID correlationID st =
     (case getConn deviceID st of
        None \<Rightarrow> (None, st) | Some c \<Rightarrow> (Some (length (h_waiters st)), add_waiter c correlationID st))"

text \<open>The end of either wait, by an answer or by the timeout: the deferred function deletes
  the entry, and the buffer is the result.\<close>

definition wait_end :: "nat \<Rightarrow> hub_state \<Rightarrow> envelope option \<times> hub_state" where
  "wait_end w st =
     (if w < length (h_waiters st)
      then (wt_buffer (h_waiters st ! w), drop_waiter (wt_conn (h_waiters st ! w)) (wt_id (h_waiters st ! w)) st)
      else (None, st))"

definition SendHubMessage :: "uuid \<Rightarrow> string \<Rightarrow> device_command option \<Rightarrow> bool \<Rightarrow> hub_state \<Rightarrow> bool \<times> hub_state" where
  "SendHubMessage deviceID msgType cmd writeOK st =
     (case getConn deviceID st of
        None \<Rightarrow> (False, st)
      | Some c \<Rightarrow> if writeOK then (True, send_out c (OutMessage msgType cmd) st) else (False, st))"

definition SendBinaryFrame :: "uuid \<Rightarrow> byte \<Rightarrow> uuid \<Rightarrow> bytes \<Rightarrow> bool \<Rightarrow> hub_state \<Rightarrow> bool \<times> hub_state" where
  "SendBinaryFrame deviceID kind streamID payload writeOK st =
     (case getConn deviceID st of
        None \<Rightarrow> (False, st)
      | Some c \<Rightarrow> if writeOK then (True, send_out c (OutFrame (EncodeStreamFrame kind streamID payload)) st) else (False, st))"

definition RequestInventory :: "uuid \<Rightarrow> bool \<Rightarrow> hub_state \<Rightarrow> bool \<times> hub_state" where
  "RequestInventory deviceID = SendHubMessage deviceID (type_name TypeInventoryRequest) None"

text \<open>A full buffer drops the envelope; the entry is gone in any case.\<close>

definition tryDeliver :: "connection \<Rightarrow> envelope \<Rightarrow> hub_state \<Rightarrow> bool \<times> hub_state" where
  "tryDeliver k ev st =
     (case env_request_id ev of
        None \<Rightarrow> (False, st)
      | Some i \<Rightarrow>
          (case map_of (cn_pending k) i of
             None \<Rightarrow> (False, st)
           | Some w \<Rightarrow>
               let st1 = drop_waiter (cn_id k) i st; x = h_waiters st1 ! w
               in (True, if wt_buffer x = None then st1\<lparr>h_waiters := (h_waiters st1)[w := x\<lparr>wt_buffer := Some ev\<rparr>]\<rparr> else st1)))"

section \<open>Messages\<close>

definition protocolError :: "connection \<Rightarrow> string \<Rightarrow> string \<Rightarrow> hub_state \<Rightarrow> hub_state" where
  "protocolError k code message = send_out (cn_id k) (OutProtocolError code message)"

definition handleHeartbeat :: "hub_env \<Rightarrow> time \<Rightarrow> connection \<Rightarrow> envelope \<Rightarrow> hub_state \<Rightarrow> hub_state" where
  "handleHeartbeat env now k ev st =
     (case DecodePayload (he_heartbeat env) ev of
        Inl _ \<Rightarrow> protocolError k ''invalid_request'' ''malformed heartbeat'' st
      | Inr _ \<Rightarrow> on_devices (UpdateConnectivity now (cn_device_id k) StatusOnline (cn_remote_ip k)) st)"

text \<open>The inventory has no architecture; the column is set to the empty string.\<close>

definition handleInventory :: "hub_env \<Rightarrow> time \<Rightarrow> connection \<Rightarrow> envelope \<Rightarrow> hub_state \<Rightarrow> hub_state" where
  "handleInventory env now k ev st =
     (if length (env_payload ev) > MaxInventoryBytes then protocolError k ''message_too_large'' ''inventory too large'' st
      else case DecodePayload (he_inventory env) ev of
        Inl _ \<Rightarrow> protocolError k ''invalid_request'' ''malformed inventory'' st
      | Inr snap \<Rightarrow>
          evaluate_health env now (cn_device_id k)
            (on_devices (RecordNetwork now (cn_device_id k) (iv_interfaces snap) (cn_remote_ip k))
              (on_devices (ApplyInventory (cn_device_id k) (iv_hostname snap) (iv_os_family snap) (iv_os_distribution snap)
                 (iv_os_version snap) [] (iv_agent_version snap)) st)))"

definition handleMetrics :: "hub_env \<Rightarrow> time \<Rightarrow> connection \<Rightarrow> envelope \<Rightarrow> hub_state \<Rightarrow> hub_state" where
  "handleMetrics env now k ev st =
     (if length (env_payload ev) > MaxEventBatchBytes then protocolError k ''message_too_large'' ''metrics report too large'' st
      else case DecodePayload (he_metrics env) ev of
        Inl _ \<Rightarrow> protocolError k ''invalid_request'' ''malformed metrics report'' st
      | Inr m \<Rightarrow>
          let mon = h_monitor st;
              db = (case RecordMetrics now (cn_device_id k) (mp_cpu_percent m) (mp_memory_used m) (mp_memory_total m)
                          (mp_filesystems m) (mp_uptime_seconds m) (mon_metrics mon) of
                      None \<Rightarrow> mon_metrics mon | Some db \<Rightarrow> db)
          in evaluate_health env now (cn_device_id k) (st\<lparr>h_monitor := mon\<lparr>mon_metrics := db\<rparr>\<rparr>))"

definition handleNetworkBatch :: "hub_env \<Rightarrow> connection \<Rightarrow> envelope \<Rightarrow> hub_state \<Rightarrow> hub_state" where
  "handleNetworkBatch env k ev st =
     (if length (env_payload ev) > MaxEventBatchBytes then protocolError k ''message_too_large'' ''network metrics batch too large'' st
      else case DecodePayload (he_network env) ev of
        Inl _ \<Rightarrow> protocolError k ''invalid_request'' ''malformed network metrics batch'' st
      | Inr samples \<Rightarrow>
          st\<lparr>h_monitor := (h_monitor st)\<lparr>mon_metrics := RecordNetworkMetricsBatch (cn_device_id k) samples (mon_metrics (h_monitor st))\<rparr>\<rparr>)"

text \<open>The nonce of the encryption is random.\<close>

definition handleSupportCredential :: "hub_env \<Rightarrow> time \<Rightarrow> bytes \<Rightarrow> connection \<Rightarrow> envelope \<Rightarrow> hub_state \<Rightarrow> hub_state" where
  "handleSupportCredential env now nonce k ev st =
     (case DecodePayload (he_support env) ev of
        Inl _ \<Rightarrow> protocolError k ''invalid_request'' ''malformed support credential report'' st
      | Inr (username, password) \<Rightarrow>
          st\<lparr>h_admin := UpsertSupport (he_secret env) now nonce (cn_device_id k) username password (h_admin st)\<rparr>)"

definition handleSessionClose :: "hub_env \<Rightarrow> time \<Rightarrow> connection \<Rightarrow> envelope \<Rightarrow> hub_state \<Rightarrow> hub_state" where
  "handleSessionClose env now k ev st =
     (case DecodePayload (he_session_close env) ev of
        Inl _ \<Rightarrow> st
      | Inr (sessionID, reason) \<Rightarrow>
          st\<lparr>h_remote := on_agent_close now (cn_device_id k) (uuid_parse env sessionID) reason (h_remote st)\<rparr>)"

definition handleMessage :: "hub_env \<Rightarrow> time \<Rightarrow> bytes \<Rightarrow> connection \<Rightarrow> envelope \<Rightarrow> hub_state \<Rightarrow> hub_state" where
  "handleMessage env now nonce k ev st =
     (if env_type ev = type_name TypeHeartbeat then handleHeartbeat env now k ev st
      else if env_type ev = type_name TypeInventoryResponse then handleInventory env now k ev st
      else if env_type ev = type_name TypeMetricsReport then handleMetrics env now k ev st
      else if env_type ev = type_name TypeNetworkMetricsBatch then handleNetworkBatch env k ev st
      else if env_type ev = type_name TypeSupportCredentialReport then handleSupportCredential env now nonce k ev st
      else if env_type ev = type_name TypeCommandResult \<or> env_type ev = type_name TypeSessionOpenResult then st
      else if env_type ev = type_name TypeSessionClose then handleSessionClose env now k ev st
      else hub_audit (agent_event ''protocol.error'' ResultFailure (cn_device_id k) [] (Some [(''type'', MStr (env_type ev))]))
             (protocolError k ''invalid_request'' (''unsupported message type '' @ he_quote env (env_type ev)) st))"

text \<open>One turn of the read loop. A cancelled connection reads nothing more.\<close>

definition read_text :: "hub_env \<Rightarrow> time \<Rightarrow> bytes \<Rightarrow> nat \<Rightarrow> bytes \<Rightarrow> hub_state \<Rightarrow> hub_state" where
  "read_text env now nonce c raw st =
     (case the_conn c st of
        None \<Rightarrow> st
      | Some k \<Rightarrow>
          if cn_cancelled k then st
          else if length raw > MaxInventoryBytes then protocolError k ''message_too_large'' ''message exceeds maximum size'' st
          else (case Decode (he_json env) raw of
                  Inl _ \<Rightarrow> protocolError k ''invalid_request'' ''malformed envelope'' st
                | Inr ev \<Rightarrow> (case tryDeliver k ev st of
                               (True, st1) \<Rightarrow> st1 | (False, st1) \<Rightarrow> handleMessage env now nonce k ev st1)))"

definition handleBinaryFrame :: "connection \<Rightarrow> bytes \<Rightarrow> hub_state \<Rightarrow> hub_state" where
  "handleBinaryFrame k raw st =
     (case DecodeStreamFrame raw of
        Inl _ \<Rightarrow> st
      | Inr (kind, streamID, payload) \<Rightarrow>
          (case handleInbound (cn_device_id k) kind streamID payload (r_broker (h_remote st)) of
             Inl _ \<Rightarrow> st | Inr b \<Rightarrow> st\<lparr>h_remote := (h_remote st)\<lparr>r_broker := b\<rparr>\<rparr>))"

definition read_binary :: "nat \<Rightarrow> bytes \<Rightarrow> hub_state \<Rightarrow> hub_state" where
  "read_binary c raw st =
     (case the_conn c st of None \<Rightarrow> st | Some k \<Rightarrow> if cn_cancelled k then st else handleBinaryFrame k raw st)"

section \<open>The sweeper\<close>

definition sweep_device :: "hub_env \<Rightarrow> time \<Rightarrow> uuid \<Rightarrow> hub_state \<Rightarrow> hub_state" where
  "sweep_device env now i st =
     (case GetDevice i (h_devices st) of
        Inl _ \<Rightarrow> st
      | Inr d \<Rightarrow>
          (case d_last_seen_at d of
             None \<Rightarrow> st
           | Some t \<Rightarrow>
               if now - t \<ge> tm_offline_after (he_timing env) \<and> d_status d \<noteq> StatusOffline
               then evaluate_health env now i (closeConn i (on_devices (UpdateStatusOnly i StatusOffline) st))
               else if now - t \<ge> tm_connection_lost_after (he_timing env) \<and> d_status d = StatusOnline
               then on_devices (UpdateStatusOnly i StatusConnectionLost) st
               else st))"

text \<open>The ids are collected first; the order of a Go map is arbitrary, so is that of the
  list of connections.\<close>

definition sweep :: "hub_env \<Rightarrow> time \<Rightarrow> hub_state \<Rightarrow> hub_state" where
  "sweep env now st = fold (sweep_device env now) (map fst (h_conns st)) st"

section \<open>Events\<close>

datatype hub_event =
    HConnect time bytes "bytes option" bool string
  | HText time bytes nat bytes
  | HBinary nat bytes
  | HEnd time nat
  | HSend uuid string "device_command option" string bool
  | HWait uuid string
  | HWaitEnd nat
  | HMessage uuid string "device_command option" bool
  | HFrame uuid byte uuid bytes bool
  | HSweep time
  | HDevice device_event
  | HRelease "uuid \<times> bool"

fun hub_step :: "hub_env \<Rightarrow> hub_event \<Rightarrow> hub_state \<Rightarrow> hub_state" where
  "hub_step env (HConnect now nonce answer ackSent ip) st = ServeAgentWS_start env now nonce answer ackSent ip st"
| "hub_step env (HText now nonce c raw) st = read_text env now nonce c raw st"
| "hub_step env (HBinary c raw) st = read_binary c raw st"
| "hub_step env (HEnd now c) st = ServeAgentWS_end now c st"
| "hub_step env (HSend i t cmd m ok) st = snd (SendAndWait_send i t cmd m ok st)"
| "hub_step env (HWait i m) st = snd (WaitForCorrelation_start i m st)"
| "hub_step env (HWaitEnd w) st = snd (wait_end w st)"
| "hub_step env (HMessage i t cmd ok) st = snd (SendHubMessage i t cmd ok st)"
| "hub_step env (HFrame i kind sid payload ok) st = snd (SendBinaryFrame i kind sid payload ok st)"
| "hub_step env (HSweep now) st = sweep env now st"
| "hub_step env (HDevice e) st = on_devices (device_step e) st"
| "hub_step env (HRelease ib) st = st\<lparr>h_releases := snd (SetBlocked (fst ib) (snd ib) (h_releases st))\<rparr>"

section \<open>The device registry under the hub\<close>

text \<open>The hub changes the registry through its operations only, and only through those that
  touch no other table, so that what these maintain, the hub maintains.\<close>

fun local_event :: "device_event \<Rightarrow> bool" where
  "local_event (DDelete _) = False"
| "local_event (DClearGroup _) = False"
| "local_event _ = True"

definition via_registry :: "device_db \<Rightarrow> device_db \<Rightarrow> bool" where
  "via_registry db db' \<longleftrightarrow> (\<exists>es. list_all local_event es \<and> db' = run device_step es db)"

lemma via_refl [simp, intro!]: "via_registry db db"
  unfolding via_registry_def by (rule exI [of _ "[]"]) simp

lemma via_trans: "via_registry db db1 \<Longrightarrow> via_registry db1 db2 \<Longrightarrow> via_registry db db2"
  unfolding via_registry_def by (metis run_simps(3) list_all_append)

lemma via_step:
  assumes "via_registry db db1" "local_event e"
  shows "via_registry db (device_step e db1)"
proof -
  have "via_registry db1 (device_step e db1)"
    unfolding via_registry_def by (rule exI [of _ "[e]"]) (simp add: assms(2))
  with assms(1) show ?thesis by (rule via_trans)
qed

lemma via_ops:
  assumes "via_registry db db1"
  shows "via_registry db (UpdateConnectivity now i s ip db1)" "via_registry db (UpdateStatusOnly i s db1)"
    "via_registry db (UpdateHealth i h r db1)" "via_registry db (ApplyInventory i hn osf osn osv arch v db1)"
    "via_registry db (UpdateTransportSecurity i b db1)" "via_registry db (RecordNetwork now i ifs ip db1)"
    "via_registry db (SetCapabilities i caps db1)"
  using via_step [OF assms, of "DConnectivity now i s ip"] via_step [OF assms, of "DStatus i s"]
    via_step [OF assms, of "DHealth i h r"] via_step [OF assms, of "DInventory i hn osf osn osv arch v"]
    via_step [OF assms, of "DTransport i b"] via_step [OF assms, of "DNetwork now i ifs ip"]
    via_step [OF assms, of "DCapabilities i caps"] by simp_all

lemma on_devices_simps [simp]:
  "h_devices (on_devices f st) = f (h_devices st)" "mon_metrics (h_monitor (on_devices f st)) = mon_metrics (h_monitor st)"
  "h_conns (on_devices f st) = h_conns st" "h_running (on_devices f st) = h_running st" "h_next (on_devices f st) = h_next st"
  "h_waiters (on_devices f st) = h_waiters st" "h_remote (on_devices f st) = h_remote st" "h_releases (on_devices f st) = h_releases st"
  by (simp_all add: on_devices_def)

lemma hub_frame [simp]:
  "h_conns (evaluate_health env now i st) = h_conns st" "h_running (evaluate_health env now i st) = h_running st"
  "h_next (evaluate_health env now i st) = h_next st" "h_waiters (evaluate_health env now i st) = h_waiters st"
  "h_remote (evaluate_health env now i st) = h_remote st" "h_releases (evaluate_health env now i st) = h_releases st"
  "h_monitor (hub_audit e st) = h_monitor st" "h_conns (hub_audit e st) = h_conns st" "h_running (hub_audit e st) = h_running st"
  "h_next (hub_audit e st) = h_next st" "h_waiters (hub_audit e st) = h_waiters st" "h_releases (hub_audit e st) = h_releases st"
  "h_monitor (set_conns cs st) = h_monitor st" "h_conns (set_conns cs st) = cs" "h_running (set_conns cs st) = h_running st"
  "h_next (set_conns cs st) = h_next st" "h_waiters (set_conns cs st) = h_waiters st" "h_releases (set_conns cs st) = h_releases st"
  "h_monitor (cancel c st) = h_monitor st" "h_conns (cancel c st) = h_conns st" "h_next (cancel c st) = h_next st"
  "h_waiters (cancel c st) = h_waiters st" "h_remote (cancel c st) = h_remote st" "h_releases (cancel c st) = h_releases st"
  "h_monitor (send_out c m st) = h_monitor st" "h_conns (send_out c m st) = h_conns st" "h_running (send_out c m st) = h_running st"
  "h_next (send_out c m st) = h_next st" "h_waiters (send_out c m st) = h_waiters st" "h_remote (send_out c m st) = h_remote st"
  "h_releases (send_out c m st) = h_releases st"
  "h_monitor (add_waiter c m0 st) = h_monitor st" "h_conns (add_waiter c m0 st) = h_conns st" "h_next (add_waiter c m0 st) = h_next st"
  "h_monitor (drop_waiter c m0 st) = h_monitor st" "h_conns (drop_waiter c m0 st) = h_conns st" "h_next (drop_waiter c m0 st) = h_next st"
  "h_waiters (drop_waiter c m0 st) = h_waiters st" "h_remote (drop_waiter c m0 st) = h_remote st" "h_remote (add_waiter c m0 st) = h_remote st"
  by (simp_all add: evaluate_health_def hub_audit_def set_conns_def cancel_def send_out_def add_waiter_def drop_waiter_def)

lemma evaluate_via:
  assumes "via_registry db (h_devices st)"
  shows "via_registry db (h_devices (evaluate_health env now i st))"
  using assms via_ops(3)
  by (auto simp: evaluate_health_def Evaluate_def Let_def split: sum.splits prod.splits)

lemma closeConn_monitor [simp]: "h_monitor (closeConn i st) = h_monitor st"
  by (simp add: closeConn_def split: option.split)

lemma register_monitor [simp]: "h_monitor (register_conn d i ip st) = h_monitor st"
  by (simp add: register_conn_def Let_def)

lemma tryDeliver_monitor [simp]: "h_monitor (snd (tryDeliver k ev st)) = h_monitor st"
  by (simp add: tryDeliver_def Let_def split: option.split)

lemma handle_monitor [simp]:
  "h_monitor (handleSupportCredential env now nonce k ev st) = h_monitor st"
  "h_monitor (handleSessionClose env now k ev st) = h_monitor st"
  "h_monitor (handleBinaryFrame k raw st) = h_monitor st"
  "h_devices (handleNetworkBatch env k ev st) = h_devices st"
  by (auto simp: handleSupportCredential_def handleSessionClose_def handleBinaryFrame_def handleNetworkBatch_def protocolError_def
      split: sum.split prod.split)

lemma handleMessage_via: "via_registry (h_devices st) (h_devices (handleMessage env now nonce k ev st))"
  by (auto simp: handleMessage_def handleHeartbeat_def handleInventory_def handleMetrics_def protocolError_def Let_def
      intro!: evaluate_via via_ops split: sum.split)

lemma store_hello_via: "via_registry db (store_hello hello d db)"
  by (auto simp: store_hello_def Let_def intro!: via_ops)

lemma handshake_cases:
  assumes "handshake env now nonce answer ack st = (r, st')"
  obtains (rejected) "r = None" "st' = st"
  | (accepted) ev hello d where "r = Some (d_id d, d_install_id d)" "st' = on_devices (store_hello hello d) st" "ack"
      "check_hello env now nonce answer st = Some (ev, hello, d, d_install_id d)"
proof -
  have "snd (snd (snd x)) = d_install_id (fst (snd (snd x)))" if "check_hello env now nonce answer st = Some x" for x
    using that by (auto simp: check_hello_def split: option.splits sum.splits if_splits)
  then show thesis
    using assms that by (fastforce simp: handshake_def split: option.splits if_splits prod.splits)
qed

lemma ServeAgentWS_start_via: "via_registry (h_devices st) (h_devices (ServeAgentWS_start env now nonce answer ack ip st))"
proof -
  obtain r st1 where h: "handshake env now nonce answer ack st = (r, st1)" by fastforce
  then have v: "via_registry (h_devices st) (h_devices st1)"
    by (rule handshake_cases) (simp_all add: store_hello_via)
  show ?thesis
    by (cases r) (auto simp: ServeAgentWS_start_def h v intro!: evaluate_via via_ops)
qed

lemma ServeAgentWS_end_devices:
  "h_devices (ServeAgentWS_end now c st) =
     (case the_conn c st of None \<Rightarrow> h_devices st
      | Some k \<Rightarrow> UpdateStatusOnly (cn_device_id k) StatusConnectionLost (h_devices st))"
  by (simp add: ServeAgentWS_end_def Let_def split: option.split)

lemma read_text_via: "via_registry (h_devices st) (h_devices (read_text env now nonce c raw st))"
proof (cases "the_conn c st")
  case (Some k)
  show ?thesis
  proof (cases "Decode (he_json env) raw")
    case (Inr ev)
    obtain b st1 where t: "tryDeliver k ev st = (b, st1)" by fastforce
    then have "h_monitor st1 = h_monitor st" using tryDeliver_monitor [of k ev st] by simp
    then show ?thesis
      using handleMessage_via [of st1 env now nonce k ev] by (simp add: read_text_def Some Inr t protocolError_def split: bool.split)
  qed (simp add: read_text_def Some protocolError_def)
qed (simp add: read_text_def)

lemma sweep_device_via: "via_registry (h_devices st) (h_devices (sweep_device env now i st))"
  by (auto simp: sweep_device_def intro!: evaluate_via via_ops split: sum.split option.split)

lemma sweep_via: "via_registry (h_devices st) (h_devices (sweep env now st))"
proof -
  have "via_registry (h_devices st) (h_devices (fold (sweep_device env now) is st))" for "is"
    by (induction "is" arbitrary: st) (auto intro: via_trans [OF sweep_device_via])
  then show ?thesis by (simp add: sweep_def)
qed

lemma hub_step_via:
  assumes "\<And>d. e \<noteq> HDevice d"
  shows "via_registry (h_devices st) (h_devices (hub_step env e st))"
proof (cases e)
  case (HEnd now c)
  then show ?thesis by (auto simp: ServeAgentWS_end_devices intro!: via_ops split: option.split)
next
  case (HDevice e)
  then show ?thesis using assms by simp
qed (auto simp: ServeAgentWS_start_via read_text_via sweep_via read_binary_def SendAndWait_send_def WaitForCorrelation_start_def
    wait_end_def SendHubMessage_def SendBinaryFrame_def Let_def split: option.split)

text \<open>Hence every invariant of the registry is one of the hub.\<close>

lemma via_keeps: "invariant device_step I \<Longrightarrow> I db \<Longrightarrow> via_registry db db' \<Longrightarrow> I db'"
  using invariant.run_keeps by (fastforce simp: via_registry_def)

lemma hub_keeps_registry:
  assumes "invariant device_step I"
  shows "invariant (hub_step env) (\<lambda>st. I (h_devices st))"
proof
  fix st e assume "I (h_devices st)"
  then show "I (h_devices (hub_step env e st))"
    by (cases "\<exists>d. e = HDevice d") (auto simp: invariant.step_keeps [OF assms] intro: via_keeps [OF assms _ hub_step_via])
qed

interpretation hub_registry: invariant "hub_step env" "\<lambda>st. registry_ok (h_devices st)" for env
  by (rule hub_keeps_registry [OF registry.invariant_axioms])

interpretation hub_keys: invariant "hub_step env" "\<lambda>st. keys_revoked i (h_devices st)" for env i
  by (rule hub_keeps_registry [OF revoked_keys.invariant_axioms])

section \<open>The table of connections\<close>

text \<open>A device is in the table with a connection exactly when that connection is being
  served and has not been cancelled.\<close>

fun live :: "connection list \<Rightarrow> (uuid \<times> nat) set" where
  "live [] = {}"
| "live (k # ks) = (if cn_cancelled k then live ks else insert (cn_device_id k, cn_id k) (live ks))"

definition hub_ok :: "hub_state \<Rightarrow> bool" where
  "hub_ok st \<longleftrightarrow> distinct (map fst (h_conns st)) \<and> distinct (map cn_id (h_running st)) \<and>
     (\<forall>k \<in> set (h_running st). cn_id k < h_next st) \<and> set (h_conns st) = live (h_running st)"

lemma live_simps [simp]:
  "live (ks @ ks') = live ks \<union> live ks'"
  "live (upd_where (\<lambda>k. cn_id k = c) (\<lambda>k. k\<lparr>cn_cancelled := True\<rparr>) ks) = {e \<in> live ks. snd e \<noteq> c}"
  "live (upd_where p (\<lambda>k. k\<lparr>cn_pending := f k\<rparr>) ks) = live ks"
  "live (del_where (\<lambda>k. cn_id k = c) ks) = {e \<in> live ks. snd e \<noteq> c}"
  by (induction ks) auto

lemma live_iff: "e \<in> live ks \<longleftrightarrow> (\<exists>k \<in> set ks. e = (cn_device_id k, cn_id k) \<and> \<not> cn_cancelled k)"
  by (induction ks) auto

lemma hub_ok_cong:
  "h_conns st' = h_conns st \<Longrightarrow> h_running st' = h_running st \<Longrightarrow> h_next st' = h_next st \<Longrightarrow> hub_ok st' = hub_ok st"
  by (simp add: hub_ok_def)

lemma getConn_in: "hub_ok st \<Longrightarrow> getConn d st = Some c \<longleftrightarrow> (d, c) \<in> set (h_conns st)"
  by (simp add: getConn_def hub_ok_def)

lemma the_conn_in: "hub_ok st \<Longrightarrow> the_conn c st = Some k \<longleftrightarrow> k \<in> set (h_running st) \<and> cn_id k = c"
  using find_row_SomeD [of "\<lambda>k. cn_id k = c" "h_running st" k] find_row_distinct [of cn_id "h_running st" k]
  by (auto simp: the_conn_def hub_ok_def)

lemma waiter_ok [simp]: "hub_ok (add_waiter c i st) = hub_ok st" "hub_ok (drop_waiter c i st) = hub_ok st"
  by (simp_all add: hub_ok_def add_waiter_def drop_waiter_def) metis+

lemma conns_unique:
  assumes "hub_ok st" "(d, c) \<in> live (h_running st)"
  shows "(d, c') \<in> live (h_running st) \<longleftrightarrow> c' = c" "(d', c) \<in> live (h_running st) \<longleftrightarrow> d' = d"
proof -
  show "(d, c') \<in> live (h_running st) \<longleftrightarrow> c' = c"
    using assms eq_key_imp_eq_value [of "h_conns st" d c c'] by (auto simp: hub_ok_def)
  show "(d', c) \<in> live (h_running st) \<longleftrightarrow> d' = d"
    using assms by (auto simp: hub_ok_def live_iff distinct_map inj_on_def)
qed

text \<open>Taking a device's connection out of the table and cancelling it.\<close>

lemma remove_device:
  assumes "hub_ok st" "getConn d st = Some c"
  shows "set (del_where (\<lambda>e. fst e = d) (h_conns st)) = {e \<in> live (h_running st). snd e \<noteq> c}"
proof -
  have dc: "(d, c) \<in> live (h_running st)" using assms by (simp add: getConn_in hub_ok_def)
  have "set (h_conns st) = live (h_running st)" using assms(1) by (simp add: hub_ok_def)
  then show ?thesis
    using conns_unique [OF assms(1) dc] by auto
qed

lemma closeConn_ok: "hub_ok st \<Longrightarrow> hub_ok (closeConn d st)"
  using remove_device [of st d]
  by (auto simp: closeConn_def hub_ok_def cancel_def distinct_del_where split: option.split simp del: set_del_where)

lemma closeConn_getConn: "getConn d (closeConn d st) = None"
  by (auto simp: closeConn_def getConn_def map_of_eq_None_iff split: option.splits)

lemma closeConn_next [simp]: "h_next (closeConn d st) = h_next st"
  by (simp add: closeConn_def split: option.split)

lemma register_conn_ok: "hub_ok st \<Longrightarrow> hub_ok (register_conn d i ip st)"
proof -
  assume "hub_ok st"
  then have ok: "hub_ok (closeConn d st)" by (rule closeConn_ok)
  have "d \<notin> fst ` set (h_conns (closeConn d st))"
    using closeConn_getConn [of d st] by (simp add: getConn_def map_of_eq_None_iff)
  then show ?thesis
    using ok by (fastforce simp: register_conn_def Let_def hub_ok_def)
qed

lemma ServeAgentWS_start_ok: "hub_ok st \<Longrightarrow> hub_ok (ServeAgentWS_start env now nonce answer ack ip st)"
proof -
  assume ok: "hub_ok st"
  obtain r st1 where h: "handshake env now nonce answer ack st = (r, st1)" by fastforce
  then have "hub_ok st1" using ok by (auto elim!: handshake_cases simp: hub_ok_cong [of "on_devices _ st" st])
  then show ?thesis
    using register_conn_ok by (auto simp: ServeAgentWS_start_def h hub_ok_def split: option.split)
qed

lemma on_disconnect_conns: "h_conns (ServeAgentWS_end now c st) =
    (case the_conn c st of None \<Rightarrow> h_conns st
     | Some k \<Rightarrow> if getConn (cn_device_id k) st = Some c then del_where (\<lambda>e. fst e = cn_device_id k) (h_conns st) else h_conns st)"
  "h_running (ServeAgentWS_end now c st) = (case the_conn c st of None \<Rightarrow> h_running st | Some k \<Rightarrow> del_where (\<lambda>x. cn_id x = c) (h_running st))"
  "h_next (ServeAgentWS_end now c st) = h_next st"
  by (auto simp: ServeAgentWS_end_def Let_def getConn_def split: option.split)

lemma ServeAgentWS_end_ok:
  assumes "hub_ok st"
  shows "hub_ok (ServeAgentWS_end now c st)"
proof (cases "the_conn c st")
  case (Some k)
  have k: "k \<in> set (h_running st)" "cn_id k = c" using the_conn_in [OF assms] Some by auto
  have "set (if getConn (cn_device_id k) st = Some c then del_where (\<lambda>e. fst e = cn_device_id k) (h_conns st) else h_conns st) =
      {e \<in> live (h_running st). snd e \<noteq> c}"
  proof (cases "getConn (cn_device_id k) st = Some c")
    case True
    then show ?thesis using remove_device [OF assms True] by simp
  next
    case False
    have "(d, c) \<notin> live (h_running st)" for d
    proof
      assume "(d, c) \<in> live (h_running st)"
      then obtain k' where "k' \<in> set (h_running st)" "cn_id k' = c" "cn_device_id k' = d" by (auto simp: live_iff)
      then have "k' = k" using assms k by (auto simp: hub_ok_def distinct_map inj_on_def)
      then show False
        using False \<open>(d, c) \<in> live (h_running st)\<close> \<open>cn_device_id k' = d\<close> assms by (simp add: getConn_in hub_ok_def)
    qed
    then show ?thesis using False assms by (auto simp: hub_ok_def)
  qed
  then show ?thesis
    using assms by (auto simp: hub_ok_def on_disconnect_conns Some distinct_del_where simp del: set_del_where) (simp_all add: distinct_del_where)
qed (simp add: hub_ok_cong [of _ st] on_disconnect_conns assms)

lemma handleMessage_hub [simp]:
  "h_conns (handleMessage env now nonce k ev st) = h_conns st" "h_running (handleMessage env now nonce k ev st) = h_running st"
  "h_next (handleMessage env now nonce k ev st) = h_next st" "h_waiters (handleMessage env now nonce k ev st) = h_waiters st"
  by (simp_all add: handleMessage_def handleHeartbeat_def handleInventory_def handleMetrics_def handleNetworkBatch_def
      handleSupportCredential_def handleSessionClose_def protocolError_def Let_def split: sum.split prod.split)

lemma tryDeliver_ok: "hub_ok st \<Longrightarrow> tryDeliver k ev st = (b, st') \<Longrightarrow> hub_ok st'"
proof -
  assume "hub_ok st"
  then have "hub_ok (drop_waiter c i st)" for c i by simp
  then show "tryDeliver k ev st = (b, st') \<Longrightarrow> hub_ok st'"
    using \<open>hub_ok st\<close> by (auto simp: tryDeliver_def Let_def hub_ok_def split: option.splits if_splits)
qed

lemma read_text_ok: "hub_ok st \<Longrightarrow> hub_ok (read_text env now nonce c raw st)"
proof -
  assume ok: "hub_ok st"
  have "hub_ok (protocolError k a b st)" for k a b using ok by (simp add: protocolError_def hub_ok_def)
  moreover have "hub_ok (handleMessage env now nonce k ev st')" if "hub_ok st'" for k ev st' using that by (simp add: hub_ok_def)
  ultimately show ?thesis
    using ok tryDeliver_ok by (auto simp: read_text_def split: option.split sum.split prod.split bool.split)
qed

lemma sweep_ok: "hub_ok st \<Longrightarrow> hub_ok (sweep env now st)"
proof -
  have dev: "hub_ok (sweep_device env now i st)" if "hub_ok st" for i st
  proof -
    have "hub_ok (on_devices f st)" for f using that by (simp add: hub_ok_def)
    then show ?thesis
      using that closeConn_ok
      by (auto simp: sweep_device_def hub_ok_cong [of "evaluate_health _ _ _ _"] split: sum.split option.split)
  qed
  have "hub_ok st \<Longrightarrow> hub_ok (fold (sweep_device env now) is st)" for "is"
    by (induction "is" arbitrary: st) (auto intro: dev)
  then show "hub_ok st \<Longrightarrow> hub_ok (sweep env now st)" by (simp add: sweep_def)
qed

interpretation hub: invariant "hub_step env" hub_ok for env
proof
  fix st e assume ok: "hub_ok st"
  have out: "hub_ok (send_out c m s) = hub_ok s" for c m s by (simp add: hub_ok_def)
  show "hub_ok (hub_step env e st)"
  proof (cases e)
    case (HBinary c raw)
    then show ?thesis using ok
      by (auto simp: read_binary_def handleBinaryFrame_def hub_ok_def split: option.split sum.split prod.split)
  next
    case (HRelease ib)
    then show ?thesis using ok by (simp add: hub_ok_def)
  next
    case (HDevice e)
    then show ?thesis using ok by (simp add: hub_ok_def)
  qed (use ok in \<open>auto simp: ServeAgentWS_start_ok ServeAgentWS_end_ok read_text_ok sweep_ok SendAndWait_send_def
    WaitForCorrelation_start_def wait_end_def SendHubMessage_def SendBinaryFrame_def Let_def out split: option.split\<close>)
qed

section \<open>Properties\<close>

definition init_hub :: "monitor_state \<Rightarrow> admin_data \<Rightarrow> release_row list \<Rightarrow> hub_state" where
  "init_hub mon ad rels = \<lparr>h_monitor = mon, h_conns = [], h_running = [], h_next = 0, h_waiters = [], h_out = [],
     h_remote = init_remote, h_admin = ad, h_releases = rels\<rparr>"

lemma GetDevice_id: "GetDevice i db = Inr d \<Longrightarrow> d_id d = i"
  using find_row_SomeD [of "\<lambda>d. d_id d = i" "devices db" d]
  by (auto simp: GetDevice_def simp del: find_row_None split: option.splits)

lemma init_hub_ok [simp]: "hub_ok (init_hub mon ad rels)"
  by (simp add: init_hub_def hub_ok_def)


text \<open>C16: a revoked device never authenticates again. Whatever the agents, the sweeper and
  the administrators do after the revocation, no handshake succeeds for the device.\<close>

theorem revoked_device_never_reconnects:
  "fst (handshake env now nonce answer ack (run (hub_step env) es (on_devices (RevokeDevice t i) st))) \<noteq> Some (i, instID)"
proof
  let ?st = "run (hub_step env) es (on_devices (RevokeDevice t i) st)"
  assume "fst (handshake env now nonce answer ack ?st) = Some (i, instID)"
  then obtain d ev hello where c: "check_hello env now nonce answer ?st = Some (ev, hello, d, instID)" "d_id d = i"
    by (auto simp: handshake_def split: option.splits if_splits)
  then obtain devID pubKey where g: "GetDevice devID (h_devices ?st) = Inr d" "ActiveCredentialPublicKey now devID (h_devices ?st) = Inr pubKey"
    by (auto simp: check_hello_def split: option.splits sum.splits if_splits)
  have "devID = i" using GetDevice_id [OF g(1)] c(2) by simp
  have "keys_revoked i (RevokeDevice t i (h_devices st))" unfolding keys_revoked_def RevokeDevice_def by simp
  then have "keys_revoked i (h_devices ?st)" by (intro hub_keys.run_keeps) simp
  then show False using keys_revoked_iff [of i "h_devices ?st" now] g(2) \<open>devID = i\<close> by simp
qed


section \<open>Status of a device\<close>

definition status_of :: "uuid \<Rightarrow> device_db \<Rightarrow> device_status option" where
  "status_of i db = map_option d_status (find_row (\<lambda>d. d_id d = i) (devices db))"

lemma status_of_upd:
  assumes "\<And>d. d_id (f d) = d_id d"
  shows "status_of i (upd_device j f db) =
    (if i = j then map_option (\<lambda>d. d_status (f d)) (find_row (\<lambda>d. d_id d = i) (devices db)) else status_of i db)"
proof -
  have upd: "find_row (\<lambda>d. d_id d = i) (upd_where (\<lambda>d. d_id d = j) f (devices db)) =
      map_option (\<lambda>d. if d_id d = j then f d else d) (find_row (\<lambda>d. d_id d = i) (devices db))"
    by (rule find_row_key_upd) (rule assms)
  have key: "d_id d = i" if "find_row (\<lambda>d. d_id d = i) (devices db) = Some d" for d
    using find_row_SomeD [OF that] by blast
  have "map_option d_status (map_option (\<lambda>d. if d_id d = j then f d else d) (find_row (\<lambda>d. d_id d = i) (devices db))) =
      map_option (\<lambda>d. d_status (if i = j then f d else d)) (find_row (\<lambda>d. d_id d = i) (devices db))"
    using key by (cases "find_row (\<lambda>d. d_id d = i) (devices db)") (simp_all del: find_row_None)
  moreover have "devices (upd_device j f db) = upd_where (\<lambda>d. d_id d = j) f (devices db)" by (simp add: upd_device_def)
  ultimately show ?thesis unfolding status_of_def upd [symmetric] by (cases "i = j") simp_all
qed

lemma status_of_simps [simp]:
  "status_of i (UpdateStatusOnly j s db) = (if i = j then map_option (\<lambda>_. s) (status_of i db) else status_of i db)"
  "status_of i (UpdateConnectivity now j s ip db) = (if i = j then map_option (\<lambda>_. s) (status_of i db) else status_of i db)"
  "status_of i (UpdateHealth j h r db) = status_of i db"
  "status_of i (ApplyInventory j hn osf osn osv arch v db) = status_of i db"
  "status_of i (UpdateTransportSecurity j b db) = status_of i db"
  "status_of i (SetCapabilities j caps db) = status_of i db"
  "status_of i (RecordNetwork now j ifs ip db) = status_of i db"
  by (simp_all add: UpdateStatusOnly_def UpdateConnectivity_def UpdateHealth_def ApplyInventory_def UpdateTransportSecurity_def
      status_of_upd) (simp_all add: status_of_def SetCapabilities_def RecordNetwork_def option.map_comp o_def)

lemma status_evaluate [simp]: "status_of i (h_devices (evaluate_health env now j st)) = status_of i (h_devices st)"
  by (auto simp: evaluate_health_def Evaluate_def Let_def split: sum.split prod.split)

lemma status_store_hello [simp]: "status_of i (store_hello hello d db) = status_of i db"
  by (simp add: store_hello_def Let_def)

lemma GetDevice_status: "GetDevice i db = Inr d \<Longrightarrow> status_of i db = Some (d_status d)"
  by (auto simp: GetDevice_def status_of_def simp del: find_row_None split: option.splits)

lemma status_GetDevice: "status_of i db = Some s \<longleftrightarrow> (\<exists>d. GetDevice i db = Inr d \<and> d_status d = s)"
  by (auto simp: GetDevice_def status_of_def simp del: find_row_None split: option.splits)

lemma getConn_frame [simp]: "getConn i (on_devices f st) = getConn i st" "getConn i (evaluate_health env now j st) = getConn i st"
  "getConn i (hub_audit e st) = getConn i st"
  by (simp_all add: getConn_def)

lemma register_getConn: "getConn i (register_conn i inst ip st) = Some (h_next st)"
  by (simp add: register_conn_def getConn_def Let_def)

text \<open>The connection that is replaced is still being served, but cancelled.\<close>

lemma register_old:
  assumes "hub_ok st" "getConn i st = Some c"
  shows "\<exists>k. the_conn c (register_conn i inst ip st) = Some k \<and> cn_device_id k = i" "c \<noteq> h_next st"
proof -
  obtain k where k: "k \<in> set (h_running st)" "cn_id k = c" "cn_device_id k = i"
    using assms getConn_in [OF assms(1), of i c] by (auto simp: hub_ok_def live_iff)
  then show "c \<noteq> h_next st" using assms(1) by (auto simp: hub_ok_def)
  have "the_conn c st = Some k" using k the_conn_in [OF assms(1)] by blast
  then have "find_row (\<lambda>x. cn_id x = c) (h_running (closeConn i st)) = Some (k\<lparr>cn_cancelled := True\<rparr>)"
    using k assms(2) by (simp add: the_conn_def closeConn_def cancel_def)
  then show "\<exists>k. the_conn c (register_conn i inst ip st) = Some k \<and> cn_device_id k = i"
    using k(3) by (simp add: register_conn_def Let_def the_conn_def)
qed

lemma the_conn_frame [simp]: "the_conn c (on_devices f st) = the_conn c st" "the_conn c (evaluate_health env now j st) = the_conn c st"
  "the_conn c (hub_audit e st) = the_conn c st"
  by (simp_all add: the_conn_def)

lemma on_disconnect_sessions:
  "remote_sessions (on_disconnect now i rs) = upd_where (\<lambda>s. rs_device_id s = i \<and> interruptible s)
     (\<lambda>s. s\<lparr>rs_state := StateInterrupted, rs_closed_at := Some now, rs_close_reason := ''agent_disconnected''\<rparr>) (remote_sessions rs)"
  by (simp add: on_disconnect_def InterruptAllForDevice_def interrupt_where_def)

lemma ServeAgentWS_end_effect:
  assumes "the_conn c st = Some k" "cn_device_id k = i"
  shows "status_of i (h_devices (ServeAgentWS_end now c st)) = map_option (\<lambda>_. StatusConnectionLost) (status_of i (h_devices st))"
    and "s \<in> set (remote_sessions (h_remote (ServeAgentWS_end now c st))) \<Longrightarrow> rs_device_id s = i \<Longrightarrow> \<not> interruptible s"
    and "getConn i st \<noteq> Some c \<Longrightarrow> getConn i (ServeAgentWS_end now c st) = getConn i st"
proof -
  show "status_of i (h_devices (ServeAgentWS_end now c st)) = map_option (\<lambda>_. StatusConnectionLost) (status_of i (h_devices st))"
    using assms by (simp add: ServeAgentWS_end_devices)
  have "\<forall>s \<in> set (remote_sessions (on_disconnect now i rs)). rs_device_id s = i \<longrightarrow> \<not> interruptible s" for rs
    unfolding on_disconnect_sessions ball_upd_where by (simp add: interruptible_def)
  moreover obtain rs where "h_remote (ServeAgentWS_end now c st) = on_disconnect now i rs"
    using assms by (auto simp: ServeAgentWS_end_def Let_def)
  ultimately show "s \<in> set (remote_sessions (h_remote (ServeAgentWS_end now c st))) \<Longrightarrow> rs_device_id s = i \<Longrightarrow> \<not> interruptible s"
    by simp
  show "getConn i st \<noteq> Some c \<Longrightarrow> getConn i (ServeAgentWS_end now c st) = getConn i st"
    using assms by (simp add: getConn_def on_disconnect_conns)
qed

section \<open>Where the connection state and the status diverge\<close>

lemma handshake_start:
  assumes "fst (handshake env now nonce answer ack st) = Some (i, inst)"
  obtains st0 where "ServeAgentWS_start env now nonce answer ack ip st =
      hub_audit (agent_event ''device.connected'' ResultSuccess i ip None)
        (evaluate_health env now i (on_devices (UpdateConnectivity now i StatusOnline ip) (register_conn i inst ip st0)))"
    "h_conns st0 = h_conns st" "h_running st0 = h_running st" "h_next st0 = h_next st"
    "status_of j (h_devices st0) = status_of j (h_devices st)" "status_of i (h_devices st) \<noteq> None"
proof -
  obtain st0 where h: "handshake env now nonce answer ack st = (Some (i, inst), st0)"
    using assms by (cases "handshake env now nonce answer ack st") auto
  from h show thesis
  proof (rule handshake_cases)
    fix ev hello d
    assume a: "Some (i, inst) = Some (d_id d, d_install_id d)" "st0 = on_devices (store_hello hello d) st"
      "check_hello env now nonce answer st = Some (ev, hello, d, d_install_id d)"
    obtain j where "GetDevice j (h_devices st) = Inr d"
      using a(3) by (auto simp: check_hello_def split: option.splits sum.splits if_splits)
    then have "status_of i (h_devices st) \<noteq> None"
      using a(1) GetDevice_id GetDevice_status by fastforce
    then show thesis
      using that [of st0] a(2) h by (simp add: ServeAgentWS_start_def)
  qed simp
qed

text \<open>The end of a superseded connection is taken for the end of the device's
  connection. When a device connects again while its old connection is still being served, the
  device is online; when the old connection's handler then finishes, the device still has its new
  connection, but its status is "connection lost" and all its sessions are interrupted.\<close>

theorem superseded_connection_marks_lost:
  assumes ok: "hub_ok st" and old: "getConn i st = Some c"
    and hs: "fst (handshake env now nonce answer ack st) = Some (i, inst)"
    and st1: "st1 = ServeAgentWS_start env now nonce answer ack ip st" and st2: "st2 = ServeAgentWS_end now' c st1"
  shows "status_of i (h_devices st1) = Some StatusOnline \<and> IsOnline i st1 \<and>
     status_of i (h_devices st2) = Some StatusConnectionLost \<and> IsOnline i st2 \<and>
     (\<forall>s \<in> set (remote_sessions (h_remote st2)). rs_device_id s = i \<longrightarrow> \<not> interruptible s)"
proof -
  obtain st0 where s: "st1 = hub_audit (agent_event ''device.connected'' ResultSuccess i ip None)
        (evaluate_health env now i (on_devices (UpdateConnectivity now i StatusOnline ip) (register_conn i inst ip st0)))"
    and c: "h_conns st0 = h_conns st" "h_running st0 = h_running st" "h_next st0 = h_next st"
    and d: "status_of i (h_devices st0) = status_of i (h_devices st)" "status_of i (h_devices st) \<noteq> None"
    unfolding st1 by (rule handshake_start [OF hs, where j = i and ip = ip]) blast
  have ok0: "hub_ok st0" and old0: "getConn i st0 = Some c"
    using ok old c hub_ok_cong [of st0 st] by (simp_all add: getConn_def)
  have on1: "status_of i (h_devices st1) = Some StatusOnline" using d by (auto simp: s)
  have g1: "getConn i st1 = Some (h_next st0)" by (simp add: s register_getConn)
  have ne: "getConn i st1 \<noteq> Some c" using register_old(2) [OF ok0 old0] g1 by simp
  obtain k where k: "the_conn c st1 = Some k" "cn_device_id k = i"
    using register_old(1) [OF ok0 old0] by (auto simp: s)
  show ?thesis
    using ServeAgentWS_end_effect [OF k, where now = now'] on1 g1 ne by (auto simp: st2 IsOnline_def)
qed

lemma map_of_del_other: "i \<noteq> j \<Longrightarrow> map_of (del_where (\<lambda>e. fst e = j) xs) i = map_of xs i"
  by (induction xs) auto

lemma sweep_device_other:
  assumes "i \<noteq> j"
  shows "status_of i (h_devices (sweep_device env now j st)) = status_of i (h_devices st)"
    "getConn i (sweep_device env now j st) = getConn i st"
proof -
  have close: "getConn i (closeConn j s) = getConn i s" for s
    using assms by (simp add: closeConn_def getConn_def map_of_del_other split: option.split)
  show "status_of i (h_devices (sweep_device env now j st)) = status_of i (h_devices st)"
    using assms by (simp add: sweep_device_def split: sum.split option.split)
  show "getConn i (sweep_device env now j st) = getConn i st"
    using close by (simp add: sweep_device_def split: sum.split option.split)
qed

lemma sweep_unconnected:
  assumes "getConn i st = None"
  shows "status_of i (h_devices (sweep env now st)) = status_of i (h_devices st)" "getConn i (sweep env now st) = None"
proof -
  have "i \<notin> set is \<Longrightarrow> status_of i (h_devices (fold (sweep_device env now) is st)) = status_of i (h_devices st) \<and>
      getConn i (fold (sweep_device env now) is st) = getConn i st" for "is"
    by (induction "is" arbitrary: st) (auto simp: sweep_device_other)
  moreover have "i \<notin> set (map fst (h_conns st))" using assms by (simp add: getConn_def map_of_eq_None_iff)
  ultimately show "status_of i (h_devices (sweep env now st)) = status_of i (h_devices st)" "getConn i (sweep env now st) = None"
    using assms by (simp_all add: sweep_def)
qed

lemma closed_conn:
  assumes "hub_ok st" "getConn i st = Some c"
  shows "\<exists>k. the_conn c (closeConn i st) = Some k \<and> cn_device_id k = i"
proof -
  obtain k where k: "k \<in> set (h_running st)" "cn_id k = c" "cn_device_id k = i"
    using assms getConn_in [OF assms(1), of i c] by (auto simp: hub_ok_def live_iff)
  then have "the_conn c st = Some k" using the_conn_in [OF assms(1)] by blast
  then show ?thesis using k assms(2) by (simp add: the_conn_def closeConn_def cancel_def)
qed

text \<open>"offline" does not last. A connected device that has been silent for the
  configured time is marked offline and disconnected by the sweeper, but when the handler of the
  closed connection finishes, the status becomes "connection lost", and no later sweep looks at
  the device again.\<close>

theorem offline_status_is_overwritten:
  assumes ok: "hub_ok st" and conn: "getConn i st = Some c"
    and dev: "GetDevice i (h_devices st) = Inr d" "d_last_seen_at d = Some t" "d_status d \<noteq> StatusOffline"
    and silent: "now - t \<ge> tm_offline_after (he_timing env)"
    and st1: "st1 = sweep_device env now i st" and st2: "st2 = ServeAgentWS_end now' c st1"
  shows "status_of i (h_devices st1) = Some StatusOffline \<and> \<not> IsOnline i st1 \<and>
     status_of i (h_devices (run (hub_step env) (map HSweep later) st2)) = Some StatusConnectionLost"
proof -
  have s1: "st1 = evaluate_health env now i (closeConn i (on_devices (UpdateStatusOnly i StatusOffline) st))"
    using dev silent by (simp add: st1 sweep_device_def)
  have st: "status_of i (h_devices st) = Some (d_status d)" by (rule GetDevice_status [OF dev(1)])
  have off: "status_of i (h_devices st1) = Some StatusOffline" by (simp add: s1 st)
  have gone: "getConn i st1 = None" by (simp add: s1 closeConn_getConn)
  have "hub_ok (on_devices (UpdateStatusOnly i StatusOffline) st)" using ok by (simp add: hub_ok_def)
  then obtain k where k: "the_conn c st1 = Some k" "cn_device_id k = i"
    using closed_conn [of "on_devices (UpdateStatusOnly i StatusOffline) st" i c] conn by (auto simp: s1)
  have s2: "status_of i (h_devices st2) = Some StatusConnectionLost" "getConn i st2 = None"
    using ServeAgentWS_end_effect(1,3) [OF k, where now = now'] off gone by (simp_all add: st2)
  have "status_of i (h_devices s) = Some StatusConnectionLost \<Longrightarrow> getConn i s = None \<Longrightarrow>
      status_of i (h_devices (run (hub_step env) (map HSweep later) s)) = Some StatusConnectionLost" for s
    by (induction later arbitrary: s) (simp_all add: sweep_unconnected)
  then show ?thesis using off gone s2 by (simp add: IsOnline_def)
qed

text \<open>Revoking a device that is connected does not end its connection, and the next
  heartbeat of that connection makes its status "online" again.\<close>

theorem heartbeat_overwrites_revocation:
  assumes "the_conn c st = Some k" "\<not> cn_cancelled k" "getConn (cn_device_id k) st = Some c"
    and "length raw \<le> MaxInventoryBytes" "Decode (he_json env) raw = Inr ev" "env_type ev = type_name TypeHeartbeat"
    "env_request_id ev = None" "DecodePayload (he_heartbeat env) ev = Inr u" "GetDevice (cn_device_id k) (h_devices st) = Inr d"
    and st1: "st1 = on_devices (RevokeDevice t (cn_device_id k)) st" and st2: "st2 = read_text env now nonce c raw st1"
  shows "status_of (cn_device_id k) (h_devices st1) = Some StatusRevoked \<and> IsOnline (cn_device_id k) st2 \<and>
     status_of (cn_device_id k) (h_devices st2) = Some StatusOnline"
proof -
  have "status_of i (RevokeDevice t i db) = map_option (\<lambda>_. StatusRevoked) (status_of i db)" for i db
  proof -
    have "status_of i (RevokeDevice t i db) = status_of i (upd_device i (\<lambda>d. d\<lparr>d_status := StatusRevoked,
        d_credential_status := CredRevoked, d_revoked_at := Some t\<rparr>) db)"
      by (simp add: status_of_def RevokeDevice_def upd_device_def)
    then show ?thesis by (simp add: status_of_upd) (simp add: status_of_def option.map_comp o_def)
  qed
  then have r: "status_of (cn_device_id k) (h_devices st1) = Some StatusRevoked"
    using GetDevice_status [OF assms(9)] by (simp add: st1)
  have "tryDeliver k ev st1 = (False, st1)" using assms(7) by (simp add: tryDeliver_def)
  then have "st2 = on_devices (UpdateConnectivity now (cn_device_id k) StatusOnline (cn_remote_ip k)) st1"
    using assms(1,2,4-8) by (simp add: st2 st1 read_text_def handleMessage_def handleHeartbeat_def)
  then show ?thesis using r assms(3) by (simp add: IsOnline_def st1)
qed

section \<open>A concrete hub\<close>

definition demo_envelope :: "byte \<Rightarrow> envelope" where
  "demo_envelope b = \<lparr>env_protocol = 1, env_type = type_name (if b = 1 then TypeHello else if b = 2 then TypeHeartbeat else TypeInventoryResponse),
     env_message_id = ''m'', env_request_id = None, env_timestamp = 0, env_payload = [b]\<rparr>"

definition demo_hello :: hello_payload where
  "demo_hello = \<lparr>hl_device_id = ''d'', hl_install_id = ''i'', hl_agent_version = ''0.2.2'', hl_os = ''linux'', hl_arch = ''amd64'',
     hl_capabilities = [], hl_nonce = string_of [9], hl_signature = string_of (replicate 32 1 @ [9]), hl_secure = True\<rparr>"

definition demo_hub_env :: hub_env where
  "demo_hub_env = \<lparr>sha256 = (\<lambda>d. d), uuid_string = (\<lambda>_. []), uuid_parse = (\<lambda>s. Some (if s = ''d'' then 1 else 101)),
     hex_encode = string_of, hex_decode = (\<lambda>s. Some (bytes_of s)), base64_encode = string_of, base64_decode = (\<lambda>s. Some (bytes_of s)),
     ed25519_sign = (\<lambda>k m. k @ m), ed25519_verify = (\<lambda>k m s. s = k @ m),
     marshal_marker = (\<lambda>_. []), unmarshal_marker = (\<lambda>_. None), http_get = (\<lambda>_. GetFails),
     he_json = \<lparr>marshal_envelope = (\<lambda>_. []), unmarshal_envelope = (\<lambda>raw. Some (demo_envelope (hd raw)))\<rparr>,
     he_hello = (\<lambda>_. Some demo_hello), he_heartbeat = (\<lambda>_. Some ()),
     he_inventory = (\<lambda>_. Some \<lparr>iv_hostname = ''h'', iv_os_family = ''linux'', iv_os_distribution = [], iv_os_version = [],
       iv_interfaces = [], iv_agent_version = ''0.2.2''\<rparr>),
     he_metrics = (\<lambda>_. None), he_network = (\<lambda>_. None), he_support = (\<lambda>_. None), he_session_close = (\<lambda>_. None),
     he_quote = (\<lambda>s. s), he_secret = demo_secret, he_reason_text = (\<lambda>_. []), he_thresholds = DefaultThresholds,
     he_timing = \<lparr>tm_heartbeat_interval = 45, tm_connection_lost_after = 100, tm_offline_after = 300, tm_status_interval = 300,
       tm_network_upload_interval = 300\<rparr>\<rparr>"

definition demo_hub_devices :: device_db where
  "demo_hub_devices = \<lparr>devices = [demo_device 1 ''a''],
     device_credentials = [\<lparr>cr_device_id = 1, cr_public_key = replicate 32 1, cr_key_version = 1, cr_expires_at = None, cr_revoked_at = None\<rparr>],
     device_capabilities = [], device_network = []\<rparr>"

definition demo_hub :: hub_state where
  "demo_hub = init_hub \<lparr>mon_devices = demo_hub_devices, mon_metrics = demo_metrics\<lparr>device_metrics := []\<rparr>\<rparr> no_admin_data []"

definition demo_connect :: "time \<Rightarrow> hub_event" where
  "demo_connect now = HConnect now [9] (Some [1]) True ''ip''"

definition demo_connected :: hub_state where
  "demo_connected = run (hub_step demo_hub_env) [demo_connect 10] demo_hub"

lemma demo_connected_ok: "hub_ok demo_connected"
  unfolding demo_connected_def demo_hub_def by (rule hub.run_keeps) simp

lemma demo_handshake: "fst (handshake demo_hub_env 10 [9] (Some [1]) True demo_hub) = Some (1, 101)"
  by code_simp

lemma demo_handshake2: "fst (handshake demo_hub_env 20 [9] (Some [1]) True demo_connected) = Some (1, 101)"
  by code_simp

lemma demo_conn: "getConn 1 demo_connected = Some 0"
  by code_simp

theorem superseded_connection_marks_lost_witness:
  "status_of 1 (h_devices (ServeAgentWS_end 21 0 (ServeAgentWS_start demo_hub_env 20 [9] (Some [1]) True ''ip'' demo_connected))) =
     Some StatusConnectionLost \<and>
   IsOnline 1 (ServeAgentWS_end 21 0 (ServeAgentWS_start demo_hub_env 20 [9] (Some [1]) True ''ip'' demo_connected))"
  using superseded_connection_marks_lost [OF demo_connected_ok demo_conn demo_handshake2 refl refl] by blast

lemma demo_device_row:
  "\<exists>d. GetDevice 1 (h_devices demo_connected) = Inr d \<and> d_last_seen_at d = Some 10 \<and> d_status d = StatusOnline"
proof -
  have "d_last_seen_at (projr (GetDevice 1 (h_devices demo_connected))) = Some 10 \<and>
      d_status (projr (GetDevice 1 (h_devices demo_connected))) = StatusOnline \<and> isl (GetDevice 1 (h_devices demo_connected)) = False"
    by code_simp
  then show ?thesis by (cases "GetDevice 1 (h_devices demo_connected)") auto
qed

theorem offline_status_is_overwritten_witness:
  "status_of 1 (h_devices (run (hub_step demo_hub_env) (map HSweep [500, 600])
     (ServeAgentWS_end 401 0 (sweep_device demo_hub_env 400 1 demo_connected)))) = Some StatusConnectionLost"
proof -
  obtain d where d: "GetDevice 1 (h_devices demo_connected) = Inr d" "d_last_seen_at d = Some 10" "d_status d \<noteq> StatusOffline"
    using demo_device_row by auto
  have "400 - 10 \<ge> tm_offline_after (he_timing demo_hub_env)" by (simp add: demo_hub_env_def)
  from offline_status_is_overwritten [OF demo_connected_ok demo_conn d this refl refl] show ?thesis by blast
qed

theorem heartbeat_overwrites_revocation_witness:
  "status_of 1 (h_devices (read_text demo_hub_env 30 [] 0 [2] (on_devices (RevokeDevice 25 1) demo_connected))) = Some StatusOnline"
proof -
  obtain k where k: "the_conn 0 demo_connected = Some k" "cn_device_id k = 1" "\<not> cn_cancelled k"
    using demo_conn getConn_in [OF demo_connected_ok, of 1 0] the_conn_in [OF demo_connected_ok, of 0] demo_connected_ok
    by (auto simp: hub_ok_def live_iff)
  obtain d where d: "GetDevice (cn_device_id k) (h_devices demo_connected) = Inr d" using demo_device_row k(2) by auto
  have e: "Decode (he_json demo_hub_env) [2] = Inr (demo_envelope 2)" "env_type (demo_envelope 2) = type_name TypeHeartbeat"
    "env_request_id (demo_envelope 2) = None" "DecodePayload (he_heartbeat demo_hub_env) (demo_envelope 2) = Inr ()"
    by (simp_all add: Decode_def demo_hub_env_def demo_envelope_def DecodePayload_def)
  have l: "length [2 :: byte] \<le> MaxInventoryBytes" by (simp add: MaxInventoryBytes_def)
  have "getConn (cn_device_id k) demo_connected = Some 0" using demo_conn k(2) by simp
  from heartbeat_overwrites_revocation [OF k(1,3) this l e d refl refl] show ?thesis by (simp add: k(2))
qed

section \<open>Replies\<close>

text \<open>A waiter is only registered under its own id, and its buffer only holds an answer to
  that id; \<open>C\<close> lists waiters with the ids they were made for.\<close>

definition pending_ok :: "waiter list \<Rightarrow> connection list \<Rightarrow> bool" where
  "pending_ok ws ks \<longleftrightarrow> (\<forall>k \<in> set ks. \<forall>i w. (i, w) \<in> set (cn_pending k) \<longrightarrow> w < length ws \<and> wt_id (ws ! w) = i)"

definition answers_ok :: "waiter list \<Rightarrow> bool" where
  "answers_ok ws \<longleftrightarrow> (\<forall>x \<in> set ws. \<forall>ev. wt_buffer x = Some ev \<longrightarrow> env_request_id ev = Some (wt_id x))"

definition waiting_for :: "(nat \<times> string) list \<Rightarrow> hub_state \<Rightarrow> bool" where
  "waiting_for C st \<longleftrightarrow> pending_ok (h_waiters st) (h_running st) \<and> answers_ok (h_waiters st) \<and>
     (\<forall>w m. (w, m) \<in> set C \<longrightarrow> w < length (h_waiters st) \<and> wt_id (h_waiters st ! w) = m)"

lemma pending_ok_sub:
  assumes "pending_ok ws ks" "\<And>k. k \<in> set ks' \<Longrightarrow> \<exists>k' \<in> set ks. set (cn_pending k) \<subseteq> set (cn_pending k')"
  shows "pending_ok ws ks'"
  using assms unfolding pending_ok_def by blast

lemma pending_drop: "pending_ok ws (h_running st) \<Longrightarrow> pending_ok ws (h_running (drop_waiter c i st))"
  by (rule pending_ok_sub) (auto simp: drop_waiter_def set_upd_where split: if_splits)

lemma pending_cancel: "pending_ok ws (h_running st) \<Longrightarrow> pending_ok ws (h_running (cancel c st))"
  by (rule pending_ok_sub) (auto simp: cancel_def set_upd_where split: if_splits)

lemma pending_close: "pending_ok ws (h_running st) \<Longrightarrow> pending_ok ws (h_running (closeConn i st))"
  using pending_cancel [of ws "set_conns (del_where (\<lambda>e. fst e = i) (h_conns st)) st"]
  by (simp add: closeConn_def split: option.split)

lemma close_waiters [simp]: "h_waiters (closeConn i st) = h_waiters st"
  by (simp add: closeConn_def split: option.split)

lemma waiting_cong:
  "h_waiters st' = h_waiters st \<Longrightarrow> (pending_ok (h_waiters st) (h_running st) \<Longrightarrow> pending_ok (h_waiters st) (h_running st')) \<Longrightarrow>
   waiting_for C st \<Longrightarrow> waiting_for C st'"
  by (simp add: waiting_for_def)

lemma waiting_add: "waiting_for C st \<Longrightarrow> waiting_for C (add_waiter c i st)"
  unfolding waiting_for_def pending_ok_def add_waiter_def
  by (fastforce simp: set_upd_where nth_append answers_ok_def split: if_splits)

lemma waiting_register: "waiting_for C st \<Longrightarrow> waiting_for C (register_conn i inst ip st)"
  using pending_close [of "h_waiters st" st i]
  by (auto simp: waiting_for_def register_conn_def Let_def pending_ok_def)

lemma waiting_start: "waiting_for C st \<Longrightarrow> waiting_for C (ServeAgentWS_start env now nonce answer ack ip st)"
proof -
  assume ok: "waiting_for C st"
  obtain r st1 where h: "handshake env now nonce answer ack st = (r, st1)" by fastforce
  then have "waiting_for C st1" using ok by (auto elim!: handshake_cases simp: waiting_for_def)
  then show ?thesis using waiting_register by (auto simp: ServeAgentWS_start_def h waiting_for_def split: option.split)
qed

lemma waiting_deliver:
  assumes "waiting_for C st" "the_conn c st = Some k" "tryDeliver k ev st = (b, st')"
  shows "waiting_for C st'"
proof (cases "(\<exists>i v. env_request_id ev = Some i \<and> map_of (cn_pending k) i = Some v)")
  case True
  then obtain i v where iv: "env_request_id ev = Some i" "map_of (cn_pending k) i = Some v" by blast
  have "k \<in> set (h_running st)" using assms(2) find_row_SomeD by (fastforce simp: the_conn_def)
  then have v: "v < length (h_waiters st)" "wt_id (h_waiters st ! v) = i"
    using map_of_SomeD [OF iv(2)] assms(1) by (auto simp: waiting_for_def pending_ok_def)
  have d: "waiting_for C (drop_waiter (cn_id k) i st)"
    using assms(1) by (rule waiting_cong [rotated 2]) (simp_all add: pending_drop)
  show ?thesis
  proof (cases "wt_buffer (h_waiters st ! v) = None")
    case True
    let ?ws = "(h_waiters st)[v := (h_waiters st ! v)\<lparr>wt_buffer := Some ev\<rparr>]"
    have s': "st' = (drop_waiter (cn_id k) i st)\<lparr>h_waiters := ?ws\<rparr>" using assms(3) iv True by (simp add: tryDeliver_def Let_def)
    have ids: "wt_id (?ws ! j) = wt_id (h_waiters st ! j)" if "j < length (h_waiters st)" for j
      using that v by (cases "j = v") auto
    have "answers_ok ?ws"
      using d v iv by (auto simp: answers_ok_def waiting_for_def dest!: set_update_subset_insert [THEN subsetD])
    moreover have "pending_ok ?ws (h_running (drop_waiter (cn_id k) i st))"
      using d ids by (auto simp: waiting_for_def pending_ok_def)
    ultimately show ?thesis using d ids by (simp add: waiting_for_def s')
  next
    case False
    then show ?thesis using assms(3) iv d by (auto simp: tryDeliver_def Let_def)
  qed
next
  case False
  then show ?thesis using assms by (auto simp: tryDeliver_def split: option.splits)
qed

lemma waiting_text: "waiting_for C st \<Longrightarrow> waiting_for C (read_text env now nonce c raw st)"
proof (cases "the_conn c st")
  case (Some k)
  assume ok: "waiting_for C st"
  have "waiting_for C (protocolError k a b st)" for a b using ok by (simp add: protocolError_def waiting_for_def)
  moreover have "waiting_for C (handleMessage env now nonce k ev st')" if "waiting_for C st'" for ev st'
    using that by (simp add: waiting_for_def)
  ultimately show ?thesis
    using ok waiting_deliver [OF ok Some] by (auto simp: read_text_def Some split: sum.split prod.split bool.split)
qed (simp add: read_text_def)

lemma waiting_sweep: "waiting_for C st \<Longrightarrow> waiting_for C (sweep env now st)"
proof -
  have dev: "waiting_for C (sweep_device env now i st)" if "waiting_for C st" for i st
    using that by (rule waiting_cong [rotated 2])
      (simp_all add: sweep_device_def pending_close split: sum.split option.split)
  have "waiting_for C st \<Longrightarrow> waiting_for C (fold (sweep_device env now) is st)" for "is"
    by (induction "is" arbitrary: st) (auto intro: dev)
  then show "waiting_for C st \<Longrightarrow> waiting_for C (sweep env now st)" by (simp add: sweep_def)
qed

interpretation waiting: invariant "hub_step env" "waiting_for C" for env C
proof
  fix st e assume ok: "waiting_for C st"
  have out: "waiting_for C (send_out c x s) = waiting_for C s" for c x s by (simp add: waiting_for_def)
  have drop: "waiting_for C (drop_waiter c i s)" if "waiting_for C s" for c i s
    using that by (rule waiting_cong [rotated 2]) (simp_all add: pending_drop)
  show "waiting_for C (hub_step env e st)"
  proof (cases e)
    case (HEnd now c)
    have "h_waiters (ServeAgentWS_end now c st) = h_waiters st"
      by (simp add: ServeAgentWS_end_def Let_def split: option.split)
    moreover have "pending_ok (h_waiters st) (h_running st) \<Longrightarrow> pending_ok (h_waiters st) (h_running (ServeAgentWS_end now c st))"
      by (rule pending_ok_sub) (auto simp: on_disconnect_conns split: option.splits)
    ultimately show ?thesis using ok HEnd by (auto intro: waiting_cong)
  next
    case (HBinary c raw)
    then show ?thesis using ok
      by (auto simp: read_binary_def handleBinaryFrame_def waiting_for_def split: option.split sum.split prod.split)
  next
    case (HRelease ib)
    then show ?thesis using ok by (simp add: waiting_for_def)
  next
    case (HDevice e)
    then show ?thesis using ok by (simp add: waiting_for_def)
  qed (use ok in \<open>auto simp: waiting_start waiting_text waiting_sweep SendAndWait_send_def WaitForCorrelation_start_def
    wait_end_def SendHubMessage_def SendBinaryFrame_def Let_def out waiting_add drop split: option.split\<close>)
qed

text \<open>C36: a caller that sent a request to an agent gets an answer to that request. Whatever
  happens after a request was sent with id \<open>m\<close>, the envelope the caller receives, if any,
  refers to \<open>m\<close>; answers to other requests, even of the same device, never reach it.\<close>

theorem answer_matches_request:
  assumes send: "SendAndWait_send i t cmd m True (run (hub_step env) es (init_hub mon ad rels)) = (Some w, st1)"
    and answer: "fst (wait_end w (run (hub_step env) es' st1)) = Some ev"
  shows "env_request_id ev = Some m"
proof -
  let ?st = "run (hub_step env) es (init_hub mon ad rels)" and ?st' = "run (hub_step env) es' st1"
  have "waiting_for [] ?st"
    by (rule waiting.run_keeps) (simp add: waiting_for_def pending_ok_def answers_ok_def init_hub_def)
  moreover obtain c where "w = length (h_waiters ?st)" "st1 = send_out c (OutRequest t cmd m) (add_waiter c m ?st)"
    using send by (auto simp: SendAndWait_send_def Let_def split: option.splits)
  ultimately have "waiting_for [(w, m)] st1"
    using waiting_add [of "[]" ?st c m] by (auto simp: waiting_for_def) (simp_all add: add_waiter_def)
  then have "waiting_for [(w, m)] ?st'" by (rule waiting.run_keeps)
  then show ?thesis
    using answer by (auto simp: waiting_for_def answers_ok_def wait_end_def)
qed

definition demo_answering :: hub_env where
  "demo_answering = demo_hub_env\<lparr>he_json := \<lparr>marshal_envelope = (\<lambda>_. []), unmarshal_envelope =
     (\<lambda>raw. Some ((demo_envelope (hd raw))\<lparr>env_request_id := Some ''q''\<rparr>))\<rparr>\<rparr>"

definition demo_asked :: hub_state where
  "demo_asked = snd (SendAndWait_send 1 ''t'' None ''q'' True (run (hub_step demo_answering) [demo_connect 10] demo_hub))"

lemma demo_asked:
  "SendAndWait_send 1 ''t'' None ''q'' True (run (hub_step demo_answering) [demo_connect 10] demo_hub) = (Some 0, demo_asked)"
  "map (\<lambda>k. (cn_id k, cn_pending k, cn_cancelled k)) (h_running demo_asked) = [(0, [(''q'', 0)], False)]"
  "map wt_conn (h_waiters demo_asked) = [0]" "map wt_id (h_waiters demo_asked) = [''q'']"
  "list_all (\<lambda>x. Option.is_none (wt_buffer x)) (h_waiters demo_asked)"
proof -
  have "fst (SendAndWait_send 1 ''t'' None ''q'' True (run (hub_step demo_answering) [demo_connect 10] demo_hub)) = Some 0" by code_simp
  then show "SendAndWait_send 1 ''t'' None ''q'' True (run (hub_step demo_answering) [demo_connect 10] demo_hub) = (Some 0, demo_asked)"
    unfolding demo_asked_def by (metis prod.collapse)
  show "map (\<lambda>k. (cn_id k, cn_pending k, cn_cancelled k)) (h_running demo_asked) = [(0, [(''q'', 0)], False)]"
    "map wt_conn (h_waiters demo_asked) = [0]" "map wt_id (h_waiters demo_asked) = [''q'']"
    "list_all (\<lambda>x. Option.is_none (wt_buffer x)) (h_waiters demo_asked)" by code_simp+
qed

theorem answer_matches_request_witness:
  "\<exists>ev. SendAndWait_send 1 ''t'' None ''q'' True (run (hub_step demo_answering) [demo_connect 10] demo_hub) = (Some 0, demo_asked) \<and>
     fst (wait_end 0 (run (hub_step demo_answering) [HText 11 [] 0 [3]] demo_asked)) = Some ev \<and> env_request_id ev = Some ''q''"
proof -
  let ?ev = "(demo_envelope 3)\<lparr>env_request_id := Some ''q''\<rparr>"
  obtain k where k: "h_running demo_asked = [k]" "cn_id k = 0" "cn_pending k = [(''q'', 0)]" "\<not> cn_cancelled k"
    using demo_asked(2) by (auto simp: map_eq_Cons_conv)
  obtain x where x: "h_waiters demo_asked = [x]" "wt_buffer x = None"
    using demo_asked(3,5) by (auto simp: map_eq_Cons_conv Option.is_none_def)
  have d: "Decode (he_json demo_answering) [3] = Inr ?ev"
    by (simp add: Decode_def demo_answering_def demo_envelope_def)
  have c: "the_conn 0 demo_asked = Some k" using k by (simp add: the_conn_def)
  have t: "tryDeliver k ?ev demo_asked = (True, (drop_waiter 0 ''q'' demo_asked)\<lparr>h_waiters := [x\<lparr>wt_buffer := Some ?ev\<rparr>]\<rparr>)"
    using k x by (simp add: tryDeliver_def Let_def)
  have "read_text demo_answering 11 [] 0 [3] demo_asked = (drop_waiter 0 ''q'' demo_asked)\<lparr>h_waiters := [x\<lparr>wt_buffer := Some ?ev\<rparr>]\<rparr>"
    using k(4) by (simp add: read_text_def c d t MaxInventoryBytes_def)
  then have ev: "fst (wait_end 0 (run (hub_step demo_answering) [HText 11 [] 0 [3]] demo_asked)) = Some ?ev"
    by (simp add: wait_end_def)
  show ?thesis
    using demo_asked(1) ev answer_matches_request [OF demo_asked(1) [unfolded demo_hub_def] ev] by blast
qed

end
