(* ===== verification/Alerting.thy ===== *)
theory Alerting
  imports Control_Hub
begin

text \<open>
  Alert rules and alerts (\<open>internal/alerting\<close>): the two tables
  (\<open>alerting.go\<close>), the evaluation of a rule for a device and the periodic sweep over
  all rules and devices (\<open>engine.go\<close>). The decoders of a rule's JSON configuration, the
  texts of the summaries and the agents' answers are arguments.
\<close>

section \<open>State\<close>

datatype rule_type = RuleOffline | RuleCPU | RuleRAM | RuleDisk | RuleService | RuleAgentVersion | RuleUnknown string

datatype rule_scope = ScopeGlobal | ScopeCustomer | ScopeGroup | ScopeDevice

datatype alert_severity = Warning | Critical

datatype alert_status = AlertStateOpen | AlertStateAcknowledged | AlertStateResolved

record alert_rule =
  ar_id :: uuid
  ar_scope_type :: rule_scope
  ar_scope_id :: "uuid option"
  ar_rule_type :: rule_type
  ar_config :: string
  ar_enabled :: bool

record alert =
  al_id :: uuid
  al_device_id :: uuid
  al_rule_id :: "uuid option"
  al_severity :: alert_severity
  al_state :: alert_status
  al_opened_at :: time
  al_resolved_at :: "time option"
  al_summary :: string

datatype alert_text =
    OfflineText string | CpuText rat rat | RamText rat rat | DiskText string rat rat
  | VersionText string string | ServiceStatusText string string | ServiceMissingText string

record alert_env =
  ae_threshold :: "string \<Rightarrow> rat option"
  ae_minimum_version :: "string \<Rightarrow> string option"
  ae_service_name :: "string \<Rightarrow> string option"
  ae_text :: "alert_text \<Rightarrow> string"

record alert_state =
  as_rules :: "alert_rule list"
  as_alerts :: "alert list"
  as_audit :: "audit_event list"
  as_notified :: "(uuid \<times> alert_severity \<times> string) list"

datatype alert_error = ErrAlertNotFound | ErrRuleConfig

section \<open>Rules\<close>

definition CreateRule :: "uuid \<Rightarrow> alert_rule \<Rightarrow> alert_state \<Rightarrow> alert_rule option \<times> alert_state" where
  "CreateRule newID rl st =
     (let r = rl\<lparr>ar_id := newID, ar_config := (if ar_config rl = [] then ''{}'' else ar_config rl)\<rparr>
      in case insert_unique ar_id r (as_rules st) of None \<Rightarrow> (None, st) | Some rs \<Rightarrow> (Some r, st\<lparr>as_rules := rs\<rparr>))"

definition SetRuleEnabled :: "uuid \<Rightarrow> bool \<Rightarrow> alert_state \<Rightarrow> (alert_error + unit) \<times> alert_state" where
  "SetRuleEnabled i enabled st =
     (if count_where (\<lambda>r. ar_id r = i) (as_rules st) = 0 then (Inl ErrAlertNotFound, st)
      else (Inr (), st\<lparr>as_rules := upd_where (\<lambda>r. ar_id r = i) (\<lambda>r. r\<lparr>ar_enabled := enabled\<rparr>) (as_rules st)\<rparr>))"

text \<open>\<open>ON DELETE SET NULL\<close> on the alerts' \<open>rule_id\<close>.\<close>

definition DeleteRule :: "uuid \<Rightarrow> alert_state \<Rightarrow> (alert_error + unit) \<times> alert_state" where
  "DeleteRule i st =
     (if count_where (\<lambda>r. ar_id r = i) (as_rules st) = 0 then (Inl ErrAlertNotFound, st)
      else (Inr (), st\<lparr>as_rules := del_where (\<lambda>r. ar_id r = i) (as_rules st),
        as_alerts := upd_where (\<lambda>a. al_rule_id a = Some i) (\<lambda>a. a\<lparr>al_rule_id := None\<rparr>) (as_alerts st)\<rparr>))"

section \<open>Alerts\<close>

definition active :: "alert \<Rightarrow> bool" where
  "active a \<longleftrightarrow> al_state a = AlertStateOpen \<or> al_state a = AlertStateAcknowledged"

definition active_for :: "uuid \<Rightarrow> uuid \<Rightarrow> alert \<Rightarrow> bool" where
  "active_for deviceID ruleID a \<longleftrightarrow> al_device_id a = deviceID \<and> al_rule_id a = Some ruleID \<and> active a"

definition ListAlerts :: "uuid option \<Rightarrow> alert_status option \<Rightarrow> alert_state \<Rightarrow> alert list" where
  "ListAlerts deviceID state st =
     take 500 (sort_key (\<lambda>a. - al_opened_at a)
       (filter (\<lambda>a. (deviceID = None \<or> deviceID = Some (al_device_id a)) \<and> (state = None \<or> state = Some (al_state a))) (as_alerts st)))"

definition CountOpen :: "alert_state \<Rightarrow> nat" where
  "CountOpen st = count_where active (as_alerts st)"

text \<open>\<open>fresh\<close> gives the id that the database generates for a new row of a table.\<close>

definition OpenIfNotExists ::
  "time \<Rightarrow> (alert list \<Rightarrow> uuid) \<Rightarrow> uuid \<Rightarrow> uuid \<Rightarrow> alert_severity \<Rightarrow> string \<Rightarrow> alert_state \<Rightarrow> bool \<times> alert_state" where
  "OpenIfNotExists now fresh deviceID ruleID severity summary st =
     (case find_row (active_for deviceID ruleID) (as_alerts st) of
        Some _ \<Rightarrow> (False, st)
      | None \<Rightarrow> (True, st\<lparr>as_alerts := as_alerts st @ [\<lparr>al_id = fresh (as_alerts st), al_device_id = deviceID, al_rule_id = Some ruleID,
          al_severity = severity, al_state = AlertStateOpen, al_opened_at = now, al_resolved_at = None, al_summary = summary\<rparr>]\<rparr>))"

definition AutoResolveIfOpen :: "time \<Rightarrow> uuid \<Rightarrow> uuid \<Rightarrow> alert_state \<Rightarrow> bool \<times> alert_state" where
  "AutoResolveIfOpen now deviceID ruleID st =
     (count_where (active_for deviceID ruleID) (as_alerts st) > 0,
      st\<lparr>as_alerts := upd_where (active_for deviceID ruleID)
        (\<lambda>a. a\<lparr>al_state := AlertStateResolved, al_resolved_at := Some now\<rparr>) (as_alerts st)\<rparr>)"

definition Acknowledge :: "uuid \<Rightarrow> alert_state \<Rightarrow> (alert_error + unit) \<times> alert_state" where
  "Acknowledge i st =
     (let p = (\<lambda>a. al_id a = i \<and> al_state a = AlertStateOpen)
      in if count_where p (as_alerts st) = 0 then (Inl ErrAlertNotFound, st)
         else (Inr (), st\<lparr>as_alerts := upd_where p (\<lambda>a. a\<lparr>al_state := AlertStateAcknowledged\<rparr>) (as_alerts st)\<rparr>))"

definition ResolveAlert :: "time \<Rightarrow> uuid \<Rightarrow> alert_state \<Rightarrow> (alert_error + unit) \<times> alert_state" where
  "ResolveAlert now i st =
     (let p = (\<lambda>a. al_id a = i \<and> al_state a \<noteq> AlertStateResolved)
      in if count_where p (as_alerts st) = 0 then (Inl ErrAlertNotFound, st)
         else (Inr (), st\<lparr>as_alerts := upd_where p (\<lambda>a. a\<lparr>al_state := AlertStateResolved, al_resolved_at := Some now\<rparr>) (as_alerts st)\<rparr>))"

definition DeleteAlert :: "uuid \<Rightarrow> alert_state \<Rightarrow> (alert_error + unit) \<times> alert_state" where
  "DeleteAlert i st =
     (if count_where (\<lambda>a. al_id a = i) (as_alerts st) = 0 then (Inl ErrAlertNotFound, st)
      else (Inr (), st\<lparr>as_alerts := del_where (\<lambda>a. al_id a = i) (as_alerts st)\<rparr>))"

text \<open>The alerts of a deleted device go with it (\<open>ON DELETE CASCADE\<close>).\<close>

definition forget_alerts :: "uuid \<Rightarrow> alert_state \<Rightarrow> alert_state" where
  "forget_alerts d st = st\<lparr>as_alerts := del_where (\<lambda>a. al_device_id a = d) (as_alerts st)\<rparr>"

section \<open>Evaluation of a rule\<close>

definition scopedDevices :: "device list \<Rightarrow> alert_rule \<Rightarrow> device list" where
  "scopedDevices all rule =
     (case ar_scope_type rule of
        ScopeGlobal \<Rightarrow> all
      | ScopeCustomer \<Rightarrow> (case ar_scope_id rule of None \<Rightarrow> [] | Some i \<Rightarrow> filter (\<lambda>d. d_customer_id d = Some i) all)
      | ScopeGroup \<Rightarrow> (case ar_scope_id rule of None \<Rightarrow> [] | Some i \<Rightarrow> filter (\<lambda>d. d_group_id d = Some i) all)
      | ScopeDevice \<Rightarrow> (case ar_scope_id rule of None \<Rightarrow> [] | Some i \<Rightarrow>
          (case find_row (\<lambda>d. d_id d = i) all of None \<Rightarrow> [] | Some d \<Rightarrow> [d])))"

text \<open>What a rule reads besides the device: the metrics, whether the device is connected, and
  its answer to a list of services (\<open>None\<close>: no answer in time, or not a successful
  one).\<close>

record rule_input =
  ri_metrics :: metrics_db
  ri_online :: "uuid \<Rightarrow> bool"
  ri_services :: "uuid \<Rightarrow> (string \<times> string) list option"

definition metric_rule :: "alert_env \<Rightarrow> alert_rule \<Rightarrow> rule_input \<Rightarrow> device \<Rightarrow>
    (metrics_row \<Rightarrow> rat \<Rightarrow> alert_text option) \<Rightarrow> alert_error + (alert_severity \<times> alert_text) option" where
  "metric_rule env rule inp d check =
     (case ae_threshold env (ar_config rule) of
        None \<Rightarrow> Inl ErrRuleConfig
      | Some threshold \<Rightarrow>
          (case LatestMetrics (d_id d) (ri_metrics inp) of
             None \<Rightarrow> Inr None
           | Some latest \<Rightarrow> Inr (map_option (\<lambda>t. (Warning, t)) (check latest threshold))))"

fun disk_check :: "filesystem_usage list \<Rightarrow> rat \<Rightarrow> alert_text option" where
  "disk_check [] threshold = None"
| "disk_check (f # fs) threshold =
     (if fs_total_bytes f = 0 then disk_check fs threshold
      else if fs_percent f \<ge> threshold then Some (DiskText (fs_path f) (fs_percent f) threshold)
      else disk_check fs threshold)"

definition evaluateRule :: "alert_env \<Rightarrow> rule_input \<Rightarrow> alert_rule \<Rightarrow> device \<Rightarrow> alert_error + (alert_severity \<times> alert_text) option" where
  "evaluateRule env inp rule d =
     (case ar_rule_type rule of
        RuleOffline \<Rightarrow> Inr (if d_status d = StatusOffline then Some (Critical, OfflineText (d_display_name d)) else None)
      | RuleCPU \<Rightarrow> metric_rule env rule inp d (\<lambda>m t. if mt_cpu_percent m \<ge> t then Some (CpuText (mt_cpu_percent m) t) else None)
      | RuleRAM \<Rightarrow> metric_rule env rule inp d (\<lambda>m t.
          if mt_memory_total m = 0 then None
          else let pct = of_int (mt_memory_used m) / of_int (mt_memory_total m) * 100
               in if pct \<ge> t then Some (RamText pct t) else None)
      | RuleDisk \<Rightarrow> metric_rule env rule inp d (\<lambda>m t. disk_check (mt_filesystems m) t)
      | RuleAgentVersion \<Rightarrow>
          (case ae_minimum_version env (ar_config rule) of
             None \<Rightarrow> Inl ErrRuleConfig
           | Some v \<Rightarrow> Inr (if d_agent_version d \<noteq> [] \<and> IsOlderVersion (d_agent_version d) v
                            then Some (Warning, VersionText (d_agent_version d) v) else None))
      | RuleService \<Rightarrow>
          (case ae_service_name env (ar_config rule) of
             None \<Rightarrow> Inl ErrRuleConfig
           | Some name \<Rightarrow>
               if name = [] \<or> \<not> ri_online inp (d_id d) then Inr None
               else (case ri_services inp (d_id d) of
                       None \<Rightarrow> Inr None
                     | Some services \<Rightarrow>
                         (case find_row (\<lambda>s. fst s = name) services of
                            None \<Rightarrow> Inr (Some (Critical, ServiceMissingText name))
                          | Some s \<Rightarrow> Inr (if snd s \<noteq> ''running'' then Some (Critical, ServiceStatusText name (snd s)) else None))))
      | RuleUnknown _ \<Rightarrow> Inr None)"

section \<open>The sweep\<close>

definition severity_string :: "alert_severity \<Rightarrow> string" where
  "severity_string s = (case s of Warning \<Rightarrow> ''warning'' | Critical \<Rightarrow> ''critical'')"

fun rule_type_string :: "rule_type \<Rightarrow> string" where
  "rule_type_string RuleOffline = ''offline''"
| "rule_type_string RuleCPU = ''cpu''"
| "rule_type_string RuleRAM = ''ram''"
| "rule_type_string RuleDisk = ''disk''"
| "rule_type_string RuleService = ''service''"
| "rule_type_string RuleAgentVersion = ''agent_version''"
| "rule_type_string (RuleUnknown s) = s"

definition alert_audit :: "audit_event \<Rightarrow> alert_state \<Rightarrow> alert_state" where
  "alert_audit e st = st\<lparr>as_audit := as_audit st @ [e]\<rparr>"

definition notifyOpened :: "device \<Rightarrow> alert_severity \<Rightarrow> string \<Rightarrow> alert_state \<Rightarrow> alert_state" where
  "notifyOpened d severity summary st = st\<lparr>as_notified := as_notified st @ [(d_id d, severity, summary)]\<rparr>"

text \<open>The body of the inner loop of \<open>Evaluate\<close>; an error of the evaluation skips
  the device.\<close>

definition evaluate_one ::
  "alert_env \<Rightarrow> rule_input \<Rightarrow> time \<Rightarrow> (alert list \<Rightarrow> uuid) \<Rightarrow> alert_rule \<Rightarrow> device \<Rightarrow> alert_state \<Rightarrow> alert_state" where
  "evaluate_one env inp now fresh rule d st =
     (case evaluateRule env inp rule d of
        Inl _ \<Rightarrow> st
      | Inr (Some (severity, text)) \<Rightarrow>
          (case OpenIfNotExists now fresh (d_id d) (ar_id rule) severity (ae_text env text) st of
             (False, st1) \<Rightarrow> st1
           | (True, st1) \<Rightarrow> notifyOpened d severity (ae_text env text)
               (alert_audit (system_event ''alert.opened'' (Some (d_id d)) None
                  [(''rule_type'', MStr (rule_type_string (ar_rule_type rule))), (''severity'', MStr (severity_string severity)),
                   (''summary'', MStr (ae_text env text))]) st1))
      | Inr None \<Rightarrow>
          (case AutoResolveIfOpen now (d_id d) (ar_id rule) st of
             (False, st1) \<Rightarrow> st1
           | (True, st1) \<Rightarrow> alert_audit (system_event ''alert.resolved'' (Some (d_id d)) None
               [(''rule_type'', MStr (rule_type_string (ar_rule_type rule))), (''reason'', MStr ''condition_cleared'')]) st1))"

text \<open>Rules and devices are read once, before the loops.\<close>

definition EvaluateAlerts ::
  "alert_env \<Rightarrow> rule_input \<Rightarrow> time \<Rightarrow> (alert list \<Rightarrow> uuid) \<Rightarrow> device_db \<Rightarrow> alert_state \<Rightarrow> alert_state" where
  "EvaluateAlerts env inp now fresh db st =
     fold (\<lambda>rule st. if \<not> ar_enabled rule then st
                     else fold (evaluate_one env inp now fresh rule) (scopedDevices (ListAllDevices db) rule) st)
       (as_rules st) st"

datatype alert_event =
    ACreateRule uuid alert_rule
  | ASetRuleEnabled uuid bool
  | ADeleteRule uuid
  | AAcknowledge uuid
  | AResolve time uuid
  | ADelete uuid
  | ADeviceGone uuid
  | AEvaluate rule_input time "alert list \<Rightarrow> uuid" device_db

fun alert_step :: "alert_env \<Rightarrow> alert_event \<Rightarrow> alert_state \<Rightarrow> alert_state" where
  "alert_step env (ACreateRule i rl) st = snd (CreateRule i rl st)"
| "alert_step env (ASetRuleEnabled i b) st = snd (SetRuleEnabled i b st)"
| "alert_step env (ADeleteRule i) st = snd (DeleteRule i st)"
| "alert_step env (AAcknowledge i) st = snd (Acknowledge i st)"
| "alert_step env (AResolve now i) st = snd (ResolveAlert now i st)"
| "alert_step env (ADelete i) st = snd (DeleteAlert i st)"
| "alert_step env (ADeviceGone d) st = forget_alerts d st"
| "alert_step env (AEvaluate inp now fresh db) st = EvaluateAlerts env inp now fresh db st"

section \<open>At most one active alert\<close>

definition alerts_ok :: "alert_state \<Rightarrow> bool" where
  "alerts_ok st \<longleftrightarrow> distinct (map ar_id (as_rules st)) \<and> (\<forall>d r. count_where (active_for d r) (as_alerts st) \<le> 1)"

lemma count_upd_le:
  "(\<And>a. p a \<Longrightarrow> q (f a) \<Longrightarrow> q a) \<Longrightarrow> count_where q (upd_where p f rs) \<le> count_where q rs"
  by (simp, rule count_where_mono) (auto split: if_splits)

lemma count_del_le: "count_where q (del_where p rs) \<le> count_where q rs"
  by (induction rs) auto

lemma count_append: "count_where q (xs @ ys) = count_where q xs + count_where q ys"
  by (simp add: count_where_def)

lemma OpenIfNotExists_ok:
  assumes "alerts_ok st"
  shows "alerts_ok (snd (OpenIfNotExists now fresh d r s t st))"
proof (cases "find_row (active_for d r) (as_alerts st)")
  case None
  then have none: "count_where (active_for d r) (as_alerts st) = 0" by simp
  have "count_where (active_for d' r') (as_alerts (snd (OpenIfNotExists now fresh d r s t st))) \<le> 1" for d' r'
  proof (cases "d' = d \<and> r' = r")
    case True
    then show ?thesis using none None by (auto simp: OpenIfNotExists_def count_append simp del: find_row_None count_where_0)
  next
    case False
    then show ?thesis
      using assms None by (auto simp: OpenIfNotExists_def count_append active_for_def alerts_ok_def simp del: find_row_None)
  qed
  moreover have "as_rules (snd (OpenIfNotExists now fresh d r s t st)) = as_rules st"
    using None by (simp add: OpenIfNotExists_def del: find_row_None)
  ultimately show ?thesis using assms by (simp add: alerts_ok_def)
qed (simp add: OpenIfNotExists_def assms)

lemma alert_upd_ok:
  assumes "alerts_ok st" "\<And>a d r. p a \<Longrightarrow> active_for d r (f a) \<Longrightarrow> active_for d r a"
  shows "alerts_ok (st\<lparr>as_alerts := upd_where p f (as_alerts st)\<rparr>)"
proof -
  have "count_where (active_for d r) (upd_where p f (as_alerts st)) \<le> 1" for d r
    using assms count_upd_le [of p "active_for d r" f "as_alerts st"] by (meson alerts_ok_def order_trans)
  then show ?thesis using assms(1) by (simp add: alerts_ok_def del: count_where_upd)
qed

lemma AutoResolve_ok: "alerts_ok st \<Longrightarrow> alerts_ok (snd (AutoResolveIfOpen now d r st))"
  unfolding AutoResolveIfOpen_def snd_conv by (rule alert_upd_ok) (auto simp: active_for_def active_def)

lemma evaluate_one_ok: "alerts_ok st \<Longrightarrow> alerts_ok (evaluate_one env inp now fresh rule d st)"
proof -
  assume ok: "alerts_ok st"
  have frame: "alerts_ok (alert_audit e s) = alerts_ok s" "alerts_ok (notifyOpened d v t s) = alerts_ok s" for e v t s
    by (simp_all add: alerts_ok_def alert_audit_def notifyOpened_def)
  have o: "OpenIfNotExists now fresh i r v t st = (b, st1) \<Longrightarrow> alerts_ok st1" for i r v t b st1
    using OpenIfNotExists_ok [OF ok] by (metis snd_conv)
  have a: "AutoResolveIfOpen now i r st = (b, st1) \<Longrightarrow> alerts_ok st1" for i r b st1
    using AutoResolve_ok [OF ok] by (metis snd_conv)
  show ?thesis
    unfolding evaluate_one_def
    by (auto simp: frame ok split: sum.split option.split prod.split bool.split dest: o a)
qed

text \<open>The pairs of rule and device in the order of the two loops.\<close>

definition eval_pairs :: "alert_rule list \<Rightarrow> device list \<Rightarrow> (alert_rule \<times> device) list" where
  "eval_pairs rules ds = concat (map (\<lambda>r. map (Pair r) (scopedDevices ds r)) (filter ar_enabled rules))"

lemma EvaluateAlerts_pairs:
  "EvaluateAlerts env inp now fresh db st =
     fold (\<lambda>(r, d). evaluate_one env inp now fresh r d) (eval_pairs (as_rules st) (ListAllDevices db)) st"
proof -
  have inner: "fold (\<lambda>(r, d). evaluate_one env inp now fresh r d) (map (Pair r) ds) s = fold (evaluate_one env inp now fresh r) ds s" for r ds s
    by (induction ds arbitrary: s) simp_all
  have "fold (\<lambda>rule st. if \<not> ar_enabled rule then st
        else fold (evaluate_one env inp now fresh rule) (scopedDevices ds rule) st) rules s =
      fold (\<lambda>(r, d). evaluate_one env inp now fresh r d) (eval_pairs rules ds) s" for rules ds s
    by (induction rules arbitrary: s) (simp_all add: eval_pairs_def inner)
  then show ?thesis by (simp add: EvaluateAlerts_def)
qed

lemma EvaluateAlerts_ok: "alerts_ok st \<Longrightarrow> alerts_ok (EvaluateAlerts env inp now fresh db st)"
proof -
  have "alerts_ok s \<Longrightarrow> alerts_ok (fold (\<lambda>(r, d). evaluate_one env inp now fresh r d) ps s)" for ps s
    by (induction ps arbitrary: s) (auto simp: evaluate_one_ok)
  then show "alerts_ok st \<Longrightarrow> alerts_ok (EvaluateAlerts env inp now fresh db st)" by (simp add: EvaluateAlerts_pairs)
qed

lemma alert_ops_ok:
  assumes "alerts_ok st"
  shows "alerts_ok (snd (CreateRule i rl st))" "alerts_ok (snd (SetRuleEnabled i b st))" "alerts_ok (snd (DeleteRule i st))"
    "alerts_ok (snd (Acknowledge i st))" "alerts_ok (snd (ResolveAlert now i st))" "alerts_ok (snd (DeleteAlert i st))"
    "alerts_ok (forget_alerts d st)"
proof -
  show "alerts_ok (snd (CreateRule i rl st))"
    using assms insert_unique_distinct
    by (fastforce simp: CreateRule_def Let_def alerts_ok_def split: option.split)
  show "alerts_ok (snd (SetRuleEnabled i b st))" using assms by (simp add: SetRuleEnabled_def alerts_ok_def)
  have "alerts_ok (st\<lparr>as_alerts := upd_where (\<lambda>a. al_rule_id a = Some i) (\<lambda>a. a\<lparr>al_rule_id := None\<rparr>) (as_alerts st)\<rparr>)"
    by (rule alert_upd_ok [OF assms]) (simp add: active_for_def)
  then show "alerts_ok (snd (DeleteRule i st))"
    using assms by (auto simp: DeleteRule_def alerts_ok_def distinct_del_where)
  show "alerts_ok (snd (Acknowledge i st))"
    unfolding Acknowledge_def Let_def using assms by (auto intro!: alert_upd_ok simp: active_for_def active_def)
  show "alerts_ok (snd (ResolveAlert now i st))"
    unfolding ResolveAlert_def Let_def using assms by (auto intro!: alert_upd_ok simp: active_for_def active_def)
  have "count_where (active_for d r) (del_where p (as_alerts st)) \<le> 1" for d r p
    using assms count_del_le [of "active_for d r" p "as_alerts st"] by (meson alerts_ok_def order_trans)
  then show "alerts_ok (snd (DeleteAlert i st))" "alerts_ok (forget_alerts d st)"
    using assms by (simp_all add: DeleteAlert_def forget_alerts_def alerts_ok_def)
qed

interpretation alerts: invariant "alert_step env" alerts_ok for env
proof
  fix st e assume "alerts_ok st"
  then show "alerts_ok (alert_step env e st)" by (cases e) (simp_all add: alert_ops_ok EvaluateAlerts_ok)
qed

section \<open>What a sweep establishes\<close>

definition has_active :: "uuid \<Rightarrow> uuid \<Rightarrow> alert_state \<Rightarrow> bool" where
  "has_active d r st \<longleftrightarrow> list_ex (active_for d r) (as_alerts st)"

text \<open>The state of a pair after its evaluation.\<close>

definition mirrors :: "alert_env \<Rightarrow> rule_input \<Rightarrow> alert_rule \<Rightarrow> device \<Rightarrow> alert_state \<Rightarrow> bool" where
  "mirrors env inp rule d st \<longleftrightarrow>
     (case evaluateRule env inp rule d of Inl _ \<Rightarrow> True | Inr v \<Rightarrow> has_active (d_id d) (ar_id rule) st \<longleftrightarrow> v \<noteq> None)"

lemma has_active_frame [simp]: "has_active d r (alert_audit e s) = has_active d r s" "has_active d r (notifyOpened x v t s) = has_active d r s"
  by (simp_all add: has_active_def alert_audit_def notifyOpened_def)

lemma OpenIfNotExists_active:
  "OpenIfNotExists now fresh d r s t st = (b, st') \<Longrightarrow> has_active d' r' st' \<longleftrightarrow> has_active d' r' st \<or> (d' = d \<and> r' = r)"
  by (cases "find_row (active_for d r) (as_alerts st)")
    (auto simp: OpenIfNotExists_def has_active_def list_ex_iff active_for_def active_def simp del: find_row_None
      dest!: find_row_SomeD)

lemma AutoResolve_active:
  assumes "AutoResolveIfOpen now d r st = (b, st')"
  shows "has_active d' r' st' \<longleftrightarrow> has_active d' r' st \<and> \<not> (d' = d \<and> r' = r)"
proof -
  have "list_ex (active_for d' r') (upd_where (active_for d r) (\<lambda>a. a\<lparr>al_state := AlertStateResolved, al_resolved_at := Some now\<rparr>) as) \<longleftrightarrow>
      list_ex (active_for d' r') as \<and> \<not> (d' = d \<and> r' = r)" for as
  proof (induction as)
    case (Cons a as)
    have "\<not> active_for d' r' (a\<lparr>al_state := AlertStateResolved, al_resolved_at := Some now\<rparr>)"
      by (simp add: active_for_def active_def)
    moreover have "active_for d r a \<Longrightarrow> active_for d' r' a \<longleftrightarrow> d' = d \<and> r' = r" by (auto simp: active_for_def)
    ultimately show ?case using Cons.IH by (cases "active_for d r a") auto
  qed simp
  moreover have "as_alerts st' = upd_where (active_for d r)
      (\<lambda>a. a\<lparr>al_state := AlertStateResolved, al_resolved_at := Some now\<rparr>) (as_alerts st)"
    using assms by (auto simp: AutoResolveIfOpen_def)
  ultimately show ?thesis unfolding has_active_def by (simp only:)
qed

lemma evaluate_one_active:
  "has_active d' r' (evaluate_one env inp now fresh rule d st) \<longleftrightarrow>
     (if d' = d_id d \<and> r' = ar_id rule
      then (case evaluateRule env inp rule d of Inl _ \<Rightarrow> has_active d' r' st | Inr v \<Rightarrow> v \<noteq> None)
      else has_active d' r' st)"
proof (cases "evaluateRule env inp rule d")
  case (Inr v)
  show ?thesis
  proof (cases v)
    case None
    obtain b st1 where r: "AutoResolveIfOpen now (d_id d) (ar_id rule) st = (b, st1)" by fastforce
    have "has_active d' r' (evaluate_one env inp now fresh rule d st) = has_active d' r' st1"
      by (cases b) (simp_all add: evaluate_one_def Inr None r)
    then show ?thesis by (simp add: AutoResolve_active [OF r] Inr None)
  next
    case (Some sv)
    obtain s t where sv: "sv = (s, t)" by fastforce
    obtain b st1 where r: "OpenIfNotExists now fresh (d_id d) (ar_id rule) s (ae_text env t) st = (b, st1)" by fastforce
    have "has_active d' r' (evaluate_one env inp now fresh rule d st) = has_active d' r' st1"
      by (cases b) (simp_all add: evaluate_one_def Inr Some sv r)
    then show ?thesis by (auto simp: OpenIfNotExists_active [OF r] Inr Some)
  qed
qed (simp add: evaluate_one_def)

lemma upd_where_none: "\<forall>r \<in> set rs. \<not> p r \<Longrightarrow> upd_where p f rs = rs"
  by (induction rs) auto

lemma evaluate_one_idle:
  assumes "mirrors env inp rule d st"
  shows "evaluate_one env inp now fresh rule d st = st"
proof (cases "evaluateRule env inp rule d")
  case (Inr v)
  show ?thesis
  proof (cases v)
    case None
    then have "\<not> has_active (d_id d) (ar_id rule) st" using assms by (simp add: mirrors_def Inr)
    then have "upd_where (active_for (d_id d) (ar_id rule)) f (as_alerts st) = as_alerts st" for f
      by (intro upd_where_none) (simp add: has_active_def list_ex_iff)
    moreover have "count_where (active_for (d_id d) (ar_id rule)) (as_alerts st) = 0"
      using \<open>\<not> has_active (d_id d) (ar_id rule) st\<close> by (auto simp: has_active_def list_ex_iff)
    ultimately have "AutoResolveIfOpen now (d_id d) (ar_id rule) st = (False, st)" by (simp add: AutoResolveIfOpen_def)
    then show ?thesis by (simp add: evaluate_one_def Inr None)
  next
    case (Some sv)
    have "has_active (d_id d) (ar_id rule) st" using assms by (simp add: mirrors_def Inr Some)
    then obtain a where "find_row (active_for (d_id d) (ar_id rule)) (as_alerts st) = Some a"
      by (cases "find_row (active_for (d_id d) (ar_id rule)) (as_alerts st)") (auto simp: has_active_def list_ex_iff)
    then have "OpenIfNotExists now fresh (d_id d) (ar_id rule) v t st = (False, st)" for v t by (simp add: OpenIfNotExists_def)
    then show ?thesis by (cases sv) (simp add: evaluate_one_def Inr Some)
  qed
qed (simp add: evaluate_one_def)

abbreviation pair_key :: "alert_rule \<times> device \<Rightarrow> uuid \<times> uuid" where
  "pair_key p \<equiv> (d_id (snd p), ar_id (fst p))"

lemma scopedDevices_distinct: "distinct (map d_id ds) \<Longrightarrow> distinct (map d_id (scopedDevices ds r))"
  by (auto simp: scopedDevices_def distinct_map_filter simp del: find_row_None split: rule_scope.splits option.splits)

lemma eval_pairs_in: "(r, d) \<in> set (eval_pairs rules ds) \<longleftrightarrow> r \<in> set rules \<and> ar_enabled r \<and> d \<in> set (scopedDevices ds r)"
  by (auto simp: eval_pairs_def)

lemma eval_pairs_distinct:
  assumes "distinct (map ar_id rules)" "distinct (map d_id ds)"
  shows "distinct (map pair_key (eval_pairs rules ds))"
  using assms(1)
proof (induction rules)
  case (Cons r rules)
  have "distinct (map (\<lambda>d. (d_id d, ar_id r)) (scopedDevices ds r))"
    using scopedDevices_distinct [OF assms(2), of r] by (auto simp: distinct_map inj_on_def)
  moreover have "ar_id (fst p) \<noteq> ar_id r" if "p \<in> set (eval_pairs rules ds)" for p
    using that Cons.prems eval_pairs_in [of "fst p" "snd p" rules ds] by (auto simp: image_iff)
  moreover have "eval_pairs (r # rules) ds = (if ar_enabled r then map (Pair r) (scopedDevices ds r) else []) @ eval_pairs rules ds"
    by (simp add: eval_pairs_def)
  ultimately show ?case using Cons.IH Cons.prems by (fastforce simp: o_def)
qed (simp add: eval_pairs_def)

lemma mirrors_after: "mirrors env inp r d (evaluate_one env inp now fresh r d st)"
  by (auto simp: mirrors_def evaluate_one_active split: sum.split)

lemma mirrors_other:
  "pair_key (r', d') \<noteq> pair_key (r, d) \<Longrightarrow> mirrors env inp r d (evaluate_one env inp now fresh r' d' st) \<longleftrightarrow> mirrors env inp r d st"
  by (auto simp: mirrors_def evaluate_one_active split: sum.split)

lemma fold_mirrors_other:
  "pair_key (r, d) \<notin> pair_key ` set ps \<Longrightarrow>
   mirrors env inp r d (fold (\<lambda>(r, d). evaluate_one env inp now fresh r d) ps st) \<longleftrightarrow> mirrors env inp r d st"
proof (induction ps arbitrary: st)
  case (Cons p ps)
  then have "pair_key p \<noteq> pair_key (r, d)" by auto
  then show ?case using Cons mirrors_other [of "fst p" "snd p" r d] by (auto simp: case_prod_beta)
qed simp

lemma fold_mirrors:
  assumes "distinct (map pair_key ps)" "(r, d) \<in> set ps"
  shows "mirrors env inp r d (fold (\<lambda>(r, d). evaluate_one env inp now fresh r d) ps st)"
  using assms
proof (induction ps arbitrary: st)
  case (Cons p ps)
  show ?case
  proof (cases "p = (r, d)")
    case True
    have "pair_key (r, d) \<notin> pair_key ` set ps" using Cons.prems(1) True by auto
    then show ?thesis using fold_mirrors_other [of r d ps] mirrors_after by (simp add: True)
  next
    case False
    then show ?thesis using Cons by (simp add: case_prod_beta)
  qed
qed simp

lemma fold_idle:
  assumes "\<And>r d. (r, d) \<in> set ps \<Longrightarrow> mirrors env inp r d st"
  shows "fold (\<lambda>(r, d). evaluate_one env inp now fresh r d) ps st = st"
  using assms by (induction ps) (auto simp: evaluate_one_idle)

lemma evaluate_rules [simp]: "as_rules (EvaluateAlerts env inp now fresh db st) = as_rules st"
proof -
  have one: "as_rules (evaluate_one env inp now fresh r d s) = as_rules s" for r d s
    by (simp add: evaluate_one_def OpenIfNotExists_def AutoResolveIfOpen_def alert_audit_def notifyOpened_def
        split: sum.split option.split prod.split bool.split)
  have "as_rules (fold (\<lambda>(r, d). evaluate_one env inp now fresh r d) ps s) = as_rules s" for ps s
    by (induction ps arbitrary: s) (auto simp: one)
  then show ?thesis by (simp add: EvaluateAlerts_pairs)
qed

lemma ListAllDevices_distinct: "registry_ok db \<Longrightarrow> distinct (map d_id (ListAllDevices db))"
  by (auto simp: ListAllDevices_def registry_ok_def distinct_map inj_on_def)

section \<open>Properties\<close>

definition no_alerts :: alert_state where
  "no_alerts = \<lparr>as_rules = [], as_alerts = [], as_audit = [], as_notified = []\<rparr>"

text \<open>A condition that keeps triggering does not pile up alerts: in every sequence of
  sweeps and administrative actions, a device has at most one alert of a rule that is open or
  acknowledged.\<close>

theorem one_active_alert:
  "count_where (active_for d r) (as_alerts (run (alert_step env) es no_alerts)) \<le> 1"
proof -
  have "alerts_ok (run (alert_step env) es no_alerts)"
    by (rule alerts.run_keeps) (simp add: alerts_ok_def no_alerts_def)
  then show ?thesis by (simp add: alerts_ok_def)
qed


definition demo_rule :: alert_rule where
  "demo_rule = \<lparr>ar_id = 7, ar_scope_type = ScopeGlobal, ar_scope_id = None, ar_rule_type = RuleService, ar_config = [], ar_enabled = True\<rparr>"

definition demo_alert_env :: alert_env where
  "demo_alert_env = \<lparr>ae_threshold = (\<lambda>_. Some 90), ae_minimum_version = (\<lambda>_. Some []), ae_service_name = (\<lambda>_. Some ''sshd''),
     ae_text = (\<lambda>_. ''text'')\<rparr>"

definition demo_input :: "bool \<Rightarrow> rule_input" where
  "demo_input online = \<lparr>ri_metrics = demo_metrics, ri_online = (\<lambda>_. online), ri_services = (\<lambda>_. Some [(''sshd'', ''stopped'')])\<rparr>"

definition demo_rules :: alert_state where
  "demo_rules = no_alerts\<lparr>as_rules := [demo_rule]\<rparr>"

definition demo_swept :: alert_state where
  "demo_swept = EvaluateAlerts demo_alert_env (demo_input True) 10 (\<lambda>_. 1) demo_hub_devices demo_rules"

lemma demo_alerts_ok: "alerts_ok demo_rules" "registry_ok demo_hub_devices"
  by (simp_all add: alerts_ok_def demo_rules_def no_alerts_def registry_ok_def demo_hub_devices_def demo_device_def)

lemma demo_scoped: "demo_rule \<in> set (as_rules demo_rules)" "ar_enabled demo_rule"
  "demo_device 1 ''a'' \<in> set (scopedDevices (ListAllDevices demo_hub_devices) demo_rule)"
  by (simp_all add: demo_rules_def demo_rule_def scopedDevices_def ListAllDevices_def demo_hub_devices_def demo_device_def)


text \<open>Connectivity does change the state of a service alert. A sweep during which the
  device is not connected resolves every active alert of an enabled service rule for it.\<close>

theorem disconnect_resolves_service_alert:
  assumes "alerts_ok st" "registry_ok db" "rule \<in> set (as_rules st)" "ar_enabled rule" "ar_rule_type rule = RuleService"
    "ae_service_name env (ar_config rule) = Some name" "d \<in> set (scopedDevices (ListAllDevices db) rule)" "\<not> ri_online inp (d_id d)"
  shows "\<not> has_active (d_id d) (ar_id rule) (EvaluateAlerts env inp now fresh db st)"
proof -
  have "evaluateRule env inp rule d = Inr None" using assms(5,6,8) by (simp add: evaluateRule_def)
  then have "mirrors env inp rule d (EvaluateAlerts env inp now fresh db st) \<Longrightarrow> ?thesis" by (simp add: mirrors_def)
  moreover have "distinct (map pair_key (eval_pairs (as_rules st) (ListAllDevices db)))"
    using assms eval_pairs_distinct ListAllDevices_distinct by (simp add: alerts_ok_def)
  ultimately show ?thesis
    unfolding EvaluateAlerts_pairs using fold_mirrors assms(3,4,7) by (simp add: eval_pairs_in)
qed

theorem disconnect_resolves_service_alert_witness:
  "has_active 1 7 demo_swept \<and>
   \<not> has_active 1 7 (EvaluateAlerts demo_alert_env (demo_input False) 20 (\<lambda>_. 2) demo_hub_devices demo_swept)"
proof -
  have ok: "alerts_ok demo_swept" unfolding demo_swept_def by (rule EvaluateAlerts_ok [OF demo_alerts_ok(1)])
  have r: "demo_rule \<in> set (as_rules demo_swept)" using demo_scoped(1) by (simp add: demo_swept_def)
  have h: "has_active 1 7 demo_swept"
    by (simp add: demo_swept_def EvaluateAlerts_def evaluate_one_active demo_rules_def demo_rule_def evaluateRule_def scopedDevices_def
        ListAllDevices_def demo_hub_devices_def demo_device_def demo_alert_env_def demo_input_def)
  show ?thesis
    using disconnect_resolves_service_alert [OF ok demo_alerts_ok(2) r demo_scoped(2) _ _ demo_scoped(3),
        where env = demo_alert_env and inp = "demo_input False" and name = "''sshd''"] h
    by (simp add: demo_rule_def demo_alert_env_def demo_input_def demo_device_def)
qed

text \<open>The offline rule misses devices that fall silent. When the sweeper of the control
  channel has disconnected a silent device and the handler of its connection has finished, the
  offline rule does not hold for the device, however often the control channel is swept, so that a
  sweep of the alerts resolves rather than opens an alert.\<close>

theorem offline_rule_misses_silent_device:
  assumes ok: "hub_ok hs" and conn: "getConn i hs = Some c"
    and dev: "GetDevice i (h_devices hs) = Inr d0" "d_last_seen_at d0 = Some t" "d_status d0 \<noteq> StatusOffline"
    and silent: "now - t \<ge> tm_offline_after (he_timing henv)"
    and hs': "hs' = run (hub_step henv) (map HSweep later) (ServeAgentWS_end now' c (sweep_device henv now i hs))"
    and alerts: "alerts_ok st" "registry_ok (h_devices hs')" "rule \<in> set (as_rules st)" "ar_enabled rule" "ar_rule_type rule = RuleOffline"
    and d: "d \<in> set (scopedDevices (ListAllDevices (h_devices hs')) rule)" "d_id d = i" "GetDevice i (h_devices hs') = Inr d"
  shows "\<not> has_active i (ar_id rule) (EvaluateAlerts env inp now'' fresh (h_devices hs') st)"
proof -
  define hs1 where "hs1 = sweep_device henv now i hs"
  have s1: "hs1 = evaluate_health henv now i (closeConn i (on_devices (UpdateStatusOnly i StatusOffline) hs))"
    using dev silent by (simp add: hs1_def sweep_device_def)
  have gone: "getConn i hs1 = None" by (simp add: s1 closeConn_getConn)
  have "hub_ok (on_devices (UpdateStatusOnly i StatusOffline) hs)" using ok by (simp add: hub_ok_def)
  then obtain k where k: "the_conn c hs1 = Some k" "cn_device_id k = i"
    using closed_conn [of "on_devices (UpdateStatusOnly i StatusOffline) hs" i c] conn by (auto simp: s1)
  have s2: "status_of i (h_devices (ServeAgentWS_end now' c hs1)) \<noteq> Some StatusOffline" "getConn i (ServeAgentWS_end now' c hs1) = None"
    using ServeAgentWS_end_effect(1,3) [OF k, where now = now'] gone by (simp_all split: option.split)
  have "status_of i (h_devices s) \<noteq> Some StatusOffline \<Longrightarrow> getConn i s = None \<Longrightarrow>
      status_of i (h_devices (run (hub_step henv) (map HSweep later) s)) \<noteq> Some StatusOffline" for s
    by (induction later arbitrary: s) (simp_all add: sweep_unconnected)
  then have "status_of i (h_devices hs') \<noteq> Some StatusOffline" using s2 by (simp add: hs' hs1_def)
  then have "d_status d \<noteq> StatusOffline" using GetDevice_status [OF d(3)] by simp
  then have e: "evaluateRule env inp rule d = Inr None" using alerts(5) by (simp add: evaluateRule_def)
  have "distinct (map pair_key (eval_pairs (as_rules st) (ListAllDevices (h_devices hs'))))"
    using alerts eval_pairs_distinct ListAllDevices_distinct by (simp add: alerts_ok_def)
  then have "mirrors env inp rule d (EvaluateAlerts env inp now'' fresh (h_devices hs') st)"
    unfolding EvaluateAlerts_pairs using fold_mirrors alerts(3,4) d(1) by (simp add: eval_pairs_in)
  then show ?thesis using e d(2) by (simp add: mirrors_def)
qed

definition demo_silent :: hub_state where
  "demo_silent = run (hub_step demo_hub_env) (map HSweep [500]) (ServeAgentWS_end 401 0 (sweep_device demo_hub_env 400 1 demo_connected))"

lemma demo_silent_registry: "registry_ok (h_devices demo_silent)"
proof -
  have "registry_ok (h_devices demo_hub)"
    using demo_alerts_ok(2) by (simp add: demo_hub_def init_hub_def)
  then have "registry_ok (h_devices demo_connected)"
    unfolding demo_connected_def by (rule hub_registry.run_keeps)
  then have "registry_ok (h_devices (sweep_device demo_hub_env 400 1 demo_connected))"
    by (rule via_keeps [OF registry.invariant_axioms _ sweep_device_via])
  then have "registry_ok (h_devices (hub_step demo_hub_env (HEnd 401 0) (sweep_device demo_hub_env 400 1 demo_connected)))"
    by (rule hub_registry.step_keeps)
  then have "registry_ok (h_devices (ServeAgentWS_end 401 0 (sweep_device demo_hub_env 400 1 demo_connected)))" by simp
  then show ?thesis unfolding demo_silent_def by (rule hub_registry.run_keeps)
qed

theorem offline_rule_misses_silent_device_witness:
  "\<not> has_active 1 7 (EvaluateAlerts demo_alert_env (demo_input False) 600 (\<lambda>_. 2) (h_devices demo_silent)
     (no_alerts\<lparr>as_rules := [demo_rule\<lparr>ar_rule_type := RuleOffline\<rparr>]\<rparr>))"
proof -
  let ?rule = "demo_rule\<lparr>ar_rule_type := RuleOffline\<rparr>" and ?st = "no_alerts\<lparr>as_rules := [demo_rule\<lparr>ar_rule_type := RuleOffline\<rparr>]\<rparr>"
  obtain d0 where d0: "GetDevice 1 (h_devices demo_connected) = Inr d0" "d_last_seen_at d0 = Some 10" "d_status d0 \<noteq> StatusOffline"
    using demo_device_row by auto
  have silent: "400 - 10 \<ge> tm_offline_after (he_timing demo_hub_env)" by (simp add: demo_hub_env_def)
  have "status_of 1 (h_devices demo_silent) = Some StatusConnectionLost" by code_simp
  then obtain d where d: "GetDevice 1 (h_devices demo_silent) = Inr d" "d_status d = StatusConnectionLost" by (auto simp: status_GetDevice)
  have "d \<in> set (devices (h_devices demo_silent))"
    using d(1) find_row_SomeD by (fastforce simp: GetDevice_def simp del: find_row_None split: option.splits)
  then have s: "d \<in> set (scopedDevices (ListAllDevices (h_devices demo_silent)) ?rule)"
    using d(2) by (simp add: scopedDevices_def ListAllDevices_def demo_rule_def)
  have st: "alerts_ok ?st" "?rule \<in> set (as_rules ?st)" "ar_enabled ?rule" "ar_rule_type ?rule = RuleOffline"
    by (simp_all add: alerts_ok_def no_alerts_def demo_rule_def)
  have "ar_id ?rule = 7" by (simp add: demo_rule_def)
  then show ?thesis
    using offline_rule_misses_silent_device [OF demo_connected_ok demo_conn d0 silent demo_silent_def st(1) demo_silent_registry st(2-4) s GetDevice_id [OF d(1)] d(1)]
    by simp
qed

end
