(* ===== verification/Net_Util.thy ===== *)
theory Net_Util
  imports Go_Strings
begin

text \<open>
  The address from which a request comes (\<open>internal/netutil/netutil.go\<close>), and what it
  uses of Go's \<open>net\<close> and \<open>net/netip\<close>: host and port, addresses and
  prefixes. Reading the text form of an IPv6 address is given from outside.
\<close>

unbundle bit_operations_syntax

section \<open>Addresses and prefixes\<close>

text \<open>An IPv6 address carries its zone, which is empty for most addresses.\<close>

datatype addr = V4 "32 word" | V6 "128 word" string

record prefix =
  px_addr :: addr
  px_bits :: nat

record net_env =
  parse_v6 :: "string \<Rightarrow> (128 word \<times> string) option"

fun BitLen :: "addr \<Rightarrow> nat" where
  "BitLen (V4 a) = 32"
| "BitLen (V6 a z) = 128"

fun without_zone :: "addr \<Rightarrow> addr" where
  "without_zone (V4 a) = V4 a"
| "without_zone (V6 a z) = V6 a []"

fun has_zone :: "addr \<Rightarrow> bool" where
  "has_zone (V4 a) = False"
| "has_zone (V6 a z) = (z \<noteq> [])"

text \<open>One field of a dotted address: one to three digits without a leading zero, at
  most 255.\<close>

definition parse_octet :: "string \<Rightarrow> nat option" where
  "parse_octet s =
     (if s \<noteq> [] \<and> length s \<le> 3 \<and> list_all is_digit s \<and> (length s > 1 \<longrightarrow> hd s \<noteq> CHR ''0'') \<and> digits_val s \<le> 255
      then Some (digits_val s) else None)"

definition parse_v4 :: "string \<Rightarrow> 32 word option" where
  "parse_v4 s =
     (case map parse_octet (split_on (CHR ''.'') s) of
        [Some a, Some b, Some c, Some d] \<Rightarrow> Some (word_of_nat (((a * 256 + b) * 256 + c) * 256 + d))
      | _ \<Rightarrow> None)"

definition ParseAddr :: "'a net_env_scheme \<Rightarrow> string \<Rightarrow> addr option" where
  "ParseAddr env s =
     (case List.find (\<lambda>c. c \<in> {CHR ''.'', CHR '':'', CHR ''%''}) s of
        None \<Rightarrow> None
      | Some c \<Rightarrow>
          if c = CHR ''.'' then map_option V4 (parse_v4 s)
          else if c = CHR '':'' then map_option (\<lambda>(a, z). V6 a z) (parse_v6 env s)
          else None)"

text \<open>The text before and after the last occurrence of a byte.\<close>

definition split_last :: "char \<Rightarrow> string \<Rightarrow> (string \<times> string) option" where
  "split_last c s =
     (if c \<in> set s
      then Some (rev (tl (dropWhile (\<lambda>x. x \<noteq> c) (rev s))), rev (takeWhile (\<lambda>x. x \<noteq> c) (rev s)))
      else None)"

definition ParsePrefix :: "'a net_env_scheme \<Rightarrow> string \<Rightarrow> prefix option" where
  "ParsePrefix env s =
     (case split_last (CHR ''/'') s of
        None \<Rightarrow> None
      | Some (ip, bits) \<Rightarrow>
          (case ParseAddr env ip of
             None \<Rightarrow> None
           | Some a \<Rightarrow>
               if has_zone a then None
               else if length bits > 1 \<and> \<not> (is_digit (hd bits) \<and> hd bits \<noteq> CHR ''0'') then None
               else (case atoi bits of
                       None \<Rightarrow> None
                     | Some n \<Rightarrow> if n < 0 \<or> n > int (BitLen a) then None
                                 else Some \<lparr>px_addr = a, px_bits = nat n\<rparr>)))"

fun prefix_contains :: "prefix \<Rightarrow> addr \<Rightarrow> bool" where
  "prefix_contains p (V4 a) =
     (case px_addr p of V4 b \<Rightarrow> drop_bit (32 - px_bits p) (a XOR b) = 0 | V6 _ _ \<Rightarrow> False)"
| "prefix_contains p (V6 a z) =
     (if z \<noteq> [] then False
      else case px_addr p of V4 _ \<Rightarrow> False | V6 b _ \<Rightarrow> drop_bit (128 - px_bits p) (a XOR b) = 0)"

section \<open>Trusted proxies\<close>

type_synonym trusted_proxies = "prefix list"

definition parsePrefixOrAddr :: "'a net_env_scheme \<Rightarrow> string \<Rightarrow> prefix option" where
  "parsePrefixOrAddr env s =
     (case ParsePrefix env s of
        Some p \<Rightarrow> Some p
      | None \<Rightarrow> map_option (\<lambda>a. \<lparr>px_addr = without_zone a, px_bits = BitLen a\<rparr>) (ParseAddr env s))"

fun ParseTrustedProxies :: "'a net_env_scheme \<Rightarrow> string list \<Rightarrow> trusted_proxies option" where
  "ParseTrustedProxies env [] = Some []"
| "ParseTrustedProxies env (e # es) =
     (case parsePrefixOrAddr env (trim_space e) of
        None \<Rightarrow> None
      | Some p \<Rightarrow> map_option (Cons p) (ParseTrustedProxies env es))"

definition proxy_contains :: "'a net_env_scheme \<Rightarrow> trusted_proxies \<Rightarrow> string \<Rightarrow> bool" where
  "proxy_contains env tp host =
     (case ParseAddr env host of None \<Rightarrow> False | Some a \<Rightarrow> list_ex (\<lambda>p. prefix_contains p a) tp)"

text \<open>\<open>net.SplitHostPort\<close>; \<open>None\<close> is one of its errors.\<close>

definition SplitHostPort :: "string \<Rightarrow> (string \<times> string) option" where
  "SplitHostPort hp =
     (case split_last (CHR '':'') hp of
        None \<Rightarrow> None
      | Some (before, port) \<Rightarrow>
          if hd hp = CHR ''[''
          then (let host = takeWhile (\<lambda>c. c \<noteq> CHR '']'') (tl hp)
                in if before \<noteq> CHR ''['' # host @ '']'' \<or> CHR ''['' \<in> set (tl hp) \<or> CHR '']'' \<in> set port then None
                   else Some (host, port))
          else if CHR '':'' \<in> set before \<or> CHR ''['' \<in> set hp \<or> CHR '']'' \<in> set hp then None
          else Some (before, port))"

definition ClientIP :: "'a net_env_scheme \<Rightarrow> string \<Rightarrow> string \<Rightarrow> trusted_proxies \<Rightarrow> string" where
  "ClientIP env remoteAddr xForwardedFor trusted =
     (let host = (case SplitHostPort remoteAddr of None \<Rightarrow> remoteAddr | Some (h, _) \<Rightarrow> h);
          first = trim_space (hd (split_on (CHR '','') xForwardedFor))
      in if proxy_contains env trusted host \<and> xForwardedFor \<noteq> [] \<and> first \<noteq> [] then first else host)"

section \<open>IPv4 text\<close>

definition show_v4 :: "32 word \<Rightarrow> string" where
  "show_v4 a = (let n = unat a in join_with (CHR ''.'')
     [show_nat (n div 16777216), show_nat (n div 65536 mod 256), show_nat (n div 256 mod 256), show_nat (n mod 256)])"

lemma length_show_nat_le: "n < 10 ^ k \<Longrightarrow> 0 < k \<Longrightarrow> length (show_nat n) \<le> k"
proof (induction n arbitrary: k rule: show_nat.induct)
  case (1 n)
  show ?case
  proof (cases "n < 10")
    case False
    with "1.prems" obtain j where j: "k = Suc j" "0 < j" by (cases k; cases "k - 1") auto
    with "1.prems" have "n div 10 < 10 ^ j" by (simp add: div_less_iff_less_mult mult.commute)
    with "1.IH" [OF False this j(2)] False j(1) show ?thesis by (subst show_nat.simps) simp
  qed (use "1.prems" in \<open>subst show_nat.simps, simp\<close>)
qed

lemma hd_show_nat: "0 < n \<Longrightarrow> hd (show_nat n) \<noteq> CHR ''0''"
proof (induction n rule: show_nat.induct)
  case (1 n)
  show ?case
  proof (cases "n < 10")
    case True
    have "digit_char n \<noteq> CHR ''0''"
    proof
      assume "digit_char n = CHR ''0''"
      then have "digit_val (digit_char n) = digit_val (CHR ''0'')" by (rule arg_cong)
      with True "1.prems" show False by (simp add: digit_val_def digit_char_def)
    qed
    with True show ?thesis by (subst show_nat.simps) simp
  next
    case False
    with "1.IH" have "hd (show_nat (n div 10)) \<noteq> CHR ''0''" by simp
    with False show ?thesis by (subst show_nat.simps) simp
  qed
qed

lemma parse_octet_show: "n < 256 \<Longrightarrow> parse_octet (show_nat n) = Some n"
proof -
  assume n: "n < 256"
  have "length (show_nat n) \<le> 3" by (rule length_show_nat_le) (use n in simp_all)
  moreover have "length (show_nat n) > 1 \<Longrightarrow> hd (show_nat n) \<noteq> CHR ''0''"
    by (cases "n = 0") (simp_all add: hd_show_nat show_nat.simps [of 0])
  ultimately show ?thesis using n show_nat_digits [of n] by (auto simp: parse_octet_def)
qed

lemma split_v4: "split_on (CHR ''.'') (show_v4 a) =
    [show_nat (unat a div 16777216), show_nat (unat a div 65536 mod 256), show_nat (unat a div 256 mod 256), show_nat (unat a mod 256)]"
  unfolding show_v4_def Let_def
  using digit_not_in_show_nat [of "CHR ''.''"] by (intro split_on_join) (auto simp: is_digit_def)

lemma v4_octets: "((n div 16777216 * 256 + n div 65536 mod 256) * 256 + n div 256 mod 256) * 256 + n mod 256 = (n :: nat)"
proof -
  have "n div 16777216 = n div 65536 div 256" "n div 65536 = n div 256 div 256" by (simp_all add: div_mult2_eq [symmetric])
  then show ?thesis by (metis div_mult_mod_eq)
qed

lemma parse_show_v4: "parse_v4 (show_v4 a) = Some a"
proof -
  have "unat a < 2 ^ 32" using unsigned_less [of a] by simp
  then have "unat a div 16777216 < 256" by (simp add: div_less_iff_less_mult)
  then have "map parse_octet (split_on (CHR ''.'') (show_v4 a)) =
      [Some (unat a div 16777216), Some (unat a div 65536 mod 256), Some (unat a div 256 mod 256), Some (unat a mod 256)]"
    by (simp add: split_v4 parse_octet_show)
  then show ?thesis
    using v4_octets [of "unat a"] by (simp add: parse_v4_def del: of_nat_mult of_nat_add)
qed

lemma show_v4_chars: "c \<in> set (show_v4 a) \<Longrightarrow> is_digit c \<or> c = CHR ''.''"
  using show_nat_digits by (auto simp: show_v4_def Let_def list_all_iff)

lemma show_v4_Cons: "\<exists>c cs. show_v4 a = c # cs \<and> is_digit c"
proof -
  obtain c cs where "show_nat (unat a div 16777216) = c # cs" by (cases "show_nat (unat a div 16777216)") auto
  with show_nat_digits [of "unat a div 16777216"] show ?thesis by (auto simp: show_v4_def Let_def)
qed

lemma ParseAddr_v4: "ParseAddr env (show_v4 a) = Some (V4 a)"
proof -
  have "CHR ''.'' \<in> set (show_v4 a)" by (simp add: show_v4_def Let_def)
  then have "List.find (\<lambda>c. c \<in> {CHR ''.'', CHR '':'', CHR ''%''}) (show_v4 a) \<noteq> None" by (auto simp: find_None_iff)
  moreover have "c = CHR ''.''" if "List.find (\<lambda>c. c \<in> {CHR ''.'', CHR '':'', CHR ''%''}) (show_v4 a) = Some c" for c
  proof -
    from that have "c \<in> set (show_v4 a)" "c \<in> {CHR ''.'', CHR '':'', CHR ''%''}"
      by (metis (no_types, lifting) find_Some_iff nth_mem)+
    with show_v4_chars [of c a] show ?thesis by (auto simp: is_digit_def)
  qed
  ultimately show ?thesis by (auto simp: ParseAddr_def parse_show_v4)
qed

section \<open>Host and port\<close>

lemma split_last_append: "c \<notin> set q \<Longrightarrow> split_last c (p @ c # q) = Some (p, q)"
  by (auto simp: split_last_def dropWhile_append takeWhile_append intro: takeWhile_eq_all_conv [THEN iffD2])

lemma SplitHostPort_v4:
  assumes "list_all is_digit port"
  shows "SplitHostPort (show_v4 a @ CHR '':'' # port) = Some (show_v4 a, port)"
proof -
  have "\<not> is_digit x \<Longrightarrow> x \<notin> set port" for x using assms by (auto simp: list_all_iff)
  note port = this [of "CHR '':''"] this [of "CHR ''[''"] this [of "CHR '']''"]
  have addr: "x \<notin> set (show_v4 a)" if "\<not> is_digit x" "x \<noteq> CHR ''.''" for x using show_v4_chars that by blast
  note addr = addr [of "CHR '':''"] addr [of "CHR ''[''"] addr [of "CHR '']''"]
  obtain c cs where c: "show_v4 a = c # cs" "is_digit c" using show_v4_Cons by blast
  have "hd (show_v4 a @ CHR '':'' # port) \<noteq> CHR ''[''" using c by (auto simp: is_digit_def)
  then show ?thesis
    using port addr by (simp add: SplitHostPort_def split_last_append is_digit_def)
qed

section \<open>Prefixes\<close>

lemma drop_bit_xor_0:
  fixes a b :: "'a :: len word"
  shows "drop_bit n (a XOR b) = 0 \<longleftrightarrow> unat a div 2 ^ n = unat b div 2 ^ n"
proof -
  have "drop_bit n (a XOR b) = 0 \<longleftrightarrow> drop_bit n a = drop_bit n b"
    by (metis drop_bit_xor xor_self_eq bit.xor_left_self xor.right_neutral)
  also have "\<dots> \<longleftrightarrow> unat (drop_bit n a) = unat (drop_bit n b)" by (simp add: word_unat_eq_iff)
  also have "\<dots> \<longleftrightarrow> unat a div 2 ^ n = unat b div 2 ^ n" by (simp only: unat_drop_bit_eq drop_bit_nat_def)
  finally show ?thesis .
qed

text \<open>A configured proxy covers an IPv4 address when both have the same leading bits.\<close>

definition covers_v4 :: "prefix \<Rightarrow> 32 word \<Rightarrow> bool" where
  "covers_v4 p a \<longleftrightarrow> (\<exists>b. px_addr p = V4 b \<and> unat a div 2 ^ (32 - px_bits p) = unat b div 2 ^ (32 - px_bits p))"

lemma prefix_contains_v4: "prefix_contains p (V4 a) \<longleftrightarrow> covers_v4 p a"
  by (auto simp: covers_v4_def drop_bit_xor_0 simp del: drop_bit_xor split: addr.split)

section \<open>Properties\<close>

text \<open>The forwarded address is believed from trusted proxies only. For a connection from
  an IPv4 address, the client address is the first entry of the forwarding header when the address
  has the leading bits of a configured prefix and the entry is not blank, and in every other case it is
  the address of the connection, whatever the header says.\<close>

theorem client_ip_of_v4_peer:
  assumes "list_all is_digit port"
  shows "ClientIP env (show_v4 a @ CHR '':'' # port) xff tp =
    (let first = trim_space (hd (split_on (CHR '','') xff))
     in if list_ex (\<lambda>p. covers_v4 p a) tp \<and> first \<noteq> [] then first else show_v4 a)"
proof -
  have "xff \<noteq> []" if "trim_space (hd (split_on (CHR '','') xff)) \<noteq> []" using that by (auto simp: trim_space_def)
  then show ?thesis
    by (auto simp: ClientIP_def SplitHostPort_v4 [OF assms] proxy_contains_def ParseAddr_v4 prefix_contains_v4 Let_def
        simp del: prefix_contains.simps)
qed

theorem client_ip_of_v4_peer_witness:
  "ClientIP \<lparr>parse_v6 = (\<lambda>_. None)\<rparr> (show_v4 0x0A000005 @ '':443'') ''9.9.9.9, 1.2.3.4'' [\<lparr>px_addr = V4 0x0A000000, px_bits = 8\<rparr>] = ''9.9.9.9'' \<and>
   ClientIP \<lparr>parse_v6 = (\<lambda>_. None)\<rparr> (show_v4 0x0B000005 @ '':443'') ''9.9.9.9'' [\<lparr>px_addr = V4 0x0A000000, px_bits = 8\<rparr>] = show_v4 0x0B000005"
proof -
  have d: "list_all is_digit ''443''" by (simp add: is_digit_def)
  have t: "trim_space (hd (split_on (CHR '','') ''9.9.9.9, 1.2.3.4'')) = ''9.9.9.9''" "trim_space (hd (split_on (CHR '','') ''9.9.9.9'')) = ''9.9.9.9''"
    by (simp_all add: trim_space_def is_space_def)
  let ?env = "\<lparr>parse_v6 = (\<lambda>_. None)\<rparr>" and ?tp = "[\<lparr>px_addr = V4 0x0A000000, px_bits = 8\<rparr>]"
  from client_ip_of_v4_peer [OF d, of ?env "0x0A000005" "''9.9.9.9, 1.2.3.4''" ?tp] client_ip_of_v4_peer [OF d, of ?env "0x0B000005" "''9.9.9.9''" ?tp] t
  show ?thesis by (simp add: covers_v4_def)
qed

end
