(* ===== verification/Config.thy ===== *)
theory Config
  imports Net_Util
begin

text \<open>
  Configuration of server and agent (\<open>internal/config\<close>): the defaults, loading with
  its overlay of a YAML file and its secret files, validation, and the advisories. Unmarshalling YAML
  (\<open>gopkg.in/yaml.v3\<close>) is a function from a document and the values so far; the
  environment and the file system are functions.
\<close>

section \<open>Server configuration\<close>

record secrets =
  sec_DatabaseURL :: string
  sec_MigrationDatabaseURL :: string
  sec_SessionPepper :: bytes
  sec_TOTPEncryptionKey :: bytes
  sec_InternalServiceKey :: bytes
  sec_ReleasePublicKey :: bytes
  sec_GitHubToken :: string

record server_config =
  Mode :: string
  Public_BaseURL :: string
  Public_Listen :: string
  Public_DeterrentContactURL :: string
  Admin_Listen :: string
  Admin_SessionAbsoluteTTL :: duration
  Admin_SessionIdleTTL :: duration
  Admin_PrivilegeTTL :: duration
  Admin_RequireMFA :: bool
  Agent_HeartbeatInterval :: duration
  Agent_ConnectionLostAfter :: duration
  Agent_OfflineAfter :: duration
  Agent_StatusInterval :: duration
  Agent_NetworkUploadInterval :: duration
  Agent_EnrollmentTTL :: duration
  Agent_ReconnectMaxBackoff :: duration
  Agent_GitHubRepo :: string
  Agent_GitHubReleaseSyncEvery :: duration
  Relay_TicketTTL :: duration
  Relay_MaxTunnelsPerUser :: int
  Relay_MaxTunnelsPerDevice :: int
  Relay_MaxSessionDuration :: duration
  Security_SessionCookieName :: string
  Security_CSRFEnabled :: bool
  Security_HSTSEnabled :: bool
  Security_Argon2MemoryKiB :: nat
  Security_Argon2Iterations :: nat
  Security_Argon2Parallelism :: nat
  Security_TrustedProxies :: "string list"
  Metrics_RawRetention :: duration
  Metrics_HourlyRetention :: duration
  Metrics_NetworkRawRetention :: duration
  Metrics_NetworkHourlyRetention :: duration
  Help_ContentDir :: string
  Secrets :: secrets

definition no_secrets :: secrets where
  "no_secrets = \<lparr>sec_DatabaseURL = [], sec_MigrationDatabaseURL = [], sec_SessionPepper = [], sec_TOTPEncryptionKey = [],
     sec_InternalServiceKey = [], sec_ReleasePublicKey = [], sec_GitHubToken = []\<rparr>"

definition Default :: server_config where
  "Default = \<lparr>Mode = ''production'', Public_BaseURL = ''https://localhost:8443'', Public_Listen = ''0.0.0.0:8443'',
     Public_DeterrentContactURL = [], Admin_Listen = ''127.0.0.1:9443'', Admin_SessionAbsoluteTTL = 8 * hour,
     Admin_SessionIdleTTL = 30 * minute, Admin_PrivilegeTTL = 15 * minute, Admin_RequireMFA = True,
     Agent_HeartbeatInterval = 45 * second, Agent_ConnectionLostAfter = 120 * second, Agent_OfflineAfter = 300 * second,
     Agent_StatusInterval = 5 * minute, Agent_NetworkUploadInterval = 5 * minute, Agent_EnrollmentTTL = 30 * minute,
     Agent_ReconnectMaxBackoff = 5 * minute, Agent_GitHubRepo = ''mrder/wartungsremote'', Agent_GitHubReleaseSyncEvery = 0,
     Relay_TicketTTL = 60 * second, Relay_MaxTunnelsPerUser = 5, Relay_MaxTunnelsPerDevice = 3,
     Relay_MaxSessionDuration = 8 * hour, Security_SessionCookieName = ''__Host-wr_session'', Security_CSRFEnabled = True,
     Security_HSTSEnabled = True, Security_Argon2MemoryKiB = 19 * 1024, Security_Argon2Iterations = 2,
     Security_Argon2Parallelism = 1, Security_TrustedProxies = [], Metrics_RawRetention = 30 * 24 * hour,
     Metrics_HourlyRetention = 365 * 24 * hour, Metrics_NetworkRawRetention = 7 * 24 * hour,
     Metrics_NetworkHourlyRetention = 365 * 24 * hour, Help_ContentDir = ''docs'', Secrets = no_secrets\<rparr>"

section \<open>Loading\<close>

datatype file_read = FileMissing | FileError | FileBody bytes

datatype config_error =
    ReadConfig | ParseConfig | ReadSecret string | RandomSecret
  | InvalidMode | TTLsNotPositive | TimingNotPositive | OfflineNotAfterLost | InvalidTrustedProxy
  | MFARequired | HSTSAndCSRFRequired | HostCookieRequired | DatabaseURLRequired | PepperTooShort | TOTPKeyLength
  | ServerURLRequired

record config_env = net_env +
  getenv :: "string \<Rightarrow> string"
  file_body :: "string \<Rightarrow> file_read"
  yaml_server :: "bytes \<Rightarrow> server_config \<Rightarrow> server_config option"

fun trim_newlines_rev :: "bytes \<Rightarrow> bytes" where
  "trim_newlines_rev [] = []"
| "trim_newlines_rev (b # bs) = (if b = 10 \<or> b = 13 then trim_newlines_rev bs else b # bs)"

definition trimTrailingNewline :: "bytes \<Rightarrow> bytes" where
  "trimTrailingNewline b = rev (trim_newlines_rev (rev b))"

definition readSecretFile :: "'a config_env_scheme \<Rightarrow> string \<Rightarrow> config_error + bytes" where
  "readSecretFile env var =
     (if getenv env var = [] then Inr []
      else case file_body env (getenv env var) of FileBody b \<Rightarrow> Inr (trimTrailingNewline b) | _ \<Rightarrow> Inl (ReadSecret var))"

definition loadSecrets :: "'a config_env_scheme \<Rightarrow> config_error + secrets" where
  "loadSecrets env =
     (case readSecretFile env ''WR_DATABASE_URL_FILE'' of Inl e \<Rightarrow> Inl e | Inr dbURL \<Rightarrow>
      case readSecretFile env ''WR_MIGRATION_DATABASE_URL_FILE'' of Inl e \<Rightarrow> Inl e | Inr migrationURL \<Rightarrow>
      case readSecretFile env ''WR_SESSION_PEPPER_FILE'' of Inl e \<Rightarrow> Inl e | Inr pepper \<Rightarrow>
      case readSecretFile env ''WR_TOTP_ENCRYPTION_KEY_FILE'' of Inl e \<Rightarrow> Inl e | Inr totpKey \<Rightarrow>
      case readSecretFile env ''WR_INTERNAL_SERVICE_KEY_FILE'' of Inl e \<Rightarrow> Inl e | Inr svcKey \<Rightarrow>
      case readSecretFile env ''WR_RELEASE_PUBLIC_KEY_FILE'' of Inl e \<Rightarrow> Inl e | Inr releaseKey \<Rightarrow>
      case readSecretFile env ''WR_GITHUB_TOKEN_FILE'' of Inl e \<Rightarrow> Inl e | Inr githubToken \<Rightarrow>
        Inr \<lparr>sec_DatabaseURL = string_of dbURL, sec_MigrationDatabaseURL = string_of migrationURL, sec_SessionPepper = pepper,
             sec_TOTPEncryptionKey = totpKey, sec_InternalServiceKey = svcKey, sec_ReleasePublicKey = releaseKey,
             sec_GitHubToken = string_of githubToken\<rparr>)"

text \<open>The two draws of \<open>randomBytes\<close>; \<open>None\<close> when the system's source fails.\<close>

definition fillDevelopmentSecrets :: "bytes option \<Rightarrow> bytes option \<Rightarrow> server_config \<Rightarrow> config_error + server_config" where
  "fillDevelopmentSecrets rnd1 rnd2 c =
     (case (if length (sec_SessionPepper (Secrets c)) < 32
            then (case rnd1 of None \<Rightarrow> Inl RandomSecret | Some b \<Rightarrow> Inr (c\<lparr>Secrets := (Secrets c)\<lparr>sec_SessionPepper := b\<rparr>\<rparr>))
            else Inr c) of
        Inl e \<Rightarrow> Inl e
      | Inr c \<Rightarrow>
          if length (sec_TOTPEncryptionKey (Secrets c)) \<noteq> 32
          then (case rnd2 of None \<Rightarrow> Inl RandomSecret | Some b \<Rightarrow> Inr (c\<lparr>Secrets := (Secrets c)\<lparr>sec_TOTPEncryptionKey := b\<rparr>\<rparr>))
          else Inr c)"

definition ValidateConfig :: "'a net_env_scheme \<Rightarrow> server_config \<Rightarrow> config_error option" where
  "ValidateConfig env c =
     (if Mode c \<noteq> ''production'' \<and> Mode c \<noteq> ''development'' then Some InvalidMode
      else if Admin_SessionAbsoluteTTL c \<le> 0 \<or> Admin_SessionIdleTTL c \<le> 0 \<or> Admin_PrivilegeTTL c \<le> 0 then Some TTLsNotPositive
      else if Agent_HeartbeatInterval c \<le> 0 \<or> Agent_ConnectionLostAfter c \<le> 0 \<or> Agent_OfflineAfter c \<le> 0 then Some TimingNotPositive
      else if Agent_OfflineAfter c \<le> Agent_ConnectionLostAfter c then Some OfflineNotAfterLost
      else if ParseTrustedProxies env (Security_TrustedProxies c) = None then Some InvalidTrustedProxy
      else if Mode c = ''production'' then
        if \<not> Admin_RequireMFA c then Some MFARequired
        else if \<not> Security_HSTSEnabled c \<or> \<not> Security_CSRFEnabled c then Some HSTSAndCSRFRequired
        else if length (Security_SessionCookieName c) < 6 \<or> take 6 (Security_SessionCookieName c) \<noteq> ''__Host'' then Some HostCookieRequired
        else if sec_DatabaseURL (Secrets c) = [] then Some DatabaseURLRequired
        else if length (sec_SessionPepper (Secrets c)) < 32 then Some PepperTooShort
        else if length (sec_TOTPEncryptionKey (Secrets c)) \<noteq> 32 then Some TOTPKeyLength
        else None
      else None)"

definition read_server_file :: "'a config_env_scheme \<Rightarrow> string \<Rightarrow> config_error + server_config" where
  "read_server_file env path =
     (if path = [] then Inr Default
      else case file_body env path of
        FileMissing \<Rightarrow> Inr Default
      | FileError \<Rightarrow> Inl ReadConfig
      | FileBody b \<Rightarrow> (case yaml_server env b Default of None \<Rightarrow> Inl ParseConfig | Some c \<Rightarrow> Inr c))"

definition LoadServer :: "'a config_env_scheme \<Rightarrow> bytes option \<Rightarrow> bytes option \<Rightarrow> string \<Rightarrow> config_error + server_config" where
  "LoadServer env rnd1 rnd2 path =
     (case read_server_file env path of Inl e \<Rightarrow> Inl e | Inr c \<Rightarrow>
      case loadSecrets env of Inl e \<Rightarrow> Inl e | Inr s \<Rightarrow>
      case (if Mode c = ''development'' then fillDevelopmentSecrets rnd1 rnd2 (c\<lparr>Secrets := s\<rparr>) else Inr (c\<lparr>Secrets := s\<rparr>)) of
        Inl e \<Rightarrow> Inl e
      | Inr c \<Rightarrow> (case ValidateConfig env c of Some e \<Rightarrow> Inl e | None \<Rightarrow> Inr c))"

section \<open>Advisories\<close>

text \<open>Their message texts for people are left out.\<close>

record advisory =
  adv_code :: string
  adv_severity :: string

definition SecurityAdvisories :: "server_config \<Rightarrow> advisory list" where
  "SecurityAdvisories c =
     (if \<not> has_prefix ''https://'' (Public_BaseURL c)
      then [\<lparr>adv_code = ''insecure_base_url'', adv_severity = (if Mode c = ''production'' then ''critical'' else ''warning'')\<rparr>] else []) @
     (if Mode c \<noteq> ''production'' then [\<lparr>adv_code = ''development_mode'', adv_severity = ''info''\<rparr>] else [])"

section \<open>Agent configuration\<close>

record agent_policy =
  ap_Terminal :: bool
  ap_SSHTunnel :: bool
  ap_RDPTunnel :: bool
  ap_FilesRead :: bool
  ap_FilesWrite :: bool
  ap_ServiceControl :: bool
  ap_ProcessTerminate :: bool
  ap_PowerControl :: bool
  ap_SelfUpdate :: bool

record agent_config =
  ac_ServerURL :: string
  ac_UpdateChannel :: string
  ac_LogLevel :: string
  ac_Policy :: agent_policy
  ac_ConfigDir :: string
  ac_DataDir :: string
  ac_LogDir :: string

definition DefaultAgent :: agent_config where
  "DefaultAgent = \<lparr>ac_ServerURL = [], ac_UpdateChannel = ''stable'', ac_LogLevel = ''info'',
     ac_Policy = \<lparr>ap_Terminal = True, ap_SSHTunnel = True, ap_RDPTunnel = True, ap_FilesRead = True, ap_FilesWrite = True,
       ap_ServiceControl = True, ap_ProcessTerminate = True, ap_PowerControl = True, ap_SelfUpdate = True\<rparr>,
     ac_ConfigDir = [], ac_DataDir = [], ac_LogDir = []\<rparr>"

definition LoadAgent :: "(string \<Rightarrow> file_read) \<Rightarrow> (bytes \<Rightarrow> agent_config \<Rightarrow> agent_config option) \<Rightarrow> string \<Rightarrow> config_error + agent_config" where
  "LoadAgent body yaml path =
     (case body path of
        FileBody b \<Rightarrow> (case yaml b DefaultAgent of
            None \<Rightarrow> Inl ParseConfig
          | Some c \<Rightarrow> if ac_ServerURL c = [] then Inl ServerURLRequired else Inr c)
      | _ \<Rightarrow> Inl ReadConfig)"

section \<open>What validation guarantees\<close>

definition secure_production :: "server_config \<Rightarrow> bool" where
  "secure_production c \<longleftrightarrow> Admin_RequireMFA c \<and> Security_HSTSEnabled c \<and> Security_CSRFEnabled c \<and>
     has_prefix ''__Host'' (Security_SessionCookieName c) \<and> sec_DatabaseURL (Secrets c) \<noteq> []"

definition sane_timing :: "server_config \<Rightarrow> bool" where
  "sane_timing c \<longleftrightarrow> 0 < Admin_SessionAbsoluteTTL c \<and> 0 < Admin_SessionIdleTTL c \<and> 0 < Admin_PrivilegeTTL c \<and>
     0 < Agent_HeartbeatInterval c \<and> 0 < Agent_ConnectionLostAfter c \<and> Agent_ConnectionLostAfter c < Agent_OfflineAfter c"

lemma host_prefix: "has_prefix ''__Host'' s \<longleftrightarrow> 6 \<le> length s \<and> take 6 s = ''__Host''"
  by (auto simp: has_prefix_def eval_nat_numeral dest: arg_cong [of _ _ length])

lemma ValidateConfig_None:
  "ValidateConfig env c = None \<longleftrightarrow>
     sane_timing c \<and> ParseTrustedProxies env (Security_TrustedProxies c) \<noteq> None \<and>
     (Mode c = ''development'' \<or> Mode c = ''production'' \<and> secure_production c \<and>
       32 \<le> length (sec_SessionPepper (Secrets c)) \<and> length (sec_TOTPEncryptionKey (Secrets c)) = 32)"
  by (auto simp: ValidateConfig_def sane_timing_def secure_production_def host_prefix)

lemma fillDevelopmentSecrets_lengths:
  assumes "fillDevelopmentSecrets r1 r2 c = Inr c'" "\<forall>b. r1 = Some b \<longrightarrow> length b = 32" "\<forall>b. r2 = Some b \<longrightarrow> length b = 32"
  shows "32 \<le> length (sec_SessionPepper (Secrets c')) \<and> length (sec_TOTPEncryptionKey (Secrets c')) = 32 \<and> Mode c' = Mode c"
  using assms by (auto simp: fillDevelopmentSecrets_def split: if_splits option.splits)

lemma trim_newlines_rev_id: "b \<noteq> [] \<Longrightarrow> hd b \<noteq> 10 \<Longrightarrow> hd b \<noteq> 13 \<Longrightarrow> trim_newlines_rev b = b"
  by (cases b) auto

text \<open>A secret survives its file whether or not an editor ended it with line breaks.\<close>

lemma trimTrailingNewline_append:
  assumes "b = [] \<or> last b \<noteq> 10 \<and> last b \<noteq> 13" "set nl \<subseteq> {10, 13}"
  shows "trimTrailingNewline (b @ nl) = b"
proof -
  have "trim_newlines_rev (rev nl @ rev b) = trim_newlines_rev (rev b)"
    using assms(2) by (induction nl rule: rev_induct) auto
  moreover have "trim_newlines_rev (rev b) = rev b"
    using assms(1) by (cases "b = []") (auto intro: trim_newlines_rev_id simp: hd_rev)
  ultimately show ?thesis by (simp add: trimTrailingNewline_def)
qed

section \<open>Properties\<close>

text \<open>A server starts with a safe configuration or not at all. Whatever the
  configuration file says, a loaded configuration has positive lifetimes and timings, gives up on a device only
  after it counts as lost, and has a pepper of at least and a TOTP key of exactly 32 bytes; in production mode
  it requires a second factor, CSRF tokens and HSTS.\<close>

theorem loaded_config_is_safe:
  assumes "LoadServer env rnd1 rnd2 path = Inr c"
    and "\<forall>b. rnd1 = Some b \<longrightarrow> length b = 32" "\<forall>b. rnd2 = Some b \<longrightarrow> length b = 32"
  shows "sane_timing c \<and> ParseTrustedProxies env (Security_TrustedProxies c) \<noteq> None \<and>
    32 \<le> length (sec_SessionPepper (Secrets c)) \<and> length (sec_TOTPEncryptionKey (Secrets c)) = 32 \<and>
    (Mode c = ''production'' \<and> secure_production c \<or> Mode c = ''development'')"
proof -
  from assms(1) obtain c0 s where v: "ValidateConfig env c = None"
    and c: "(if Mode c0 = ''development'' then fillDevelopmentSecrets rnd1 rnd2 (c0\<lparr>Secrets := s\<rparr>) else Inr (c0\<lparr>Secrets := s\<rparr>)) = Inr c"
    by (auto simp: LoadServer_def split: sum.splits option.splits)
  show ?thesis
  proof (cases "Mode c0 = ''development''")
    case True
    with fillDevelopmentSecrets_lengths [OF _ assms(2,3), of "c0\<lparr>Secrets := s\<rparr>" c] c v show ?thesis
      by (auto simp: ValidateConfig_None)
  next
    case False
    with c v show ?thesis by (auto simp: ValidateConfig_None)
  qed
qed

definition demo_config_env :: config_env where
  "demo_config_env = \<lparr>parse_v6 = (\<lambda>_. None), getenv = (\<lambda>v. v),
     file_body = (\<lambda>p. FileBody (replicate 32 65 @ [10])), yaml_server = (\<lambda>b c. Some c)\<rparr>"

lemma demo_config_loads:
  obtains c where "LoadServer demo_config_env None None [] = Inr c" "Mode c = ''production''"
proof -
  have "trimTrailingNewline (replicate 32 65 @ [10]) = replicate 32 65"
    by (rule trimTrailingNewline_append) (simp_all add: last_replicate)
  then have "\<exists>c. LoadServer demo_config_env None None [] = Inr c \<and> Mode c = ''production''"
    by (simp add: LoadServer_def read_server_file_def loadSecrets_def readSecretFile_def demo_config_env_def ValidateConfig_def
        Default_def duration_defs string_of_def del: replicate.simps)
  with that show thesis by blast
qed

theorem loaded_config_is_safe_witness:
  "\<exists>c. LoadServer demo_config_env None None [] = Inr c \<and> secure_production c"
proof -
  obtain c where c: "LoadServer demo_config_env None None [] = Inr c" "Mode c = ''production''" by (rule demo_config_loads)
  from loaded_config_is_safe [OF c(1)] c(2) show ?thesis by (auto intro: c(1))
qed

text \<open>The check of the cookie name is weaker than its error message. Production mode accepts
  names that begin with the six bytes "__Host" but not with the prefix "__Host-" to which browsers tie
  the restriction to one host.\<close>

theorem host_prefix_not_required:
  assumes "ValidateConfig env c = None"
  shows "ValidateConfig env (c\<lparr>Security_SessionCookieName := ''__Host'' @ suffix\<rparr>) = None"
  using assms using has_prefix_append [of "''__Host''" suffix] by (auto simp: ValidateConfig_None secure_production_def sane_timing_def)

theorem host_prefix_not_required_witness:
  "\<exists>c. LoadServer demo_config_env None None [] = Inr c \<and> Mode c = ''production'' \<and>
     ValidateConfig demo_config_env (c\<lparr>Security_SessionCookieName := ''__Hostile''\<rparr>) = None"
proof -
  obtain c where c: "LoadServer demo_config_env None None [] = Inr c" "Mode c = ''production''" by (rule demo_config_loads)
  then have "ValidateConfig demo_config_env c = None" by (auto simp: LoadServer_def split: sum.splits option.splits)
  from host_prefix_not_required [OF this, of "''ile''"] c show ?thesis by auto
qed

end
