(* ===== verification/Http_Core.thy ===== *)
theory Http_Core
  imports Auth_Service Enrollment Alerting Config
begin

text \<open>
  What the HTTP handlers of \<open>internal/httpapi\<close> share: the state of the whole server, the
  request and its context, JSON replies, the security middleware (\<open>security.go\<close>), and the
  access checks in front of every handler that works on a device or a remote session.

  A handler is a function from the server's state to a reply and a new state. A request body is the
  decoded value, \<open>None\<close> when \<open>decodeJSON\<close> fails. A handler that waits for an agent
  has no reply yet: it leaves an entry in the list of waiting calls, and its second half is a step
  of its own. The random values it draws and the outcome of a write to an agent's connection are
  fields of its context.
\<close>

section \<open>Replies\<close>

datatype json =
    JNull | JBool bool | JInt int | JNum rat | JStr string | JUuid uuid | JTime time
  | JRaw bytes | JList "json list" | JObj "(string \<times> json) list"

datatype cookie = SetSessionCookie string time | ClearSessionCookie | SetCSRFCookie string | ClearCSRFCookie

datatype reply_body = JsonReply json "json option" | ErrorReply string string | TextReply string | DataReply bytes

record reply =
  rp_status :: nat
  rp_headers :: "(string \<times> string) list"
  rp_cookies :: "cookie list"
  rp_body :: reply_body

text \<open>\<open>w.Header().Set\<close>.\<close>

definition set_header :: "string \<times> string \<Rightarrow> (string \<times> string) list \<Rightarrow> (string \<times> string) list" where
  "set_header kv hs = kv # filter (\<lambda>h. fst h \<noteq> fst kv) hs"

definition json_headers :: "(string \<times> string) list" where
  "json_headers = [(''Content-Type'', ''application/json''), (''X-Content-Type-Options'', ''nosniff'')]"

definition writeJSON :: "nat \<Rightarrow> json \<Rightarrow> json option \<Rightarrow> reply" where
  "writeJSON status data meta = \<lparr>rp_status = status, rp_headers = json_headers, rp_cookies = [], rp_body = JsonReply data meta\<rparr>"

definition writeErr :: "nat \<Rightarrow> string \<Rightarrow> string \<Rightarrow> reply" where
  "writeErr status code message = \<lparr>rp_status = status, rp_headers = json_headers, rp_cookies = [], rp_body = ErrorReply code message\<rparr>"

definition state_reply :: "string \<Rightarrow> reply" where
  "state_reply s = writeJSON 200 (JObj [(''state'', JStr s)]) None"

definition not_permitted :: reply where
  "not_permitted = writeErr 403 ''permission_denied'' ''Not permitted''"

fun json_opt :: "('a \<Rightarrow> json) \<Rightarrow> 'a option \<Rightarrow> json" where
  "json_opt f None = JNull"
| "json_opt f (Some a) = f a"

section \<open>The server\<close>

text \<open>A handler that waits for an agent: what it is to do with the answer. After
  \<open>runCommand\<close> the handlers either pass on the data of the result or answer that all is
  well, and record an audit event or none.\<close>

datatype after = ThenData "audit_event option" | ThenOk audit_event

datatype pending =
    PendingCommand nat after
  | PendingTerminal uuid uuid audit_event  \<comment> \<open>session, device, event of success\<close>
  | PendingTunnel uuid uuid uuid target_type audit_event  \<comment> \<open>session, device, user, target, event but for its details\<close>
  | PendingDownload nat stream audit_event
  | StreamingDownload stream audit_event
  | PendingUpload nat stream string audit_event  \<comment> \<open>waiter, stream, path, event but for its details\<close>
  | FinishingUpload nat stream int audit_event

record server =
  sv_auth :: auth_state
  sv_hub :: hub_state
  sv_tokens :: "enroll_token list"
  sv_alerts :: alert_state
  sv_enroll_limiter :: rate_limiter
  sv_control_limiter :: rate_limiter
  sv_ticket_limiter :: rate_limiter
  sv_log :: audit_log
  sv_pending :: "pending list"

record help_section =
  hs_slug :: string
  hs_title :: string
  hs_html :: string

text \<open>The fixed surroundings: the configuration, the environments of the components, and the
  library functions the handlers call. The handlers' \<open>uuid.Parse\<close> is that of
  \<open>x_auth\<close>.\<close>

record http_env =
  x_cfg :: server_config
  x_version :: string
  x_net :: net_env
  x_auth :: auth_env
  x_hub :: hub_env
  x_enroll :: enroll_env
  x_ticket :: ticket_env
  x_alert :: alert_env
  x_audit :: "(string \<times> meta_value) list audit_env"
  x_help :: "help_section list"
  x_parse_time :: "string \<Rightarrow> time option"  \<comment> \<open>time.Parse(time.RFC3339, v)\<close>
  x_format_time :: "time \<Rightarrow> string"
  x_parse_hours :: "string \<Rightarrow> duration option"  \<comment> \<open>time.ParseDuration(v + "h")\<close>
  x_ilike :: "string \<Rightarrow> string \<Rightarrow> bool"
  x_b64url :: "bytes \<Rightarrow> string"
  x_otp_uri :: "string \<Rightarrow> bytes \<Rightarrow> string"  \<comment> \<open>user name, secret\<close>
  x_command_result :: "bytes \<Rightarrow> command_result option"
  x_open_result :: "bytes \<Rightarrow> (string \<times> string) option"
  x_error_text :: "enroll_error \<Rightarrow> string"
  x_release_error :: "release_error \<Rightarrow> string"
  x_sync_error :: "sync_error \<Rightarrow> string"
  x_html_escape :: "string \<Rightarrow> string"
  x_b64 :: "bytes \<Rightarrow> string"  \<comment> \<open>base64.StdEncoding\<close>
  x_csv :: "string list list \<Rightarrow> string"  \<comment> \<open>csv.NewWriter\<close>

definition parse_uuid :: "http_env \<Rightarrow> string \<Rightarrow> uuid option" where
  "parse_uuid x s = uuid_parse (x_auth x) s"

text \<open>What \<open>NewRouter\<close> takes from the configuration.\<close>

definition trustedProxies :: "http_env \<Rightarrow> trusted_proxies" where
  "trustedProxies x = (case ParseTrustedProxies (x_net x) (Security_TrustedProxies (x_cfg x)) of None \<Rightarrow> [] | Some tp \<Rightarrow> tp)"

definition argon2Params :: "http_env \<Rightarrow> argon2_params" where
  "argon2Params x = \<lparr>MemoryKiB = Security_Argon2MemoryKiB (x_cfg x), Iterations = Security_Argon2Iterations (x_cfg x),
     Parallelism = Security_Argon2Parallelism (x_cfg x), SaltLen = 16, KeyLen = 32\<rparr>"

definition authCfg :: "http_env \<Rightarrow> auth_cfg" where
  "authCfg x = \<lparr>absolute_ttl = Admin_SessionAbsoluteTTL (x_cfg x), idle_ttl = Admin_SessionIdleTTL (x_cfg x), argon2 = argon2Params x\<rparr>"

definition releaseKey :: "http_env \<Rightarrow> bytes" where
  "releaseKey x = sec_ReleasePublicKey (Secrets (x_cfg x))"

abbreviation sv_devices :: "server \<Rightarrow> device_db" where
  "sv_devices sv \<equiv> h_devices (sv_hub sv)"
abbreviation sv_remote :: "server \<Rightarrow> remote_state" where
  "sv_remote sv \<equiv> h_remote (sv_hub sv)"
abbreviation sv_admin :: "server \<Rightarrow> admin_data" where
  "sv_admin sv \<equiv> h_admin (sv_hub sv)"
abbreviation sv_metrics :: "server \<Rightarrow> metrics_db" where
  "sv_metrics sv \<equiv> mon_metrics (h_monitor (sv_hub sv))"

definition set_auth :: "auth_state \<Rightarrow> server \<Rightarrow> server" where
  "set_auth st sv = sv\<lparr>sv_auth := st\<rparr>"
definition set_hub :: "hub_state \<Rightarrow> server \<Rightarrow> server" where
  "set_hub st sv = sv\<lparr>sv_hub := st\<rparr>"
definition set_remote :: "remote_state \<Rightarrow> server \<Rightarrow> server" where
  "set_remote st sv = sv\<lparr>sv_hub := (sv_hub sv)\<lparr>h_remote := st\<rparr>\<rparr>"
definition set_admin :: "admin_data \<Rightarrow> server \<Rightarrow> server" where
  "set_admin ad sv = sv\<lparr>sv_hub := (sv_hub sv)\<lparr>h_admin := ad\<rparr>\<rparr>"
definition set_releases :: "release_row list \<Rightarrow> server \<Rightarrow> server" where
  "set_releases rs sv = sv\<lparr>sv_hub := (sv_hub sv)\<lparr>h_releases := rs\<rparr>\<rparr>"
definition set_alerts :: "alert_state \<Rightarrow> server \<Rightarrow> server" where
  "set_alerts st sv = sv\<lparr>sv_alerts := st\<rparr>"
definition set_devices :: "device_db \<Rightarrow> server \<Rightarrow> server" where
  "set_devices db sv = sv\<lparr>sv_hub := on_devices (\<lambda>_. db) (sv_hub sv)\<rparr>"

text \<open>The enrollment service works on its tokens and on the device registry.\<close>

definition enroll_view :: "server \<Rightarrow> enroll_state" where
  "enroll_view sv = \<lparr>enrollment_tokens = sv_tokens sv, registry_db = sv_devices sv\<rparr>"

definition set_enroll :: "enroll_state \<Rightarrow> server \<Rightarrow> server" where
  "set_enroll st sv = set_devices (registry_db st) (sv\<lparr>sv_tokens := enrollment_tokens st\<rparr>)"

definition add_pending :: "pending \<Rightarrow> server \<Rightarrow> server" where
  "add_pending p sv = sv\<lparr>sv_pending := sv_pending sv @ [p]\<rparr>"

text \<open>An audit call queues its event; the events of a step go into the log in their order when
  the step ends (no handler reads the log after it has written to it).\<close>

definition sv_audit :: "audit_event \<Rightarrow> server \<Rightarrow> server" where
  "sv_audit e sv = sv\<lparr>sv_hub := hub_audit e (sv_hub sv)\<rparr>"

section \<open>Requests\<close>

record request =
  rq_method :: string
  rq_path :: string
  rq_remote_addr :: string
  rq_xff :: string
  rq_session_cookie :: "string option"
  rq_csrf_cookie :: "string option"
  rq_csrf_header :: string
  rq_query :: "string \<Rightarrow> string"

text \<open>A call of a handler: the instant, the request, the random draws, the outcome of a write to
  an agent and the id of the message written.\<close>

record call =
  cl_now :: time
  cl_request :: request
  cl_fresh :: fresh
  cl_csrf :: bytes
  cl_rnd :: "nat \<Rightarrow> nat \<Rightarrow> nat"
  cl_write_ok :: bool
  cl_message_id :: string

text \<open>With what \<open>RequireSession\<close> puts into the context.\<close>

record ctx = call +
  cx_session :: session
  cx_user :: user
  cx_grants :: "grant list"

definition clientIP :: "http_env \<Rightarrow> ('a call_scheme) \<Rightarrow> string" where
  "clientIP x c = ClientIP (x_net x) (rq_remote_addr (cl_request c)) (rq_xff (cl_request c)) (trustedProxies x)"

abbreviation query :: "('a call_scheme) \<Rightarrow> string \<Rightarrow> string" where
  "query c k \<equiv> rq_query (cl_request c) k"

definition actor_event :: "actor_type \<Rightarrow> uuid option \<Rightarrow> string \<Rightarrow> audit_result \<Rightarrow> string \<Rightarrow> (string \<times> meta_value) list option \<Rightarrow> audit_event" where
  "actor_event actor i et res ip meta = \<lparr>ev_actor_type = actor, ev_actor_id = i, ev_session_id = None, ev_device_id = None,
     ev_customer_id = None, ev_event_type = et, ev_result = res, ev_source_ip = ip, ev_request_id = None, ev_metadata = meta\<rparr>"

definition user_event :: "http_env \<Rightarrow> ctx \<Rightarrow> string \<Rightarrow> (string \<times> meta_value) list option \<Rightarrow> audit_event" where
  "user_event x cx et meta = actor_event ActorUser (Some (u_id (cx_user cx))) et ResultSuccess (clientIP x cx) meta"

definition device_event_of :: "http_env \<Rightarrow> ctx \<Rightarrow> uuid \<Rightarrow> string \<Rightarrow> (string \<times> meta_value) list option \<Rightarrow> audit_event" where
  "device_event_of x cx d et meta = (user_event x cx et meta)\<lparr>ev_device_id := Some d\<rparr>"

definition has_any :: "ctx \<Rightarrow> perm \<Rightarrow> bool" where
  "has_any cx p = HasAnyGrant (cx_grants cx) (perm_name p)"

definition may :: "ctx \<Rightarrow> perm \<Rightarrow> resource \<Rightarrow> bool" where
  "may cx p r = HasPermission (cx_grants cx) (perm_name p) r"

section \<open>Security middleware\<close>

definition single_quoted :: "string \<Rightarrow> string" where
  "single_quoted s = CHR 0x27 # s @ [CHR 0x27]"

text \<open>The headers \<open>withSecurityHeaders\<close> sets before the handler runs.\<close>

definition security_headers :: "server_config \<Rightarrow> (string \<times> string) list" where
  "security_headers cfg =
     [(''X-Content-Type-Options'', ''nosniff''), (''Referrer-Policy'', ''no-referrer''),
      (''Content-Security-Policy'', ''default-src '' @ single_quoted ''self'' @ ''; frame-ancestors '' @ single_quoted ''none'' @
         ''; base-uri '' @ single_quoted ''none''),
      (''X-Frame-Options'', ''DENY'')] @
     (if Security_HSTSEnabled cfg then [(''Strict-Transport-Security'', ''max-age=63072000; includeSubDomains'')] else [])"

definition withSecurityHeaders :: "server_config \<Rightarrow> reply \<Rightarrow> reply" where
  "withSecurityHeaders cfg r = r\<lparr>rp_headers := fold set_header (rp_headers r) (security_headers cfg)\<rparr>"

definition safe_method :: "string \<Rightarrow> bool" where
  "safe_method m \<longleftrightarrow> m \<in> {''GET'', ''HEAD'', ''OPTIONS''}"

text \<open>\<open>None\<close> lets the request through.\<close>

definition withCSRF :: "server_config \<Rightarrow> request \<Rightarrow> reply option" where
  "withCSRF cfg rq =
     (if \<not> Security_CSRFEnabled cfg then None
      else if safe_method (rq_method rq) then None
      else case rq_csrf_cookie rq of
        None \<Rightarrow> Some (writeErr 403 ''permission_denied'' ''Missing CSRF token'')
      | Some v \<Rightarrow>
          if v = [] then Some (writeErr 403 ''permission_denied'' ''Missing CSRF token'')
          else if rq_csrf_header rq = [] \<or> rq_csrf_header rq \<noteq> v then Some (writeErr 403 ''permission_denied'' ''Invalid CSRF token'')
          else None)"

definition setCSRFCookie :: "http_env \<Rightarrow> ('a call_scheme) \<Rightarrow> cookie" where
  "setCSRFCookie x c = SetCSRFCookie (x_b64url x (cl_csrf c))"

section \<open>Access to devices and sessions\<close>

definition deviceResource :: "device \<Rightarrow> resource" where
  "deviceResource d = \<lparr>res_customer_id = d_customer_id d, res_group_id = d_group_id d\<rparr>"

definition loadDevice :: "http_env \<Rightarrow> string \<Rightarrow> server \<Rightarrow> reply + device" where
  "loadDevice x i sv =
     (case parse_uuid x i of
        None \<Rightarrow> Inl (writeErr 400 ''invalid_request'' ''invalid device id'')
      | Some did \<Rightarrow> (case GetDevice did (sv_devices sv) of
            Inl _ \<Rightarrow> Inl (writeErr 404 ''resource_not_found'' ''Device not found'')
          | Inr d \<Rightarrow> Inr d))"

definition loadDeviceWithAccess :: "http_env \<Rightarrow> perm \<Rightarrow> ctx \<Rightarrow> string \<Rightarrow> server \<Rightarrow> reply + device" where
  "loadDeviceWithAccess x p cx i sv =
     (case loadDevice x i sv of
        Inl e \<Rightarrow> Inl e
      | Inr d \<Rightarrow> if may cx p (deviceResource d) then Inr d else Inl not_permitted)"

definition loadSessionWithAccess :: "http_env \<Rightarrow> ctx \<Rightarrow> string \<Rightarrow> server \<Rightarrow> reply + rsession" where
  "loadSessionWithAccess x cx i sv =
     (case parse_uuid x i of
        None \<Rightarrow> Inl (writeErr 400 ''invalid_request'' ''invalid session id'')
      | Some sid \<Rightarrow> (case GetRemote sid (sv_remote sv) of
            Inl _ \<Rightarrow> Inl (writeErr 404 ''resource_not_found'' ''Session not found'')
          | Inr s \<Rightarrow>
              let isOwner = (rs_user_id s = u_id (cx_user cx));
                  isAdmin = (case GetDevice (rs_device_id s) (sv_devices sv) of
                               Inl _ \<Rightarrow> False | Inr d \<Rightarrow> may cx PermDeviceManage (deviceResource d))
              in if \<not> isOwner \<and> \<not> isAdmin then Inl not_permitted else Inr s))"

text \<open>The common shapes of a handler: stop with an error reply and leave the state alone, or go
  on.\<close>

type_synonym handler = "server \<Rightarrow> reply option \<times> server"

definition stop :: "reply \<Rightarrow> handler" where
  "stop r sv = (Some r, sv)"

definition require_any :: "ctx \<Rightarrow> perm \<Rightarrow> handler \<Rightarrow> handler" where
  "require_any cx p k sv = (if \<not> has_any cx p then stop not_permitted sv else k sv)"

definition with_device :: "http_env \<Rightarrow> perm \<Rightarrow> ctx \<Rightarrow> string \<Rightarrow> (device \<Rightarrow> handler) \<Rightarrow> handler" where
  "with_device x p cx i k sv = (case loadDeviceWithAccess x p cx i sv of Inl e \<Rightarrow> stop e sv | Inr d \<Rightarrow> k d sv)"

definition with_session :: "http_env \<Rightarrow> ctx \<Rightarrow> string \<Rightarrow> (rsession \<Rightarrow> handler) \<Rightarrow> handler" where
  "with_session x cx i k sv = (case loadSessionWithAccess x cx i sv of Inl e \<Rightarrow> stop e sv | Inr s \<Rightarrow> k s sv)"

definition with_id :: "http_env \<Rightarrow> string \<Rightarrow> string \<Rightarrow> (uuid \<Rightarrow> handler) \<Rightarrow> handler" where
  "with_id x message i k sv =
     (case parse_uuid x i of None \<Rightarrow> stop (writeErr 400 ''invalid_request'' message) sv | Some u \<Rightarrow> k u sv)"

text \<open>The check of a fresh reauthentication in front of a sensitive operation.\<close>

definition with_reauth :: "http_env \<Rightarrow> ctx \<Rightarrow> string \<Rightarrow> handler \<Rightarrow> handler" where
  "with_reauth x cx reauthID k sv =
     (let (valid, st) = ConsumeReauth (x_auth x) (cl_now cx) (u_id (cx_user cx)) reauthID (sv_auth sv)
      in if \<not> valid then stop (writeErr 403 ''privilege_required'' ''Reauthentication required'') (set_auth st sv)
         else k (set_auth st sv))"

end
