(* ===== verification/Http_Auth.thy ===== *)
theory Http_Auth
  imports Http_Core
begin

text \<open>
  The handlers for signing in and out, second factors, reauthentication and passwords
  (\<open>httpapi/handlers_auth.go\<close>), and those for incident response and user administration
  (\<open>httpapi/handlers_recovery.go\<close>).
\<close>

section \<open>Signing in\<close>

definition session_cookies :: "http_env \<Rightarrow> ('a call_scheme) \<Rightarrow> string \<Rightarrow> session \<Rightarrow> cookie list" where
  "session_cookies x c token sess = [SetSessionCookie token (s_expires_at sess), setCSRFCookie x c]"

definition auditLoginFailure :: "http_env \<Rightarrow> ('a call_scheme) \<Rightarrow> string \<Rightarrow> auth_error \<Rightarrow> server \<Rightarrow> server" where
  "auditLoginFailure x c username err =
     sv_audit (actor_event ActorUser None (if err = ErrLocked then ''auth.login.lockout'' else ''auth.login.failure'')
       ResultFailure (clientIP x c) (Some [(''username'', MStr username)]))"

definition rate_limited :: reply where
  "rate_limited = writeErr 429 ''rate_limited'' ''Too many attempts, try again later''"

definition login_error_reply :: "auth_error \<Rightarrow> reply" where
  "login_error_reply err =
     (if err = ErrRateLimited then rate_limited
      else if err = ErrLocked then writeErr 403 ''permission_denied'' ''Account temporarily locked''
      else writeErr 401 ''unauthenticated'' ''Invalid username or password'')"

definition handleLogin :: "http_env \<Rightarrow> call \<Rightarrow> (string \<times> string) option \<Rightarrow> handler" where
  "handleLogin x c body sv =
     (case body of
        None \<Rightarrow> stop (writeErr 400 ''invalid_request'' ''username and password are required'') sv
      | Some (username, password) \<Rightarrow>
          if username = [] \<or> password = [] then stop (writeErr 400 ''invalid_request'' ''username and password are required'') sv
          else case Login (x_auth x) (authCfg x) (cl_now c) (cl_fresh c) username password (clientIP x c)
                      (Admin_RequireMFA (x_cfg x)) (sv_auth sv) of
            (Inl err, st) \<Rightarrow> stop (login_error_reply err) (auditLoginFailure x c username err (set_auth st sv))
          | (Inr (MfaSetupRequired secret), st) \<Rightarrow>
              stop (writeJSON 200 (JObj [(''state'', JStr ''mfa_setup_required''), (''setup_uri'', JStr (x_otp_uri x username secret))]) None)
                (sv_audit (actor_event ActorUser None ''auth.login.success'' ResultSuccess (clientIP x c)
                   (Some [(''stage'', MStr ''mfa_setup_required''), (''username'', MStr username)])) (set_auth st sv))
          | (Inr (MfaRequired cid), st) \<Rightarrow>
              stop (writeJSON 200 (JObj [(''state'', JStr ''mfa_required''), (''challenge_id'', JStr cid)]) None) (set_auth st sv)
          | (Inr (Authenticated token sess), st) \<Rightarrow>
              stop ((state_reply ''authenticated'')\<lparr>rp_cookies := session_cookies x c token sess\<rparr>)
                (sv_audit ((actor_event ActorUser (Some (s_user_id sess)) ''auth.login.success'' ResultSuccess (clientIP x c) None)
                   \<lparr>ev_session_id := Some (s_id sess)\<rparr>) (set_auth st sv)))"

definition handleTOTP :: "http_env \<Rightarrow> call \<Rightarrow> (string \<times> string) option \<Rightarrow> handler" where
  "handleTOTP x c body sv =
     (case body of
        None \<Rightarrow> stop (writeErr 400 ''invalid_request'' ''challenge_id and code are required'') sv
      | Some (challengeID, code) \<Rightarrow>
          if challengeID = [] \<or> code = [] then stop (writeErr 400 ''invalid_request'' ''challenge_id and code are required'') sv
          else case CompleteMFA (x_auth x) (authCfg x) (cl_now c) (cl_fresh c) challengeID code (sv_auth sv) of
            (Inr (Authenticated token sess), st) \<Rightarrow>
              stop ((state_reply ''authenticated'')\<lparr>rp_cookies := session_cookies x c token sess\<rparr>)
                (sv_audit ((actor_event ActorUser (Some (s_user_id sess)) ''auth.mfa.success'' ResultSuccess (clientIP x c) None)
                   \<lparr>ev_session_id := Some (s_id sess)\<rparr>) (set_auth st sv))
          | (r, st) \<Rightarrow>
              stop (if r = Inl ErrRateLimited then rate_limited else writeErr 401 ''unauthenticated'' ''Invalid or expired code'')
                (sv_audit (actor_event ActorUser None ''auth.mfa.failure'' ResultFailure (clientIP x c) None) (set_auth st sv)))"

text \<open>The last step of the first enrollment of a second factor. It checks the password again, but
  neither the status of the user nor the lock.\<close>

definition handleMFASetupConfirm :: "http_env \<Rightarrow> call \<Rightarrow> (string \<times> string \<times> string) option \<Rightarrow> handler" where
  "handleMFASetupConfirm x c body sv =
     (case body of
        None \<Rightarrow> stop (writeErr 400 ''invalid_request'' ''username, password and code are required'') sv
      | Some (username, password, code) \<Rightarrow>
          if username = [] \<or> password = [] \<or> code = []
          then stop (writeErr 400 ''invalid_request'' ''username, password and code are required'') sv
          else let (ok, st) = limit_login (cl_now c) (''mfa-setup:'' @ clientIP x c) (sv_auth sv)
          in if \<not> ok then stop rate_limited (set_auth st sv)
          else case GetByUsername username st of
            Inl _ \<Rightarrow> stop (writeErr 401 ''unauthenticated'' ''Invalid credentials'') (set_auth st sv)
          | Inr user \<Rightarrow>
              if VerifyPassword (pw (x_auth x)) password (u_password_hash user) \<noteq> Inr True
              then stop (writeErr 401 ''unauthenticated'' ''Invalid credentials'')
                     (set_auth (RegisterFailedLogin (cl_now c) (u_id user) st) sv)
              else case ConfirmSetup (x_auth x) (cl_now c) (fr_codes (cl_fresh c)) (u_id user) code st of
                (Inl _, st1) \<Rightarrow> stop (writeErr 401 ''unauthenticated'' ''Invalid code'') (set_auth st1 sv)
              | (Inr codes, st1) \<Rightarrow>
                  (case CreateSession (x_auth x) (authCfg x) (cl_now c) (fr_id (cl_fresh c)) (fr_token (cl_fresh c)) (u_id user)
                          (ResetFailedLogins (cl_now c) (u_id user) st1) of
                     (Inl _, st2) \<Rightarrow> stop (writeErr 500 ''internal_error'' ''Failed to create session'') (set_auth st2 sv)
                   | (Inr (token, sess), st2) \<Rightarrow>
                       stop ((writeJSON 200 (JObj [(''state'', JStr ''authenticated''), (''recovery_codes'', JList (map JStr codes))]) None)
                              \<lparr>rp_cookies := session_cookies x c token sess\<rparr>)
                         (sv_audit ((actor_event ActorUser (Some (u_id user)) ''auth.mfa.setup_confirmed'' ResultSuccess (clientIP x c) None)
                            \<lparr>ev_session_id := Some (s_id sess)\<rparr>) (set_auth st2 sv))))"

section \<open>Signing out, reauthentication, passwords\<close>

definition handleLogout :: "http_env \<Rightarrow> call \<Rightarrow> handler" where
  "handleLogout x c sv =
     (let done = (\<lambda>sv. stop ((state_reply ''logged_out'')\<lparr>rp_cookies := [ClearSessionCookie, ClearCSRFCookie]\<rparr>) sv)
      in case rq_session_cookie (cl_request c) of
           None \<Rightarrow> done sv
         | Some token \<Rightarrow>
             (case Validate (x_auth x) (authCfg x) (cl_now c) token (sv_auth sv) of
                (Inl _, st) \<Rightarrow> done (set_auth st sv)
              | (Inr sess, st) \<Rightarrow>
                  done (sv_audit ((actor_event ActorUser (Some (s_user_id sess)) ''auth.logout'' ResultSuccess (clientIP x c) None)
                          \<lparr>ev_session_id := Some (s_id sess)\<rparr>)
                         (set_auth (RevokeSession (cl_now c) (s_id sess) st) sv))))"

definition handleReauth :: "http_env \<Rightarrow> call \<Rightarrow> (string \<times> string) option \<Rightarrow> handler" where
  "handleReauth x c body sv =
     (case rq_session_cookie (cl_request c) of
        None \<Rightarrow> stop (writeErr 401 ''unauthenticated'' ''No active session'') sv
      | Some token \<Rightarrow>
          (case Validate (x_auth x) (authCfg x) (cl_now c) token (sv_auth sv) of
             (Inl _, st) \<Rightarrow> stop (writeErr 401 ''unauthenticated'' ''Session invalid or expired'') (set_auth st sv)
           | (Inr sess, st) \<Rightarrow>
               (case body of
                  None \<Rightarrow> stop (writeErr 400 ''invalid_request'' ''password and code are required'') (set_auth st sv)
                | Some (password, code) \<Rightarrow>
                    if password = [] \<or> code = []
                    then stop (writeErr 400 ''invalid_request'' ''password and code are required'') (set_auth st sv)
                    else let ev = (\<lambda>et res. (actor_event ActorUser (Some (s_user_id sess)) et res (clientIP x c) None)
                                             \<lparr>ev_session_id := Some (s_id sess)\<rparr>)
                         in case Reauth (x_auth x) (cl_now c) (cl_fresh c) (s_user_id sess) password code st of
                              (Inl e, st1) \<Rightarrow>
                                stop (if e = ErrRateLimited then rate_limited else writeErr 401 ''unauthenticated'' ''Invalid credentials'')
                                  (sv_audit (ev ''auth.reauth.failure'' ResultFailure) (set_auth st1 sv))
                            | (Inr reauthID, st1) \<Rightarrow>
                                stop (writeJSON 200 (JObj [(''reauth_id'', JStr reauthID)]) None)
                                  (sv_audit (ev ''auth.reauth.success'' ResultSuccess) (set_auth st1 sv)))))"

definition handleChangePassword :: "http_env \<Rightarrow> ctx \<Rightarrow> (string \<times> string) option \<Rightarrow> handler" where
  "handleChangePassword x cx body sv =
     (case body of
        None \<Rightarrow> stop (writeErr 400 ''invalid_request'' ''reauth_id and new_password are required'') sv
      | Some (reauthID, newPassword) \<Rightarrow>
          if reauthID = [] \<or> newPassword = []
          then stop (writeErr 400 ''invalid_request'' ''reauth_id and new_password are required'') sv
          else with_reauth x cx reauthID (\<lambda>sv.
            case ChangeOwnPassword (x_auth x) (authCfg x) (cl_fresh cx) (u_id (cx_user cx)) newPassword (sv_auth sv) of
              (Inl ErrPasswordTooShort, st) \<Rightarrow>
                stop (writeErr 400 ''invalid_request'' ''Password must be at least 12 characters'') (set_auth st sv)
            | (Inl _, st) \<Rightarrow> stop (writeErr 500 ''internal_error'' ''Failed to change password'') (set_auth st sv)
            | (Inr _, st) \<Rightarrow> stop (state_reply ''ok'') (sv_audit (user_event x cx ''user.password_changed'' None) (set_auth st sv))) sv)"

fun first_seen :: "string list \<Rightarrow> string list \<Rightarrow> string list" where
  "first_seen seen [] = []"
| "first_seen seen (p # ps) = (if p \<in> set seen then first_seen seen ps else p # first_seen (p # seen) ps)"

definition advisory_json :: "advisory \<Rightarrow> json" where
  "advisory_json a = JObj [(''code'', JStr (adv_code a)), (''severity'', JStr (adv_severity a))]"

definition handleMe :: "http_env \<Rightarrow> ctx \<Rightarrow> handler" where
  "handleMe x cx sv =
     (let confirmed = (case IsConfirmed (x_auth x) (u_id (cx_user cx)) (sv_auth sv) of Inl _ \<Rightarrow> False | Inr b \<Rightarrow> b);
          advisories = (if has_any cx PermSystemSettings then map advisory_json (SecurityAdvisories (x_cfg x)) else [])
      in stop (writeJSON 200 (JObj
           [(''id'', JUuid (u_id (cx_user cx))), (''username'', JStr (u_username (cx_user cx))),
            (''display_name'', JStr (u_display_name (cx_user cx))),
            (''permissions'', JList (map JStr (first_seen [] (map g_permission (cx_grants cx))))),
            (''mfa_confirmed'', JBool confirmed), (''session_expires_at'', JTime (s_expires_at (cx_session cx))),
            (''public_base_url'', JStr (Public_BaseURL (x_cfg x))),
            (''advisories'', if advisories = [] then JNull else JList advisories),
            (''server_version'', JStr (x_version x))]) None) sv)"

section \<open>Incident response and users\<close>

definition handleRevokeAllEnrollments :: "http_env \<Rightarrow> ctx \<Rightarrow> handler" where
  "handleRevokeAllEnrollments x cx = require_any cx PermCredentialRevoke (\<lambda>sv.
     let (n, st) = RevokeAllOutstanding (cl_now cx) (enroll_view sv)
     in stop (writeJSON 200 (JObj [(''revoked_count'', JInt (int n))]) None)
          (sv_audit (user_event x cx ''enrollment.revoked_all'' (Some [(''count'', MInt (int n))])) (set_enroll st sv)))"

fun user_status_string :: "user_status \<Rightarrow> string" where
  "user_status_string UserActive = ''active''"
| "user_status_string UserDisabled = ''disabled''"
| "user_status_string UserLocked = ''locked''"

definition user_json :: "user \<Rightarrow> json" where
  "user_json u = JObj [(''id'', JUuid (u_id u)), (''username'', JStr (u_username u)), (''display_name'', JStr (u_display_name u)),
     (''status'', JStr (user_status_string (u_status u))), (''mfa_required'', JBool (u_mfa_required u)),
     (''created_at'', JTime (u_created_at u)), (''last_login_at'', json_opt JTime (u_last_login_at u))]"

definition handleListUsers :: "http_env \<Rightarrow> ctx \<Rightarrow> handler" where
  "handleListUsers x cx = require_any cx PermUserManage (\<lambda>sv.
     stop (writeJSON 200 (JList (map user_json (ListUsers (sv_auth sv)))) None) sv)"

definition validRoleNames :: "string list" where
  "validRoleNames = [''read_only'', ''technician'', ''admin'', ''super_admin'']"

definition handleCreateUser :: "http_env \<Rightarrow> ctx \<Rightarrow> (string \<times> string \<times> string) option \<Rightarrow> handler" where
  "handleCreateUser x cx body = require_any cx PermUserManage (\<lambda>sv.
     case body of
       None \<Rightarrow> stop (writeErr 400 ''invalid_request'' ''Malformed request body'') sv
     | Some (username, displayName, role) \<Rightarrow>
         if username = [] then stop (writeErr 400 ''invalid_request'' ''username is required'') sv
         else if role \<notin> set validRoleNames
         then stop (writeErr 400 ''invalid_request'' ''role must be one of read_only, technician, admin, super_admin'') sv
         else let password = GenerateSupportPassword (cl_rnd cx) 20
         in case HashPassword (pw (x_auth x)) (fr_salt (cl_fresh cx)) password (argon2Params x) of
           Inl _ \<Rightarrow> stop (writeErr 500 ''internal_error'' ''Failed to hash password'') sv
         | Inr hash \<Rightarrow>
             (case CreateUser (cl_now cx) (fr_id (cl_fresh cx)) username displayName hash (sv_auth sv) of
                (Inl _, st) \<Rightarrow> stop (writeErr 409 ''username_taken'' ''That username is already in use'') (set_auth st sv)
              | (Inr userID, st) \<Rightarrow>
                  (case RoleIDByName (rbac st) role of
                     None \<Rightarrow> stop (writeErr 500 ''internal_error'' ''Failed to look up role'') (set_auth st sv)
                   | Some roleID \<Rightarrow>
                       stop (writeJSON 200 (JObj [(''id'', JUuid userID), (''username'', JStr username), (''password'', JStr password)]) None)
                         (sv_audit (user_event x cx ''user.created''
                            (Some [(''target_user_id'', MUuid userID), (''username'', MStr username), (''role'', MStr role)]))
                           (set_auth (st\<lparr>rbac := AssignRole userID roleID ''global'' None (rbac st)\<rparr>) sv)))))"

definition user_status_of :: "string \<Rightarrow> user_status option" where
  "user_status_of s = (if s = ''active'' then Some UserActive else if s = ''disabled'' then Some UserDisabled
     else if s = ''locked'' then Some UserLocked else None)"

text \<open>The second half of \<open>handleSetUserStatus\<close>.\<close>

definition set_mfa_required :: "http_env \<Rightarrow> ctx \<Rightarrow> uuid \<Rightarrow> bool option \<Rightarrow> handler" where
  "set_mfa_required x cx i mfa sv =
     (case mfa of
        None \<Rightarrow> stop (state_reply ''ok'') sv
      | Some b \<Rightarrow>
          (case SetMFARequired i b (sv_auth sv) of
             (Inl _, st) \<Rightarrow> stop (writeErr 404 ''not_found'' ''User not found'') (set_auth st sv)
           | (Inr _, st) \<Rightarrow>
               stop (state_reply ''ok'') (sv_audit (user_event x cx ''user.mfa_required_changed''
                 (Some [(''target_user_id'', MUuid i), (''mfa_required'', MBool b)])) (set_auth st sv))))"

definition handleSetUserStatus :: "http_env \<Rightarrow> ctx \<Rightarrow> string \<Rightarrow> (string option \<times> bool option) option \<Rightarrow> handler" where
  "handleSetUserStatus x cx target body = require_any cx PermUserManage (with_id x ''invalid user id'' target (\<lambda>i sv.
     case body of
       None \<Rightarrow> stop (writeErr 400 ''invalid_request'' ''Malformed request body'') sv
     | Some (None, None) \<Rightarrow> stop (writeErr 400 ''invalid_request'' ''status or mfa_required is required'') sv
     | Some (None, mfa) \<Rightarrow> set_mfa_required x cx i mfa sv
     | Some (Some s, mfa) \<Rightarrow>
         (case user_status_of s of
            None \<Rightarrow> stop (writeErr 400 ''invalid_request'' ''status must be active, disabled or locked'') sv
          | Some status \<Rightarrow>
              if i = u_id (cx_user cx) \<and> status \<noteq> UserActive
              then stop (writeErr 409 ''invalid_request'' ''cannot disable/lock your own account'') sv
              else case SetStatus i status (sv_auth sv) of
                (Inl _, st) \<Rightarrow> stop (writeErr 404 ''not_found'' ''User not found'') (set_auth st sv)
              | (Inr _, st) \<Rightarrow>
                  set_mfa_required x cx i mfa
                    (sv_audit (user_event x cx ''user.status_changed'' (Some [(''target_user_id'', MUuid i), (''status'', MStr s)]))
                      (set_auth (if status \<noteq> UserActive then RevokeAllForUser (cl_now cx) i st else st) sv)))))"

definition handleRevokeUserSessions :: "http_env \<Rightarrow> ctx \<Rightarrow> string \<Rightarrow> handler" where
  "handleRevokeUserSessions x cx target = require_any cx PermUserManage (with_id x ''invalid user id'' target (\<lambda>i sv.
     stop (state_reply ''ok'') (sv_audit (user_event x cx ''user.sessions_revoked'' (Some [(''target_user_id'', MUuid i)]))
       (set_auth (RevokeAllForUser (cl_now cx) i (sv_auth sv)) sv))))"

section \<open>Help\<close>

text \<open>\<open>httpapi/handlers_help.go\<close>.\<close>

definition handleHelpIndex :: "http_env \<Rightarrow> handler" where
  "handleHelpIndex x = stop (writeJSON 200 (JList (map (\<lambda>s. JObj [(''slug'', JStr (hs_slug s)), (''title'', JStr (hs_title s))]) (x_help x))) None)"

definition handleHelpPage :: "http_env \<Rightarrow> string \<Rightarrow> handler" where
  "handleHelpPage x slug =
     stop (case find_row (\<lambda>s. hs_slug s = slug) (x_help x) of
             None \<Rightarrow> writeErr 404 ''not_found'' ''Help page not found''
           | Some s \<Rightarrow> writeJSON 200 (JObj [(''slug'', JStr (hs_slug s)), (''title'', JStr (hs_title s)), (''html'', JStr (hs_html s))]) None)"

end
