(* ===== verification/Http_Devices.thy ===== *)
theory Http_Devices
  imports Http_Core
begin

text \<open>
  The handlers for devices, metrics and the audit log (\<open>httpapi/handlers_devices.go\<close>).
\<close>

section \<open>Query parameters\<close>

text \<open>The value \<open>strconv.Atoi\<close> returns beside an error: zero, or the nearest
  \<open>int64\<close> when the number is out of range.\<close>

definition atoi_value :: "string \<Rightarrow> int" where
  "atoi_value s = (case atoi s of Some n \<Rightarrow> n | None \<Rightarrow>
     let ds = (if s \<noteq> [] \<and> (hd s = CHR ''-'' \<or> hd s = CHR ''+'') then tl s else s)
     in if ds = [] \<or> \<not> list_all is_digit ds then 0 else if hd s = CHR ''-'' then - (2 ^ 63) else 2 ^ 63 - 1)"

text \<open>An optional id: \<open>Inl\<close> when it is there and malformed.\<close>

definition optional_id :: "http_env \<Rightarrow> string \<Rightarrow> string \<Rightarrow> reply + uuid option" where
  "optional_id x message v =
     (if v = [] then Inr None
      else case parse_uuid x v of None \<Rightarrow> Inl (writeErr 400 ''invalid_request'' message) | Some i \<Rightarrow> Inr (Some i))"

definition time_or :: "http_env \<Rightarrow> time \<Rightarrow> string \<Rightarrow> time" where
  "time_or x dflt v = (if v = [] then dflt else case x_parse_time x v of None \<Rightarrow> dflt | Some t \<Rightarrow> t)"

section \<open>Devices\<close>

fun status_string :: "device_status \<Rightarrow> string" where
  "status_string StatusUnknown = ''unknown''"
| "status_string StatusOnline = ''online''"
| "status_string StatusConnectionLost = ''connection_lost''"
| "status_string StatusOffline = ''offline''"
| "status_string StatusRevoked = ''revoked''"

fun health_string :: "health \<Rightarrow> string" where
  "health_string HealthHealthy = ''healthy''"
| "health_string HealthWarning = ''warning''"
| "health_string HealthCritical = ''critical''"
| "health_string HealthOffline = ''offline''"
| "health_string HealthUnknown = ''unknown''"

definition status_of :: "string \<Rightarrow> device_status option" where
  "status_of s = find (\<lambda>v. status_string v = s) [StatusUnknown, StatusOnline, StatusConnectionLost, StatusOffline, StatusRevoked]"

definition health_of :: "string \<Rightarrow> health option" where
  "health_of s = find (\<lambda>v. health_string v = s) [HealthHealthy, HealthWarning, HealthCritical, HealthOffline, HealthUnknown]"

definition deviceSummary :: "device \<Rightarrow> (string \<times> json) list" where
  "deviceSummary d =
     [(''id'', JUuid (d_id d)), (''install_id'', JUuid (d_install_id d)), (''customer_id'', json_opt JUuid (d_customer_id d)),
      (''group_id'', json_opt JUuid (d_group_id d)), (''display_name'', JStr (d_display_name d)), (''hostname'', JStr (d_hostname d)),
      (''os_family'', JStr (d_os_family d)), (''os_name'', JStr (d_os_name d)), (''os_version'', JStr (d_os_version d)),
      (''architecture'', JStr (d_architecture d)), (''agent_version'', JStr (d_agent_version d)),
      (''status'', JStr (status_string (d_status d))), (''health'', JStr (health_string (d_health d))),
      (''health_reasons'', JList (map JStr (d_health_reasons d))), (''tags'', JList (map JStr (d_tags d))),
      (''last_seen_at'', json_opt JTime (d_last_seen_at d)), (''last_public_ip'', JStr (d_last_public_ip d)),
      (''transport_secure'', json_opt JBool (d_transport_secure d))]"

text \<open>A status or health that does not exist matches no row; the page is filtered after it has
  been cut out, and the total is that of the unfiltered query.\<close>

definition list_devices :: "http_env \<Rightarrow> string \<Rightarrow> string \<Rightarrow> device_filter \<Rightarrow> device_db \<Rightarrow> device_error + (device list \<times> nat)" where
  "list_devices x status health f db =
     (if status \<noteq> [] \<and> status_of status = None \<or> health \<noteq> [] \<and> health_of health = None
      then (case ListDevices (x_ilike x) f (db\<lparr>devices := []\<rparr>) of Inl e \<Rightarrow> Inl e | Inr r \<Rightarrow> Inr r)
      else ListDevices (x_ilike x) (f\<lparr>df_status := (if status = [] then None else status_of status),
             df_health := (if health = [] then None else health_of health)\<rparr>) db)"

definition visible_devices :: "ctx \<Rightarrow> device list \<Rightarrow> device list" where
  "visible_devices cx ds =
     (if \<not> may cx PermDeviceRead GlobalResource then filter (\<lambda>d. may cx PermDeviceRead (deviceResource d)) ds else ds)"

definition handleListDevices :: "http_env \<Rightarrow> ctx \<Rightarrow> handler" where
  "handleListDevices x cx = require_any cx PermDeviceRead (\<lambda>sv.
     case optional_id x ''invalid customer_id'' (query cx ''customer_id'') of Inl e \<Rightarrow> stop e sv | Inr cust \<Rightarrow>
     (case optional_id x ''invalid group_id'' (query cx ''group_id'') of Inl e \<Rightarrow> stop e sv | Inr grp \<Rightarrow>
       let page = (if query cx ''page'' = [] then 0 else atoi_value (query cx ''page''));
           size = (if query cx ''page_size'' = [] then 0 else atoi_value (query cx ''page_size''));
           f = \<lparr>df_status = None, df_health = None, df_customer_id = cust, df_group_id = grp, df_tag = query cx ''tag'',
                df_query = query cx ''q'', df_page = page, df_page_size = size\<rparr>
       in case list_devices x (query cx ''status'') (query cx ''health'') f (sv_devices sv) of
            Inl _ \<Rightarrow> stop (writeErr 500 ''internal_error'' ''Failed to list devices'') sv
          | Inr (ds, n) \<Rightarrow>
              stop (writeJSON 200 (JList (map (\<lambda>d. JObj (deviceSummary d)) (visible_devices cx ds)))
                (Some (JObj [(''total'', JInt (int n)), (''page'', JInt page), (''page_size'', JInt size)]))) sv))"

definition handleGetDevice :: "http_env \<Rightarrow> ctx \<Rightarrow> string \<Rightarrow> handler" where
  "handleGetDevice x cx i = with_device x PermDeviceRead cx i (\<lambda>d sv.
     stop (writeJSON 200 (JObj (deviceSummary d @
       [(''online'', JBool (IsOnline (d_id d) (sv_hub sv))),
        (''support_credential_available'', JBool (GetSupportStatus (d_id d) (sv_admin sv) \<noteq> None)),
        (''support_credential_updated_at'', json_opt JTime (GetSupportStatus (d_id d) (sv_admin sv)))])) None) sv)"

text \<open>A patch names a customer or a group that the foreign keys know, or clears it.\<close>

record patch_request =
  pr_display_name :: "string option"
  pr_customer_id :: "string option"
  pr_group_id :: "string option"
  pr_tags :: "string list option"

definition patch_id :: "http_env \<Rightarrow> string \<Rightarrow> string option \<Rightarrow> reply + uuid option option" where
  "patch_id x message v =
     (case v of None \<Rightarrow> Inr None
      | Some s \<Rightarrow> (case optional_id x message s of Inl e \<Rightarrow> Inl e | Inr i \<Rightarrow> Inr (Some i)))"

definition known_customer :: "admin_data \<Rightarrow> uuid option \<Rightarrow> bool" where
  "known_customer ad i = (case i of None \<Rightarrow> True | Some c \<Rightarrow> c \<in> set (map cu_id (customers ad)))"

definition known_group :: "admin_data \<Rightarrow> uuid option \<Rightarrow> bool" where
  "known_group ad i = (case i of None \<Rightarrow> True | Some g \<Rightarrow> g \<in> set (map gr_id (device_groups ad)))"

definition handlePatchDevice :: "http_env \<Rightarrow> ctx \<Rightarrow> string \<Rightarrow> patch_request option \<Rightarrow> handler" where
  "handlePatchDevice x cx i body = with_device x PermDeviceManage cx i (\<lambda>d sv.
     case body of
       None \<Rightarrow> stop (writeErr 400 ''invalid_request'' ''Malformed request body'') sv
     | Some req \<Rightarrow>
       (case patch_id x ''invalid customer_id'' (pr_customer_id req) of Inl e \<Rightarrow> stop e sv | Inr cust \<Rightarrow>
       (case patch_id x ''invalid group_id'' (pr_group_id req) of Inl e \<Rightarrow> stop e sv | Inr grp \<Rightarrow>
         let inp = \<lparr>p_display_name = pr_display_name req, p_customer_id = cust, p_group_id = grp, p_tags = pr_tags req, p_policy = None\<rparr>
         in if \<not> known_customer (sv_admin sv) (Option.bind cust id) \<or> \<not> known_group (sv_admin sv) (Option.bind grp id)
            then stop (writeErr 500 ''internal_error'' ''Failed to update device'') sv
            else case PatchDevice (d_id d) inp (sv_devices sv) of
              (Inl _, db) \<Rightarrow> stop (writeErr 500 ''internal_error'' ''Failed to update device'') sv
            | (Inr _, db) \<Rightarrow> stop (state_reply ''updated'') (sv_audit (device_event_of x cx (d_id d) ''device.updated'' None) (set_devices db sv)))))"

definition handleStatusRequest :: "http_env \<Rightarrow> ctx \<Rightarrow> string \<Rightarrow> handler" where
  "handleStatusRequest x cx i = with_device x PermDeviceRead cx i (\<lambda>d sv.
     case RequestInventory (d_id d) (cl_write_ok cx) (sv_hub sv) of
       (False, h) \<Rightarrow> stop (writeErr 409 ''device_busy'' ''Device is not currently connected'') (set_hub h sv)
     | (True, h) \<Rightarrow> stop (state_reply ''requested'') (set_hub h sv))"

definition ip_json :: "ip_history_entry \<Rightarrow> json" where
  "ip_json e = JObj [(''IP'', JStr (ip_addr e)), (''FirstSeen'', JTime (ip_first_seen e)), (''LastSeen'', JTime (ip_last_seen e))]"

definition handleDeviceIPHistory :: "http_env \<Rightarrow> ctx \<Rightarrow> string \<Rightarrow> handler" where
  "handleDeviceIPHistory x cx i = with_device x PermMonitoringRead cx i (\<lambda>d sv.
     let window = (case atoi (query cx ''hours'') of
                     Some h \<Rightarrow> if query cx ''hours'' \<noteq> [] \<and> h > 0 \<and> h \<le> 24 * 30 then h * hour else 24 * hour | None \<Rightarrow> 24 * hour);
         history = RecentIPHistory (cl_now cx) (d_id d) window (sv_devices sv)
     in stop (writeJSON 200 (JList (map ip_json history))
          (Some (JObj [(''distinct_count'', JInt (int (length history))), (''window_hours'', JInt (window div hour))]))) sv)"

definition handleDeviceHealth :: "http_env \<Rightarrow> ctx \<Rightarrow> string \<Rightarrow> handler" where
  "handleDeviceHealth x cx i = with_device x PermMonitoringRead cx i (\<lambda>d.
     stop (writeJSON 200 (JObj [(''health'', JStr (health_string (d_health d))), (''reasons'', JList (map JStr (d_health_reasons d)))]) None))"

section \<open>Metrics\<close>

definition metrics_json :: "metrics_row \<Rightarrow> json" where
  "metrics_json p = JObj [(''observed_at'', JTime (mt_observed_at p)), (''cpu_percent'', JNum (mt_cpu_percent p)),
     (''memory_used_bytes'', JInt (mt_memory_used p)), (''memory_total_bytes'', JInt (mt_memory_total p)),
     (''uptime_seconds'', JInt (mt_uptime_seconds p)), (''disk_used_bytes'', JInt (mt_disk_used p)),
     (''disk_total_bytes'', JInt (mt_disk_total p))]"

definition hour_json :: "metrics_hour \<Rightarrow> json" where
  "hour_json p = JObj [(''observed_at'', JTime (mh_bucket_start p)), (''cpu_percent'', JNum (mh_avg_cpu p)),
     (''memory_used_bytes'', JInt (mh_avg_memory_used p)), (''memory_total_bytes'', JInt (mh_avg_memory_total p)),
     (''uptime_seconds'', JInt 0), (''disk_used_bytes'', JInt (mh_avg_disk_used p)), (''disk_total_bytes'', JInt (mh_avg_disk_total p))]"

text \<open>The window of both metrics handlers.\<close>

definition metrics_window :: "http_env \<Rightarrow> ctx \<Rightarrow> bool \<Rightarrow> time \<times> time" where
  "metrics_window x cx hourly =
     (let now = cl_now cx; width = (if hourly then 30 * 24 * hour else 24 * hour)
      in (time_or x (now - width) (query cx ''from''), time_or x now (query cx ''to'')))"

definition handleDeviceMetrics :: "http_env \<Rightarrow> ctx \<Rightarrow> string \<Rightarrow> handler" where
  "handleDeviceMetrics x cx i = with_device x PermMonitoringRead cx i (\<lambda>d sv.
     let hourly = (query cx ''resolution'' = ''hourly''); (from, till) = metrics_window x cx hourly
     in stop (writeJSON 200 (JList (if hourly then map hour_json (HourlyMetrics (d_id d) from till 1000 (sv_metrics sv))
                                    else map metrics_json (RecentMetrics (d_id d) from till 1000 (sv_metrics sv)))) None) sv)"

definition byte_rate :: "rat \<Rightarrow> int \<Rightarrow> rat" where
  "byte_rate interval n = (if interval \<le> 0 then 0 else of_int n / interval)"

definition networkPointJSON :: "time \<Rightarrow> rat \<Rightarrow> int \<Rightarrow> int \<Rightarrow> int \<Rightarrow> int \<Rightarrow> json" where
  "networkPointJSON t interval sent recv sentC recvC = JObj [(''observed_at'', JTime t),
     (''bytes_sent_total'', JInt sent), (''bytes_recv_total'', JInt recv), (''bytes_sent_control'', JInt sentC),
     (''bytes_recv_control'', JInt recvC), (''bytes_sent_total_per_sec'', JNum (byte_rate interval sent)),
     (''bytes_recv_total_per_sec'', JNum (byte_rate interval recv)), (''bytes_sent_control_per_sec'', JNum (byte_rate interval sentC)),
     (''bytes_recv_control_per_sec'', JNum (byte_rate interval recvC))]"

definition net_row_json :: "net_row \<Rightarrow> json" where
  "net_row_json p = networkPointJSON (nt_observed_at p) (nt_interval p) (nt_sent_total p) (nt_recv_total p) (nt_sent_control p) (nt_recv_control p)"

definition net_hour_json :: "net_hour \<Rightarrow> json" where
  "net_hour_json p = networkPointJSON (nh_bucket_start p) (nh_interval p) (nh_sent_total p) (nh_recv_total p) (nh_sent_control p) (nh_recv_control p)"

definition handleDeviceNetworkMetrics :: "http_env \<Rightarrow> ctx \<Rightarrow> string \<Rightarrow> handler" where
  "handleDeviceNetworkMetrics x cx i = with_device x PermMonitoringRead cx i (\<lambda>d sv.
     let hourly = (query cx ''resolution'' = ''hourly''); (from, till) = metrics_window x cx hourly
     in stop (writeJSON 200 (JList (if hourly then map net_hour_json (HourlyNetworkMetrics (d_id d) from till 1000 (sv_metrics sv))
                                    else map net_row_json (RecentNetworkMetrics (d_id d) from till 1000 (sv_metrics sv)))) None) sv)"

definition total_json :: "net_total \<Rightarrow> json" where
  "total_json t = JObj [(''device_id'', JUuid (dt_device_id t)), (''display_name'', JStr (dt_display_name t)),
     (''bytes_sent_total'', JInt (dt_sent_total t)), (''bytes_recv_total'', JInt (dt_recv_total t)),
     (''bytes_sent_control'', JInt (dt_sent_control t)), (''bytes_recv_control'', JInt (dt_recv_control t))]"

definition handleNetworkUsageSummary :: "http_env \<Rightarrow> ctx \<Rightarrow> handler" where
  "handleNetworkUsageSummary x cx = require_any cx PermMonitoringRead (\<lambda>sv.
     let hours = (if query cx ''hours'' = [] then 24
                  else case x_parse_hours x (query cx ''hours'') of None \<Rightarrow> 24 | Some n \<Rightarrow> if n > 0 then n div hour else 24);
         since = cl_now cx - hours * hour;
         totals = NetworkUsageSummary since (devices (sv_devices sv)) (sv_metrics sv)
     in stop (writeJSON 200 (JList (map total_json totals)) (Some (JObj [(''since'', JTime since), (''hours'', JInt hours)]))) sv)"

section \<open>Revoking and deleting devices\<close>

text \<open>The error of decoding the body is ignored; the id is then empty.\<close>

definition handleRevokeDevice :: "http_env \<Rightarrow> ctx \<Rightarrow> string \<Rightarrow> string \<Rightarrow> handler" where
  "handleRevokeDevice x cx i reauthID = with_device x PermCredentialRevoke cx i (\<lambda>d.
     with_reauth x cx reauthID (\<lambda>sv.
       stop (state_reply ''revoked'') (sv_audit (device_event_of x cx (d_id d) ''device.revoked'' None)
         (set_devices (RevokeDevice (cl_now cx) (d_id d) (sv_devices sv)) sv))))"

definition has_history :: reply where
  "has_history = writeErr 409 ''has_history'' ''This device has connected before and has history''"

text \<open>The row, what refers to it, and its alerts go; the token it came from forgets it.\<close>

definition delete_device :: "uuid \<Rightarrow> server \<Rightarrow> (device_error + unit) \<times> server" where
  "delete_device i sv =
     (case DeleteDevice i (sv_devices sv) of
        (Inl e, db) \<Rightarrow> (Inl e, sv)
      | (Inr _, db) \<Rightarrow> (Inr (), set_alerts (forget_alerts i (sv_alerts sv))
                           (set_enroll (forget_device i \<lparr>enrollment_tokens = sv_tokens sv, registry_db = db\<rparr>) sv)))"

definition handleDeleteDevice :: "http_env \<Rightarrow> ctx \<Rightarrow> string \<Rightarrow> string \<Rightarrow> handler" where
  "handleDeleteDevice x cx i reauthID = with_device x PermCredentialRevoke cx i (\<lambda>d sv.
     if d_last_seen_at d \<noteq> None then stop has_history sv
     else with_reauth x cx reauthID (\<lambda>sv.
       case delete_device (d_id d) sv of
         (Inl ErrHasHistory, sv1) \<Rightarrow> stop has_history sv1
       | (Inl _, sv1) \<Rightarrow> stop (writeErr 500 ''internal_error'' ''Failed to delete device'') sv1
       | (Inr _, sv1) \<Rightarrow> stop (state_reply ''deleted'') (sv_audit (device_event_of x cx (d_id d) ''device.deleted''
           (Some [(''display_name'', MStr (d_display_name d))])) sv1)) sv)"

section \<open>The audit log\<close>

definition parseAuditFilter :: "http_env \<Rightarrow> ctx \<Rightarrow> reply + audit_filter" where
  "parseAuditFilter x cx =
     (case optional_id x ''invalid device_id'' (query cx ''device_id'') of
        Inl e \<Rightarrow> Inl e
      | Inr dev \<Rightarrow> Inr \<lparr>flt_actor_id = (if query cx ''actor_id'' = [] then None else parse_uuid x (query cx ''actor_id'')),
          flt_device_id = dev, flt_event_type = query cx ''event_type'',
          flt_from = (if query cx ''from'' = [] then None else x_parse_time x (query cx ''from'')),
          flt_to = (if query cx ''to'' = [] then None else x_parse_time x (query cx ''to'')), flt_limit = 0\<rparr>)"

definition entry_json :: "auth_state \<Rightarrow> audit_row \<Rightarrow> json" where
  "entry_json st r = JObj [(''ID'', JInt (a_id r)), (''OccurredAt'', JTime (a_occurred_at r)), (''ActorType'', JStr (a_actor_type r)),
     (''ActorID'', json_opt JUuid (a_actor_id r)),
     (''ActorUsername'', json_opt JStr (Option.bind (a_actor_id r) (\<lambda>i. map_option u_username (find_row (\<lambda>u. u_id u = i) (users st))))),
     (''DeviceID'', json_opt JUuid (a_device_id r)), (''CustomerID'', json_opt JUuid (a_customer_id r)),
     (''EventType'', JStr (a_event_type r)), (''Result'', JStr (a_result r)),
     (''SourceIP'', JStr (case a_source_ip r of None \<Rightarrow> [] | Some s \<Rightarrow> s)), (''Metadata'', JRaw (a_metadata r))]"

definition entries_reply :: "auth_state \<Rightarrow> audit_row list \<Rightarrow> reply" where
  "entries_reply st es = writeJSON 200 (JList (map (entry_json st) es)) (Some (JObj [(''count'', JInt (int (length es)))]))"

definition handleAuditLog :: "http_env \<Rightarrow> ctx \<Rightarrow> handler" where
  "handleAuditLog x cx = require_any cx PermAuditRead (\<lambda>sv.
     case parseAuditFilter x cx of
       Inl e \<Rightarrow> stop e sv
     | Inr f \<Rightarrow> stop (entries_reply (sv_auth sv) (ListAudit (cl_now cx) f (sv_log sv))) sv)"

definition uuidOrEmpty :: "http_env \<Rightarrow> uuid option \<Rightarrow> string" where
  "uuidOrEmpty x i = (case i of None \<Rightarrow> [] | Some u \<Rightarrow> uuid_string (x_auth x) u)"

definition csv_fields :: "http_env \<Rightarrow> audit_row \<Rightarrow> string list" where
  "csv_fields x r = [show_int (a_id r), x_format_time x (a_occurred_at r), a_actor_type r, uuidOrEmpty x (a_actor_id r),
     uuidOrEmpty x (a_device_id r), uuidOrEmpty x (a_customer_id r), a_event_type r, a_result r,
     (case a_source_ip r of None \<Rightarrow> [] | Some s \<Rightarrow> s), string_of (a_metadata r)]"

text \<open>The quoting of \<open>encoding/csv\<close> is applied to these fields by the library; the file name
  in the header \<open>Content-Disposition\<close> is left out.\<close>

definition handleExportAuditLog :: "http_env \<Rightarrow> ctx \<Rightarrow> handler" where
  "handleExportAuditLog x cx = require_any cx PermAuditRead (\<lambda>sv.
     case parseAuditFilter x cx of
       Inl e \<Rightarrow> stop e sv
     | Inr f \<Rightarrow>
         let es = ListAudit (cl_now cx) (f\<lparr>flt_limit := 1000\<rparr>) (sv_log sv);
             sv1 = sv_audit (user_event x cx ''audit.exported''
                     (Some [(''format'', MStr (query cx ''format'')), (''count'', MInt (int (length es)))])) sv
         in if query cx ''format'' = ''csv''
            then stop \<lparr>rp_status = 200, rp_headers = [(''Content-Type'', ''text/csv'')], rp_cookies = [],
                   rp_body = TextReply (x_csv x ([''id'', ''occurred_at'', ''actor_type'', ''actor_id'', ''device_id'', ''customer_id'',
                     ''event_type'', ''result'', ''source_ip'', ''metadata''] # map (csv_fields x) es))\<rparr> sv1
            else stop (entries_reply (sv_auth sv) es) sv1)"

definition verification_json :: "chain_verification \<Rightarrow> json" where
  "verification_json v = JObj [(''Valid'', JBool (cv_valid v)), (''EntriesCheck'', JInt (cv_entries_check v)),
     (''EntriesPreChain'', JInt (cv_entries_pre_chain v)), (''BrokenAtID'', json_opt JInt (cv_broken_at_id v))]"

definition handleVerifyAuditChain :: "http_env \<Rightarrow> ctx \<Rightarrow> handler" where
  "handleVerifyAuditChain x cx = require_any cx PermAuditRead (\<lambda>sv.
     case VerifyChain (x_audit x) (sv_log sv) of
       Inl _ \<Rightarrow> stop (writeErr 500 ''internal_error'' ''Failed to verify audit chain'') sv
     | Inr v \<Rightarrow>
         stop (writeJSON 200 (verification_json v) None)
           (sv_audit ((user_event x cx ''audit.chain_verified''
              (Some [(''valid'', MBool (cv_valid v)), (''entries_checked'', MInt (cv_entries_check v)),
                     (''broken_at_id'', case cv_broken_at_id v of None \<Rightarrow> MNull | Some i \<Rightarrow> MInt i)]))
              \<lparr>ev_result := (if cv_valid v then ResultSuccess else ResultFailure)\<rparr>) sv))"

definition handleDeviceAuditLog :: "http_env \<Rightarrow> ctx \<Rightarrow> string \<Rightarrow> handler" where
  "handleDeviceAuditLog x cx i = with_device x PermAuditRead cx i (\<lambda>d sv.
     stop (entries_reply (sv_auth sv) (ListAudit (cl_now cx) \<lparr>flt_actor_id = None, flt_device_id = Some (d_id d), flt_event_type = [],
       flt_from = None, flt_to = None, flt_limit = 0\<rparr> (sv_log sv))) sv)"

end
