(* ===== verification/Http_Fleet.thy ===== *)
theory Http_Fleet
  imports Http_Devices
begin

text \<open>
  The handlers for enrollment (\<open>httpapi/handlers_enrollment.go\<close>), agent releases
  (\<open>handlers_releases.go\<close>), and support credentials (\<open>handlers_support.go\<close>).
\<close>

section \<open>Enrollment\<close>

record enrollment_request =
  er_customer_id :: "string option"
  er_group_id :: "string option"
  er_display_name :: string
  er_expires_in_seconds :: int
  er_tags :: "string list"
  er_reusable :: bool

definition string_or_empty :: "string option \<Rightarrow> string" where
  "string_or_empty v = (case v of None \<Rightarrow> [] | Some s \<Rightarrow> s)"

definition handleCreateEnrollment :: "http_env \<Rightarrow> ctx \<Rightarrow> enrollment_request option \<Rightarrow> handler" where
  "handleCreateEnrollment x cx body = require_any cx PermEnrollmentCreate (\<lambda>sv.
     case body of
       None \<Rightarrow> stop (writeErr 400 ''invalid_request'' ''Malformed request body'') sv
     | Some req \<Rightarrow>
       (case optional_id x ''invalid customer_id'' (string_or_empty (er_customer_id req)) of Inl e \<Rightarrow> stop e sv | Inr cust \<Rightarrow>
       (case optional_id x ''invalid group_id'' (string_or_empty (er_group_id req)) of Inl e \<Rightarrow> stop e sv | Inr grp \<Rightarrow>
         if \<not> may cx PermEnrollmentCreate \<lparr>res_customer_id = cust, res_group_id = grp\<rparr>
         then stop (writeErr 403 ''permission_denied'' ''Not permitted for this customer/group scope'') sv
         else if \<not> known_customer (sv_admin sv) cust \<or> \<not> known_group (sv_admin sv) grp
         then stop (writeErr 500 ''internal_error'' ''Failed to create enrollment'') sv
         else case CreateToken (x_enroll x) (cl_now cx) (fr_id (cl_fresh cx)) (fr_token (cl_fresh cx))
                \<lparr>cp_customer_id = cust, cp_group_id = grp, cp_display_name = er_display_name req,
                 cp_expires_in = wrap64 (er_expires_in_seconds req * second), cp_tags = er_tags req,
                 cp_created_by = u_id (cx_user cx), cp_reusable = er_reusable req\<rparr> (enroll_view sv) of
           (Inl _, st) \<Rightarrow> stop (writeErr 500 ''internal_error'' ''Failed to create enrollment'') sv
         | (Inr (i, token, expiresAt), st) \<Rightarrow>
             stop (writeJSON 201 (JObj [(''id'', JUuid i), (''token'', JStr token), (''expires_at'', JTime expiresAt)]) None)
               (sv_audit ((user_event x cx ''enrollment.created''
                  (Some [(''enrollment_id'', MUuid i), (''reusable'', MBool (er_reusable req))]))\<lparr>ev_customer_id := cust\<rparr>)
                 (set_enroll st sv)))))"

definition token_json :: "enroll_token \<Rightarrow> json" where
  "token_json t = JObj [(''ID'', JUuid (t_id t)), (''DisplayName'', JStr (t_display_name t)), (''CustomerID'', json_opt JUuid (t_customer_id t)),
     (''IsReusable'', JBool (t_is_reusable t)), (''UseCount'', JInt (t_use_count t)), (''LastUsedAt'', json_opt JTime (t_last_used_at t)),
     (''ExpiresAt'', JTime (t_expires_at t)), (''CreatedAt'', JTime (t_created_at t))]"

definition handleListEnrollments :: "http_env \<Rightarrow> ctx \<Rightarrow> handler" where
  "handleListEnrollments x cx = require_any cx PermEnrollmentCreate (\<lambda>sv.
     stop (writeJSON 200 (JList (map token_json (ListOutstanding (cl_now cx) (enroll_view sv)))) None) sv)"

definition handleRevokeEnrollment :: "http_env \<Rightarrow> ctx \<Rightarrow> string \<Rightarrow> handler" where
  "handleRevokeEnrollment x cx target = require_any cx PermEnrollmentCreate (with_id x ''invalid id'' target (\<lambda>i sv.
     case RevokeToken (cl_now cx) i (enroll_view sv) of
       (Inl _, st) \<Rightarrow> stop (writeErr 404 ''resource_not_found'' ''Enrollment not found or already used'') sv
     | (Inr _, st) \<Rightarrow> stop (state_reply ''revoked'')
         (sv_audit (user_event x cx ''enrollment.revoked'' (Some [(''enrollment_id'', MUuid i)])) (set_enroll st sv))))"

record agent_enrollment =
  ag_token :: string
  ag_install_id :: string
  ag_public_key :: string
  ag_agent_version :: string
  ag_os :: string
  ag_arch :: string
  ag_hostname :: string

definition enroll_error_reply :: "enroll_error \<Rightarrow> reply" where
  "enroll_error_reply e = (case e of
     ErrTokenInvalid \<Rightarrow> writeErr 401 ''unauthenticated'' ''Enrollment token invalid or expired''
   | ErrInstallExists \<Rightarrow> writeErr 409 ''invalid_request'' ''Install ID already enrolled''
   | ErrEnrollDatabase \<Rightarrow> writeErr 500 ''internal_error'' ''Enrollment failed'')"

definition handleAgentEnroll :: "http_env \<Rightarrow> call \<Rightarrow> agent_enrollment option \<Rightarrow> handler" where
  "handleAgentEnroll x c body sv0 =
     (let (ok, l) = Allow (cl_now c) (''enroll:'' @ clientIP x c) (sv_enroll_limiter sv0); sv = sv0\<lparr>sv_enroll_limiter := l\<rparr>
      in if \<not> ok then stop (writeErr 429 ''rate_limited'' ''Too many enrollment attempts'') sv
      else case body of
        None \<Rightarrow> stop (writeErr 400 ''invalid_request'' ''Malformed request body'') sv
      | Some req \<Rightarrow>
        (case parse_uuid x (ag_install_id req) of None \<Rightarrow> stop (writeErr 400 ''invalid_request'' ''invalid install_id'') sv | Some inst \<Rightarrow>
        (case base64_decode (x_hub x) (ag_public_key req) of None \<Rightarrow> stop (writeErr 400 ''invalid_request'' ''invalid public_key'') sv | Some key \<Rightarrow>
          if length key \<noteq> PublicKeySize then stop (writeErr 400 ''invalid_request'' ''invalid public_key'') sv
          else if length (ag_agent_version req) > 64 \<or> length (ag_os req) > 32 \<or> length (ag_arch req) > 32 \<or> length (ag_hostname req) > 255
          then stop (writeErr 400 ''invalid_request'' ''field too long'') sv
          else case Consume (x_enroll x) (cl_now c) (fr_id (cl_fresh c)) \<lparr>ae_token = ag_token req, ae_install_id = inst,
                 ae_public_key = key, ae_agent_version = ag_agent_version req, ae_hostname = ag_hostname req\<rparr> (enroll_view sv) of
            (Inl e, st) \<Rightarrow> stop (enroll_error_reply e)
              (sv_audit (actor_event ActorAgent None ''enrollment.rejected'' ResultFailure (clientIP x c)
                 (Some [(''reason'', MStr (x_error_text x e))])) (set_enroll st sv))
          | (Inr i, st) \<Rightarrow> stop (writeJSON 201 (JObj [(''device_id'', JUuid i)]) None)
              (sv_audit ((actor_event ActorAgent None ''enrollment.consumed'' ResultSuccess (clientIP x c) None)
                 \<lparr>ev_device_id := Some i\<rparr>) (set_enroll st sv)))))"

text \<open>The handshake of the control channel: the challenge, the answer read from the socket and
  whether the acknowledgement could be sent.\<close>

definition handleAgentControl :: "http_env \<Rightarrow> call \<Rightarrow> bytes \<Rightarrow> bytes option \<Rightarrow> bool \<Rightarrow> handler" where
  "handleAgentControl x c nonce answer ackSent sv0 =
     (let (ok, l) = Allow (cl_now c) (''control:'' @ clientIP x c) (sv_control_limiter sv0); sv = sv0\<lparr>sv_control_limiter := l\<rparr>
      in if \<not> ok then stop (writeErr 429 ''rate_limited'' ''Too many connection attempts'') sv
         else (None, set_hub (ServeAgentWS_start (x_hub x) (cl_now c) nonce answer ackSent (clientIP x c) (sv_hub sv)) sv))"

section \<open>Releases\<close>

definition releaseEnv :: "http_env \<Rightarrow> update_env" where
  "releaseEnv x = update_env.truncate (x_hub x)"

definition release_json :: "release \<Rightarrow> json" where
  "release_json r = JObj [(''ID'', JUuid (rl_id r)), (''Version'', JStr (rl_version r)), (''OSFamily'', JStr (rl_os_family r)),
     (''Architecture'', JStr (rl_architecture r)), (''Channel'', JStr (rl_channel r)), (''ArtifactURL'', JStr (rl_artifact_url r)),
     (''ArtifactSHA256Hex'', JStr (rl_artifact_sha256_hex r)), (''SignatureBase64'', JStr (rl_signature_base64 r)),
     (''PublishedAt'', JTime (rl_published_at r)), (''MinimumSupported'', JBool (rl_minimum_supported r)), (''Blocked'', JBool (rl_blocked r))]"

definition handleListReleases :: "http_env \<Rightarrow> ctx \<Rightarrow> handler" where
  "handleListReleases x cx = require_any cx PermAgentUpdate (\<lambda>sv.
     stop (writeJSON 200 (JList (map release_json (ListReleases (releaseEnv x) (h_releases (sv_hub sv))))) None) sv)"

definition no_release_key :: reply where
  "no_release_key = writeErr 412 ''not_configured'' ''No trusted release public key configured (WR_RELEASE_PUBLIC_KEY_FILE)''"

definition http_CreateRelease :: "http_env \<Rightarrow> ctx \<Rightarrow> release option \<Rightarrow> handler" where
  "http_CreateRelease x cx body = require_any cx PermAgentUpdate (\<lambda>sv.
     if length (releaseKey x) \<noteq> PublicKeySize then stop no_release_key sv
     else case body of
       None \<Rightarrow> stop (writeErr 400 ''invalid_request'' ''Malformed request body'') sv
     | Some rl \<Rightarrow>
         (case handleCreateRelease (releaseEnv x) (releaseKey x) (fr_id (cl_fresh cx), cl_now cx) rl (h_releases (sv_hub sv)) of
            (NotConfigured, rows) \<Rightarrow> stop no_release_key sv
          | (InvalidRelease, rows) \<Rightarrow> stop (writeErr 400 ''invalid_request''
              ''version, os_family, architecture, artifact_url, artifact_sha256_hex and signature_base64 are required'') sv
          | (ReleaseRejected e, rows) \<Rightarrow> stop (writeErr 400 ''invalid_request'' (''Release rejected: '' @ x_release_error x e)) (set_releases rows sv)
          | (ReleaseCreated r, rows) \<Rightarrow> stop (writeJSON 201 (release_json r) None)
              (sv_audit (user_event x cx ''agent_release.created'' (Some [(''version'', MStr (rl_version r)), (''os_family'', MStr (rl_os_family r)),
                 (''architecture'', MStr (rl_architecture r)), (''channel'', MStr (rl_channel r))])) (set_releases rows sv))))"

text \<open>What was fetched from GitHub is an argument, with the ids and instants of new rows.\<close>

definition handleSyncGitHubReleases :: "http_env \<Rightarrow> (nat \<Rightarrow> uuid \<times> time) \<Rightarrow> gh_release list option \<Rightarrow> ctx \<Rightarrow> handler" where
  "handleSyncGitHubReleases x stamps fetched cx = require_any cx PermAgentUpdate (\<lambda>sv.
     if length (releaseKey x) \<noteq> PublicKeySize then stop no_release_key sv
     else case SyncOnce (releaseEnv x) (releaseKey x) stamps fetched (h_releases (sv_hub sv)) of
       (Inl _, rows) \<Rightarrow> stop (writeErr 502 ''github_sync_failed'' ''Failed to reach GitHub'') (set_releases rows sv)
     | (Inr (imported, skipped, errs), rows) \<Rightarrow>
         stop (writeJSON 200 (JObj [(''imported'', JInt imported), (''skipped'', JInt skipped),
             (''errors'', JList (map (\<lambda>e. JStr (x_sync_error x e)) errs))]) None)
           (sv_audit (user_event x cx ''agent_release.github_synced'' (Some [(''imported'', MInt imported), (''skipped'', MInt skipped),
              (''errors'', MStrings (map (x_sync_error x) errs))])) (set_releases rows sv)))"

definition handleSetReleaseBlocked :: "http_env \<Rightarrow> ctx \<Rightarrow> string \<Rightarrow> bool option \<Rightarrow> handler" where
  "handleSetReleaseBlocked x cx target body = require_any cx PermAgentUpdate (with_id x ''invalid release id'' target (\<lambda>i sv.
     case body of
       None \<Rightarrow> stop (writeErr 400 ''invalid_request'' ''Malformed request body'') sv
     | Some blocked \<Rightarrow>
         (case SetBlocked i blocked (h_releases (sv_hub sv)) of
            (Inl _, rows) \<Rightarrow> stop (writeErr 404 ''not_found'' ''Release not found'') sv
          | (Inr _, rows) \<Rightarrow> stop (state_reply ''ok'') (set_releases rows sv))))"

text \<open>The body is optional; an empty channel is \<open>stable\<close>.\<close>

definition handleTriggerDeviceUpdate :: "http_env \<Rightarrow> ctx \<Rightarrow> string \<Rightarrow> string \<Rightarrow> handler" where
  "handleTriggerDeviceUpdate x cx i channel0 = with_device x PermAgentUpdate cx i (\<lambda>d sv.
     if \<not> IsOnline (d_id d) (sv_hub sv) then stop (writeErr 409 ''device_offline'' ''Device is not connected'') sv
     else case Latest (releaseEnv x) (d_os_family d) (d_architecture d) (if channel0 = [] then ''stable'' else channel0) (h_releases (sv_hub sv)) of
       Inl _ \<Rightarrow> stop (writeErr 404 ''not_found'' (''No matching release found for this device'' @ [CHR 0x27] @ ''s OS/architecture/channel'')) sv
     | Inr rl \<Rightarrow>
         if rl_version rl = d_agent_version d then stop (writeErr 409 ''already_current'' ''Device already runs this version'') sv
         else case SendHubMessage (d_id d) (type_name TypeDeviceCommand)
                (Some (CmdAgentUpdate \<lparr>up_version = rl_version rl, up_artifact_url = rl_artifact_url rl,
                   up_artifact_sha256_hex = rl_artifact_sha256_hex rl, up_signature_base64 = rl_signature_base64 rl\<rparr>))
                (cl_write_ok cx) (sv_hub sv) of
           (False, h) \<Rightarrow> stop (writeErr 409 ''device_busy'' ''Failed to send update command to device'') (set_hub h sv)
         | (True, h) \<Rightarrow> stop (writeJSON 200 (JObj [(''target_version'', JStr (rl_version rl))]) None)
             (sv_audit (device_event_of x cx (d_id d) ''agent.update.triggered''
                (Some [(''target_version'', MStr (rl_version rl)), (''from_version'', MStr (d_agent_version d))])) (set_hub h sv)))"

section \<open>Support credentials\<close>

definition with_tunnel_access :: "http_env \<Rightarrow> ctx \<Rightarrow> string \<Rightarrow> (device \<Rightarrow> handler) \<Rightarrow> handler" where
  "with_tunnel_access x cx i k sv =
     (case loadDevice x i sv of
        Inl e \<Rightarrow> stop e sv
      | Inr d \<Rightarrow> if \<not> may cx PermRemoteTunnelSSH (deviceResource d) \<and> \<not> may cx PermRemoteTunnelRDP (deviceResource d)
                 then stop not_permitted sv else k d sv)"

definition handleGetSupportCredential :: "http_env \<Rightarrow> ctx \<Rightarrow> string \<Rightarrow> handler" where
  "handleGetSupportCredential x cx i = with_tunnel_access x cx i (\<lambda>d sv.
     case GetSupport (he_secret (x_hub x)) (d_id d) (sv_admin sv) of
       Inl ErrAdminNotFound \<Rightarrow> stop (writeErr 404 ''not_found'' ''No remote-support account has been reported by this device yet'') sv
     | Inl _ \<Rightarrow> stop (writeErr 500 ''internal_error'' ''Failed to load credential'') sv
     | Inr (username, password, t) \<Rightarrow>
         stop (writeJSON 200 (JObj [(''username'', JStr username), (''password'', JStr password), (''updated_at'', JTime t)]) None)
           (sv_audit (device_event_of x cx (d_id d) ''support_credential.revealed'' None) sv))"

definition handleRotateSupportCredential :: "http_env \<Rightarrow> ctx \<Rightarrow> string \<Rightarrow> handler" where
  "handleRotateSupportCredential x cx i = with_tunnel_access x cx i (\<lambda>d sv.
     if \<not> IsOnline (d_id d) (sv_hub sv) then stop (writeErr 409 ''device_offline'' ''Device is not connected'') sv
     else case SendHubMessage (d_id d) (type_name TypeDeviceCommand) (Some CmdRotateSupportCredential) (cl_write_ok cx) (sv_hub sv) of
       (False, h) \<Rightarrow> stop (writeErr 409 ''device_busy'' ''Failed to send rotate command to device'') (set_hub h sv)
     | (True, h) \<Rightarrow> stop (state_reply ''ok'') (sv_audit (device_event_of x cx (d_id d) ''support_credential.rotate_requested'' None) (set_hub h sv)))"

end
