(* ===== verification/Http_Admin.thy ===== *)
theory Http_Admin
  imports Http_Devices
begin

text \<open>
  The handlers for customers and groups (\<open>httpapi/handlers_customers.go\<close>), alerts
  (\<open>handlers_alerts.go\<close>) and settings (\<open>handlers_settings.go\<close>), with the call to the
  Telegram API behind the test message (\<open>internal/notify/telegram.go\<close>).
\<close>

section \<open>Customers and groups\<close>

definition customer_json :: "customer \<Rightarrow> json" where
  "customer_json c = JObj [(''ID'', JUuid (cu_id c)), (''Name'', JStr (cu_name c)), (''CustomerNumber'', JStr (cu_number c)),
     (''Status'', JStr (cu_status c)), (''Notes'', JStr (cu_notes c))]"

definition group_json :: "device_group \<Rightarrow> json" where
  "group_json g = JObj [(''ID'', JUuid (gr_id g)), (''CustomerID'', json_opt JUuid (gr_customer_id g)), (''Name'', JStr (gr_name g))]"

definition name_required :: reply where
  "name_required = writeErr 400 ''invalid_request'' ''name is required''"

definition handleListCustomers :: "http_env \<Rightarrow> ctx \<Rightarrow> handler" where
  "handleListCustomers x cx = require_any cx PermCustomerRead (\<lambda>sv.
     stop (writeJSON 200 (JList (map customer_json (ListCustomers (sv_admin sv)))) None) sv)"

definition handleCreateCustomer :: "http_env \<Rightarrow> ctx \<Rightarrow> (string \<times> string \<times> string) option \<Rightarrow> handler" where
  "handleCreateCustomer x cx body = require_any cx PermCustomerManage (\<lambda>sv.
     case body of
       None \<Rightarrow> stop name_required sv
     | Some (name, number, notes) \<Rightarrow>
         if name = [] then stop name_required sv
         else case CreateCustomer (fr_id (cl_fresh cx)) name number notes (sv_admin sv) of
           (Inl _, ad) \<Rightarrow> stop (writeErr 500 ''internal_error'' ''Failed to create customer'') sv
         | (Inr c, ad) \<Rightarrow> stop (writeJSON 201 (customer_json c) None)
             (sv_audit ((user_event x cx ''customer.created'' None)\<lparr>ev_customer_id := Some (cu_id c)\<rparr>) (set_admin ad sv)))"

definition handleUpdateCustomer :: "http_env \<Rightarrow> ctx \<Rightarrow> string \<Rightarrow> (string \<times> string \<times> string \<times> string) option \<Rightarrow> handler" where
  "handleUpdateCustomer x cx target body = require_any cx PermCustomerManage (with_id x ''invalid id'' target (\<lambda>i sv.
     case body of
       None \<Rightarrow> stop name_required sv
     | Some (name, number, notes, status) \<Rightarrow>
         if name = [] then stop name_required sv
         else case UpdateCustomer i name number notes (if status = [] then ''active'' else status) (sv_admin sv) of
           (Inl _, ad) \<Rightarrow> stop (writeErr 404 ''resource_not_found'' ''Customer not found'') sv
         | (Inr _, ad) \<Rightarrow> stop (state_reply ''updated'')
             (sv_audit ((user_event x cx ''customer.updated'' None)\<lparr>ev_customer_id := Some i\<rparr>) (set_admin ad sv))))"

definition handleListGroups :: "http_env \<Rightarrow> ctx \<Rightarrow> handler" where
  "handleListGroups x cx = require_any cx PermCustomerRead (\<lambda>sv.
     case optional_id x ''invalid customer_id'' (query cx ''customer_id'') of
       Inl e \<Rightarrow> stop e sv
     | Inr cust \<Rightarrow> stop (writeJSON 200 (JList (map group_json (ListGroups cust (sv_admin sv)))) None) sv)"

text \<open>No audit event is recorded for a new group.\<close>

definition handleCreateGroup :: "http_env \<Rightarrow> ctx \<Rightarrow> (string option \<times> string) option \<Rightarrow> handler" where
  "handleCreateGroup x cx body = require_any cx PermCustomerManage (\<lambda>sv.
     case body of
       None \<Rightarrow> stop name_required sv
     | Some (cid, name) \<Rightarrow>
         if name = [] then stop name_required sv
         else case optional_id x ''invalid customer_id'' (case cid of None \<Rightarrow> [] | Some v \<Rightarrow> v) of
           Inl e \<Rightarrow> stop e sv
         | Inr cust \<Rightarrow>
             (case CreateGroup (fr_id (cl_fresh cx)) cust name (sv_admin sv) of
                (Inl _, ad) \<Rightarrow> stop (writeErr 500 ''internal_error'' ''Failed to create group'') sv
              | (Inr g, ad) \<Rightarrow> stop (writeJSON 201 (group_json g) None) (set_admin ad sv)))"

definition handleRenameGroup :: "http_env \<Rightarrow> ctx \<Rightarrow> string \<Rightarrow> string option \<Rightarrow> handler" where
  "handleRenameGroup x cx target body = require_any cx PermCustomerManage (with_id x ''invalid group id'' target (\<lambda>i sv.
     case body of
       None \<Rightarrow> stop name_required sv
     | Some name \<Rightarrow>
         if name = [] then stop name_required sv
         else case RenameGroup i name (sv_admin sv) of
           (Inl _, ad) \<Rightarrow> stop (writeErr 404 ''not_found'' ''Group not found'') sv
         | (Inr _, ad) \<Rightarrow> stop (state_reply ''ok'')
             (sv_audit (user_event x cx ''group.renamed'' (Some [(''group_id'', MUuid i), (''name'', MStr name)])) (set_admin ad sv))))"

text \<open>Devices and enrollment tokens of the group lose their reference to it.\<close>

definition handleDeleteGroup :: "http_env \<Rightarrow> ctx \<Rightarrow> string \<Rightarrow> handler" where
  "handleDeleteGroup x cx target = require_any cx PermCustomerManage (with_id x ''invalid group id'' target (\<lambda>i sv.
     case DeleteGroup i (sv_admin sv, sv_devices sv) of
       (Inl _, _) \<Rightarrow> stop (writeErr 404 ''not_found'' ''Group not found'') sv
     | (Inr _, ad, db) \<Rightarrow> stop (state_reply ''ok'')
         (sv_audit (user_event x cx ''group.deleted'' (Some [(''group_id'', MUuid i)]))
           (set_admin ad (set_enroll (forget_group i \<lparr>enrollment_tokens = sv_tokens sv, registry_db = db\<rparr>) sv)))))"

definition maintenance_json :: "maintenance_session \<Rightarrow> json" where
  "maintenance_json m = JObj [(''ID'', JUuid (ms_id m)), (''DeviceID'', JUuid (ms_device_id m)), (''UserID'', JUuid (ms_user_id m)),
     (''StartedAt'', JTime (ms_started_at m)), (''EndedAt'', json_opt JTime (ms_ended_at m)), (''Result'', JStr (ms_result m)),
     (''Summary'', JStr (ms_summary m))]"

definition handleListMaintenance :: "http_env \<Rightarrow> ctx \<Rightarrow> string \<Rightarrow> handler" where
  "handleListMaintenance x cx i = with_device x PermMaintenanceRead cx i (\<lambda>d sv.
     stop (writeJSON 200 (JList (map maintenance_json (ListMaintenanceForDevice (d_id d) (sv_remote sv)))) None) sv)"

section \<open>Alerts\<close>

fun rule_scope_string :: "rule_scope \<Rightarrow> string" where
  "rule_scope_string Alerting.ScopeGlobal = ''global''"
| "rule_scope_string Alerting.ScopeCustomer = ''customer''"
| "rule_scope_string Alerting.ScopeGroup = ''group''"
| "rule_scope_string ScopeDevice = ''device''"

definition rule_scope_of :: "string \<Rightarrow> rule_scope option" where
  "rule_scope_of s = find (\<lambda>v. rule_scope_string v = s) [Alerting.ScopeGlobal, Alerting.ScopeCustomer, Alerting.ScopeGroup, ScopeDevice]"

definition rule_type_of :: "string \<Rightarrow> rule_type option" where
  "rule_type_of s = find (\<lambda>v. rule_type_string v = s) [RuleOffline, RuleCPU, RuleRAM, RuleDisk, RuleService, RuleAgentVersion]"

fun alert_status_string :: "alert_status \<Rightarrow> string" where
  "alert_status_string AlertStateOpen = ''open''"
| "alert_status_string AlertStateAcknowledged = ''acknowledged''"
| "alert_status_string AlertStateResolved = ''resolved''"

definition rule_json :: "alert_rule \<Rightarrow> json" where
  "rule_json r = JObj [(''ID'', JUuid (ar_id r)), (''ScopeType'', JStr (rule_scope_string (ar_scope_type r))),
     (''ScopeID'', json_opt JUuid (ar_scope_id r)), (''RuleType'', JStr (rule_type_string (ar_rule_type r))),
     (''Config'', JRaw (bytes_of (ar_config r))), (''Enabled'', JBool (ar_enabled r))]"

definition alert_json :: "alert \<Rightarrow> json" where
  "alert_json a = JObj [(''ID'', JUuid (al_id a)), (''DeviceID'', JUuid (al_device_id a)), (''RuleID'', json_opt JUuid (al_rule_id a)),
     (''Severity'', JStr (severity_string (al_severity a))), (''State'', JStr (alert_status_string (al_state a))),
     (''OpenedAt'', JTime (al_opened_at a)), (''ResolvedAt'', json_opt JTime (al_resolved_at a)), (''Summary'', JStr (al_summary a))]"

text \<open>\<open>ORDER BY rule_type, scope_type\<close>; the sorts are stable.\<close>

definition ListRules :: "alert_state \<Rightarrow> alert_rule list" where
  "ListRules st = sort_key (\<lambda>r. rule_type_string (ar_rule_type r)) (sort_key (\<lambda>r. rule_scope_string (ar_scope_type r)) (as_rules st))"

definition handleListAlertRules :: "http_env \<Rightarrow> ctx \<Rightarrow> handler" where
  "handleListAlertRules x cx = require_any cx PermMonitoringRead (\<lambda>sv.
     stop (writeJSON 200 (JList (map rule_json (ListRules (sv_alerts sv)))) None) sv)"

record rule_request =
  ru_scope_type :: string
  ru_scope_id :: "uuid option"
  ru_rule_type :: string
  ru_config :: string
  ru_enabled :: "bool option"

definition handleCreateAlertRule :: "http_env \<Rightarrow> ctx \<Rightarrow> rule_request option \<Rightarrow> handler" where
  "handleCreateAlertRule x cx body = require_any cx PermAlertManage (\<lambda>sv.
     case body of
       None \<Rightarrow> stop (writeErr 400 ''invalid_request'' ''Malformed request body'') sv
     | Some req \<Rightarrow>
       (case rule_scope_of (ru_scope_type req) of None \<Rightarrow> stop (writeErr 400 ''invalid_request'' ''invalid scope_type'') sv | Some scope \<Rightarrow>
          if scope \<noteq> Alerting.ScopeGlobal \<and> ru_scope_id req = None
          then stop (writeErr 400 ''invalid_request'' ''scope_id required for non-global scope'') sv
          else case rule_type_of (ru_rule_type req) of None \<Rightarrow> stop (writeErr 400 ''invalid_request'' ''invalid rule_type'') sv | Some ty \<Rightarrow>
            (case CreateRule (fr_id (cl_fresh cx)) \<lparr>ar_id = 0, ar_scope_type = scope, ar_scope_id = ru_scope_id req, ar_rule_type = ty,
                    ar_config = ru_config req, ar_enabled = (case ru_enabled req of None \<Rightarrow> True | Some b \<Rightarrow> b)\<rparr> (sv_alerts sv) of
               (None, st) \<Rightarrow> stop (writeErr 500 ''internal_error'' ''Failed to create alert rule'') sv
             | (Some r, st) \<Rightarrow> stop (writeJSON 201 (rule_json r) None)
                 (sv_audit (user_event x cx ''alert_rule.created'' (Some [(''rule_type'', MStr (ru_rule_type req)),
                    (''scope_type'', MStr (ru_scope_type req))])) (set_alerts st sv)))))"

text \<open>The next two record no audit event.\<close>

definition handleSetAlertRuleEnabled :: "http_env \<Rightarrow> ctx \<Rightarrow> string \<Rightarrow> bool option \<Rightarrow> handler" where
  "handleSetAlertRuleEnabled x cx target body = require_any cx PermAlertManage (with_id x ''invalid rule id'' target (\<lambda>i sv.
     case body of
       None \<Rightarrow> stop (writeErr 400 ''invalid_request'' ''Malformed request body'') sv
     | Some enabled \<Rightarrow>
         (case SetRuleEnabled i enabled (sv_alerts sv) of
            (Inl _, st) \<Rightarrow> stop (writeErr 404 ''not_found'' ''Alert rule not found'') sv
          | (Inr _, st) \<Rightarrow> stop (state_reply ''ok'') (set_alerts st sv))))"

definition handleDeleteAlertRule :: "http_env \<Rightarrow> ctx \<Rightarrow> string \<Rightarrow> handler" where
  "handleDeleteAlertRule x cx target = require_any cx PermAlertManage (with_id x ''invalid rule id'' target (\<lambda>i sv.
     case DeleteRule i (sv_alerts sv) of
       (Inl _, st) \<Rightarrow> stop (writeErr 404 ''not_found'' ''Alert rule not found'') sv
     | (Inr _, st) \<Rightarrow> stop (state_reply ''ok'') (set_alerts st sv)))"

definition handleListAlerts :: "http_env \<Rightarrow> ctx \<Rightarrow> handler" where
  "handleListAlerts x cx = require_any cx PermMonitoringRead (\<lambda>sv.
     let dev = (if query cx ''device_id'' = [] then None else parse_uuid x (query cx ''device_id''));
         known = find (\<lambda>v. alert_status_string v = query cx ''state'') [AlertStateOpen, AlertStateAcknowledged, AlertStateResolved];
         as = (if query cx ''state'' = [] then ListAlerts dev None (sv_alerts sv)
               else case known of None \<Rightarrow> [] | Some s \<Rightarrow> ListAlerts dev (Some s) (sv_alerts sv))
     in stop (writeJSON 200 (JList (map alert_json as)) None) sv)"

definition handleAlertsOpenCount :: "http_env \<Rightarrow> ctx \<Rightarrow> handler" where
  "handleAlertsOpenCount x cx = require_any cx PermMonitoringRead (\<lambda>sv.
     stop (writeJSON 200 (JObj [(''open_count'', JInt (int (CountOpen (sv_alerts sv))))]) None) sv)"

definition alert_action :: "http_env \<Rightarrow> ctx \<Rightarrow> string \<Rightarrow> (string \<times> meta_value) list \<Rightarrow> string \<Rightarrow> uuid \<Rightarrow> (alert_error + unit) \<times> alert_state \<Rightarrow> handler" where
  "alert_action x cx et extra missing i r sv =
     (case r of
        (Inl _, st) \<Rightarrow> stop (writeErr 404 ''not_found'' missing) sv
      | (Inr _, st) \<Rightarrow> stop (state_reply ''ok'') (sv_audit (user_event x cx et (Some ((''alert_id'', MUuid i) # extra))) (set_alerts st sv)))"

definition handleAcknowledgeAlert :: "http_env \<Rightarrow> ctx \<Rightarrow> string \<Rightarrow> handler" where
  "handleAcknowledgeAlert x cx target = require_any cx PermAlertManage (with_id x ''invalid alert id'' target (\<lambda>i sv.
     alert_action x cx ''alert.acknowledged'' [] ''Open alert not found'' i (Acknowledge i (sv_alerts sv)) sv))"

definition handleResolveAlert :: "http_env \<Rightarrow> ctx \<Rightarrow> string \<Rightarrow> handler" where
  "handleResolveAlert x cx target = require_any cx PermAlertManage (with_id x ''invalid alert id'' target (\<lambda>i sv.
     alert_action x cx ''alert.resolved'' [(''reason'', MStr ''manual'')] ''Alert not found or already resolved'' i
       (ResolveAlert (cl_now cx) i (sv_alerts sv)) sv))"

definition handleDeleteAlert :: "http_env \<Rightarrow> ctx \<Rightarrow> string \<Rightarrow> handler" where
  "handleDeleteAlert x cx target = require_any cx PermAlertManage (with_id x ''invalid alert id'' target (\<lambda>i sv.
     alert_action x cx ''alert.deleted'' [] ''Alert not found'' i (DeleteAlert i (sv_alerts sv)) sv))"

section \<open>Settings\<close>

text \<open>\<open>int(d.Hours())\<close>; the division of Go truncates.\<close>

definition whole_hours :: "duration \<Rightarrow> int" where
  "whole_hours d = (if d < 0 then - ((- d) div hour) else d div hour)"

definition retention_json :: "duration \<times> duration \<Rightarrow> reply" where
  "retention_json rh = writeJSON 200 (JObj [(''raw_retention_hours'', JInt (whole_hours (fst rh))),
     (''hourly_retention_hours'', JInt (whole_hours (snd rh)))]) None"

definition handleGetRetentionSettings :: "http_env \<Rightarrow> ctx \<Rightarrow> handler" where
  "handleGetRetentionSettings x cx = require_any cx PermSystemSettings (\<lambda>sv.
     stop (retention_json (MetricsRetention (Metrics_RawRetention (x_cfg x)) (Metrics_HourlyRetention (x_cfg x)) (sv_admin sv))) sv)"

definition handleGetNetworkRetentionSettings :: "http_env \<Rightarrow> ctx \<Rightarrow> handler" where
  "handleGetNetworkRetentionSettings x cx = require_any cx PermSystemSettings (\<lambda>sv.
     stop (retention_json (NetworkMetricsRetention (Metrics_NetworkRawRetention (x_cfg x)) (Metrics_NetworkHourlyRetention (x_cfg x)) (sv_admin sv))) sv)"

definition set_retention_handler ::
  "(time \<Rightarrow> duration \<Rightarrow> duration \<Rightarrow> admin_data \<Rightarrow> (admin_error + unit) \<times> admin_data) \<Rightarrow> string \<Rightarrow> http_env \<Rightarrow> ctx \<Rightarrow> (int \<times> int) option \<Rightarrow> handler" where
  "set_retention_handler setter et x cx body = require_any cx PermSystemSettings (\<lambda>sv.
     case body of
       None \<Rightarrow> stop (writeErr 400 ''invalid_request'' ''Malformed request body'') sv
     | Some (raw, hourly) \<Rightarrow>
         if raw \<le> 0 \<or> hourly \<le> 0 then stop (writeErr 400 ''invalid_request'' ''Both retention values must be positive'') sv
         else case set_retention_hours setter (cl_now cx) raw hourly (sv_admin sv) of
           (Inl _, ad) \<Rightarrow> stop (writeErr 500 ''internal_error'' ''Failed to update settings'') sv
         | (Inr _, ad) \<Rightarrow> stop (state_reply ''ok'') (sv_audit (user_event x cx et
             (Some [(''raw_retention_hours'', MInt raw), (''hourly_retention_hours'', MInt hourly)])) (set_admin ad sv)))"

definition handleSetRetentionSettings :: "http_env \<Rightarrow> ctx \<Rightarrow> (int \<times> int) option \<Rightarrow> handler" where
  "handleSetRetentionSettings = set_retention_handler SetMetricsRetention ''settings.retention_changed''"

definition handleSetNetworkRetentionSettings :: "http_env \<Rightarrow> ctx \<Rightarrow> (int \<times> int) option \<Rightarrow> handler" where
  "handleSetNetworkRetentionSettings = set_retention_handler SetNetworkMetricsRetention ''settings.network_retention_changed''"

definition handleGetSupportCredentialRotationSettings :: "http_env \<Rightarrow> ctx \<Rightarrow> handler" where
  "handleGetSupportCredentialRotationSettings x cx = require_any cx PermSystemSettings (\<lambda>sv.
     stop (writeJSON 200 (JObj [(''rotation_days'', JInt (SupportCredentialRotationDays (sv_admin sv)))]) None) sv)"

definition handleSetSupportCredentialRotationSettings :: "http_env \<Rightarrow> ctx \<Rightarrow> int option \<Rightarrow> handler" where
  "handleSetSupportCredentialRotationSettings x cx body = require_any cx PermSystemSettings (\<lambda>sv.
     case body of
       None \<Rightarrow> stop (writeErr 400 ''invalid_request'' ''Malformed request body'') sv
     | Some days \<Rightarrow>
         if days < 0 then stop (writeErr 400 ''invalid_request'' ''rotation_days must be >= 0 (0 disables it)'') sv
         else case SetSupportCredentialRotationDays (cl_now cx) days (sv_admin sv) of
           (Inl _, ad) \<Rightarrow> stop (writeErr 500 ''internal_error'' ''Failed to update settings'') sv
         | (Inr _, ad) \<Rightarrow> stop (state_reply ''ok'') (sv_audit (user_event x cx ''settings.support_credential_rotation_changed''
             (Some [(''rotation_days'', MInt days)])) (set_admin ad sv)))"

section \<open>Telegram\<close>

definition handleGetTelegramSettings :: "http_env \<Rightarrow> ctx \<Rightarrow> handler" where
  "handleGetTelegramSettings x cx = require_any cx PermSystemSettings (\<lambda>sv.
     let status = GetTelegramStatus (sv_admin sv)
     in stop (writeJSON 200 (JObj [(''configured'', JBool (status \<noteq> None)),
          (''chat_id'', JStr (case status of None \<Rightarrow> [] | Some (c, _) \<Rightarrow> c)),
          (''updated_at'', json_opt JTime (map_option snd status))]) None) sv)"

definition handleSetTelegramSettings :: "http_env \<Rightarrow> ctx \<Rightarrow> (string \<times> string) option \<Rightarrow> handler" where
  "handleSetTelegramSettings x cx body = require_any cx PermSystemSettings (\<lambda>sv.
     case body of
       None \<Rightarrow> stop (writeErr 400 ''invalid_request'' ''bot_token and chat_id are required'') sv
     | Some (token, chat) \<Rightarrow>
         if token = [] \<or> chat = [] then stop (writeErr 400 ''invalid_request'' ''bot_token and chat_id are required'') sv
         else stop (state_reply ''ok'') (sv_audit (user_event x cx ''settings.telegram_configured'' None)
           (set_admin (SetTelegram (he_secret (x_hub x)) (cl_now cx) (fr_nonce (cl_fresh cx)) token chat (sv_admin sv)) sv)))"

text \<open>The outcome of the HTTP request. The error of \<open>http.Client.Do\<close> is a
  \<open>url.Error\<close>, whose text is the method, the quoted URL and the cause.\<close>

datatype http_result = TransportError string | HttpStatus int string

definition telegram_url :: "string \<Rightarrow> string" where
  "telegram_url token = ''https://api.telegram.org/bot'' @ token @ ''/sendMessage''"

definition sendTelegramMessage :: "(string \<Rightarrow> string) \<Rightarrow> string \<Rightarrow> http_result \<Rightarrow> string option" where
  "sendTelegramMessage quote token result =
     (case result of
        TransportError cause \<Rightarrow> Some (''notify: send telegram message: Post '' @ quote (telegram_url token) @ '': '' @ cause)
      | HttpStatus n body \<Rightarrow> if n = 200 then None
          else Some (''notify: telegram api returned '' @ show_int n @ '': '' @ take 4096 body))"

definition handleTestTelegramSettings :: "http_env \<Rightarrow> http_result \<Rightarrow> ctx \<Rightarrow> handler" where
  "handleTestTelegramSettings x result cx = require_any cx PermSystemSettings (\<lambda>sv.
     case get_telegram (he_secret (x_hub x)) (sv_admin sv) of
       Inl ErrNotConfigured \<Rightarrow> stop (writeErr 404 ''not_found'' ''Telegram is not configured yet'') sv
     | Inl _ \<Rightarrow> stop (writeErr 502 ''internal_error'' ''Failed to send test message: notify: decrypt bot token'') sv
     | Inr (token, chat) \<Rightarrow>
         (case sendTelegramMessage (he_quote (x_hub x)) token result of
            None \<Rightarrow> stop (state_reply ''ok'') sv
          | Some err \<Rightarrow> stop (writeErr 502 ''internal_error'' (''Failed to send test message: '' @ err)) sv))"

end
