(* ===== verification/Http_Remote.thy ===== *)
theory Http_Remote
  imports Http_Core
begin

text \<open>
  The handlers that reach out to an agent: commands (\<open>httpapi/handlers_remote.go\<close>), files
  (\<open>handlers_files.go\<close>), terminal sessions with their privileges (\<open>handlers_sessions.go\<close>)
  and tunnels (\<open>handlers_tunnels.go\<close>). Each that waits is in two halves, the second in
  \<open>resume\<close>.
\<close>

section \<open>Commands\<close>

definition device_busy :: reply where
  "device_busy = writeErr 409 ''device_busy'' ''Device is not connected or did not respond in time''"

text \<open>\<open>runCommand\<close> up to the wait, and after it.\<close>

definition runCommand :: "ctx \<Rightarrow> uuid \<Rightarrow> device_command \<Rightarrow> after \<Rightarrow> handler" where
  "runCommand cx deviceID cmd k sv =
     (case SendAndWait_send deviceID (type_name TypeDeviceCommand) (Some cmd) (cl_message_id cx) (cl_write_ok cx) (sv_hub sv) of
        (None, h) \<Rightarrow> stop device_busy (set_hub h sv)
      | (Some w, h) \<Rightarrow> (None, add_pending (PendingCommand w k) (set_hub h sv)))"

definition after_command :: "after \<Rightarrow> command_result \<Rightarrow> handler" where
  "after_command k result sv =
     (case k of
        ThenData None \<Rightarrow> stop (writeJSON 200 (JRaw (cmd_data result)) None) sv
      | ThenData (Some e) \<Rightarrow> stop (writeJSON 200 (JRaw (cmd_data result)) None) (sv_audit e sv)
      | ThenOk e \<Rightarrow> stop (state_reply ''ok'') (sv_audit e sv))"

definition runCommand_end :: "http_env \<Rightarrow> nat \<Rightarrow> after \<Rightarrow> handler" where
  "runCommand_end x w k sv0 =
     (let (answer, h) = wait_end w (sv_hub sv0); sv = set_hub h sv0
      in case answer of
           None \<Rightarrow> stop device_busy sv
         | Some ev \<Rightarrow>
             (case DecodePayload (x_command_result x) ev of
                Inl _ \<Rightarrow> stop (writeErr 502 ''internal_error'' ''Malformed agent response'') sv
              | Inr result \<Rightarrow>
                  if cmd_status result \<noteq> ''success''
                  then stop (writeErr (if cmd_code result = ''permission_denied'' then 403 else 502) (cmd_code result) (cmd_message result)) sv
                  else after_command k result sv))"

definition handleListServices :: "http_env \<Rightarrow> ctx \<Rightarrow> string \<Rightarrow> handler" where
  "handleListServices x cx i = with_device x PermDeviceRead cx i (\<lambda>d. runCommand cx (d_id d) CmdServicesList (ThenData None))"

definition lastPathSegment :: "string \<Rightarrow> string" where
  "lastPathSegment path = (case split_last (CHR ''/'') path of None \<Rightarrow> path | Some (_, s) \<Rightarrow> s)"

definition service_command :: "string \<Rightarrow> string \<Rightarrow> device_command option" where
  "service_command action name = (if action = ''start'' then Some (CmdServiceStart name) else if action = ''stop'' then Some (CmdServiceStop name)
     else if action = ''restart'' then Some (CmdServiceRestart name) else None)"

definition handleServiceAction :: "http_env \<Rightarrow> ctx \<Rightarrow> string \<Rightarrow> string \<Rightarrow> handler" where
  "handleServiceAction x cx i service = with_device x PermRemoteServiceControl cx i (\<lambda>d sv.
     let action = lastPathSegment (rq_path (cl_request cx))
     in case service_command action service of
          None \<Rightarrow> stop (writeErr 400 ''invalid_request'' ''unknown service action'') sv
        | Some cmd \<Rightarrow> runCommand cx (d_id d) cmd
            (ThenOk (device_event_of x cx (d_id d) (''service.'' @ action) (Some [(''service'', MStr service)]))) sv)"

definition handleListProcesses :: "http_env \<Rightarrow> ctx \<Rightarrow> string \<Rightarrow> handler" where
  "handleListProcesses x cx i = with_device x PermDeviceRead cx i (\<lambda>d. runCommand cx (d_id d) CmdProcessesList (ThenData None))"

definition time_param :: "http_env \<Rightarrow> string \<Rightarrow> time option" where
  "time_param x v = (if v = [] then None else x_parse_time x v)"

definition handleQueryLogs :: "http_env \<Rightarrow> ctx \<Rightarrow> string \<Rightarrow> handler" where
  "handleQueryLogs x cx i = with_device x PermRemoteFilesRead cx i (\<lambda>d.
     runCommand cx (d_id d) (CmdLogsQuery \<lparr>lq_query = query cx ''query'', lq_since = time_param x (query cx ''since''),
         lq_until = time_param x (query cx ''until''), lq_level = query cx ''level'',
         lq_limit = (if query cx ''limit'' = [] then 0 else case atoi (query cx ''limit'') of None \<Rightarrow> 0 | Some n \<Rightarrow> n)\<rparr>)
       (ThenData (Some (device_event_of x cx (d_id d) ''logs.queried'' None))))"

text \<open>\<open>strconv.ParseInt(v, 10, 32)\<close>.\<close>

definition parse_int32 :: "string \<Rightarrow> int option" where
  "parse_int32 v = (case atoi v of None \<Rightarrow> None | Some n \<Rightarrow> if - (2 ^ 31) \<le> n \<and> n < 2 ^ 31 then Some n else None)"

definition handleTerminateProcess :: "http_env \<Rightarrow> ctx \<Rightarrow> string \<Rightarrow> string \<Rightarrow> int \<Rightarrow> handler" where
  "handleTerminateProcess x cx i pid startTime = with_device x PermRemoteProcessTerminate cx i (\<lambda>d sv.
     case parse_int32 pid of
       None \<Rightarrow> stop (writeErr 400 ''invalid_request'' ''invalid pid'') sv
     | Some n \<Rightarrow> runCommand cx (d_id d) (CmdProcessTerminate n startTime)
         (ThenOk (device_event_of x cx (d_id d) ''process.terminate'' (Some [(''pid'', MInt n)]))) sv)"

section \<open>Files\<close>

definition file_event :: "http_env \<Rightarrow> ctx \<Rightarrow> uuid \<Rightarrow> string \<Rightarrow> string \<Rightarrow> audit_event" where
  "file_event x cx d et path = device_event_of x cx d et (Some [(''path'', MStr path)])"

definition path_required :: reply where
  "path_required = writeErr 400 ''invalid_request'' ''path is required''"

definition handleFilesList :: "http_env \<Rightarrow> ctx \<Rightarrow> string \<Rightarrow> handler" where
  "handleFilesList x cx i = with_device x PermRemoteFilesRead cx i (\<lambda>d.
     if query cx ''path'' = [] then stop path_required
     else runCommand cx (d_id d) (CmdFilesList (query cx ''path'')) (ThenData None))"

definition handleFilesMkdir :: "http_env \<Rightarrow> ctx \<Rightarrow> string \<Rightarrow> string option \<Rightarrow> handler" where
  "handleFilesMkdir x cx i body = with_device x PermRemoteFilesWrite cx i (\<lambda>d.
     case body of
       None \<Rightarrow> stop path_required
     | Some path \<Rightarrow> if path = [] then stop path_required
         else runCommand cx (d_id d) (CmdFilesMkdir path) (ThenOk (file_event x cx (d_id d) ''file.mkdir'' path)))"

definition handleFilesRename :: "http_env \<Rightarrow> ctx \<Rightarrow> string \<Rightarrow> (string \<times> string) option \<Rightarrow> handler" where
  "handleFilesRename x cx i body = with_device x PermRemoteFilesWrite cx i (\<lambda>d.
     case body of
       None \<Rightarrow> stop (writeErr 400 ''invalid_request'' ''from and to are required'')
     | Some (from, target) \<Rightarrow> if from = [] \<or> target = [] then stop (writeErr 400 ''invalid_request'' ''from and to are required'')
         else runCommand cx (d_id d) (CmdFilesRename from target) (ThenOk (file_event x cx (d_id d) ''file.rename'' (from @ '' -> '' @ target))))"

definition handleFilesDelete :: "http_env \<Rightarrow> ctx \<Rightarrow> string \<Rightarrow> handler" where
  "handleFilesDelete x cx i = with_device x PermRemoteFilesWrite cx i (\<lambda>d.
     if query cx ''path'' = [] then stop path_required
     else runCommand cx (d_id d) (CmdFilesDelete (query cx ''path'')) (ThenOk (file_event x cx (d_id d) ''file.delete'' (query cx ''path''))))"

text \<open>\<open>broker.Register\<close> and the deferred \<open>broker.Unregister\<close>.\<close>

definition register_stream :: "uuid \<Rightarrow> uuid \<Rightarrow> byte \<Rightarrow> server \<Rightarrow> stream \<times> server" where
  "register_stream i d kind sv =
     (let (s, b) = Register i d kind (r_broker (sv_remote sv)) in (s, set_remote ((sv_remote sv)\<lparr>r_broker := b\<rparr>) sv))"

definition drop_stream :: "stream \<Rightarrow> server \<Rightarrow> server" where
  "drop_stream s sv = set_remote (unregister_stream (st_id s) (sv_remote sv)) sv"

definition start_transfer :: "http_env \<Rightarrow> ctx \<Rightarrow> device \<Rightarrow> (string \<Rightarrow> device_command) \<Rightarrow> (nat \<Rightarrow> stream \<Rightarrow> pending) \<Rightarrow> handler" where
  "start_transfer x cx d cmd p sv =
     (let streamID = fr_id (cl_fresh cx); (s, sv1) = register_stream streamID (d_id d) StreamKindFile sv
      in case SendAndWait_send (d_id d) (type_name TypeDeviceCommand) (Some (cmd (uuid_string (x_auth x) streamID)))
                (cl_message_id cx) (cl_write_ok cx) (sv_hub sv1) of
           (None, h) \<Rightarrow> stop device_busy (drop_stream s (set_hub h sv1))
         | (Some w, h) \<Rightarrow> (None, add_pending (p w s) (set_hub h sv1)))"

definition handleFilesDownload :: "http_env \<Rightarrow> ctx \<Rightarrow> string \<Rightarrow> handler" where
  "handleFilesDownload x cx i = with_device x PermRemoteFilesRead cx i (\<lambda>d.
     let path = query cx ''path''
     in if path = [] then stop path_required
        else start_transfer x cx d (CmdFilesDownload path) (\<lambda>w s. PendingDownload w s (file_event x cx (d_id d) ''file.download'' path)))"

definition handleFilesUpload :: "http_env \<Rightarrow> ctx \<Rightarrow> string \<Rightarrow> handler" where
  "handleFilesUpload x cx i = with_device x PermRemoteFilesWrite cx i (\<lambda>d.
     let path = query cx ''path''
     in if path = [] then stop path_required
        else start_transfer x cx d (CmdFilesUpload path) (\<lambda>w s. PendingUpload w s path (device_event_of x cx (d_id d) ''file.upload'' None)))"

text \<open>The answer to the command of a transfer: the agent's result, if it is a success.\<close>

definition transfer_result :: "http_env \<Rightarrow> envelope \<Rightarrow> command_result option" where
  "transfer_result x ev =
     (case DecodePayload (x_command_result x) ev of
        Inl _ \<Rightarrow> None | Inr r \<Rightarrow> if cmd_status r \<noteq> ''success'' then None else Some r)"

definition download_ready :: "http_env \<Rightarrow> nat \<Rightarrow> stream \<Rightarrow> audit_event \<Rightarrow> handler" where
  "download_ready x w s e sv0 =
     (let (answer, h) = wait_end w (sv_hub sv0); sv = set_hub h sv0
      in case answer of
           None \<Rightarrow> stop device_busy (drop_stream s sv)
         | Some ev \<Rightarrow>
             (case transfer_result x ev of
                None \<Rightarrow> stop (writeErr 404 ''resource_not_found'' ''File not found or not readable'') (drop_stream s sv)
              | Some r \<Rightarrow> (None, add_pending (StreamingDownload s e) sv)))"

text \<open>One turn of the loop that forwards the file. A closed channel or an empty chunk is its end;
  a failed write to the browser and the timeout end it without an audit event. The result is the
  chunk, if any, and whether the loop goes on.\<close>

definition download_turn :: "bool \<Rightarrow> bool \<Rightarrow> stream \<Rightarrow> audit_event \<Rightarrow> server \<Rightarrow> bytes option \<times> bool \<times> server" where
  "download_turn timedOut writeOK s e sv =
     (if timedOut then (None, False, drop_stream s sv)
      else let (r, b) = FromAgent s (r_broker (sv_remote sv)); sv1 = set_remote ((sv_remote sv)\<lparr>r_broker := b\<rparr>) sv
           in case r of
                Received chunk \<Rightarrow>
                  if chunk = [] then (None, False, drop_stream s (sv_audit e sv1))
                  else if writeOK then (Some chunk, True, sv1) else (None, False, drop_stream s sv1)
              | Drained \<Rightarrow> (None, False, drop_stream s (sv_audit e sv1))
              | Blocked \<Rightarrow> (None, True, sv))"

definition maxUploadBytes :: nat where "maxUploadBytes = 500 * 1024 * 1024"

text \<open>The loop that forwards the body of an upload: the chunks as they are read and whether each
  could be written to the agent. It returns the number of bytes, or the error of the response.\<close>

fun upload_loop :: "stream \<Rightarrow> (bytes \<times> bool) list \<Rightarrow> int \<Rightarrow> hub_state \<Rightarrow> (reply + int) \<times> hub_state" where
  "upload_loop s [] n h = (Inr n, h)"
| "upload_loop s ((chunk, ok) # cs) n h =
     (if chunk = [] then upload_loop s cs n h
      else case SendBinaryFrame (st_device_id s) (st_kind s) (st_id s) chunk ok h of
        (False, h1) \<Rightarrow> (Inl (writeErr 502 ''internal_error'' ''Upload interrupted''), h1)
      | (True, h1) \<Rightarrow> upload_loop s cs (n + int (length chunk)) h1)"

text \<open>\<open>http.MaxBytesReader\<close>: what is read of a body, and whether all of it is within the
  limit.\<close>

fun limit_body :: "nat \<Rightarrow> (bytes \<times> bool) list \<Rightarrow> (bytes \<times> bool) list \<times> bool" where
  "limit_body n [] = ([], True)"
| "limit_body n ((chunk, ok) # cs) =
     (if length chunk \<le> n then let (r, inside) = limit_body (n - length chunk) cs in ((chunk, ok) # r, inside)
      else ([(take n chunk, ok)], False))"

definition upload_ready :: "http_env \<Rightarrow> (bytes \<times> bool) list \<Rightarrow> bool \<Rightarrow> bool \<Rightarrow> nat \<Rightarrow> stream \<Rightarrow> string \<Rightarrow> audit_event \<Rightarrow> handler" where
  "upload_ready x body readOK eofOK w s path e sv0 =
     (let (answer, h) = wait_end w (sv_hub sv0); sv = set_hub h sv0
      in case answer of
           None \<Rightarrow> stop device_busy (drop_stream s sv)
         | Some ev \<Rightarrow>
             (case transfer_result x ev of
                None \<Rightarrow> stop (writeErr 403 ''permission_denied'' ''Agent rejected the upload'') (drop_stream s sv)
              | Some r \<Rightarrow>
                  let (chunks, inside) = limit_body maxUploadBytes body in
                  (case upload_loop s chunks 0 (sv_hub sv) of
                     (Inl err, h1) \<Rightarrow> stop err (drop_stream s (set_hub h1 sv))
                   | (Inr n, h1) \<Rightarrow>
                       if \<not> readOK \<or> \<not> inside then stop (writeErr 400 ''invalid_request'' ''Upload too large or interrupted'') (drop_stream s (set_hub h1 sv))
                       else let h2 = snd (SendBinaryFrame (st_device_id s) (st_kind s) (st_id s) [] eofOK h1)
                            in case WaitForCorrelation_start (st_device_id s) (uuid_string (x_auth x) (st_id s)) h2 of
                                 (None, h3) \<Rightarrow> stop (writeErr 504 ''timeout'' ''Agent did not confirm the upload'') (drop_stream s (set_hub h3 sv))
                               | (Some w2, h3) \<Rightarrow> (None, add_pending (FinishingUpload w2 s n
                                   (e\<lparr>ev_metadata := Some [(''path'', MStr (path @ '' ('' @ show_int n @ '' bytes)''))]\<rparr>)) (set_hub h3 sv)))))"

definition upload_confirmed :: "http_env \<Rightarrow> nat \<Rightarrow> stream \<Rightarrow> int \<Rightarrow> audit_event \<Rightarrow> handler" where
  "upload_confirmed x w s n e sv0 =
     (let (answer, h) = wait_end w (sv_hub sv0); sv = drop_stream s (set_hub h sv0)
      in case answer of
           None \<Rightarrow> stop (writeErr 504 ''timeout'' ''Agent did not confirm the upload'') sv
         | Some ev \<Rightarrow>
             (case transfer_result x ev of
                None \<Rightarrow> stop (writeErr 502 ''internal_error'' ''Agent failed to finalize the upload'') sv
              | Some r \<Rightarrow> stop (writeJSON 200 (JObj [(''state'', JStr ''ok''), (''bytes'', JInt n)]) None) (sv_audit e sv)))"

section \<open>Terminal sessions\<close>

fun rstate_string :: "rstate \<Rightarrow> string" where
  "rstate_string StateRequested = ''requested''"
| "rstate_string StateOpening = ''opening''"
| "rstate_string StateActive = ''active''"
| "rstate_string StateClosing = ''closing''"
| "rstate_string StateClosed = ''closed''"
| "rstate_string StateFailed = ''failed''"
| "rstate_string StateInterrupted = ''interrupted''"
| "rstate_string StateExpired = ''expired''"

fun rkind_string :: "rkind \<Rightarrow> string" where
  "rkind_string KindTerminal = ''terminal''"
| "rkind_string KindSSHTunnel = ''ssh_tunnel''"
| "rkind_string KindRDPTunnel = ''rdp_tunnel''"

definition terminalSessionTTL :: duration where "terminalSessionTTL = 30 * minute"
definition tunnelSessionTTL :: duration where "tunnelSessionTTL = 8 * hour"

definition not_connected :: reply where
  "not_connected = writeErr 409 ''device_busy'' ''Device is not currently connected''"

text \<open>The event that \<open>handleCreateSession\<close> and \<open>handleCreateTunnel\<close> record when
  the agent has opened the session.\<close>

definition session_event :: "http_env \<Rightarrow> ctx \<Rightarrow> uuid \<Rightarrow> uuid \<Rightarrow> string \<Rightarrow> (string \<times> meta_value) list option \<Rightarrow> audit_event" where
  "session_event x cx d s et meta = (device_event_of x cx d et meta)\<lparr>ev_session_id := Some s\<rparr>"

definition terminal_error :: "remote_error \<Rightarrow> reply" where
  "terminal_error e = (case e of
     ErrDeviceOffline \<Rightarrow> writeErr 502 ''device_busy'' ''Device is not currently connected''
   | ErrAgentRejected msg \<Rightarrow> writeErr 502 ''agent_rejected'' msg
   | _ \<Rightarrow> writeErr 502 ''internal_error'' ''Failed to open remote session'')"

definition handleCreateSession :: "http_env \<Rightarrow> ctx \<Rightarrow> string \<Rightarrow> string option \<Rightarrow> handler" where
  "handleCreateSession x cx i body = with_device x PermRemoteTerminal cx i (\<lambda>d sv.
     let kind = (case body of None \<Rightarrow> ''terminal'' | Some k \<Rightarrow> if k = [] then ''terminal'' else k)
     in if kind \<noteq> ''terminal'' then stop (writeErr 400 ''invalid_request'' ''unsupported session kind'') sv
        else if \<not> IsOnline (d_id d) (sv_hub sv) then stop not_connected sv
        else case OpenTerminal_request (cl_now cx) (fr_id (cl_fresh cx)) (fr_id2 (cl_fresh cx)) (d_id d) (u_id (cx_user cx))
                    (d_customer_id d) terminalSessionTTL (sv_remote sv) of
               (Inl e, st) \<Rightarrow> stop (terminal_error e) (set_remote st sv)
             | (Inr s, st) \<Rightarrow> (None, add_pending (PendingTerminal s (d_id d)
                 (session_event x cx (d_id d) s ''remote_session.opened'' (Some [(''kind'', MStr ''terminal'')]))) (set_remote st sv)))"

definition session_expiry :: "uuid \<Rightarrow> remote_state \<Rightarrow> json" where
  "session_expiry s st = (case GetRemote s st of Inl _ \<Rightarrow> JNull | Inr r \<Rightarrow> JTime (rs_expires_at r))"

definition terminal_answered :: "time \<Rightarrow> open_reply \<Rightarrow> uuid \<Rightarrow> uuid \<Rightarrow> audit_event \<Rightarrow> handler" where
  "terminal_answered now r s d e sv =
     (case OpenTerminal_reply now d s r (sv_remote sv) of
        (Inl err, st) \<Rightarrow> stop (terminal_error err) (set_remote st sv)
      | (Inr _, st) \<Rightarrow> stop (writeJSON 201 (JObj [(''session_id'', JUuid s), (''state'', JStr ''active''), (''expires_at'', session_expiry s st)]) None)
          (sv_audit e (set_remote st sv)))"

definition handleGetSession :: "http_env \<Rightarrow> ctx \<Rightarrow> string \<Rightarrow> handler" where
  "handleGetSession x cx i = with_session x cx i (\<lambda>s.
     stop (writeJSON 200 (JObj [(''session_id'', JUuid (rs_id s)), (''state'', JStr (rstate_string (rs_state s))),
       (''expires_at'', JTime (rs_expires_at s)), (''kind'', JStr (rkind_string (rs_kind s)))]) None))"

definition http_CloseSession :: "http_env \<Rightarrow> ctx \<Rightarrow> string \<Rightarrow> handler" where
  "http_CloseSession x cx i = with_session x cx i (\<lambda>s sv.
     stop (state_reply ''closed'') (set_remote (handleCloseSession (cl_now cx) (u_id (cx_user cx)) (rs_id s) (clientIP x cx) (sv_remote sv)) sv))"

text \<open>\<open>handleSessionStream\<close> up to the upgrade to a WebSocket; its end is
  \<open>browser_disconnected\<close>.\<close>

definition handleSessionStream :: "http_env \<Rightarrow> ctx \<Rightarrow> string \<Rightarrow> handler" where
  "handleSessionStream x cx i = with_session x cx i (\<lambda>s sv.
     if rs_state s \<noteq> StateActive then stop (writeErr 409 ''session_expired'' ''Session is not active'') sv
     else if GetStream (rs_id s) (r_broker (sv_remote sv)) = None
     then stop (writeErr 410 ''resource_not_found'' ''Stream no longer available'') sv
     else (None, sv))"

text \<open>What the browser sends over it: a binary frame goes to the agent as it is, a text frame is
  a change of the window size.\<close>

datatype browser_msg = BrowserData bytes bool | BrowserSize "(int \<times> int) option"

definition browser_frame :: "stream \<Rightarrow> rsession \<Rightarrow> browser_msg \<Rightarrow> server \<Rightarrow> server" where
  "browser_frame s sess m sv =
     (case m of
        BrowserData b ok \<Rightarrow> set_hub (snd (SendBinaryFrame (st_device_id s) (st_kind s) (st_id s) b ok (sv_hub sv))) sv
      | BrowserSize (Some (cols, rows)) \<Rightarrow> if cols > 0 \<and> rows > 0 then set_remote (Resize sess cols rows (sv_remote sv)) sv else sv
      | BrowserSize None \<Rightarrow> sv)"

section \<open>Privileges\<close>

definition handleGrantPrivilege :: "http_env \<Rightarrow> ctx \<Rightarrow> string \<Rightarrow> (string \<times> int) option \<Rightarrow> handler" where
  "handleGrantPrivilege x cx i body = with_session x cx i (\<lambda>s sv.
     case GetDevice (rs_device_id s) (sv_devices sv) of
       Inl _ \<Rightarrow> stop not_permitted sv
     | Inr d \<Rightarrow>
         if \<not> may cx PermPrivilegeRequest (deviceResource d) then stop not_permitted sv
         else case body of
           None \<Rightarrow> stop (writeErr 400 ''invalid_request'' ''reauth_id is required'') sv
         | Some (reauthID, secs) \<Rightarrow>
             if reauthID = [] then stop (writeErr 400 ''invalid_request'' ''reauth_id is required'') sv
             else with_reauth x cx reauthID (\<lambda>sv.
               case GrantPrivilege (cl_now cx) (fr_id (cl_fresh cx)) s (wrap64 (secs * second)) (Admin_PrivilegeTTL (x_cfg x))
                      ''admin_requested'' (sv_remote sv) of
                 (Inl _, st) \<Rightarrow> stop (writeErr 409 ''invalid_request'' ''Session is not active'') (set_remote st sv)
               | (Inr p, st) \<Rightarrow>
                   stop (writeJSON 200 (JObj [(''privilege_session_id'', JUuid (pv_id p)), (''valid_until'', JTime (pv_valid_until p))]) None)
                     (sv_audit (session_event x cx (rs_device_id s) (rs_id s) ''privilege.granted''
                        (Some [(''privilege_session_id'', MUuid (pv_id p)), (''valid_until'', MTime (pv_valid_until p))])) (set_remote st sv))) sv)"

definition handleRevokePrivilege :: "http_env \<Rightarrow> ctx \<Rightarrow> string \<Rightarrow> handler" where
  "handleRevokePrivilege x cx i = with_session x cx i (\<lambda>s sv.
     case ActiveForSession (cl_now cx) (rs_id s) (sv_remote sv) of
       None \<Rightarrow> stop (writeErr 404 ''resource_not_found'' ''No active privilege session'') sv
     | Some p \<Rightarrow> stop (state_reply ''revoked'') (sv_audit (session_event x cx (rs_device_id s) (rs_id s) ''privilege.revoked'' None)
         (set_remote (RevokePrivilege (cl_now cx) p (sv_remote sv)) sv)))"

section \<open>Tunnels\<close>

definition target_string :: "target_type \<Rightarrow> string" where
  "target_string t = (case t of TargetSSHLocal \<Rightarrow> ''ssh_local'' | TargetRDPLocal \<Rightarrow> ''rdp_local'')"

definition target_of :: "string \<Rightarrow> target_type option" where
  "target_of s = (if s = ''ssh_local'' then Some TargetSSHLocal else if s = ''rdp_local'' then Some TargetRDPLocal else None)"

definition target_perm :: "target_type \<Rightarrow> perm" where
  "target_perm t = (case t of TargetSSHLocal \<Rightarrow> PermRemoteTunnelSSH | TargetRDPLocal \<Rightarrow> PermRemoteTunnelRDP)"

definition tunnel_error :: "remote_error \<Rightarrow> reply" where
  "tunnel_error e = (case e of
     ErrDeviceOffline \<Rightarrow> not_connected
   | ErrAgentRejected msg \<Rightarrow> writeErr 502 ''agent_rejected'' msg
   | _ \<Rightarrow> writeErr 500 ''internal_error'' ''Failed to open tunnel'')"

definition handleCreateTunnel :: "http_env \<Rightarrow> ctx \<Rightarrow> string \<Rightarrow> string option \<Rightarrow> handler" where
  "handleCreateTunnel x cx i body sv =
     (case loadDevice x i sv of Inl e \<Rightarrow> stop e sv | Inr d \<Rightarrow>
      case body of None \<Rightarrow> stop (writeErr 400 ''invalid_request'' ''target_type is required'') sv | Some v \<Rightarrow>
      case target_of v of None \<Rightarrow> stop (writeErr 400 ''invalid_request'' ''target_type must be ssh_local or rdp_local'') sv | Some target \<Rightarrow>
        if \<not> may cx (target_perm target) (deviceResource d) then stop not_permitted sv
        else if \<not> IsOnline (d_id d) (sv_hub sv) then stop not_connected sv
        else case OpenTunnel_request (cl_now cx) (fr_id (cl_fresh cx)) (d_id d) (u_id (cx_user cx)) target tunnelSessionTTL (sv_remote sv) of
          (Inl e, st) \<Rightarrow> stop (tunnel_error e) (set_remote st sv)
        | (Inr s, st) \<Rightarrow> (None, add_pending (PendingTunnel s (d_id d) (u_id (cx_user cx)) target
            (session_event x cx (d_id d) s ''tunnel.opened'' None)) (set_remote st sv)))"

definition tunnel_answered :: "http_env \<Rightarrow> time \<Rightarrow> fresh \<Rightarrow> open_reply \<Rightarrow> uuid \<Rightarrow> uuid \<Rightarrow> uuid \<Rightarrow> target_type \<Rightarrow> audit_event \<Rightarrow> handler" where
  "tunnel_answered x now fr r s d u target e sv =
     (let ttl = Relay_TicketTTL (x_cfg x)
      in case OpenTunnel_reply (x_ticket x) now s d u target (fr_token fr) (fr_id fr) ttl r (sv_remote sv) of
           (Inl err, st) \<Rightarrow> stop (tunnel_error err) (set_remote st sv)
         | (Inr (ticket, tid), st) \<Rightarrow>
             stop (writeJSON 201 (JObj [(''tunnel_id'', JUuid tid), (''session_id'', JUuid s), (''helper_ticket'', JStr ticket),
                 (''expires_at'', JTime (now + ttl))]) None)
               (sv_audit (e\<lparr>ev_metadata := Some [(''target_type'', MStr (target_string target)), (''tunnel_id'', MUuid tid)]\<rparr>) (set_remote st sv)))"

text \<open>\<open>handleTunnelStream\<close> up to the upgrade; its end is \<open>tunnel_disconnected\<close>.\<close>

definition handleTunnelStream :: "http_env \<Rightarrow> call \<Rightarrow> handler" where
  "handleTunnelStream x c sv0 =
     (let (ok, l) = Allow (cl_now c) (''tunnel-stream:'' @ clientIP x c) (sv_ticket_limiter sv0); sv = sv0\<lparr>sv_ticket_limiter := l\<rparr>
      in if \<not> ok then stop (writeErr 429 ''rate_limited'' ''Too many ticket redemption attempts'') sv
         else if query c ''ticket'' = [] then stop (writeErr 400 ''invalid_request'' ''ticket is required'') sv
         else case tunnel_connect (x_ticket x) (cl_now c) (clientIP x c) (query c ''ticket'') (sv_remote sv) of
           (Inl ErrNotActive, st) \<Rightarrow> stop (writeErr 409 ''session_expired'' ''Tunnel session is not active'') (set_remote st sv)
         | (Inl ErrSessionNotFound, st) \<Rightarrow> stop (writeErr 410 ''resource_not_found'' ''Stream no longer available'') (set_remote st sv)
         | (Inl _, st) \<Rightarrow> stop (writeErr 401 ''ticket_expired'' ''Ticket invalid, expired, or already used'') (set_remote st sv)
         | (Inr t, st) \<Rightarrow> (None, set_remote st sv))"

end
