(* ===== verification/Http_Router.thy ===== *)
theory Http_Router
  imports Http_Auth Http_Fleet Http_Admin Http_Remote
begin

text \<open>
  The routes of \<open>httpapi/router.go\<close> and the whole server: which handler serves which route
  and behind which middleware, how a handler that waited for an agent goes on, and the sweepers and
  callbacks \<open>NewRouter\<close> starts. One step of the server is one of these, followed by the
  audit events it recorded; the interleavings of the goroutines are the sequences of steps.

  \<open>endpoint_access\<close> is the contract of the routes: the permission each of them asks for, and
  on what.
\<close>

section \<open>Routes behind a session\<close>

text \<open>One type of routes per group of handlers, with the path values and the decoded body as
  arguments; \<open>_method\<close> is the method of the pattern, \<open>serve_\<close> its handler and
  \<open>_access\<close> what it asks of its caller.\<close>

text \<open>What a route asks of its caller: nothing but a session, a grant of a permission at any
  scope, a grant that covers the device, ownership of a remote session or administration of its
  device, or a grant for the kind of tunnel.\<close>

datatype access =
    AnyUser
  | AnyGrant perm
  | OnDevice perm string
  | OnSession string
  | OnTarget string "string option"
  | SSHOrRDP string

text \<open>Signing in, users and help.\<close>

datatype auth_route =
    EpMe
  | EpChangePassword "(string \<times> string) option"
  | EpRevokeAllEnrollments
  | EpListUsers
  | EpCreateUser "(string \<times> string \<times> string) option"
  | EpSetUserStatus string "(string option \<times> bool option) option"
  | EpRevokeUserSessions string
  | EpHelpIndex
  | EpHelpPage string

primrec auth_method :: "auth_route \<Rightarrow> string" where
  "auth_method EpMe = ''GET''"
| "auth_method (EpChangePassword a1) = ''POST''"
| "auth_method EpRevokeAllEnrollments = ''POST''"
| "auth_method EpListUsers = ''GET''"
| "auth_method (EpCreateUser a1) = ''POST''"
| "auth_method (EpSetUserStatus a1 a2) = ''PATCH''"
| "auth_method (EpRevokeUserSessions a1) = ''POST''"
| "auth_method EpHelpIndex = ''GET''"
| "auth_method (EpHelpPage a1) = ''GET''"

primrec serve_auth :: "http_env \<Rightarrow> ctx \<Rightarrow> auth_route \<Rightarrow> handler" where
  "serve_auth x cx EpMe = handleMe x cx"
| "serve_auth x cx (EpChangePassword a1) = handleChangePassword x cx a1"
| "serve_auth x cx EpRevokeAllEnrollments = handleRevokeAllEnrollments x cx"
| "serve_auth x cx EpListUsers = handleListUsers x cx"
| "serve_auth x cx (EpCreateUser a1) = handleCreateUser x cx a1"
| "serve_auth x cx (EpSetUserStatus a1 a2) = handleSetUserStatus x cx a1 a2"
| "serve_auth x cx (EpRevokeUserSessions a1) = handleRevokeUserSessions x cx a1"
| "serve_auth x cx EpHelpIndex = handleHelpIndex x"
| "serve_auth x cx (EpHelpPage a1) = handleHelpPage x a1"

primrec auth_access :: "auth_route \<Rightarrow> access" where
  "auth_access EpMe = AnyUser"
| "auth_access (EpChangePassword a1) = AnyUser"
| "auth_access EpRevokeAllEnrollments = AnyGrant PermCredentialRevoke"
| "auth_access EpListUsers = AnyGrant PermUserManage"
| "auth_access (EpCreateUser a1) = AnyGrant PermUserManage"
| "auth_access (EpSetUserStatus a1 a2) = AnyGrant PermUserManage"
| "auth_access (EpRevokeUserSessions a1) = AnyGrant PermUserManage"
| "auth_access EpHelpIndex = AnyUser"
| "auth_access (EpHelpPage a1) = AnyUser"

text \<open>Devices, their metrics, and the audit log.\<close>

datatype device_route =
    EpListDevices
  | EpGetDevice string
  | EpPatchDevice string "patch_request option"
  | EpStatusRequest string
  | EpDeviceHealth string
  | EpDeviceIPHistory string
  | EpDeviceMetrics string
  | EpDeviceNetworkMetrics string
  | EpNetworkUsage
  | EpRevokeDevice string string
  | EpDeleteDevice string string
  | EpDeviceAuditLog string
  | EpAuditLog
  | EpExportAuditLog
  | EpVerifyAuditChain

primrec device_method :: "device_route \<Rightarrow> string" where
  "device_method EpListDevices = ''GET''"
| "device_method (EpGetDevice a1) = ''GET''"
| "device_method (EpPatchDevice a1 a2) = ''PATCH''"
| "device_method (EpStatusRequest a1) = ''POST''"
| "device_method (EpDeviceHealth a1) = ''GET''"
| "device_method (EpDeviceIPHistory a1) = ''GET''"
| "device_method (EpDeviceMetrics a1) = ''GET''"
| "device_method (EpDeviceNetworkMetrics a1) = ''GET''"
| "device_method EpNetworkUsage = ''GET''"
| "device_method (EpRevokeDevice a1 a2) = ''POST''"
| "device_method (EpDeleteDevice a1 a2) = ''DELETE''"
| "device_method (EpDeviceAuditLog a1) = ''GET''"
| "device_method EpAuditLog = ''GET''"
| "device_method EpExportAuditLog = ''GET''"
| "device_method EpVerifyAuditChain = ''POST''"

primrec serve_device :: "http_env \<Rightarrow> ctx \<Rightarrow> device_route \<Rightarrow> handler" where
  "serve_device x cx EpListDevices = handleListDevices x cx"
| "serve_device x cx (EpGetDevice a1) = handleGetDevice x cx a1"
| "serve_device x cx (EpPatchDevice a1 a2) = handlePatchDevice x cx a1 a2"
| "serve_device x cx (EpStatusRequest a1) = handleStatusRequest x cx a1"
| "serve_device x cx (EpDeviceHealth a1) = handleDeviceHealth x cx a1"
| "serve_device x cx (EpDeviceIPHistory a1) = handleDeviceIPHistory x cx a1"
| "serve_device x cx (EpDeviceMetrics a1) = handleDeviceMetrics x cx a1"
| "serve_device x cx (EpDeviceNetworkMetrics a1) = handleDeviceNetworkMetrics x cx a1"
| "serve_device x cx EpNetworkUsage = handleNetworkUsageSummary x cx"
| "serve_device x cx (EpRevokeDevice a1 a2) = handleRevokeDevice x cx a1 a2"
| "serve_device x cx (EpDeleteDevice a1 a2) = handleDeleteDevice x cx a1 a2"
| "serve_device x cx (EpDeviceAuditLog a1) = handleDeviceAuditLog x cx a1"
| "serve_device x cx EpAuditLog = handleAuditLog x cx"
| "serve_device x cx EpExportAuditLog = handleExportAuditLog x cx"
| "serve_device x cx EpVerifyAuditChain = handleVerifyAuditChain x cx"

primrec device_access :: "device_route \<Rightarrow> access" where
  "device_access EpListDevices = AnyGrant PermDeviceRead"
| "device_access (EpGetDevice a1) = OnDevice PermDeviceRead a1"
| "device_access (EpPatchDevice a1 a2) = OnDevice PermDeviceManage a1"
| "device_access (EpStatusRequest a1) = OnDevice PermDeviceRead a1"
| "device_access (EpDeviceHealth a1) = OnDevice PermMonitoringRead a1"
| "device_access (EpDeviceIPHistory a1) = OnDevice PermMonitoringRead a1"
| "device_access (EpDeviceMetrics a1) = OnDevice PermMonitoringRead a1"
| "device_access (EpDeviceNetworkMetrics a1) = OnDevice PermMonitoringRead a1"
| "device_access EpNetworkUsage = AnyGrant PermMonitoringRead"
| "device_access (EpRevokeDevice a1 a2) = OnDevice PermCredentialRevoke a1"
| "device_access (EpDeleteDevice a1 a2) = OnDevice PermCredentialRevoke a1"
| "device_access (EpDeviceAuditLog a1) = OnDevice PermAuditRead a1"
| "device_access EpAuditLog = AnyGrant PermAuditRead"
| "device_access EpExportAuditLog = AnyGrant PermAuditRead"
| "device_access EpVerifyAuditChain = AnyGrant PermAuditRead"

text \<open>Enrollment tokens, releases and support accounts.\<close>

datatype fleet_route =
    EpCreateEnrollment "enrollment_request option"
  | EpListEnrollments
  | EpRevokeEnrollment string
  | EpListReleases
  | EpCreateRelease "release option"
  | EpSetReleaseBlocked string "bool option"
  | EpSyncReleases "nat \<Rightarrow> uuid \<times> time" "gh_release list option"
  | EpTriggerUpdate string string
  | EpGetSupportCredential string
  | EpRotateSupportCredential string

primrec fleet_method :: "fleet_route \<Rightarrow> string" where
  "fleet_method (EpCreateEnrollment a1) = ''POST''"
| "fleet_method EpListEnrollments = ''GET''"
| "fleet_method (EpRevokeEnrollment a1) = ''DELETE''"
| "fleet_method EpListReleases = ''GET''"
| "fleet_method (EpCreateRelease a1) = ''POST''"
| "fleet_method (EpSetReleaseBlocked a1 a2) = ''PATCH''"
| "fleet_method (EpSyncReleases a1 a2) = ''POST''"
| "fleet_method (EpTriggerUpdate a1 a2) = ''POST''"
| "fleet_method (EpGetSupportCredential a1) = ''GET''"
| "fleet_method (EpRotateSupportCredential a1) = ''POST''"

primrec serve_fleet :: "http_env \<Rightarrow> ctx \<Rightarrow> fleet_route \<Rightarrow> handler" where
  "serve_fleet x cx (EpCreateEnrollment a1) = handleCreateEnrollment x cx a1"
| "serve_fleet x cx EpListEnrollments = handleListEnrollments x cx"
| "serve_fleet x cx (EpRevokeEnrollment a1) = handleRevokeEnrollment x cx a1"
| "serve_fleet x cx EpListReleases = handleListReleases x cx"
| "serve_fleet x cx (EpCreateRelease a1) = http_CreateRelease x cx a1"
| "serve_fleet x cx (EpSetReleaseBlocked a1 a2) = handleSetReleaseBlocked x cx a1 a2"
| "serve_fleet x cx (EpSyncReleases a1 a2) = handleSyncGitHubReleases x a1 a2 cx"
| "serve_fleet x cx (EpTriggerUpdate a1 a2) = handleTriggerDeviceUpdate x cx a1 a2"
| "serve_fleet x cx (EpGetSupportCredential a1) = handleGetSupportCredential x cx a1"
| "serve_fleet x cx (EpRotateSupportCredential a1) = handleRotateSupportCredential x cx a1"

primrec fleet_access :: "fleet_route \<Rightarrow> access" where
  "fleet_access (EpCreateEnrollment a1) = AnyGrant PermEnrollmentCreate"
| "fleet_access EpListEnrollments = AnyGrant PermEnrollmentCreate"
| "fleet_access (EpRevokeEnrollment a1) = AnyGrant PermEnrollmentCreate"
| "fleet_access EpListReleases = AnyGrant PermAgentUpdate"
| "fleet_access (EpCreateRelease a1) = AnyGrant PermAgentUpdate"
| "fleet_access (EpSetReleaseBlocked a1 a2) = AnyGrant PermAgentUpdate"
| "fleet_access (EpSyncReleases a1 a2) = AnyGrant PermAgentUpdate"
| "fleet_access (EpTriggerUpdate a1 a2) = OnDevice PermAgentUpdate a1"
| "fleet_access (EpGetSupportCredential a1) = SSHOrRDP a1"
| "fleet_access (EpRotateSupportCredential a1) = SSHOrRDP a1"

text \<open>Customers, groups and maintenance records.\<close>

datatype customer_route =
    EpListCustomers
  | EpCreateCustomer "(string \<times> string \<times> string) option"
  | EpUpdateCustomer string "(string \<times> string \<times> string \<times> string) option"
  | EpListGroups
  | EpCreateGroup "(string option \<times> string) option"
  | EpRenameGroup string "string option"
  | EpDeleteGroup string
  | EpListMaintenance string

primrec customer_method :: "customer_route \<Rightarrow> string" where
  "customer_method EpListCustomers = ''GET''"
| "customer_method (EpCreateCustomer a1) = ''POST''"
| "customer_method (EpUpdateCustomer a1 a2) = ''PATCH''"
| "customer_method EpListGroups = ''GET''"
| "customer_method (EpCreateGroup a1) = ''POST''"
| "customer_method (EpRenameGroup a1 a2) = ''PATCH''"
| "customer_method (EpDeleteGroup a1) = ''DELETE''"
| "customer_method (EpListMaintenance a1) = ''GET''"

primrec serve_customer :: "http_env \<Rightarrow> ctx \<Rightarrow> customer_route \<Rightarrow> handler" where
  "serve_customer x cx EpListCustomers = handleListCustomers x cx"
| "serve_customer x cx (EpCreateCustomer a1) = handleCreateCustomer x cx a1"
| "serve_customer x cx (EpUpdateCustomer a1 a2) = handleUpdateCustomer x cx a1 a2"
| "serve_customer x cx EpListGroups = handleListGroups x cx"
| "serve_customer x cx (EpCreateGroup a1) = handleCreateGroup x cx a1"
| "serve_customer x cx (EpRenameGroup a1 a2) = handleRenameGroup x cx a1 a2"
| "serve_customer x cx (EpDeleteGroup a1) = handleDeleteGroup x cx a1"
| "serve_customer x cx (EpListMaintenance a1) = handleListMaintenance x cx a1"

primrec customer_access :: "customer_route \<Rightarrow> access" where
  "customer_access EpListCustomers = AnyGrant PermCustomerRead"
| "customer_access (EpCreateCustomer a1) = AnyGrant PermCustomerManage"
| "customer_access (EpUpdateCustomer a1 a2) = AnyGrant PermCustomerManage"
| "customer_access EpListGroups = AnyGrant PermCustomerRead"
| "customer_access (EpCreateGroup a1) = AnyGrant PermCustomerManage"
| "customer_access (EpRenameGroup a1 a2) = AnyGrant PermCustomerManage"
| "customer_access (EpDeleteGroup a1) = AnyGrant PermCustomerManage"
| "customer_access (EpListMaintenance a1) = OnDevice PermMaintenanceRead a1"

text \<open>Alert rules and alerts.\<close>

datatype alert_route =
    EpListAlertRules
  | EpCreateAlertRule "rule_request option"
  | EpSetAlertRuleEnabled string "bool option"
  | EpDeleteAlertRule string
  | EpListAlerts
  | EpAlertsOpenCount
  | EpAcknowledgeAlert string
  | EpResolveAlert string
  | EpDeleteAlert string

primrec alert_method :: "alert_route \<Rightarrow> string" where
  "alert_method EpListAlertRules = ''GET''"
| "alert_method (EpCreateAlertRule a1) = ''POST''"
| "alert_method (EpSetAlertRuleEnabled a1 a2) = ''PATCH''"
| "alert_method (EpDeleteAlertRule a1) = ''DELETE''"
| "alert_method EpListAlerts = ''GET''"
| "alert_method EpAlertsOpenCount = ''GET''"
| "alert_method (EpAcknowledgeAlert a1) = ''POST''"
| "alert_method (EpResolveAlert a1) = ''POST''"
| "alert_method (EpDeleteAlert a1) = ''DELETE''"

primrec serve_alert :: "http_env \<Rightarrow> ctx \<Rightarrow> alert_route \<Rightarrow> handler" where
  "serve_alert x cx EpListAlertRules = handleListAlertRules x cx"
| "serve_alert x cx (EpCreateAlertRule a1) = handleCreateAlertRule x cx a1"
| "serve_alert x cx (EpSetAlertRuleEnabled a1 a2) = handleSetAlertRuleEnabled x cx a1 a2"
| "serve_alert x cx (EpDeleteAlertRule a1) = handleDeleteAlertRule x cx a1"
| "serve_alert x cx EpListAlerts = handleListAlerts x cx"
| "serve_alert x cx EpAlertsOpenCount = handleAlertsOpenCount x cx"
| "serve_alert x cx (EpAcknowledgeAlert a1) = handleAcknowledgeAlert x cx a1"
| "serve_alert x cx (EpResolveAlert a1) = handleResolveAlert x cx a1"
| "serve_alert x cx (EpDeleteAlert a1) = handleDeleteAlert x cx a1"

primrec alert_access :: "alert_route \<Rightarrow> access" where
  "alert_access EpListAlertRules = AnyGrant PermMonitoringRead"
| "alert_access (EpCreateAlertRule a1) = AnyGrant PermAlertManage"
| "alert_access (EpSetAlertRuleEnabled a1 a2) = AnyGrant PermAlertManage"
| "alert_access (EpDeleteAlertRule a1) = AnyGrant PermAlertManage"
| "alert_access EpListAlerts = AnyGrant PermMonitoringRead"
| "alert_access EpAlertsOpenCount = AnyGrant PermMonitoringRead"
| "alert_access (EpAcknowledgeAlert a1) = AnyGrant PermAlertManage"
| "alert_access (EpResolveAlert a1) = AnyGrant PermAlertManage"
| "alert_access (EpDeleteAlert a1) = AnyGrant PermAlertManage"

text \<open>Settings. What the Telegram API answered is given to the route that calls it.\<close>

datatype setting_route =
    EpGetRetention
  | EpSetRetention "(int \<times> int) option"
  | EpGetNetworkRetention
  | EpSetNetworkRetention "(int \<times> int) option"
  | EpGetRotation
  | EpSetRotation "int option"
  | EpGetTelegram
  | EpSetTelegram "(string \<times> string) option"
  | EpTestTelegram http_result

primrec setting_method :: "setting_route \<Rightarrow> string" where
  "setting_method EpGetRetention = ''GET''"
| "setting_method (EpSetRetention a1) = ''PATCH''"
| "setting_method EpGetNetworkRetention = ''GET''"
| "setting_method (EpSetNetworkRetention a1) = ''PATCH''"
| "setting_method EpGetRotation = ''GET''"
| "setting_method (EpSetRotation a1) = ''PATCH''"
| "setting_method EpGetTelegram = ''GET''"
| "setting_method (EpSetTelegram a1) = ''PATCH''"
| "setting_method (EpTestTelegram a1) = ''POST''"

primrec serve_setting :: "http_env \<Rightarrow> ctx \<Rightarrow> setting_route \<Rightarrow> handler" where
  "serve_setting x cx EpGetRetention = handleGetRetentionSettings x cx"
| "serve_setting x cx (EpSetRetention a1) = handleSetRetentionSettings x cx a1"
| "serve_setting x cx EpGetNetworkRetention = handleGetNetworkRetentionSettings x cx"
| "serve_setting x cx (EpSetNetworkRetention a1) = handleSetNetworkRetentionSettings x cx a1"
| "serve_setting x cx EpGetRotation = handleGetSupportCredentialRotationSettings x cx"
| "serve_setting x cx (EpSetRotation a1) = handleSetSupportCredentialRotationSettings x cx a1"
| "serve_setting x cx EpGetTelegram = handleGetTelegramSettings x cx"
| "serve_setting x cx (EpSetTelegram a1) = handleSetTelegramSettings x cx a1"
| "serve_setting x cx (EpTestTelegram a1) = handleTestTelegramSettings x a1 cx"

primrec setting_access :: "setting_route \<Rightarrow> access" where
  "setting_access EpGetRetention = AnyGrant PermSystemSettings"
| "setting_access (EpSetRetention a1) = AnyGrant PermSystemSettings"
| "setting_access EpGetNetworkRetention = AnyGrant PermSystemSettings"
| "setting_access (EpSetNetworkRetention a1) = AnyGrant PermSystemSettings"
| "setting_access EpGetRotation = AnyGrant PermSystemSettings"
| "setting_access (EpSetRotation a1) = AnyGrant PermSystemSettings"
| "setting_access EpGetTelegram = AnyGrant PermSystemSettings"
| "setting_access (EpSetTelegram a1) = AnyGrant PermSystemSettings"
| "setting_access (EpTestTelegram a1) = AnyGrant PermSystemSettings"

text \<open>Commands to an agent and its files.\<close>

datatype command_route =
    EpListServices string
  | EpServiceAction string string
  | EpListProcesses string
  | EpTerminateProcess string string int
  | EpQueryLogs string
  | EpFilesList string
  | EpFilesDownload string
  | EpFilesUpload string
  | EpFilesMkdir string "string option"
  | EpFilesRename string "(string \<times> string) option"
  | EpFilesDelete string

primrec command_method :: "command_route \<Rightarrow> string" where
  "command_method (EpListServices a1) = ''GET''"
| "command_method (EpServiceAction a1 a2) = ''POST''"
| "command_method (EpListProcesses a1) = ''GET''"
| "command_method (EpTerminateProcess a1 a2 a3) = ''POST''"
| "command_method (EpQueryLogs a1) = ''GET''"
| "command_method (EpFilesList a1) = ''GET''"
| "command_method (EpFilesDownload a1) = ''GET''"
| "command_method (EpFilesUpload a1) = ''POST''"
| "command_method (EpFilesMkdir a1 a2) = ''POST''"
| "command_method (EpFilesRename a1 a2) = ''POST''"
| "command_method (EpFilesDelete a1) = ''DELETE''"

primrec serve_command :: "http_env \<Rightarrow> ctx \<Rightarrow> command_route \<Rightarrow> handler" where
  "serve_command x cx (EpListServices a1) = handleListServices x cx a1"
| "serve_command x cx (EpServiceAction a1 a2) = handleServiceAction x cx a1 a2"
| "serve_command x cx (EpListProcesses a1) = handleListProcesses x cx a1"
| "serve_command x cx (EpTerminateProcess a1 a2 a3) = handleTerminateProcess x cx a1 a2 a3"
| "serve_command x cx (EpQueryLogs a1) = handleQueryLogs x cx a1"
| "serve_command x cx (EpFilesList a1) = handleFilesList x cx a1"
| "serve_command x cx (EpFilesDownload a1) = handleFilesDownload x cx a1"
| "serve_command x cx (EpFilesUpload a1) = handleFilesUpload x cx a1"
| "serve_command x cx (EpFilesMkdir a1 a2) = handleFilesMkdir x cx a1 a2"
| "serve_command x cx (EpFilesRename a1 a2) = handleFilesRename x cx a1 a2"
| "serve_command x cx (EpFilesDelete a1) = handleFilesDelete x cx a1"

primrec command_access :: "command_route \<Rightarrow> access" where
  "command_access (EpListServices a1) = OnDevice PermDeviceRead a1"
| "command_access (EpServiceAction a1 a2) = OnDevice PermRemoteServiceControl a1"
| "command_access (EpListProcesses a1) = OnDevice PermDeviceRead a1"
| "command_access (EpTerminateProcess a1 a2 a3) = OnDevice PermRemoteProcessTerminate a1"
| "command_access (EpQueryLogs a1) = OnDevice PermRemoteFilesRead a1"
| "command_access (EpFilesList a1) = OnDevice PermRemoteFilesRead a1"
| "command_access (EpFilesDownload a1) = OnDevice PermRemoteFilesRead a1"
| "command_access (EpFilesUpload a1) = OnDevice PermRemoteFilesWrite a1"
| "command_access (EpFilesMkdir a1 a2) = OnDevice PermRemoteFilesWrite a1"
| "command_access (EpFilesRename a1 a2) = OnDevice PermRemoteFilesWrite a1"
| "command_access (EpFilesDelete a1) = OnDevice PermRemoteFilesWrite a1"

text \<open>Terminal sessions, their privileges, and tunnels.\<close>

datatype session_route =
    EpCreateSession string "string option"
  | EpGetSession string
  | EpCloseSession string
  | EpSessionStream string
  | EpGrantPrivilege string "(string \<times> int) option"
  | EpRevokePrivilege string
  | EpCreateTunnel string "string option"

primrec session_method :: "session_route \<Rightarrow> string" where
  "session_method (EpCreateSession a1 a2) = ''POST''"
| "session_method (EpGetSession a1) = ''GET''"
| "session_method (EpCloseSession a1) = ''DELETE''"
| "session_method (EpSessionStream a1) = ''GET''"
| "session_method (EpGrantPrivilege a1 a2) = ''POST''"
| "session_method (EpRevokePrivilege a1) = ''DELETE''"
| "session_method (EpCreateTunnel a1 a2) = ''POST''"

primrec serve_session :: "http_env \<Rightarrow> ctx \<Rightarrow> session_route \<Rightarrow> handler" where
  "serve_session x cx (EpCreateSession a1 a2) = handleCreateSession x cx a1 a2"
| "serve_session x cx (EpGetSession a1) = handleGetSession x cx a1"
| "serve_session x cx (EpCloseSession a1) = http_CloseSession x cx a1"
| "serve_session x cx (EpSessionStream a1) = handleSessionStream x cx a1"
| "serve_session x cx (EpGrantPrivilege a1 a2) = handleGrantPrivilege x cx a1 a2"
| "serve_session x cx (EpRevokePrivilege a1) = handleRevokePrivilege x cx a1"
| "serve_session x cx (EpCreateTunnel a1 a2) = handleCreateTunnel x cx a1 a2"

primrec session_access :: "session_route \<Rightarrow> access" where
  "session_access (EpCreateSession a1 a2) = OnDevice PermRemoteTerminal a1"
| "session_access (EpGetSession a1) = OnSession a1"
| "session_access (EpCloseSession a1) = OnSession a1"
| "session_access (EpSessionStream a1) = OnSession a1"
| "session_access (EpGrantPrivilege a1 a2) = OnSession a1"
| "session_access (EpRevokePrivilege a1) = OnSession a1"
| "session_access (EpCreateTunnel a1 a2) = OnTarget a1 a2"

datatype endpoint =
    AuthRoute auth_route
  | DeviceRoute device_route
  | FleetRoute fleet_route
  | CustomerRoute customer_route
  | AlertRoute alert_route
  | SettingRoute setting_route
  | CommandRoute command_route
  | SessionRoute session_route

primrec endpoint_method :: "endpoint \<Rightarrow> string" where
  "endpoint_method (AuthRoute r) = auth_method r"
| "endpoint_method (DeviceRoute r) = device_method r"
| "endpoint_method (FleetRoute r) = fleet_method r"
| "endpoint_method (CustomerRoute r) = customer_method r"
| "endpoint_method (AlertRoute r) = alert_method r"
| "endpoint_method (SettingRoute r) = setting_method r"
| "endpoint_method (CommandRoute r) = command_method r"
| "endpoint_method (SessionRoute r) = session_method r"

primrec protected :: "http_env \<Rightarrow> ctx \<Rightarrow> endpoint \<Rightarrow> handler" where
  "protected x cx (AuthRoute r) = serve_auth x cx r"
| "protected x cx (DeviceRoute r) = serve_device x cx r"
| "protected x cx (FleetRoute r) = serve_fleet x cx r"
| "protected x cx (CustomerRoute r) = serve_customer x cx r"
| "protected x cx (AlertRoute r) = serve_alert x cx r"
| "protected x cx (SettingRoute r) = serve_setting x cx r"
| "protected x cx (CommandRoute r) = serve_command x cx r"
| "protected x cx (SessionRoute r) = serve_session x cx r"

primrec endpoint_access :: "endpoint \<Rightarrow> access" where
  "endpoint_access (AuthRoute r) = auth_access r"
| "endpoint_access (DeviceRoute r) = device_access r"
| "endpoint_access (FleetRoute r) = fleet_access r"
| "endpoint_access (CustomerRoute r) = customer_access r"
| "endpoint_access (AlertRoute r) = alert_access r"
| "endpoint_access (SettingRoute r) = setting_access r"
| "endpoint_access (CommandRoute r) = command_access r"
| "endpoint_access (SessionRoute r) = session_access r"

definition device_allows :: "http_env \<Rightarrow> string \<Rightarrow> server \<Rightarrow> (resource \<Rightarrow> bool) \<Rightarrow> bool" where
  "device_allows x i sv p = (case loadDevice x i sv of Inl _ \<Rightarrow> False | Inr d \<Rightarrow> p (deviceResource d))"

primrec permitted :: "http_env \<Rightarrow> ctx \<Rightarrow> server \<Rightarrow> access \<Rightarrow> bool" where
  "permitted x cx sv AnyUser = True"
| "permitted x cx sv (AnyGrant p) = has_any cx p"
| "permitted x cx sv (OnDevice p i) = device_allows x i sv (may cx p)"
| "permitted x cx sv (OnSession i) = (case loadSessionWithAccess x cx i sv of Inl _ \<Rightarrow> False | Inr _ \<Rightarrow> True)"
| "permitted x cx sv (OnTarget i body) = (case body of None \<Rightarrow> False | Some v \<Rightarrow>
     (case target_of v of None \<Rightarrow> False | Some t \<Rightarrow> device_allows x i sv (may cx (target_perm t))))"
| "permitted x cx sv (SSHOrRDP i) = device_allows x i sv (\<lambda>r. may cx PermRemoteTunnelSSH r \<or> may cx PermRemoteTunnelRDP r)"

text \<open>A pattern with the method GET also matches HEAD.\<close>

definition method_matches :: "string \<Rightarrow> string \<Rightarrow> bool" where
  "method_matches pattern m \<longleftrightarrow> m = pattern \<or> pattern = ''GET'' \<and> m = ''HEAD''"

definition method_not_allowed :: reply where
  "method_not_allowed = \<lparr>rp_status = 405, rp_headers = [(''Content-Type'', ''text/plain; charset=utf-8'')], rp_cookies = [],
     rp_body = TextReply ''Method Not Allowed''\<rparr>"

definition request_ctx :: "call \<Rightarrow> session \<times> user \<times> grant list \<Rightarrow> ctx" where
  "request_ctx c sug = (case sug of (s, u, g) \<Rightarrow> call.extend c (ctx.fields s u g))"

definition serve_protected :: "http_env \<Rightarrow> call \<Rightarrow> endpoint \<Rightarrow> handler" where
  "serve_protected x c ep sv =
     (case withCSRF (x_cfg x) (cl_request c) of
        Some r \<Rightarrow> stop r sv
      | None \<Rightarrow>
          (case RequireSession (x_auth x) (authCfg x) (cl_now c) (rq_session_cookie (cl_request c)) (sv_auth sv) of
             (None, st) \<Rightarrow> stop (writeErr 401 ''unauthenticated''
                 (if rq_session_cookie (cl_request c) = None then ''No active session'' else ''Session invalid or expired'')) (set_auth st sv)
           | (Some sug, st) \<Rightarrow>
               if method_matches (endpoint_method ep) (rq_method (cl_request c))
               then protected x (request_ctx c sug) ep (set_auth st sv)
               else stop method_not_allowed (set_auth st sv)))"

section \<open>The two listeners\<close>

definition handleHealth :: "http_env \<Rightarrow> handler" where
  "handleHealth x = stop \<lparr>rp_status = 200, rp_headers = [(''Content-Type'', ''application/json'')], rp_cookies = [],
     rp_body = JsonReply (JObj [(''status'', JStr ''ok''), (''version'', JStr (x_version x))]) None\<rparr>"

definition lines_of :: "string list \<Rightarrow> string" where
  "lines_of ls = concat (map (\<lambda>l. l @ [CHR 0x0A]) ls)"

definition deterrentCSS :: string where
  "deterrentCSS = CHR 0x0A # lines_of
     [''  html, body { height:100%; margin:0; }'',
      ''  body { background:#0b0e14; color:#c9d1d9; font-family:system-ui,-apple-system,Segoe UI,sans-serif;'',
      ''         display:flex; align-items:center; justify-content:center; text-align:center; }'',
      ''  .box { max-width:420px; padding:2rem; margin:0 auto; }'',
      ''  h1 { font-size:1.4rem; margin-bottom:0.5rem; }'',
      ''  p { color:#8b949e; line-height:1.5; }'',
      ''  a { color:#58a6ff; text-decoration:none; }'',
      ''  a:hover { text-decoration:underline; }'']"

definition nothing_here :: string where
  "nothing_here = ''<p>There'' @ CHR 0x27 # ''s nothing to see at this address.</p>''"

definition deterrentHTMLTemplate :: string where
  "deterrentHTMLTemplate =
     lines_of [''<!DOCTYPE html>'', ''<html lang=\"en\">'', ''<head>'', ''<meta charset=\"utf-8\">'', ''<title>Nothing here</title>''] @
     ''<style>'' @ deterrentCSS @
     lines_of [''</style>'', ''</head>'', ''<body>'', ''  <div class=\"box\">'', ''    <h1>Looks like you took a wrong turn.</h1>'',
       ''    '' @ nothing_here, ''    %s'', ''  </div>'', ''</body>''] @ ''</html>''"

text \<open>\<open>strings.Replace(s, old, new, 1)\<close>.\<close>

primrec replace_first :: "string \<Rightarrow> string \<Rightarrow> string \<Rightarrow> string" where
  "replace_first old new [] = (if old = [] then new else [])"
| "replace_first old new (c # cs) =
     (if take (length old) (c # cs) = old then new @ drop (length old) (c # cs) else c # replace_first old new cs)"

definition deterrentCSPStyleHash :: "http_env \<Rightarrow> string" where
  "deterrentCSPStyleHash x = single_quoted (''sha256-'' @ x_b64 x (sha256 (x_auth x) (bytes_of deterrentCSS)))"

definition handleDeterrent :: "http_env \<Rightarrow> handler" where
  "handleDeterrent x =
     (let u = Public_DeterrentContactURL (x_cfg x); escaped = x_html_escape x u;
          contact = (if u \<noteq> [] then ''<p>Questions? <a href=\"'' @ escaped @ ''\">'' @ escaped @ ''</a></p>'' else nothing_here)
      in stop \<lparr>rp_status = 403,
           rp_headers = [(''Content-Security-Policy'', ''default-src '' @ single_quoted ''self'' @ ''; style-src '' @ deterrentCSPStyleHash x @
                ''; frame-ancestors '' @ single_quoted ''none'' @ ''; base-uri '' @ single_quoted ''none''),
              (''Content-Type'', ''text/html; charset=utf-8'')],
           rp_cookies = [], rp_body = TextReply (replace_first ''%s'' contact deterrentHTMLTemplate)\<rparr>)"

datatype admin_request =
    AdmHealth
  | AdmLogin "(string \<times> string) option"
  | AdmTOTP "(string \<times> string) option"
  | AdmMFASetup "(string \<times> string \<times> string) option"
  | AdmLogout
  | AdmReauth "(string \<times> string) option"
  | AdmProtected endpoint
  | AdmUnknown

datatype public_request =
    PubHealth
  | PubEnroll "agent_enrollment option"
  | PubControl bytes "bytes option" bool
  | PubTunnelStream
  | PubOther

definition page_not_found :: reply where
  "page_not_found = \<lparr>rp_status = 404, rp_headers = [(''Content-Type'', ''text/plain; charset=utf-8''), (''X-Content-Type-Options'', ''nosniff'')],
     rp_cookies = [], rp_body = TextReply ''404 page not found''\<rparr>"

primrec admin_mux :: "http_env \<Rightarrow> call \<Rightarrow> admin_request \<Rightarrow> handler" where
  "admin_mux x c AdmHealth = handleHealth x"
| "admin_mux x c (AdmLogin b) = handleLogin x c b"
| "admin_mux x c (AdmTOTP b) = handleTOTP x c b"
| "admin_mux x c (AdmMFASetup b) = handleMFASetupConfirm x c b"
| "admin_mux x c AdmLogout = handleLogout x c"
| "admin_mux x c (AdmReauth b) = handleReauth x c b"
| "admin_mux x c (AdmProtected ep) = serve_protected x c ep"
| "admin_mux x c AdmUnknown = stop page_not_found"

primrec public_mux :: "http_env \<Rightarrow> call \<Rightarrow> public_request \<Rightarrow> handler" where
  "public_mux x c PubHealth = handleHealth x"
| "public_mux x c (PubEnroll b) = handleAgentEnroll x c b"
| "public_mux x c (PubControl nonce answer ackSent) = handleAgentControl x c nonce answer ackSent"
| "public_mux x c PubTunnelStream = handleTunnelStream x c"
| "public_mux x c PubOther = handleDeterrent x"

definition with_headers :: "http_env \<Rightarrow> handler \<Rightarrow> handler" where
  "with_headers x k sv = map_prod (map_option (withSecurityHeaders (x_cfg x))) id (k sv)"

section \<open>Waiting handlers\<close>

text \<open>What a waiting handler goes on with: whatever the agent has answered by now, the answer to an
  open request, one turn of a download (did the 30 minutes pass, could the chunk be written), or
  the body of an upload as it is read.\<close>

datatype input =
    InWait
  | InOpen open_reply
  | InTurn bool bool
  | InBody "(bytes \<times> bool) list" bool bool

definition chunk_reply :: "bytes \<Rightarrow> reply" where
  "chunk_reply b = \<lparr>rp_status = 200, rp_headers = [(''Content-Type'', ''application/octet-stream'')], rp_cookies = [], rp_body = DataReply b\<rparr>"

definition continue :: "http_env \<Rightarrow> call \<Rightarrow> pending \<Rightarrow> input \<Rightarrow> handler" where
  "continue x c p inp sv =
     (case (p, inp) of
        (PendingCommand w k, InWait) \<Rightarrow> runCommand_end x w k sv
      | (PendingTerminal s d e, InOpen r) \<Rightarrow> terminal_answered (cl_now c) r s d e sv
      | (PendingTunnel s d u t e, InOpen r) \<Rightarrow> tunnel_answered x (cl_now c) (cl_fresh c) r s d u t e sv
      | (PendingDownload w s e, InWait) \<Rightarrow> download_ready x w s e sv
      | (StreamingDownload s e, InTurn timedOut writeOK) \<Rightarrow>
          (case download_turn timedOut writeOK s e sv of
             (chunk, go, sv') \<Rightarrow> (map_option chunk_reply chunk, if go then add_pending (StreamingDownload s e) sv' else sv'))
      | (PendingUpload w s path e, InBody body readOK eofOK) \<Rightarrow> upload_ready x body readOK eofOK w s path e sv
      | (FinishingUpload w s n e, InWait) \<Rightarrow> upload_confirmed x w s n e sv
      | _ \<Rightarrow> (None, add_pending p sv))"

definition resume :: "http_env \<Rightarrow> call \<Rightarrow> nat \<Rightarrow> input \<Rightarrow> handler" where
  "resume x c n inp sv =
     (if n < length (sv_pending sv)
      then continue x c (sv_pending sv ! n) inp (sv\<lparr>sv_pending := take n (sv_pending sv) @ drop (Suc n) (sv_pending sv)\<rparr>)
      else (None, sv))"

section \<open>Background work\<close>

definition on_remote :: "(remote_state \<Rightarrow> remote_state) \<Rightarrow> server \<Rightarrow> server" where
  "on_remote f sv = set_remote (f (sv_remote sv)) sv"

definition on_hub :: "(hub_state \<Rightarrow> hub_state) \<Rightarrow> server \<Rightarrow> server" where
  "on_hub f sv = set_hub (f (sv_hub sv)) sv"

text \<open>What arrives over the terminal of a session.\<close>

definition browser_input :: "uuid \<Rightarrow> browser_msg \<Rightarrow> server \<Rightarrow> server" where
  "browser_input i m sv =
     (case (GetStream i (r_broker (sv_remote sv)), GetRemote i (sv_remote sv)) of
        (Some s, Inr sess) \<Rightarrow> browser_frame s sess m sv
      | _ \<Rightarrow> sv)"

definition rotation_sweep :: "time \<Rightarrow> bool \<Rightarrow> server \<Rightarrow> server" where
  "rotation_sweep now writeOK sv =
     on_hub (fold (\<lambda>i h. snd (SendHubMessage i (type_name TypeDeviceCommand) (Some CmdRotateSupportCredential) writeOK h))
       (rotation_tick now (map fst (h_conns (sv_hub sv))) (sv_admin sv))) sv"

definition retention_sweep :: "http_env \<Rightarrow> time \<Rightarrow> server \<Rightarrow> server" where
  "retention_sweep x now sv =
     (let cfg = x_cfg x; h = sv_hub sv;
          win = MetricsRetention (Metrics_RawRetention cfg) (Metrics_HourlyRetention cfg) (sv_admin sv);
          netwin = NetworkMetricsRetention (Metrics_NetworkRawRetention cfg) (Metrics_NetworkHourlyRetention cfg) (sv_admin sv)
      in set_hub (h\<lparr>h_monitor := (h_monitor h)\<lparr>mon_metrics := retention_tick now (Some win) (Some netwin)
           (Metrics_RawRetention cfg, Metrics_HourlyRetention cfg)
           (Metrics_NetworkRawRetention cfg, Metrics_NetworkHourlyRetention cfg) (mon_metrics (h_monitor h))\<rparr>\<rparr>) sv)"

definition alert_sweep :: "http_env \<Rightarrow> rule_input \<Rightarrow> time \<Rightarrow> (alert list \<Rightarrow> uuid) \<Rightarrow> server \<Rightarrow> server" where
  "alert_sweep x inp now fresh sv = set_alerts (EvaluateAlerts (x_alert x) inp now fresh (sv_devices sv) (sv_alerts sv)) sv"

text \<open>\<open>NewGitHubSyncer\<close> and its sweeper exist only with a release key.\<close>

definition release_sweep :: "http_env \<Rightarrow> (nat \<Rightarrow> uuid \<times> time) \<Rightarrow> gh_release list option \<Rightarrow> server \<Rightarrow> server" where
  "release_sweep x stamps fetched sv =
     (if length (releaseKey x) \<noteq> PublicKeySize \<or> Agent_GitHubReleaseSyncEvery (x_cfg x) \<le> 0 then sv
      else set_releases (snd (SyncOnce (releaseEnv x) (releaseKey x) stamps fetched (h_releases (sv_hub sv)))) sv)"

text \<open>A restart loses what is in memory, the connections, the waiting calls and the rate limiters,
  and ends the remote sessions; the tables stay.\<close>

definition server_restart :: "time \<Rightarrow> server \<Rightarrow> server" where
  "server_restart now sv = sv
     \<lparr>sv_auth := restart_auth (sv_auth sv),
      sv_hub := (sv_hub sv)\<lparr>h_conns := [], h_running := [], h_waiters := [], h_remote := restart now (sv_remote sv)\<rparr>,
      sv_enroll_limiter := renew_limiter (sv_enroll_limiter sv),
      sv_control_limiter := renew_limiter (sv_control_limiter sv),
      sv_ticket_limiter := renew_limiter (sv_ticket_limiter sv),
      sv_pending := []\<rparr>"

section \<open>Steps of the server\<close>

datatype server_event =
    AdminRequest call admin_request
  | PublicRequest call public_request
  | Resume call nat input
  | BrowserInput time uuid browser_msg
  | BrowserGone time uuid
  | TunnelGone time tunnel int int
  | AgentText time bytes nat bytes
  | AgentBinary time nat bytes
  | AgentGone time nat
  | ConnectivitySweep time
  | PrivilegeSweep time
  | AlertSweep time rule_input "alert list \<Rightarrow> uuid"
  | RetentionSweep time
  | RotationSweep time bool
  | ReleaseSweep time "nat \<Rightarrow> uuid \<times> time" "gh_release list option"
  | Restart time

primrec event_time :: "server_event \<Rightarrow> time" where
  "event_time (AdminRequest c b0) = cl_now c"
| "event_time (PublicRequest c b0) = cl_now c"
| "event_time (Resume c b0 b1) = cl_now c"
| "event_time (BrowserInput now b0 b1) = now"
| "event_time (BrowserGone now b0) = now"
| "event_time (TunnelGone now b0 b1 b2) = now"
| "event_time (AgentText now b0 b1 b2) = now"
| "event_time (AgentBinary now b0 b1) = now"
| "event_time (AgentGone now b0) = now"
| "event_time (ConnectivitySweep now) = now"
| "event_time (PrivilegeSweep now) = now"
| "event_time (AlertSweep now b0 b1) = now"
| "event_time (RetentionSweep now) = now"
| "event_time (RotationSweep now b0) = now"
| "event_time (ReleaseSweep now b0 b1) = now"
| "event_time (Restart now) = now"

primrec act :: "http_env \<Rightarrow> server_event \<Rightarrow> handler" where
  "act x (AdminRequest c r) sv = with_headers x (admin_mux x c r) sv"
| "act x (PublicRequest c r) sv = with_headers x (public_mux x c r) sv"
| "act x (Resume c n inp) sv = with_headers x (resume x c n inp) sv"
| "act x (BrowserInput now i m) sv = (None, browser_input i m sv)"
| "act x (BrowserGone now i) sv = (None, on_remote (browser_disconnected now i) sv)"
| "act x (TunnelGone now t up down) sv = (None, on_remote (tunnel_disconnected now t up down) sv)"
| "act x (AgentText now nonce c raw) sv = (None, on_hub (read_text (x_hub x) now nonce c raw) sv)"
| "act x (AgentBinary now c raw) sv = (None, on_hub (read_binary c raw) sv)"
| "act x (AgentGone now c) sv = (None, on_hub (ServeAgentWS_end now c) sv)"
| "act x (ConnectivitySweep now) sv = (None, on_hub (sweep (x_hub x) now) sv)"
| "act x (PrivilegeSweep now) sv = (None, on_remote (sweep_privileges now) sv)"
| "act x (AlertSweep now inp fresh) sv = (None, alert_sweep x inp now fresh sv)"
| "act x (RetentionSweep now) sv = (None, retention_sweep x now sv)"
| "act x (RotationSweep now ok) sv = (None, rotation_sweep now ok sv)"
| "act x (ReleaseSweep now stamps fetched) sv = (None, release_sweep x stamps fetched sv)"
| "act x (Restart now) sv = (None, server_restart now sv)"

text \<open>The audit events of a step go into the log; an event that cannot be inserted is lost, for
  every caller of \<open>Record\<close> ignores its error.\<close>

definition queued :: "server \<Rightarrow> audit_event list" where
  "queued sv = r_audit (sv_remote sv) @ as_audit (sv_alerts sv)"

definition flush :: "http_env \<Rightarrow> time \<Rightarrow> server \<Rightarrow> server" where
  "flush x now sv = sv
     \<lparr>sv_log := run (audit_step (x_audit x)) (map (Pair now) (queued sv)) (sv_log sv),
      sv_hub := (sv_hub sv)\<lparr>h_remote := (sv_remote sv)\<lparr>r_audit := []\<rparr>\<rparr>,
      sv_alerts := (sv_alerts sv)\<lparr>as_audit := []\<rparr>\<rparr>"

definition serve :: "http_env \<Rightarrow> server_event \<Rightarrow> handler" where
  "serve x e sv = map_prod id (flush x (event_time e)) (act x e sv)"

definition server_step :: "http_env \<Rightarrow> server_event \<Rightarrow> server \<Rightarrow> server" where
  "server_step x e sv = snd (serve x e sv)"

end
