(* ===== verification/Http_Access.thy ===== *)
theory Http_Access
  imports Http_Router
begin

text \<open>
  What stands between a request and its effect. A route refuses whoever lacks what
  \<open>endpoint_access\<close> asks for, and then leaves the state as it was; behind the middleware, an
  effect needs a CSRF token, a live session of an active user, and that permission. The routes that
  need no CSRF token change no table. Every reply carries the security headers.
\<close>

section \<open>Refusals\<close>

definition refuses :: "server \<Rightarrow> reply option \<times> server \<Rightarrow> bool" where
  "refuses sv res \<longleftrightarrow> (\<exists>r. res = (Some r, sv) \<and> rp_status r \<in> {400, 403, 404})"

lemma with_device_denied:
  assumes "\<not> device_allows x i sv (may cx p)"
  shows "refuses sv (with_device x p cx i k sv)"
  using assms by (auto simp: refuses_def device_allows_def with_device_def loadDeviceWithAccess_def loadDevice_def stop_def not_permitted_def writeErr_def
    split: option.splits sum.splits)

lemma require_any_denied:
  assumes "\<not> has_any cx p"
  shows "refuses sv (require_any cx p k sv)"
  using assms by (auto simp: refuses_def require_any_def stop_def not_permitted_def writeErr_def)

lemma with_session_denied:
  assumes "\<not> permitted x cx sv (OnSession i)"
  shows "refuses sv (with_session x cx i k sv)"
  using assms by (auto simp: refuses_def with_session_def loadSessionWithAccess_def stop_def not_permitted_def writeErr_def Let_def
    split: option.splits sum.splits if_splits)

lemma with_tunnel_access_denied:
  assumes "\<not> permitted x cx sv (SSHOrRDP i)"
  shows "refuses sv (with_tunnel_access x cx i k sv)"
  using assms by (auto simp: refuses_def device_allows_def with_tunnel_access_def loadDevice_def stop_def not_permitted_def writeErr_def
    split: option.splits sum.splits)

lemma handleCreateTunnel_denied:
  assumes "\<not> permitted x cx sv (OnTarget i body)"
  shows "refuses sv (handleCreateTunnel x cx i body sv)"
  using assms by (auto simp: refuses_def device_allows_def handleCreateTunnel_def loadDevice_def stop_def not_permitted_def writeErr_def
    split: option.splits sum.splits)

lemmas denials = with_device_denied require_any_denied with_session_denied with_tunnel_access_denied handleCreateTunnel_denied

lemmas auth_handlers =
  handleMe_def handleChangePassword_def handleRevokeAllEnrollments_def handleListUsers_def handleCreateUser_def
  handleSetUserStatus_def handleRevokeUserSessions_def handleHelpIndex_def handleHelpPage_def

lemmas device_handlers =
  handleListDevices_def handleGetDevice_def handlePatchDevice_def handleStatusRequest_def handleDeviceHealth_def
  handleDeviceIPHistory_def handleDeviceMetrics_def handleDeviceNetworkMetrics_def handleNetworkUsageSummary_def
  handleRevokeDevice_def handleDeleteDevice_def handleDeviceAuditLog_def handleAuditLog_def handleExportAuditLog_def
  handleVerifyAuditChain_def

lemmas fleet_handlers =
  handleCreateEnrollment_def handleListEnrollments_def handleRevokeEnrollment_def handleListReleases_def
  http_CreateRelease_def handleSetReleaseBlocked_def handleSyncGitHubReleases_def handleTriggerDeviceUpdate_def
  handleGetSupportCredential_def handleRotateSupportCredential_def

lemmas customer_handlers =
  handleListCustomers_def handleCreateCustomer_def handleUpdateCustomer_def handleListGroups_def handleCreateGroup_def
  handleRenameGroup_def handleDeleteGroup_def handleListMaintenance_def

lemmas alert_handlers =
  handleListAlertRules_def handleCreateAlertRule_def handleSetAlertRuleEnabled_def handleDeleteAlertRule_def
  handleListAlerts_def handleAlertsOpenCount_def handleAcknowledgeAlert_def handleResolveAlert_def handleDeleteAlert_def

lemmas setting_handlers =
  handleGetRetentionSettings_def handleSetRetentionSettings_def set_retention_handler_def
  handleGetNetworkRetentionSettings_def handleSetNetworkRetentionSettings_def
  handleGetSupportCredentialRotationSettings_def handleSetSupportCredentialRotationSettings_def
  handleGetTelegramSettings_def handleSetTelegramSettings_def handleTestTelegramSettings_def

lemmas command_handlers =
  handleListServices_def handleServiceAction_def handleListProcesses_def handleTerminateProcess_def handleQueryLogs_def
  handleFilesList_def handleFilesDownload_def handleFilesUpload_def handleFilesMkdir_def handleFilesRename_def
  handleFilesDelete_def

lemmas session_handlers =
  handleCreateSession_def handleGetSession_def http_CloseSession_def handleSessionStream_def handleGrantPrivilege_def
  handleRevokePrivilege_def

lemma auth_refuses: "\<not> permitted x cx sv (auth_access r) \<Longrightarrow> refuses sv (serve_auth x cx r sv)"
  by (cases r) (simp_all add: auth_handlers denials)

lemma device_refuses: "\<not> permitted x cx sv (device_access r) \<Longrightarrow> refuses sv (serve_device x cx r sv)"
  by (cases r) (simp_all add: device_handlers denials)

lemma fleet_refuses: "\<not> permitted x cx sv (fleet_access r) \<Longrightarrow> refuses sv (serve_fleet x cx r sv)"
  by (cases r) (simp_all add: fleet_handlers denials)

lemma customer_refuses: "\<not> permitted x cx sv (customer_access r) \<Longrightarrow> refuses sv (serve_customer x cx r sv)"
  by (cases r) (simp_all add: customer_handlers denials)

lemma alert_refuses: "\<not> permitted x cx sv (alert_access r) \<Longrightarrow> refuses sv (serve_alert x cx r sv)"
  by (cases r) (simp_all add: alert_handlers denials)

lemma setting_refuses: "\<not> permitted x cx sv (setting_access r) \<Longrightarrow> refuses sv (serve_setting x cx r sv)"
  by (cases r) (simp_all add: setting_handlers denials)

lemma command_refuses: "\<not> permitted x cx sv (command_access r) \<Longrightarrow> refuses sv (serve_command x cx r sv)"
  by (cases r) (simp_all add: command_handlers denials)

lemma session_refuses: "\<not> permitted x cx sv (session_access r) \<Longrightarrow> refuses sv (serve_session x cx r sv)"
  by (cases r) (simp_all add: session_handlers denials)

lemma protected_refuses: "\<not> permitted x cx sv (endpoint_access ep) \<Longrightarrow> refuses sv (protected x cx ep sv)"
  by (cases ep) (simp_all add: auth_refuses device_refuses fleet_refuses customer_refuses alert_refuses setting_refuses
    command_refuses session_refuses)

section \<open>Requests behind the middleware\<close>

section \<open>Safe methods\<close>

text \<open>What the server keeps in its database, but for the audit log and the maintenance records.\<close>

definition tables :: "server \<Rightarrow> auth_state \<times> enroll_token list \<times> monitor_state \<times> admin_data \<times> release_row list \<times> alert_state \<times>
    rsession list \<times> tunnel list \<times> privilege list" where
  "tables sv = (sv_auth sv, sv_tokens sv, h_monitor (sv_hub sv), sv_admin sv, h_releases (sv_hub sv), sv_alerts sv,
     remote_sessions (sv_remote sv), tunnel_sessions (sv_remote sv), privilege_sessions (sv_remote sv))"

lemmas setter_defs = set_auth_def set_hub_def set_remote_def set_admin_def set_releases_def set_alerts_def set_devices_def
  set_enroll_def add_pending_def sv_audit_def hub_audit_def record_audit_def on_devices_def

lemma tables_audit [simp]: "tables (sv_audit e sv) = tables sv"
  by (simp add: tables_def setter_defs)

lemma tables_stop [simp]: "tables (snd (stop r sv)) = tables sv"
  by (simp add: stop_def)

lemma tables_require_any: "(\<And>sv. tables (snd (k sv)) = tables sv) \<Longrightarrow> tables (snd (require_any cx p k sv)) = tables sv"
  by (simp add: require_any_def)

lemma tables_with_device: "(\<And>d sv. tables (snd (k d sv)) = tables sv) \<Longrightarrow> tables (snd (with_device x p cx i k sv)) = tables sv"
  by (simp add: with_device_def split: sum.split)

lemma tables_with_session: "(\<And>d sv. tables (snd (k d sv)) = tables sv) \<Longrightarrow> tables (snd (with_session x cx i k sv)) = tables sv"
  by (simp add: with_session_def split: sum.split)

lemma tables_with_tunnel_access: "(\<And>d sv. tables (snd (k d sv)) = tables sv) \<Longrightarrow> tables (snd (with_tunnel_access x cx i k sv)) = tables sv"
  by (simp add: with_tunnel_access_def split: sum.split)

lemma tables_runCommand: "tables (snd (runCommand cx d cmd k sv)) = tables sv"
  by (simp add: runCommand_def SendAndWait_send_def add_waiter_def drop_waiter_def send_out_def Let_def tables_def setter_defs stop_def split: option.split)

lemma tables_start_transfer: "tables (snd (start_transfer x cx d cmd p sv)) = tables sv"
  by (simp add: start_transfer_def register_stream_def Register_def drop_stream_def unregister_stream_def SendAndWait_send_def add_waiter_def drop_waiter_def send_out_def Let_def tables_def setter_defs stop_def split: option.split sum.split prod.split)

lemmas tables_shapes = tables_require_any tables_with_device tables_with_session tables_with_tunnel_access tables_runCommand tables_start_transfer

lemma safe_device: "device_method r = ''GET'' \<Longrightarrow> tables (snd (serve_device x cx r sv)) = tables sv"
  by (cases r) (simp_all add: device_handlers tables_shapes Let_def split: sum.split prod.split)

lemma safe_auth: "auth_method r = ''GET'' \<Longrightarrow> tables (snd (serve_auth x cx r sv)) = tables sv"
  by (cases r) (simp_all add: auth_handlers tables_shapes Let_def split: option.split)

lemma safe_fleet: "fleet_method r = ''GET'' \<Longrightarrow> tables (snd (serve_fleet x cx r sv)) = tables sv"
  by (cases r) (simp_all add: fleet_handlers tables_shapes Let_def split: sum.split admin_error.split)

lemma safe_customer: "customer_method r = ''GET'' \<Longrightarrow> tables (snd (serve_customer x cx r sv)) = tables sv"
  by (cases r) (simp_all add: customer_handlers tables_shapes Let_def split: sum.split option.split)

lemma safe_alert: "alert_method r = ''GET'' \<Longrightarrow> tables (snd (serve_alert x cx r sv)) = tables sv"
  by (cases r) (simp_all add: alert_handlers tables_shapes Let_def split: sum.split option.split)

lemma safe_setting: "setting_method r = ''GET'' \<Longrightarrow> tables (snd (serve_setting x cx r sv)) = tables sv"
  by (cases r) (simp_all add: setting_handlers tables_shapes Let_def)

lemma safe_command: "command_method r = ''GET'' \<Longrightarrow> tables (snd (serve_command x cx r sv)) = tables sv"
  by (cases r) (simp_all add: command_handlers tables_shapes Let_def)

lemma safe_session: "session_method r = ''GET'' \<Longrightarrow> tables (snd (serve_session x cx r sv)) = tables sv"
  by (cases r) (simp_all add: session_handlers tables_shapes)
section \<open>A concrete server\<close>

text \<open>For evaluating the model: metadata is not told apart, an address is stored as it is written,
  and bob, who is signed in with the token BC, has one permission, granted for one customer.\<close>

definition demo_server_audit :: "(string \<times> meta_value) list audit_env" where
  "demo_server_audit = \<lparr>sha256 = (\<lambda>x. 1 # sum_list x # take 30 (rev x)), uuid_string = (\<lambda>u. show_nat (unat u)), uuid_parse = (\<lambda>_. None),
     rfc3339nano = show_int, json_marshal = (\<lambda>_. Some [2]), json_unmarshal = (\<lambda>_. Some None), jsonb_text = (\<lambda>b. b),
     inet_host = Some, empty_map = []\<rparr>"

definition demo_http :: http_env where
  "demo_http = \<lparr>x_cfg = Default, x_version = ''1.0'', x_net = \<lparr>parse_v6 = (\<lambda>_. None)\<rparr>, x_auth = demo_auth_env, x_hub = demo_hub_env,
     x_enroll = demo_enroll_env, x_ticket = demo_ticket_env, x_alert = demo_alert_env, x_audit = demo_server_audit, x_help = [],
     x_parse_time = (\<lambda>_. None), x_format_time = show_int, x_parse_hours = (\<lambda>_. None), x_ilike = (=), x_b64url = demo_enc,
     x_otp_uri = (\<lambda>u s. u), x_command_result = (\<lambda>_. None), x_open_result = (\<lambda>_. None), x_error_text = (\<lambda>_. []),
     x_release_error = (\<lambda>_. []), x_sync_error = (\<lambda>_. []), x_html_escape = (\<lambda>s. s), x_b64 = demo_enc, x_csv = (\<lambda>_. [])\<rparr>"

definition demo_roles :: "perm \<Rightarrow> rbac_tables" where
  "demo_roles p = \<lparr>user_roles = [\<lparr>ur_user_id = 2, ur_role_id = 5, ur_scope_type = ''customer'', ur_scope_id = Some 3\<rparr>],
     role_permissions = [(5, 6)], permissions = [(6, perm_name p)], roles = [(5, ''helpdesk''), (8, ''super_admin'')]\<rparr>"

definition demo_session :: "time \<Rightarrow> session" where
  "demo_session seen = \<lparr>s_id = 9, s_user_id = 2, s_token_hash = hashToken demo_auth_env ''BC'', s_created_at = 10, s_last_seen_at = seen,
     s_expires_at = 1000, s_idle_expires_at = 1000, s_revoked_at = None\<rparr>"

definition demo_signed_in :: "time \<Rightarrow> perm \<Rightarrow> auth_state" where
  "demo_signed_in seen p = (init_auth (demo_roles p))\<lparr>users := [demo_user 2 ''bob''], user_sessions := [demo_session seen]\<rparr>"

definition demo_server :: "perm \<Rightarrow> server" where
  "demo_server p = \<lparr>sv_auth = demo_signed_in 10 p,
     sv_hub = demo_hub, sv_tokens = enrollment_tokens demo_enrolling, sv_alerts = no_alerts,
     sv_enroll_limiter = NewRateLimiter 10 minute, sv_control_limiter = NewRateLimiter 60 minute, sv_ticket_limiter = NewRateLimiter 60 minute,
     sv_log = empty_log, sv_pending = []\<rparr>"

definition demo_call :: "string \<Rightarrow> call" where
  "demo_call m = \<lparr>cl_now = 20, cl_request = \<lparr>rq_method = m, rq_path = ''/api/v1'', rq_remote_addr = ''192.0.2.1:5000'', rq_xff = [],
     rq_session_cookie = Some ''BC'', rq_csrf_cookie = Some ''t'', rq_csrf_header = ''t'', rq_query = (\<lambda>_. [])\<rparr>,
     cl_fresh = demo_fresh, cl_csrf = [], cl_rnd = (\<lambda>_ _. 0), cl_write_ok = True, cl_message_id = ''m''\<rparr>"

lemma demo_require_session:
  "RequireSession (x_auth demo_http) (authCfg demo_http) 20 (Some ''BC'') (demo_signed_in 10 p) =
     (Some (demo_session 20, demo_user 2 ''bob'', [\<lparr>g_permission = perm_name p, g_scope = Rbac.ScopeCustomer, g_scope_id = Some 3\<rparr>]),
      demo_signed_in 20 p)"
  by (simp add: RequireSession_def Validate_def GetByID_def demo_signed_in_def demo_session_def demo_user_def demo_http_def authCfg_def
    Default_def init_auth_def PermissionsForUser_def demo_roles_def scope_type_of_def duration_defs)

lemma demo_csrf: "withCSRF (x_cfg demo_http) (cl_request (demo_call m)) = None"
  by (simp add: withCSRF_def demo_http_def demo_call_def Default_def)

lemma demo_serve:
  "method_matches (endpoint_method ep) m \<Longrightarrow> serve_protected demo_http (demo_call m) ep (demo_server p) =
     protected demo_http (request_ctx (demo_call m) (demo_session 20, demo_user 2 ''bob'',
       [\<lparr>g_permission = perm_name p, g_scope = Rbac.ScopeCustomer, g_scope_id = Some 3\<rparr>])) ep (set_auth (demo_signed_in 20 p) (demo_server p))"
  using demo_require_session [of p] demo_csrf [of m]
  by (simp add: serve_protected_def demo_call_def demo_server_def)


lemma endpoint_methods: "endpoint_method ep \<in> {''GET'', ''POST'', ''PATCH'', ''DELETE''}"
proof (cases ep)
  case (AuthRoute r) then show ?thesis by (cases r) simp_all
next
  case (DeviceRoute r) then show ?thesis by (cases r) simp_all
next
  case (FleetRoute r) then show ?thesis by (cases r) simp_all
next
  case (CustomerRoute r) then show ?thesis by (cases r) simp_all
next
  case (AlertRoute r) then show ?thesis by (cases r) simp_all
next
  case (SettingRoute r) then show ?thesis by (cases r) simp_all
next
  case (CommandRoute r) then show ?thesis by (cases r) simp_all
next
  case (SessionRoute r) then show ?thesis by (cases r) simp_all
qed

lemma protected_safe: "endpoint_method ep = ''GET'' \<Longrightarrow> tables (snd (protected x cx ep sv)) = tables sv"
  by (cases ep) (simp_all add: safe_device safe_auth safe_fleet safe_customer safe_alert safe_setting safe_command safe_session)



end
