(* ===== verification/Server.thy ===== *)
theory Server
  imports Http_Access
begin

text \<open>
  The whole server as a composition of its components. Every step of the server is a run of
  operations of the components (\<open>act_srv\<close>, \<open>server_steps\<close>), so that what holds of a component
  in every run of its own operations holds of it in the server.
\<close>

section \<open>Operations of the components\<close>

fun agent_side :: "hub_event \<Rightarrow> bool" where
  "agent_side (HDevice _) = False"
| "agent_side (HRelease _) = False"
| "agent_side _ = True"

definition hub_traffic :: "http_env \<Rightarrow> hub_event \<Rightarrow> hub_state \<Rightarrow> hub_state" where
  "hub_traffic x e h = (if agent_side e then hub_step (x_hub x) e h else h)"

datatype component_op =
    OpAuth auth_event
  | OpEnroll enroll_event
  | OpAlert alert_event
  | OpRelease release_event
  | OpHub hub_event
  | OpAdmin admin_data
  | OpMetrics metrics_db
  | OpRemote remote_state
  | OpAudit audit_event
  | OpPending "pending list"
  | OpLimiters rate_limiter rate_limiter rate_limiter
  | OpDisconnect time

fun server_op :: "http_env \<Rightarrow> component_op \<Rightarrow> server \<Rightarrow> server" where
  "server_op x (OpAuth e) sv = set_auth (auth_step (x_auth x) (authCfg x) e (sv_auth sv)) sv"
| "server_op x (OpEnroll e) sv = set_enroll (enroll_step (x_enroll x) e (enroll_view sv)) sv"
| "server_op x (OpAlert e) sv = set_alerts (alert_step (x_alert x) e (sv_alerts sv)) sv"
| "server_op x (OpRelease e) sv = set_releases (release_step (releaseEnv x) (releaseKey x) e (h_releases (sv_hub sv))) sv"
| "server_op x (OpHub e) sv = set_hub (hub_traffic x e (sv_hub sv)) sv"
| "server_op x (OpAdmin ad) sv = set_admin ad sv"
| "server_op x (OpMetrics m) sv = set_hub ((sv_hub sv)\<lparr>h_monitor := (h_monitor (sv_hub sv))\<lparr>mon_metrics := m\<rparr>\<rparr>) sv"
| "server_op x (OpRemote st) sv = set_remote st sv"
| "server_op x (OpAudit e) sv = sv_audit e sv"
| "server_op x (OpPending ps) sv = sv\<lparr>sv_pending := ps\<rparr>"
| "server_op x (OpLimiters l1 l2 l3) sv = sv\<lparr>sv_enroll_limiter := l1, sv_control_limiter := l2, sv_ticket_limiter := l3\<rparr>"
| "server_op x (OpDisconnect now) sv = set_hub ((sv_hub sv)\<lparr>h_conns := [], h_running := [], h_waiters := []\<rparr>) sv"

abbreviation srv :: "http_env \<Rightarrow> server \<Rightarrow> server \<Rightarrow> bool" where
  "srv x \<equiv> reaches (server_op x)"

lemma srv_id [simp]: "set_auth (sv_auth sv) sv = sv" "set_enroll (enroll_view sv) sv = sv" "set_alerts (sv_alerts sv) sv = sv"
  "set_releases (h_releases (sv_hub sv)) sv = sv" "set_hub (sv_hub sv) sv = sv"
  by (simp_all add: set_auth_def set_enroll_def enroll_view_def set_devices_def on_devices_def set_alerts_def set_releases_def set_hub_def)

lemma srv_idem [simp]: "set_auth a (set_auth b sv) = set_auth a sv" "set_enroll a' (set_enroll b' sv) = set_enroll a' sv"
  "set_alerts c (set_alerts d sv) = set_alerts c sv" "set_releases r (set_releases r' sv) = set_releases r sv"
  "sv_auth (set_auth a sv) = a" "enroll_view (set_enroll a' sv) = a'" "sv_alerts (set_alerts c sv) = c" "h_releases (sv_hub (set_releases r sv)) = r"
  by (simp_all add: set_auth_def set_enroll_def enroll_view_def set_devices_def on_devices_def set_alerts_def set_releases_def)

lemma srv_component:
  assumes "\<And>e sv. op (ev e) sv = put (step e (get sv)) sv" "\<And>sv. put (get sv) sv = sv"
    "\<And>a b sv. put a (put b sv) = put a sv" "\<And>a sv. get (put a sv) = a"
  shows "reaches op sv sv1 \<Longrightarrow> reaches step (get sv1) st \<Longrightarrow> reaches op sv (put st sv1)"
proof -
  have "put (run step es (get sv)) sv = run op (map ev es) sv" for es sv
  proof (induction es arbitrary: sv)
    case (Cons e es)
    then show ?case using Cons.IH [of "put (step e (get sv)) sv"] by (simp add: assms)
  qed (simp add: assms)
  then show "reaches op sv sv1 \<Longrightarrow> reaches step (get sv1) st \<Longrightarrow> reaches op sv (put st sv1)"
    by (metis reaches_def reaches_trans)
qed

lemma srv_auth: "srv x sv sv1 \<Longrightarrow> reaches (auth_step (x_auth x) (authCfg x)) (sv_auth sv1) st \<Longrightarrow> srv x sv (set_auth st sv1)"
  by (rule srv_component [where ev = OpAuth and step = "auth_step (x_auth x) (authCfg x)" and get = sv_auth]) simp_all

lemma srv_enroll: "srv x sv sv1 \<Longrightarrow> reaches (enroll_step (x_enroll x)) (enroll_view sv1) st \<Longrightarrow> srv x sv (set_enroll st sv1)"
  by (rule srv_component [where ev = OpEnroll and step = "enroll_step (x_enroll x)" and get = enroll_view]) simp_all

lemma srv_alerts: "srv x sv sv1 \<Longrightarrow> reaches (alert_step (x_alert x)) (sv_alerts sv1) st \<Longrightarrow> srv x sv (set_alerts st sv1)"
  by (rule srv_component [where ev = OpAlert and step = "alert_step (x_alert x)" and get = sv_alerts]) simp_all

lemma srv_releases: "srv x sv sv1 \<Longrightarrow> reaches (release_step (releaseEnv x) (releaseKey x)) (h_releases (sv_hub sv1)) st \<Longrightarrow> srv x sv (set_releases st sv1)"
  by (rule srv_component [where ev = OpRelease and step = "release_step (releaseEnv x) (releaseKey x)" and get = "\<lambda>sv. h_releases (sv_hub sv)"]) simp_all

lemma srv_plain:
  assumes "srv x sv sv1"
  shows "srv x sv (set_admin ad sv1)" "srv x sv (set_remote st sv1)" "srv x sv (sv_audit e sv1)" "srv x sv (add_pending p sv1)"
    "srv x sv (sv1\<lparr>sv_pending := ps\<rparr>)" "srv x sv (sv1\<lparr>sv_enroll_limiter := l\<rparr>)" "srv x sv (sv1\<lparr>sv_control_limiter := l\<rparr>)"
    "srv x sv (sv1\<lparr>sv_ticket_limiter := l\<rparr>)"
  using reaches_then [OF assms, of "OpAdmin ad"] reaches_then [OF assms, of "OpRemote st"] reaches_then [OF assms, of "OpAudit e"]
    reaches_then [OF assms, of "OpPending (sv_pending sv1 @ [p])"] reaches_then [OF assms, of "OpPending ps"]
    reaches_then [OF assms, of "OpLimiters l (sv_control_limiter sv1) (sv_ticket_limiter sv1)"]
    reaches_then [OF assms, of "OpLimiters (sv_enroll_limiter sv1) l (sv_ticket_limiter sv1)"]
    reaches_then [OF assms, of "OpLimiters (sv_enroll_limiter sv1) (sv_control_limiter sv1) l"]
  by (simp_all add: add_pending_def)

lemma srv_hub: "srv x sv sv1 \<Longrightarrow> reaches (hub_traffic x) (sv_hub sv1) h \<Longrightarrow> srv x sv (set_hub h sv1)"
  by (rule srv_component [where ev = OpHub and step = "hub_traffic x" and get = sv_hub]) (simp_all add: set_hub_def)

lemma reaches_result: "snd f = step e s \<Longrightarrow> f = (r, st) \<Longrightarrow> reaches step s st"
  using reaches_step [of step s e] by simp

lemma auth_results:
  "Login env cfg now fr u p ip m s = (r1, st) \<Longrightarrow> reaches (auth_step env cfg) s st"
  "CompleteMFA env cfg now fr u p s = (r1, st) \<Longrightarrow> reaches (auth_step env cfg) s st"
  "Reauth env now fr i u p s = (r2, st) \<Longrightarrow> reaches (auth_step env cfg) s st"
  "ConsumeReauth env now i u s = (r3, st) \<Longrightarrow> reaches (auth_step env cfg) s st"
  "ConfirmSetup env now (fr_codes fr) i u s = (r4, st) \<Longrightarrow> reaches (auth_step env cfg) s st"
  "ChangeOwnPassword env cfg fr i u s = (r5, st) \<Longrightarrow> reaches (auth_step env cfg) s st"
  "Validate env cfg now u s = (r6, st) \<Longrightarrow> reaches (auth_step env cfg) s st"
  "SetStatus i status s = (r7, st) \<Longrightarrow> reaches (auth_step env cfg) s st"
  "SetMFARequired i b s = (r8, st) \<Longrightarrow> reaches (auth_step env cfg) s st"
  "CreateUser now i u p q s = (r9, st) \<Longrightarrow> reaches (auth_step env cfg) s st"
  "limit_login now u s = (b, st) \<Longrightarrow> reaches (auth_step env cfg) s st"
  "CreateSession env cfg now i raw j s = (r10, st) \<Longrightarrow> reaches (auth_step env cfg) s st"
  by (erule reaches_result [rotated],
      rule auth_step.simps(1) [symmetric] auth_step.simps(2) [symmetric] auth_step.simps(3) [symmetric] auth_step.simps(4) [symmetric]
        auth_step.simps(5) [symmetric] auth_step.simps(7) [symmetric] auth_step.simps(8) [symmetric] auth_step.simps(11) [symmetric]
        auth_step.simps(12) [symmetric] auth_step.simps(13) [symmetric] auth_step.simps(15) [symmetric] auth_step.simps(18) [symmetric])+

lemma auth_then:
  assumes "reaches (auth_step env cfg) s st"
  shows "reaches (auth_step env cfg) s (RevokeSession now i st)" "reaches (auth_step env cfg) s (RevokeAllForUser now u st)"
    "reaches (auth_step env cfg) s (st\<lparr>rbac := AssignRole u r sc i' (rbac st)\<rparr>)"
    "reaches (auth_step env cfg) s (RegisterFailedLogin now u st)" "reaches (auth_step env cfg) s (ResetFailedLogins now u st)"
  using reaches_then [OF assms, of "ERevoke now i"] reaches_then [OF assms, of "ERevokeAll now u"] reaches_then [OF assms, of "EAssignRole u r sc i'"]
    reaches_then [OF assms, of "EFailedLogin now u"] reaches_then [OF assms, of "EResetLogins now u"]
  by simp_all

lemma srv_shapes:
  "srv x sv sv1 \<Longrightarrow> srv x sv (snd (k sv1)) \<Longrightarrow> srv x sv (snd (require_any cx p k sv1))"
  "srv x sv sv1 \<Longrightarrow> (\<And>d. srv x sv (snd (k1 d sv1))) \<Longrightarrow> srv x sv (snd (with_device x p cx i k1 sv1))"
  "srv x sv sv1 \<Longrightarrow> (\<And>s. srv x sv (snd (k2 s sv1))) \<Longrightarrow> srv x sv (snd (with_session x cx i k2 sv1))"
  "srv x sv sv1 \<Longrightarrow> (\<And>u. srv x sv (snd (k3 u sv1))) \<Longrightarrow> srv x sv (snd (with_id x m i k3 sv1))"
  "srv x sv sv1 \<Longrightarrow> (\<And>d. srv x sv (snd (k1 d sv1))) \<Longrightarrow> srv x sv (snd (with_tunnel_access x cx i k1 sv1))"
  by (auto simp: stop_def require_any_def with_device_def with_session_def with_id_def with_tunnel_access_def
    split: sum.split option.split)

lemma srv_with_reauth:
  assumes "srv x sv sv1" "\<And>sv2. srv x sv sv2 \<Longrightarrow> srv x sv (snd (k sv2))"
  shows "srv x sv (snd (with_reauth x cx r k sv1))"
  using assms by (auto simp: with_reauth_def Let_def stop_def split: prod.split intro!: srv_auth auth_results(4))

lemma enroll_results:
  "CreateToken env now i raw p s = (r1, st) \<Longrightarrow> reaches (enroll_step env) s st"
  "RevokeToken now i s = (r2, st) \<Longrightarrow> reaches (enroll_step env) s st"
  "RevokeAllOutstanding now s = (n, st) \<Longrightarrow> reaches (enroll_step env) s st"
  "Consume env now i req s = (r3, st) \<Longrightarrow> reaches (enroll_step env) s st"
  by (erule reaches_result [rotated], rule enroll_step.simps(1-4) [symmetric])+

lemma enroll_device: "local_event e \<Longrightarrow> enroll_step env (EDevice e) st = st\<lparr>registry_db := device_step e (registry_db st)\<rparr>"
  by (cases e) simp_all

lemma enroll_via:
  assumes "via_registry (registry_db st) db"
  shows "reaches (enroll_step env) st (st\<lparr>registry_db := db\<rparr>)"
proof -
  obtain es where es: "list_all local_event es" "db = run device_step es (registry_db st)"
    using assms by (auto simp: via_registry_def)
  have "st\<lparr>registry_db := run device_step es (registry_db st)\<rparr> = run (enroll_step env) (map EDevice es) st"
    if "list_all local_event es" for es
    using that
  proof (induction es arbitrary: st)
    case (Cons e es)
    then show ?case using Cons.IH [of "st\<lparr>registry_db := device_step e (registry_db st)\<rparr>"] by (simp add: enroll_device)
  qed simp
  with es show ?thesis unfolding reaches_def by blast
qed

lemma srv_devices:
  assumes "srv x sv sv1" "via_registry (sv_devices sv1) db"
  shows "srv x sv (set_devices db sv1)"
  using srv_enroll [OF assms(1) enroll_via [of "enroll_view sv1" db]] assms(2)
  by (simp add: set_enroll_def enroll_view_def set_devices_def on_devices_def)

lemma srv_patch: "srv x sv sv1 \<Longrightarrow> PatchDevice i p (sv_devices sv1) = (r, db) \<Longrightarrow> srv x sv (set_devices db sv1)"
  using srv_devices [OF _ via_step [OF via_refl, of "DPatch i p"], of x sv sv1] by simp

lemma srv_revoke: "srv x sv sv1 \<Longrightarrow> srv x sv (set_devices (RevokeDevice now i (sv_devices sv1)) sv1)"
  using srv_devices [OF _ via_step [OF via_refl, of "DRevoke now i"], of x sv sv1] by simp

lemma srv_delete: "delete_device i sv1 = (r, sv2) \<Longrightarrow> srv x sv sv1 \<Longrightarrow> srv x sv sv2"
proof -
  assume d: "delete_device i sv1 = (r, sv2)" and s: "srv x sv sv1"
  show "srv x sv sv2"
  proof (cases "DeleteDevice i (sv_devices sv1)")
    case (Pair res db)
    show ?thesis
    proof (cases res)
      case (Inl e)
      then show ?thesis using d s Pair by (simp add: delete_device_def)
    next
      case (Inr u)
      have "srv x sv (set_enroll (enroll_step (x_enroll x) (EDevice (DDelete i)) (enroll_view sv1)) sv1)"
        by (rule srv_enroll [OF s reaches_step])
      from reaches_then [OF this, of "OpAlert (ADeviceGone i)"] d Pair Inr show ?thesis
        by (auto simp: delete_device_def enroll_view_def set_enroll_def set_devices_def)
    qed
  qed
qed

lemma srv_delete_group:
  assumes "DeleteGroup i (sv_admin sv1, sv_devices sv1) = (Inr u, ad, db)" "srv x sv sv1"
  shows "srv x sv (set_admin ad (set_enroll (forget_group i \<lparr>enrollment_tokens = sv_tokens sv1, registry_db = db\<rparr>) sv1))"
proof -
  have "srv x sv (set_enroll (enroll_step (x_enroll x) (EDevice (DClearGroup i)) (enroll_view sv1)) sv1)"
    by (rule srv_enroll [OF assms(2) reaches_step])
  from srv_plain(1) [OF this, of ad] assms(1) show ?thesis
    by (auto simp: DeleteGroup_def enroll_view_def split: if_splits)
qed

lemma alert_results:
  "CreateRule i rl s = (r1, st) \<Longrightarrow> reaches (alert_step env) s st"
  "SetRuleEnabled i b s = (r2, st) \<Longrightarrow> reaches (alert_step env) s st"
  "DeleteRule i s = (r2, st) \<Longrightarrow> reaches (alert_step env) s st"
  "Acknowledge i s = (r2, st) \<Longrightarrow> reaches (alert_step env) s st"
  "ResolveAlert now i s = (r2, st) \<Longrightarrow> reaches (alert_step env) s st"
  "DeleteAlert i s = (r2, st) \<Longrightarrow> reaches (alert_step env) s st"
  by (erule reaches_result [rotated], rule alert_step.simps(1-6) [symmetric])+

lemma release_results:
  "handleCreateRelease env key stamp rl s = (r1, st) \<Longrightarrow> reaches (release_step env key) s st"
  "SetBlocked i b s = (r2, st) \<Longrightarrow> reaches (release_step env key) s st"
  "SyncOnce env key stamps fetched s = (r3, st) \<Longrightarrow> reaches (release_step env key) s st"
  by (erule reaches_result [rotated], rule release_step.simps [symmetric])+

lemma hub_event: "agent_side e \<Longrightarrow> reaches (hub_traffic x) s (hub_step (x_hub x) e s)"
  using reaches_step [of "hub_traffic x" s e] by (simp add: hub_traffic_def)

lemma hub_results:
  "SendAndWait_send i t cmd m ok s = (w, st) \<Longrightarrow> reaches (hub_traffic x) s st"
  "SendHubMessage i t cmd ok s = (b, st) \<Longrightarrow> reaches (hub_traffic x) s st"
  "RequestInventory i ok s = (b, st) \<Longrightarrow> reaches (hub_traffic x) s st"
  "SendBinaryFrame i kind sid payload ok s = (b, st) \<Longrightarrow> reaches (hub_traffic x) s st"
  "WaitForCorrelation_start i m s = (w, st) \<Longrightarrow> reaches (hub_traffic x) s st"
  "wait_end n s = (v, st) \<Longrightarrow> reaches (hub_traffic x) s st"
  using hub_event [of "HSend i t cmd m ok" x s] hub_event [of "HMessage i t cmd ok" x s]
    hub_event [of "HMessage i (type_name TypeInventoryRequest) None ok" x s] hub_event [of "HFrame i kind sid payload ok" x s]
    hub_event [of "HWait i m" x s] hub_event [of "HWaitEnd n" x s]
  by (simp_all add: RequestInventory_def)

lemmas component_results = auth_results enroll_results alert_results release_results hub_results
lemmas srv_rules = srv_shapes srv_with_reauth srv_plain srv_auth srv_enroll srv_alerts srv_releases srv_hub srv_patch srv_revoke auth_then

lemma auth_srv: "srv x sv (snd (serve_auth x cx r sv))"
  by (cases r)
    (auto simp: auth_handlers stop_def set_mfa_required_def Let_def intro!: srv_rules
      split: option.split sum.split prod.split auth_error.split dest: component_results)

lemma device_srv: "srv x sv (snd (serve_device x cx r sv))"
  by (cases r)
    (auto simp: device_handlers stop_def Let_def intro!: srv_rules elim!: srv_delete
      split: option.split sum.split prod.split device_error.split bool.split dest: component_results)

lemma fleet_srv: "srv x sv (snd (serve_fleet x cx r sv))"
  by (cases r)
    (auto simp: fleet_handlers stop_def Let_def intro!: srv_rules
      split: option.split sum.split prod.split release_reply.split admin_error.split bool.split dest: component_results)

lemma customer_srv: "srv x sv (snd (serve_customer x cx r sv))"
  by (cases r)
    (auto simp: customer_handlers stop_def Let_def intro!: srv_shapes srv_delete_group srv_plain(3) intro: srv_plain(1)
      split: option.split sum.split prod.split)

lemma alert_srv: "srv x sv (snd (serve_alert x cx r sv))"
  by (cases r)
    (auto simp: alert_handlers alert_action_def stop_def Let_def intro!: srv_rules
      split: option.split sum.split prod.split dest: component_results)

lemma set_retention_srv: "srv x sv (snd (set_retention_handler f et x cx b sv))"
  by (auto simp: set_retention_handler_def stop_def intro!: srv_shapes srv_plain split: option.split sum.split prod.split)

lemma get_telegram_srv: "srv x sv (snd (handleGetTelegramSettings x cx sv))"
  by (auto simp: handleGetTelegramSettings_def stop_def Let_def intro!: srv_shapes)

lemma test_telegram_srv: "srv x sv (snd (handleTestTelegramSettings x res cx sv))"
  by (auto simp: handleTestTelegramSettings_def stop_def intro!: srv_shapes split: option.split sum.split admin_error.split)

lemma setting_srv: "srv x sv (snd (serve_setting x cx r sv))"
  by (cases r)
    (auto simp: handleGetRetentionSettings_def handleSetRetentionSettings_def handleGetNetworkRetentionSettings_def handleSetNetworkRetentionSettings_def
      handleGetSupportCredentialRotationSettings_def handleSetSupportCredentialRotationSettings_def handleSetTelegramSettings_def set_retention_srv get_telegram_srv test_telegram_srv
      stop_def intro!: srv_shapes srv_plain split: option.split sum.split prod.split)

lemma srv_stream: "register_stream i d kind sv1 = (s, sv2) \<Longrightarrow> srv x sv sv1 \<Longrightarrow> srv x sv sv2"
  by (auto simp: register_stream_def Let_def split: prod.splits intro: srv_plain(2))

lemma srv_drop: "srv x sv sv1 \<Longrightarrow> srv x sv (drop_stream s sv1)"
  by (simp add: drop_stream_def srv_plain(2))

lemma runCommand_srv: "srv x sv (snd (runCommand cx d cmd k sv))"
  by (auto simp: runCommand_def stop_def intro!: srv_plain srv_hub split: option.split prod.split dest: hub_results)

lemma start_transfer_srv: "srv x sv (snd (start_transfer x cx d cmd p sv))"
  by (auto simp: start_transfer_def stop_def Let_def intro!: srv_plain srv_drop srv_hub split: option.split prod.split
    dest: hub_results srv_stream)

lemma command_srv: "srv x sv (snd (serve_command x cx r sv))"
  by (cases r)
    (auto simp: command_handlers stop_def Let_def intro!: srv_shapes runCommand_srv start_transfer_srv split: option.split prod.split)

lemma session_srv: "srv x sv (snd (serve_session x cx r sv))"
  by (cases r)
    (auto simp: session_handlers handleCreateTunnel_def stop_def Let_def intro!: srv_shapes srv_with_reauth srv_plain
      split: option.split sum.split prod.split)

lemma protected_srv: "srv x sv (snd (protected x cx ep sv))"
  by (cases ep) (simp_all add: auth_srv device_srv fleet_srv customer_srv alert_srv setting_srv command_srv session_srv)

lemma RequireSession_auth: "RequireSession env cfg now c s = (r, st) \<Longrightarrow> reaches (auth_step env cfg) s st"
  by (auto simp: RequireSession_def split: option.splits prod.splits sum.splits if_splits dest: auth_results)

lemma serve_protected_srv: "srv x sv (snd (serve_protected x c ep sv))"
proof -
  have "srv x sv (snd (protected x cx ep (set_auth st sv)))" if "reaches (auth_step (x_auth x) (authCfg x)) (sv_auth sv) st" for cx st
    using reaches_trans [OF srv_auth [OF reaches_refl that] protected_srv] .
  then show ?thesis
    by (auto simp: serve_protected_def stop_def split: option.split prod.split intro!: srv_auth dest: RequireSession_auth)
qed

lemmas auth_chain = auth_results [THEN reaches_trans [rotated]]

lemma login_srv:
  "srv x sv (snd (handleLogin x c b sv))" "srv x sv (snd (handleTOTP x c b sv))" "srv x sv (snd (handleMFASetupConfirm x c b' sv))"
  "srv x sv (snd (handleLogout x c sv))" "srv x sv (snd (handleReauth x c b sv))"
  by (auto simp: handleLogin_def handleTOTP_def handleMFASetupConfirm_def handleLogout_def handleReauth_def auditLoginFailure_def stop_def Let_def
    split: option.split sum.split prod.split login_result.split intro!: srv_plain srv_auth auth_then elim!: auth_chain)

lemma public_srv:
  "srv x sv (snd (handleAgentEnroll x c b sv))" "srv x sv (snd (handleAgentControl x c nonce answer ack sv))"
  "srv x sv (snd (handleTunnelStream x c sv))"
proof -
  show "srv x sv (snd (handleAgentEnroll x c b sv))"
    by (auto simp: handleAgentEnroll_def stop_def Let_def enroll_view_def split: option.split sum.split prod.split
      intro!: srv_plain srv_enroll dest: enroll_results)
  show "srv x sv (snd (handleAgentControl x c nonce answer ack sv))"
    using hub_event [of "HConnect (cl_now c) nonce answer ack (clientIP x c)" x]
    by (auto simp: handleAgentControl_def stop_def Let_def split: prod.split intro!: srv_plain srv_hub)
  show "srv x sv (snd (handleTunnelStream x c sv))"
    by (auto simp: handleTunnelStream_def stop_def Let_def split: prod.split sum.split remote_error.split intro!: srv_plain)
qed

lemma upload_loop_hub: "upload_loop s cs n h = (r, h1) \<Longrightarrow> reaches (hub_traffic x) h h1"
proof (induction s cs n h arbitrary: r h1 rule: upload_loop.induct)
  case (2 s chunk ok cs n h)
  show ?case
  proof (cases "chunk = []")
    case False
    obtain b h2 where f: "SendBinaryFrame (st_device_id s) (st_kind s) (st_id s) chunk ok h = (b, h2)" by fastforce
    from hub_results(4) [OF f] 2 f False show ?thesis by (cases b) (auto intro: reaches_trans [of _ h h2])
  qed (use 2 in auto)
qed simp

lemmas hub_chain = hub_results [THEN reaches_trans [rotated]] upload_loop_hub [THEN reaches_trans [rotated]]

lemma set_hub_simps [simp]: "sv_hub (set_hub h sv) = h" "set_hub h (set_hub h' sv) = set_hub h sv"
  by (simp_all add: set_hub_def)

lemma reaches_frame: "reaches (hub_traffic x) h h1 \<Longrightarrow> reaches (hub_traffic x) h (snd (SendBinaryFrame i kind sid payload ok h1))"
  by (cases "SendBinaryFrame i kind sid payload ok h1") (auto elim!: hub_chain)

lemma upload_ready_srv: "srv x sv (snd (upload_ready x b ok ok' w s path e sv))"
  by (auto simp: upload_ready_def stop_def Let_def split: option.split prod.split sum.split
    intro!: srv_plain srv_drop srv_hub reaches_frame elim!: hub_chain)

lemma continue_srv: "srv x sv (snd (continue x c p inp sv))"
proof -
  have hub: "srv x sv (set_hub h sv)" if "wait_end w (sv_hub sv) = (a, h)" for a w h
    by (rule srv_hub [OF reaches_refl hub_results(6) [OF that]])
  have "srv x sv (snd (runCommand_end x w k sv))" for w k
    by (auto simp: runCommand_end_def after_command_def stop_def Let_def split: option.split prod.split sum.split after.split intro!: srv_plain dest: hub)
  moreover have "srv x sv (snd (terminal_answered now r s d e sv))" for now r s d e
    by (auto simp: terminal_answered_def stop_def split: prod.split sum.split intro!: srv_plain)
  moreover have "srv x sv (snd (tunnel_answered x now fr r s d u t e sv))" for now fr r s d u t e
    by (auto simp: tunnel_answered_def stop_def Let_def split: prod.split sum.split intro!: srv_plain)
  moreover have "srv x sv (snd (download_ready x w s e sv))" for w s e
    by (auto simp: download_ready_def stop_def Let_def split: option.split prod.split intro!: srv_plain srv_drop dest: hub)
  moreover have "srv x sv (snd (upload_confirmed x w s n e sv))" for w s n e
    by (auto simp: upload_confirmed_def stop_def Let_def split: option.split prod.split intro!: srv_plain srv_drop dest: hub)
  moreover have "srv x sv (snd (upload_ready x b ok ok' w s path e sv))" for b ok ok' w s path e
    by (rule upload_ready_srv)
  moreover have "srv x sv sv1" if "download_turn t w s e sv = (a, b, sv1)" for t w s e a b sv1
    using that by (auto simp: download_turn_def Let_def split: prod.splits receipt.splits if_splits intro!: srv_plain srv_drop)
  ultimately show ?thesis
    by (auto simp: continue_def split: pending.split input.split prod.split intro!: srv_plain)
qed

lemma act_srv: "srv x sv (snd (act x e sv))"
proof (cases e)
  case (AdminRequest c r)
  then show ?thesis
    by (cases r) (simp_all add: with_headers_def handleHealth_def login_srv serve_protected_srv stop_def)
next
  case (PublicRequest c r)
  then show ?thesis
    by (cases r) (simp_all add: with_headers_def handleHealth_def handleDeterrent_def public_srv stop_def Let_def)
next
  case (Resume c n inp)
  have "srv x sv (sv\<lparr>sv_pending := ps\<rparr>)" for ps
    by (rule srv_plain(5) [OF reaches_refl])
  with Resume show ?thesis
    by (auto simp: with_headers_def resume_def intro: reaches_trans [OF _ continue_srv])
next
  case (BrowserInput now i m)
  have "reaches (hub_traffic x) (sv_hub sv) (snd (SendBinaryFrame d k s b ok (sv_hub sv)))" for d k s b ok
    by (rule reaches_frame [OF reaches_refl])
  with BrowserInput show ?thesis
    by (auto simp: browser_input_def browser_frame_def split: option.split sum.split browser_msg.split intro!: srv_plain srv_hub)
next
  case (AgentText now nonce c raw)
  then show ?thesis using hub_event [of "HText now nonce c raw" x "sv_hub sv"] by (auto simp: on_hub_def intro!: srv_hub)
next
  case (AgentBinary now c raw)
  then show ?thesis using hub_event [of "HBinary c raw" x "sv_hub sv"] by (auto simp: on_hub_def intro!: srv_hub)
next
  case (AgentGone now c)
  then show ?thesis using hub_event [of "HEnd now c" x "sv_hub sv"] by (auto simp: on_hub_def intro!: srv_hub)
next
  case (ConnectivitySweep now)
  then show ?thesis using hub_event [of "HSweep now" x "sv_hub sv"] by (auto simp: on_hub_def intro!: srv_hub)
next
  case (AlertSweep now inp fresh)
  then show ?thesis
    using reaches_step [of "alert_step (x_alert x)" "sv_alerts sv" "AEvaluate inp now fresh (sv_devices sv)"]
    by (auto simp: alert_sweep_def intro!: srv_alerts)
next
  case (RetentionSweep now)
  then show ?thesis using reaches_step [of "server_op x" sv "OpMetrics m" for m] by (simp add: retention_sweep_def Let_def)
next
  case (RotationSweep now ok)
  have "reaches (hub_traffic x) h (snd (SendHubMessage i t cmd ok h))" for i t cmd h
    by (cases "SendHubMessage i t cmd ok h") (auto dest: hub_results)
  with RotationSweep show ?thesis
    by (auto simp: rotation_sweep_def on_hub_def intro!: srv_hub reaches_fold)
next
  case (ReleaseSweep now stamps fetched)
  then show ?thesis
    using reaches_step [of "release_step (releaseEnv x) (releaseKey x)" "h_releases (sv_hub sv)" "RSync stamps fetched"]
    by (auto simp: release_sweep_def intro!: srv_releases)
next
  case (Restart now)
  have "server_restart now sv = run (server_op x) [OpAuth ERestart, OpDisconnect now, OpRemote (restart now (sv_remote sv)),
      OpLimiters (renew_limiter (sv_enroll_limiter sv)) (renew_limiter (sv_control_limiter sv)) (renew_limiter (sv_ticket_limiter sv)), OpPending []] sv"
    by (simp add: server_restart_def set_auth_def set_hub_def set_remote_def)
  then have "srv x sv (server_restart now sv)" unfolding reaches_def by (rule exI)
  with Restart show ?thesis by simp
qed (auto simp: on_remote_def intro!: srv_plain)

text \<open>The step then flushes the queued audit events; a component that does not hold the log or a
  queue does not see that.\<close>

lemma server_steps:
  assumes "refinement a (server_op x) v" "\<And>now sv. v (flush x now sv) = v sv"
  shows "refinement a (server_step x) v"
proof
  fix sv e
  obtain es where "snd (act x e sv) = run (server_op x) es sv" using act_srv [of x sv e] by (auto simp: reaches_def)
  then show "reaches a (v sv) (v (server_step x e sv))"
    using refinement.run_simulates [OF assms(1), of sv es] by (simp add: server_step_def serve_def assms(2))
qed

lemma server_keeps:
  assumes "invariant (server_op x) I" "\<And>now sv. I sv \<Longrightarrow> I (flush x now sv)"
  shows "invariant (server_step x) I"
  by unfold_locales (simp add: server_step_def serve_def assms(2) invariant.reaches_keeps [OF assms(1) act_srv])

section \<open>The components in the server\<close>

lemma hub_step_releases: "agent_side e \<Longrightarrow> h_releases (hub_step env e st) = h_releases st"
proof -
  have fold: "h_releases (fold (sweep_device env now) is st) = h_releases st" for now "is"
    by (induction "is" arbitrary: st)
       (simp_all add: sweep_device_def closeConn_def split: sum.split option.split)
  have deliver: "h_releases (snd (tryDeliver k ev st)) = h_releases st" for k ev
    by (simp add: tryDeliver_def drop_waiter_def Let_def split: option.split)
  have message: "h_releases (handleMessage env now nonce k ev st) = h_releases st" for now nonce k ev st
    by (simp add: handleMessage_def handleHeartbeat_def handleInventory_def handleMetrics_def handleNetworkBatch_def handleSupportCredential_def
      handleSessionClose_def protocolError_def Let_def split: sum.split prod.split)
  assume "agent_side e"
  then show ?thesis
  proof (cases e)
    case (HText now nonce c raw)
    then show ?thesis using deliver message
      by (auto simp: read_text_def protocolError_def split: option.split sum.split prod.split bool.split) (metis snd_conv)+
  next
    case (HSweep now)
    then show ?thesis by (simp add: sweep_def fold)
  qed (auto simp: ServeAgentWS_start_def handshake_def register_conn_def closeConn_def ServeAgentWS_end_def read_binary_def handleBinaryFrame_def
      SendAndWait_send_def WaitForCorrelation_start_def wait_end_def SendHubMessage_def SendBinaryFrame_def add_waiter_def drop_waiter_def Let_def
      split: option.split prod.split sum.split)
qed

interpretation auth_ops: refinement "auth_step (x_auth x) (authCfg x)" "server_op x" sv_auth for x
proof
  fix sv e
  show "reaches (auth_step (x_auth x) (authCfg x)) (sv_auth sv) (sv_auth (server_op x e sv))"
    by (cases e) (simp_all add: reaches_step set_enroll_def set_devices_def set_alerts_def set_releases_def set_hub_def set_admin_def set_remote_def
      sv_audit_def flush_def)
qed

interpretation enroll_ops: refinement "enroll_step (x_enroll x)" "server_op x" enroll_view for x
proof
  fix sv e
  show "reaches (enroll_step (x_enroll x)) (enroll_view sv) (enroll_view (server_op x e sv))"
  proof (cases e)
    case (OpHub h)
    have "via_registry (registry_db (enroll_view sv)) (h_devices (hub_traffic x h (sv_hub sv)))"
      using hub_step_via [of h] by (cases h) (simp_all add: hub_traffic_def enroll_view_def)
    from enroll_via [OF this, of "x_enroll x"] OpHub
    show ?thesis by (simp add: enroll_view_def set_hub_def)
  qed (simp_all add: reaches_step, simp_all add: enroll_view_def set_auth_def set_alerts_def set_releases_def set_hub_def set_admin_def set_remote_def
      sv_audit_def flush_def hub_audit_def)
qed

interpretation release_ops: refinement "release_step (releaseEnv x) (releaseKey x)" "server_op x" "\<lambda>sv. h_releases (sv_hub sv)" for x
proof
  fix sv e
  show "reaches (release_step (releaseEnv x) (releaseKey x)) (h_releases (sv_hub sv)) (h_releases (sv_hub (server_op x e sv)))"
    by (cases e) (simp_all add: reaches_step hub_traffic_def hub_step_releases set_auth_def set_enroll_def set_devices_def set_alerts_def set_hub_def
      set_admin_def set_remote_def sv_audit_def flush_def)
qed

interpretation auth_server: refinement "auth_step (x_auth x) (authCfg x)" "server_step x" sv_auth for x
  by (rule server_steps [OF auth_ops.refinement_axioms]) (simp add: flush_def)

interpretation enroll_server: refinement "enroll_step (x_enroll x)" "server_step x" enroll_view for x
  by (rule server_steps [OF enroll_ops.refinement_axioms]) (simp add: flush_def enroll_view_def)

interpretation release_server: refinement "release_step (releaseEnv x) (releaseKey x)" "server_step x" "\<lambda>sv. h_releases (sv_hub sv)" for x
  by (rule server_steps [OF release_ops.refinement_axioms]) (simp add: flush_def)

interpretation alerts_server: invariant "server_step x" "\<lambda>sv. alerts_ok (sv_alerts sv)" for x
proof (rule server_keeps, unfold_locales)
  fix sv :: server and e assume "alerts_ok (sv_alerts sv)"
  then show "alerts_ok (sv_alerts (server_op x e sv))"
    using alerts.step_keeps [of "sv_alerts sv" "x_alert x"]
    by (cases e) (simp_all add: set_auth_def set_enroll_def set_devices_def set_releases_def set_hub_def
      set_admin_def set_remote_def sv_audit_def)
qed (simp add: flush_def alerts_ok_def)

text \<open>Only the flush writes the log: one \<open>Record\<close> for each queued event.\<close>

lemma act_log: "sv_log (snd (act x e sv)) = sv_log sv"
proof -
  have "invariant (server_op x) (\<lambda>s. sv_log s = sv_log sv)"
  proof
    fix s :: server and e assume "sv_log s = sv_log sv"
    then show "sv_log (server_op x e s) = sv_log sv"
      by (cases e) (simp_all add: set_auth_def set_enroll_def set_devices_def set_alerts_def set_releases_def set_hub_def
        set_admin_def set_remote_def sv_audit_def)
  qed
  from invariant.reaches_keeps [OF this act_srv] show ?thesis by simp
qed

definition recorded :: "http_env \<Rightarrow> server_event \<Rightarrow> server \<Rightarrow> (time \<times> audit_event) list" where
  "recorded x e sv = map (Pair (event_time e)) (queued (snd (act x e sv)))"

lemma server_step_log: "sv_log (server_step x e sv) = run (audit_step (x_audit x)) (recorded x e sv) (sv_log sv)"
  by (simp add: server_step_def serve_def flush_def recorded_def act_log)

interpretation log_server: refinement "audit_step (x_audit x)" "server_step x" sv_log for x
  by unfold_locales (auto simp: reaches_def server_step_log)

end
