(* ===== verification/Server_Properties.thy ===== *)
theory Server_Properties
  imports Server
begin

text \<open>What the whole server keeps, over any interleaving of requests on both listeners, agent
  traffic, background sweeps and restarts: its components behave as their own models, a
  reauthentication allows one sensitive operation, a disabled account's sessions stay dead, the
  audit chain stays valid. The last section shows what a forged address or a scoped administrator
  can do.\<close>

section \<open>Operations behind a reauthentication\<close>

text \<open>The reauthentication a request carries, for the four operations that ask for one.\<close>

fun reauth_of :: "endpoint \<Rightarrow> string option" where
  "reauth_of (AuthRoute (EpChangePassword (Some (r, _)))) = Some r"
| "reauth_of (DeviceRoute (EpRevokeDevice _ r)) = Some r"
| "reauth_of (DeviceRoute (EpDeleteDevice _ r)) = Some r"
| "reauth_of (SessionRoute (EpGrantPrivilege _ (Some (r, _)))) = Some r"
| "reauth_of _ = None"

text \<open>The request is one of them, names the token \<open>i\<close>, and is carried out.\<close>

fun performs :: "http_env \<Rightarrow> uuid \<Rightarrow> server_event \<Rightarrow> server \<Rightarrow> bool" where
  "performs x i (AdminRequest c (AdmProtected ep)) sv \<longleftrightarrow>
     Option.bind (reauth_of ep) (uuid_parse (x_auth x)) = Some i \<and>
     map_option rp_status (fst (serve x (AdminRequest c (AdmProtected ep)) sv)) = Some 200"
| "performs x i _ sv \<longleftrightarrow> False"

lemma with_reauth_ok:
  assumes "with_reauth x cx rid k sv = (Some r, sv')" "rp_status r = 200"
    "\<And>st. reauth_tokens (sv_auth (snd (k (set_auth st sv)))) = reauth_tokens st"
  shows "\<exists>st. ConsumeReauth (x_auth x) (cl_now cx) (u_id (cx_user cx)) rid (sv_auth sv) = (True, st) \<and> reauth_tokens (sv_auth sv') = reauth_tokens st"
proof -
  obtain v st where "ConsumeReauth (x_auth x) (cl_now cx) (u_id (cx_user cx)) rid (sv_auth sv) = (v, st)" by fastforce
  with assms(1,2) assms(3) [of st] show ?thesis
    by (auto simp: with_reauth_def stop_def writeErr_def split: if_splits)
qed

lemma update_user_reauth: "update_user i f st = (r, st') \<Longrightarrow> reauth_tokens st' = reauth_tokens st"
  by (auto simp: update_user_def Let_def split: if_splits)

lemma ChangeOwnPassword_reauth:
  "ChangeOwnPassword env cfg fr u p st = (r, st') \<Longrightarrow> reauth_tokens st' = reauth_tokens st"
  by (auto simp: ChangeOwnPassword_def UpdatePasswordHash_def dest: update_user_reauth split: if_splits sum.splits)

lemma delete_device_auth: "delete_device i sv = (r, sv') \<Longrightarrow> sv_auth sv' = sv_auth sv"
  by (auto simp: delete_device_def setter_defs split: sum.splits prod.splits)

lemma load_refuses:
  "loadDeviceWithAccess x p cx d sv = Inl r \<Longrightarrow> rp_status r \<noteq> 200"
  "loadSessionWithAccess x cx d sv = Inl r \<Longrightarrow> rp_status r \<noteq> 200"
  by (auto simp: loadDeviceWithAccess_def loadDevice_def loadSessionWithAccess_def writeErr_def not_permitted_def Let_def
    split: option.splits sum.splits if_splits)

lemma performs_consumes:
  assumes "protected x cx ep sv = (Some r, sv')" "rp_status r = 200" "reauth_of ep = Some rid"
  shows "\<exists>st. ConsumeReauth (x_auth x) (cl_now cx) (u_id (cx_user cx)) rid (sv_auth sv) = (True, st) \<and> reauth_tokens (sv_auth sv') = reauth_tokens st"
  using assms(3)
proof (cases ep rule: reauth_of.cases)
  case (1 ra b)
  then show ?thesis using assms
    by (auto simp: handleChangePassword_def stop_def writeErr_def split: if_splits elim!: with_reauth_ok)
       (auto simp: stop_def setter_defs dest: ChangeOwnPassword_reauth split: prod.splits sum.splits auth_error.splits)
next
  case (2 d ra)
  then show ?thesis using assms
    by (auto simp: handleRevokeDevice_def with_device_def stop_def writeErr_def setter_defs split: sum.splits elim!: with_reauth_ok dest: load_refuses)
next
  case (3 d ra)
  then show ?thesis using assms
    by (auto simp: handleDeleteDevice_def with_device_def stop_def writeErr_def has_history_def split: sum.splits if_splits elim!: with_reauth_ok dest: load_refuses)
       (auto dest!: delete_device_auth simp: stop_def setter_defs split: prod.splits sum.splits device_error.splits)
next
  case (4 d ra b)
  then show ?thesis using assms
    by (auto simp: handleGrantPrivilege_def with_session_def stop_def writeErr_def not_permitted_def split: sum.splits if_splits elim!: with_reauth_ok dest: load_refuses)
       (auto simp: stop_def setter_defs split: prod.splits sum.splits)
qed simp_all

lemma reauth_open_cong: "reauth_tokens st = reauth_tokens st' \<Longrightarrow> reauth_open i st = reauth_open i st'"
  by (simp add: reauth_open_def)

lemma RequireSession_reauth: "RequireSession env cfg now c s = (r, st) \<Longrightarrow> reauth_tokens st = reauth_tokens s"
  by (auto simp: RequireSession_def Validate_def Let_def split: option.splits sum.splits prod.splits if_splits)

lemma flush_auth [simp]: "sv_auth (flush x now sv) = sv_auth sv"
  by (simp add: flush_def)

lemma performs_use:
  assumes "performs x i e sv"
  obtains st e' where "uses_reauth (x_auth x) i e' st" "reaches (auth_step (x_auth x) (authCfg x)) (sv_auth sv) st"
    "reauth_tokens st = reauth_tokens (sv_auth sv)"
    "reauth_tokens (auth_step (x_auth x) (authCfg x) e' st) = reauth_tokens (sv_auth (server_step x e sv))"
proof -
  from assms obtain c ep rid r0 where e: "e = AdminRequest c (AdmProtected ep)" "reauth_of ep = Some rid" "uuid_parse (x_auth x) rid = Some i"
    "fst (serve x e sv) = Some r0" "rp_status r0 = 200"
    by (cases "(x, i, e, sv)" rule: performs.cases) (auto simp: Option.bind_eq_Some_conv)
  then obtain r sv' where r: "serve_protected x c ep sv = (Some r, sv')" "rp_status r = 200" and
    sv': "server_step x e sv = flush x (event_time e) sv'"
    by (cases "serve_protected x c ep sv") (auto simp: serve_def server_step_def with_headers_def withSecurityHeaders_def)
  then obtain sug st where st: "RequireSession (x_auth x) (authCfg x) (cl_now c) (rq_session_cookie (cl_request c)) (sv_auth sv) = (Some sug, st)"
    and p: "protected x (request_ctx c sug) ep (set_auth st sv) = (Some r, sv')"
    by (auto simp: serve_protected_def stop_def writeErr_def withCSRF_def method_not_allowed_def
      split: option.splits prod.splits if_splits)
  from performs_consumes [OF p r(2) e(2)] obtain st' where
    st': "ConsumeReauth (x_auth x) (cl_now (request_ctx c sug)) (u_id (cx_user (request_ctx c sug))) rid st = (True, st')"
      "reauth_tokens (sv_auth sv') = reauth_tokens st'" by (auto simp: set_auth_def)
  show thesis
    by (rule that [of "EConsumeReauth (cl_now (request_ctx c sug)) (u_id (cx_user (request_ctx c sug))) rid" st])
       (use st' e(3) RequireSession_auth [OF st] RequireSession_reauth [OF st] in \<open>simp_all add: sv'\<close>)
qed

interpretation reauth_server: single_use "server_step x" "\<lambda>sv. auth_ok (sv_auth sv)" "performs x i" "\<lambda>sv. reauth_open i (sv_auth sv)" for x i
proof (unfold_locales, goal_cases)
  case (1 s e) then show ?case
    by (rule invariant.step_keeps [OF auth_server.lifts [OF auth_keys.invariant_axioms]])
next
  case (2 s e)
  from performs_use [OF 2(2)] obtain st e' where u: "uses_reauth (x_auth x) i e' st" "reauth_tokens st = reauth_tokens (sv_auth s)"
    "reaches (auth_step (x_auth x) (authCfg x)) (sv_auth s) st" by metis
  then show ?case using reauth_use.wins_live [OF _ u(1)] auth_keys.reaches_keeps [OF u(3)] 2(1) reauth_open_cong [OF u(2)] by simp
next
  case (3 s e)
  from performs_use [OF 3(2)] obtain st e' where u: "uses_reauth (x_auth x) i e' st"
    "reaches (auth_step (x_auth x) (authCfg x)) (sv_auth s) st"
    "reauth_tokens (auth_step (x_auth x) (authCfg x) e' st) = reauth_tokens (sv_auth (server_step x e s))" by metis
  then show ?case using reauth_use.wins_ends [OF _ u(1)] auth_keys.reaches_keeps [OF u(2)] 3(1) reauth_open_cong [OF u(3)] by metis
next
  case (4 s e) then show ?case
    using reauth_use.dead.reaches_keeps [OF auth_server.simulates] by blast
qed

section \<open>Sessions of a disabled account\<close>

text \<open>The account a session token belongs to, whatever the state of the session.\<close>

definition token_user :: "auth_env \<Rightarrow> string \<Rightarrow> auth_state \<Rightarrow> uuid option" where
  "token_user env tok st = map_option s_user_id (find_row (\<lambda>s. s_token_hash s = hashToken env tok) (user_sessions st))"

lemma token_user_upd:
  assumes "\<And>s. p s \<Longrightarrow> s_token_hash (f s) = s_token_hash s \<and> s_user_id (f s) = s_user_id s"
  shows "token_user env tok (st\<lparr>user_sessions := upd_where p f (user_sessions st)\<rparr>) = token_user env tok st"
proof -
  have "(\<lambda>s. s_user_id (if p s then f s else s)) = s_user_id" using assms by auto
  then show ?thesis using assms by (simp add: token_user_def find_row_upd_key option.map_comp comp_def)
qed

lemma RequireSession_token_user:
  "RequireSession env cfg now c s = (r, st) \<Longrightarrow> token_user env tok st = token_user env tok s"
  by (auto simp: RequireSession_def Validate_def Let_def token_user_upd split: option.splits sum.splits prod.splits if_splits)

lemma RevokeAll_session_revoked:
  assumes "token_user env tok st = Some i"
  shows "session_revoked (hashToken env tok) (RevokeAllForUser now i st)"
proof -
  from assms obtain s where s: "find_row (\<lambda>s. s_token_hash s = hashToken env tok) (user_sessions st) = Some s" "s_user_id s = i"
    by (auto simp: token_user_def)
  then show ?thesis
    by (cases "s_revoked_at s") (simp_all add: session_revoked_def RevokeAllForUser_def find_row_upd_key del: find_row_None)
qed

lemma update_user_sessions: "update_user i f st = (r, st') \<Longrightarrow> user_sessions st' = user_sessions st"
  by (auto simp: update_user_def split: if_splits)

lemma set_mfa_required_sessions: "user_sessions (sv_auth (snd (set_mfa_required x cx i mfa sv))) = user_sessions (sv_auth sv)"
  by (auto simp: set_mfa_required_def SetMFARequired_def stop_def setter_defs dest: update_user_sessions split: option.splits prod.splits sum.splits)

lemma disabling_revokes:
  assumes "protected x cx (AuthRoute (EpSetUserStatus target (Some (Some s, mfa)))) sv = (Some r, sv')" "rp_status r = 200"
    "s \<noteq> ''active''" "parse_uuid x target = Some i" "token_user (x_auth x) tok (sv_auth sv) = Some i"
  shows "session_revoked (hashToken (x_auth x) tok) (sv_auth sv')"
proof -
  obtain status where s: "user_status_of s = Some status" "status \<noteq> UserActive"
    using assms(1-4) by (auto simp: handleSetUserStatus_def require_any_def with_id_def stop_def writeErr_def not_permitted_def user_status_of_def
      split: if_splits)
  obtain res st where st: "SetStatus i status (sv_auth sv) = (res, st)" by fastforce
  define ev where "ev = user_event x cx ''user.status_changed'' (Some [(''target_user_id'', MUuid i), (''status'', MStr s)])"
  have "token_user (x_auth x) tok st = Some i"
    using assms(5) st by (auto simp: SetStatus_def token_user_def dest: update_user_sessions)
  from RevokeAll_session_revoked [OF this] have revoked: "session_revoked (hashToken (x_auth x) tok) (RevokeAllForUser (cl_now cx) i st)" .
  have "sv' = snd (set_mfa_required x cx i mfa (sv_audit ev (set_auth (RevokeAllForUser (cl_now cx) i st) sv)))"
    using assms(1,2,4) s st
    by (auto simp: handleSetUserStatus_def require_any_def with_id_def stop_def writeErr_def not_permitted_def ev_def split: if_splits sum.splits)
  with revoked show ?thesis
    by (auto simp: session_revoked_def set_mfa_required_sessions setter_defs)
qed

lemma revoked_no_session: "session_revoked (hashToken env tok) st \<Longrightarrow> RequireSession env cfg now (Some tok) st = (None, st)"
  by (auto simp: session_revoked_def RequireSession_def Validate_def simp del: find_row_None)

section \<open>Properties of the server\<close>


text \<open>The tables of the server are well formed: the keys of every table are unique, credentials
  belong to devices, a revoked device has no usable key, tokens keep their maximal lifetimes, every
  release carries a signature of the configured key, and no rule has two open alerts for a device.\<close>

definition server_ok :: "http_env \<Rightarrow> server \<Rightarrow> bool" where
  "server_ok x sv \<longleftrightarrow> auth_ok (sv_auth sv) \<and> enroll_ok (enroll_view sv) \<and>
     manifest_ok (releaseEnv x) (releaseKey x) (h_releases (sv_hub sv)) \<and> alerts_ok (sv_alerts sv)"

interpretation server_tables: invariant "server_step x" "server_ok x" for x
  by unfold_locales
     (auto simp: server_ok_def intro: alerts_server.step_keeps invariant.step_keeps [OF auth_server.lifts [OF auth_keys.invariant_axioms]]
       invariant.step_keeps [OF enroll_server.lifts [OF enrolling.invariant_axioms]]
       invariant.step_keeps [OF release_server.lifts [OF manifest.invariant_axioms]])


text \<open>C2: across all handlers and any interleaving of requests, agent traffic, sweeps and restarts,
  one reauthentication allows at most one of the operations that ask for it (revoking or deleting a
  device, raising a session's privilege, changing the password) to succeed.\<close>

theorem reauth_authorises_one_operation:
  assumes "server_ok x sv"
  shows "win_count (performs x i) (server_step x) es sv \<le> 1"
  by (rule reauth_server.at_most_one_win) (use assms in \<open>simp add: server_ok_def\<close>)

text \<open>C3: once an administrator's request to disable or lock an account has succeeded, no session
  token that account held is ever accepted again: every later request with it, whatever happened in
  between, is refused with 401 (or 403 for a missing CSRF token) and changes nothing.\<close>

theorem disabled_account_locked_out:
  assumes "serve_protected x c (AuthRoute (EpSetUserStatus target (Some (Some s, mfa)))) sv = (Some r, sv')" "rp_status r = 200"
    and "s \<noteq> ''active''" "parse_uuid x target = Some i" "token_user (x_auth x) tok (sv_auth sv) = Some i"
    and "later = run (server_step x) es sv'" "rq_session_cookie (cl_request c') = Some tok"
  shows "\<exists>r'. serve_protected x c' ep later = (Some r', later) \<and> rp_status r' \<in> {401, 403}"
proof -
  let ?h = "hashToken (x_auth x) tok"
  obtain sug st where st: "RequireSession (x_auth x) (authCfg x) (cl_now c) (rq_session_cookie (cl_request c)) (sv_auth sv) = (Some sug, st)"
    and p: "protected x (request_ctx c sug) (AuthRoute (EpSetUserStatus target (Some (Some s, mfa)))) (set_auth st sv) = (Some r, sv')"
    using assms(1,2) by (auto simp: serve_protected_def stop_def writeErr_def withCSRF_def method_not_allowed_def
      split: option.splits prod.splits if_splits)
  have "token_user (x_auth x) tok (sv_auth (set_auth st sv)) = Some i"
    using assms(5) RequireSession_token_user [OF st] by simp
  from disabling_revokes [OF p assms(2-4) this] have "session_revoked ?h (sv_auth sv')" .
  then have "session_revoked ?h (sv_auth later)"
    unfolding assms(6) by (rule invariant.run_keeps [OF auth_server.lifts [OF auth_revoked.invariant_axioms]])
  from revoked_no_session [OF this] show ?thesis
    using assms(7) by (auto simp: serve_protected_def stop_def writeErr_def withCSRF_def split: option.splits)
qed

text \<open>The events a run sends to the audit log.\<close>

primrec audit_trail :: "http_env \<Rightarrow> server_event list \<Rightarrow> server \<Rightarrow> (time \<times> audit_event) list" where
  "audit_trail x [] sv = []"
| "audit_trail x (e # es) sv = recorded x e sv @ audit_trail x es (server_step x e sv)"

lemma run_log: "sv_log (run (server_step x) es sv) = run (audit_step (x_audit x)) (audit_trail x es sv) (sv_log sv)"
  by (induction es arbitrary: sv) (simp_all add: server_step_log)

lemma audit_run_grows: "\<exists>new. log_rows (run (audit_step env) es l) = log_rows l @ new"
proof (induction es arbitrary: l)
  case (Cons e es)
  obtain r where "log_rows (audit_step env e l) = log_rows l @ r"
  proof (cases "Record env (fst e) (snd e) l")
    case (Inr l')
    then obtain r where "log_rows l' = log_rows l @ [r]" by (auto simp: Record_def Let_def split: option.splits if_splits)
    with Inr show thesis using that by (simp add: audit_step_def)
  qed (use that [of "[]"] in \<open>simp add: audit_step_def\<close>)
  then show ?case using Cons [of "audit_step env e l"] by auto
qed simp


section \<open>Examples\<close>

lemma demo_server_ok: "server_ok demo_http (demo_server p)"
proof -
  have "auth_ok (demo_signed_in 10 p)"
    by (simp add: auth_ok_def demo_signed_in_def init_auth_def)
  moreover have "enroll_ok (enroll_view (demo_server p))"
    using demo_enrolling_ok demo_alerts_ok(2)
    by (simp add: enroll_ok_def enroll_view_def demo_server_def demo_hub_def init_hub_def)
  moreover have "h_releases (sv_hub (demo_server p)) = []"
    by (simp add: demo_server_def demo_hub_def init_hub_def)
  ultimately show ?thesis
    by (simp add: server_ok_def manifest_ok_def) (simp add: demo_server_def no_alerts_def alerts_ok_def)
qed


theorem reauth_authorises_one_operation_witness:
  "\<forall>i es. win_count (performs demo_http i) (server_step demo_http) es (demo_server PermCredentialRevoke) \<le> 1"
  using reauth_authorises_one_operation [OF demo_server_ok] by blast


text \<open>Two accounts that are signed in; the first may manage accounts.\<close>

definition demo_pair :: "time \<Rightarrow> auth_state" where
  "demo_pair seen = (demo_signed_in seen PermUserManage)\<lparr>users := [demo_user 2 ''bob'', demo_user 3 ''eve''],
     user_sessions := [demo_session seen, (demo_session 10)\<lparr>s_id := 11, s_user_id := 3, s_token_hash := hashToken demo_auth_env ''DE''\<rparr>]\<rparr>"

lemma demo_pair_session:
  "RequireSession (x_auth demo_http) (authCfg demo_http) 20 (Some ''BC'') (demo_pair 10) =
     (Some (demo_session 20, demo_user 2 ''bob'', [\<lparr>g_permission = perm_name PermUserManage, g_scope = Rbac.ScopeCustomer, g_scope_id = Some 3\<rparr>]), demo_pair 20)"
  by (simp add: RequireSession_def Validate_def GetByID_def demo_pair_def demo_signed_in_def demo_session_def demo_user_def demo_http_def authCfg_def
    Default_def init_auth_def PermissionsForUser_def demo_roles_def scope_type_of_def duration_defs)

theorem disabled_account_locked_out_witness:
  "\<exists>sv'. \<forall>es ep. \<exists>r'. serve_protected demo_http (demo_call ''PATCH'') (AuthRoute (EpSetUserStatus ''3'' (Some (Some ''disabled'', None))))
       (set_auth (demo_pair 10) (demo_server PermUserManage)) = (Some (state_reply ''ok''), sv') \<and>
     serve_protected demo_http ((demo_call ''GET'')\<lparr>cl_request := (cl_request (demo_call ''GET''))\<lparr>rq_session_cookie := Some ''DE''\<rparr>\<rparr>) ep
       (run (server_step demo_http) es sv') = (Some r', run (server_step demo_http) es sv') \<and> rp_status r' \<in> {401, 403}"
proof -
  let ?ep = "AuthRoute (EpSetUserStatus ''3'' (Some (Some ''disabled'', None)))" and ?sv = "set_auth (demo_pair 10) (demo_server PermUserManage)"
  let ?c = "(demo_call ''GET'')\<lparr>cl_request := (cl_request (demo_call ''GET''))\<lparr>rq_session_cookie := Some ''DE''\<rparr>\<rparr>"
  have i: "parse_uuid demo_http ''3'' = Some 3" by (simp add: parse_uuid_def demo_http_def demo_auth_env_def digits_val_def digit_val_def)
  have "fst (serve_protected demo_http (demo_call ''PATCH'') ?ep ?sv) = Some (state_reply ''ok'')"
    using demo_pair_session demo_csrf [of "''PATCH''"]
    by (simp add: serve_protected_def demo_call_def method_matches_def handleSetUserStatus_def require_any_def has_any_def with_id_def i
      user_status_of_def set_mfa_required_def stop_def request_ctx_def ctx.defs call.defs SetStatus_def update_user_def)
       (simp add: demo_pair_def demo_user_def)
  then obtain sv' where p: "serve_protected demo_http (demo_call ''PATCH'') ?ep ?sv = (Some (state_reply ''ok''), sv')"
    by (cases "serve_protected demo_http (demo_call ''PATCH'') ?ep ?sv") auto
  have "token_user (x_auth demo_http) ''DE'' (sv_auth ?sv) = Some 3"
    by (simp add: token_user_def demo_pair_def demo_session_def demo_http_def hashToken_def demo_auth_env_def bytes_of_def)
  from disabled_account_locked_out [OF p _ _ i this refl, of ?c] p show ?thesis
    by (auto simp: state_reply_def writeJSON_def)
qed

section \<open>Forged client addresses\<close>

text \<open>A proxy appends the address it sees to the \<open>X-Forwarded-For\<close> header it received, so what
  stands first is what the client wrote.\<close>

definition forged :: "http_env \<Rightarrow> call \<Rightarrow> string \<Rightarrow> bool" where
  "forged x c ip \<longleftrightarrow> (\<exists>host port rest. SplitHostPort (rq_remote_addr (cl_request c)) = Some (host, port) \<and>
     proxy_contains (x_net x) (trustedProxies x) host \<and> rq_xff (cl_request c) = ip @ CHR '','' # rest \<and>
     CHR '','' \<notin> set ip \<and> trim_space ip = ip \<and> ip \<noteq> [])"

lemma split_on_first: "c \<notin> set s \<Longrightarrow> hd (split_on c (s @ c # t)) = s"
  by (induction s) (auto split: list.split)

lemma forged_clientIP: "forged x c ip \<Longrightarrow> clientIP x c = ip"
  by (auto simp: forged_def clientIP_def ClientIP_def split_on_first)

text \<open>What a login sends to the log: at most one event, with the client's address.\<close>

lemma queued_audit [simp]: "queued (sv_audit e sv) = r_audit (sv_remote sv) @ [e] @ as_audit (sv_alerts sv)"
  "queued (set_auth st sv) = queued sv"
  by (simp_all add: queued_def setter_defs)

lemma login_queue:
  assumes "queued sv = []" "e \<in> set (queued (snd (handleLogin x c body sv)))"
  shows "ev_source_ip e = clientIP x c"
  using assms by (auto simp: handleLogin_def auditLoginFailure_def actor_event_def stop_def queued_def setter_defs
    split: option.splits prod.splits sum.splits login_result.splits if_splits)

lemma recorded_login: "recorded x (AdminRequest c (AdmLogin body)) sv = map (Pair (cl_now c)) (queued (snd (handleLogin x c body sv)))"
  by (simp add: recorded_def with_headers_def)

lemma run_unparsable:
  assumes "\<And>e. e \<in> set evs \<Longrightarrow> ev_source_ip e \<noteq> [] \<and> inet_host env (ev_source_ip e) = None"
  shows "run (audit_step env) (map (Pair t) evs) l = l"
  using assms by (induction evs arbitrary: l) (simp_all add: audit_step_def Record_def Let_def split: option.split)

text \<open>A row whose address reads back in another spelling does not verify.\<close>

lemma verify_loop_append:
  "audit_links env p good \<Longrightarrow> verify_loop env p c pc True (good @ rest) =
     verify_loop env (chain_end a_entry_hash p good) (c + int (length good)) pc True rest"
  by (induction good arbitrary: p c) (auto simp: row_links_def chain_end_def add.assoc split: sum.splits)

lemma chain_payload_address:
  "chain_payload env (f\<lparr>f_source_ip := s\<rparr>) = chain_payload env (f\<lparr>f_source_ip := t\<rparr>) \<longleftrightarrow> s = t"
  by (simp add: chain_payload_def)

definition metadata_stable :: "'m audit_env \<Rightarrow> 'm event \<Rightarrow> bool" where
  "metadata_stable env ev \<longleftrightarrow> (\<exists>j m. json_marshal env (Some (case ev_metadata ev of None \<Rightarrow> empty_map env | Some m \<Rightarrow> m)) = Some j \<and>
     jsonb_text env j \<noteq> [] \<and> json_unmarshal env (jsonb_text env j) = Some m \<and> json_marshal env m = Some j)"

lemma Record_other_spelling:
  assumes "VerifyChain env l = Inr v" "cv_valid v" "metadata_stable env ev"
    "ev_source_ip ev = ip" "ip \<noteq> []" "inet_host env ip = Some host" "host \<noteq> ip" "inj (sha256 env)" "\<And>b. sha256 env b \<noteq> []"
  shows "\<exists>v'. VerifyChain env (audit_step env (t, ev) l) = Inr v' \<and> \<not> cv_valid v' \<and> cv_broken_at_id v' = Some (log_next_id l)"
proof -
  obtain j m where j: "json_marshal env (Some (case ev_metadata ev of None \<Rightarrow> empty_map env | Some m \<Rightarrow> m)) = Some j"
    "jsonb_text env j \<noteq> []" "json_unmarshal env (jsonb_text env j) = Some m" "json_marshal env m = Some j"
    using assms(3) by (auto simp: metadata_stable_def)
  let ?r = "insert_row env t ev l j (Some host)" and ?p = "last_entry_hash (log_rows l)"
  have meta: "(case ev_metadata ev of None \<Rightarrow> Some (empty_map env) | Some m \<Rightarrow> Some m) = Some (case ev_metadata ev of None \<Rightarrow> empty_map env | Some m \<Rightarrow> m)"
    by (simp split: option.splits)
  have rows: "log_rows (audit_step env (t, ev) l) = log_rows l @ [?r]"
    using assms(4-6) by (simp add: audit_step_def Record_def meta j(1) Let_def)
  have h: "a_entry_hash ?r = computeEntryHash env ?p (event_fields (truncate_micro t) ev j)" by (simp add: insert_row_def Let_def)
  then have ne: "a_entry_hash ?r \<noteq> []" using assms(9) by (simp add: computeEntryHash_def)
  have meta': "row_meta_json env ?r = Inr j" using j by (simp add: row_meta_json_def insert_row_def Let_def)
  have "row_fields ?r j = (event_fields (truncate_micro t) ev j)\<lparr>f_source_ip := host\<rparr>"
    by (simp add: row_fields_def insert_row_def event_fields_def Let_def)
  moreover have "event_fields (truncate_micro t) ev j = (event_fields (truncate_micro t) ev j)\<lparr>f_source_ip := ip\<rparr>"
    using assms(4) by (simp add: event_fields_def)
  ultimately have "computeEntryHash env ?p (row_fields ?r j) \<noteq> a_entry_hash ?r"
    using assms(7,8) h chain_payload_address [of env host "event_fields (truncate_micro t) ev j" ip] by (auto simp: computeEntryHash_def dest: injD)
  moreover have "a_id ?r = log_next_id l" by (simp add: insert_row_def Let_def)
  ultimately show ?thesis
    using VerifyChain_verified [OF assms(1,2)] meta'
    by (simp add: VerifyChain_loop rows chained_snoc [OF ne] verify_loop_append last_entry_hash_chain)
qed

section \<open>Properties of forged addresses\<close>

text \<open>A client behind the trusted proxy that writes something other than an address first in its
  \<open>X-Forwarded-For\<close> header keeps its login attempts, failed or successful, out of the audit
  log: the insert fails on the address and the error is ignored.\<close>

theorem forged_address_hides_login:
  assumes "forged x c ip" "inet_host (x_audit x) ip = None" "queued sv = []"
  shows "sv_log (server_step x (AdminRequest c (AdmLogin body)) sv) = sv_log sv"
proof -
  have "ip \<noteq> []" using assms(1) by (auto simp: forged_def)
  then have "ev_source_ip e \<noteq> [] \<and> inet_host (x_audit x) (ev_source_ip e) = None"
    if "e \<in> set (queued (snd (handleLogin x c body sv)))" for e
    using login_queue [OF assms(3) that] forged_clientIP [OF assms(1)] assms(2) by simp
  then show ?thesis by (simp add: server_step_log recorded_login run_unparsable)
qed


definition demo_proxied :: http_env where
  "demo_proxied = demo_http\<lparr>x_cfg := Default\<lparr>Security_TrustedProxies := [''192.0.2.1'']\<rparr>,
     x_audit := demo_server_audit\<lparr>sha256 := (\<lambda>b. 1 # b), inet_host := (\<lambda>s. if s = ''FE80::A'' then Some ''fe80::a'' else None)\<rparr>\<rparr>"

definition demo_forged :: "string \<Rightarrow> call" where
  "demo_forged ip = (demo_call ''POST'')\<lparr>cl_request := (cl_request (demo_call ''POST''))\<lparr>rq_xff := ip @ '',198.51.100.7''\<rparr>\<rparr>"

lemma demo_forged_ok:
  assumes "ip = ''nobody'' \<or> ip = ''FE80::A''"
  shows "forged demo_proxied (demo_forged ip) ip"
proof -
  have "\<exists>a. parse_v4 ''192.0.2.1'' = Some a"
    by (simp add: parse_v4_def parse_octet_def is_digit_def digits_val_def digit_val_def)
  then obtain a where a: "ParseAddr (x_net demo_proxied) ''192.0.2.1'' = Some (V4 a)" by (auto simp: ParseAddr_def)
  have trim: "trim_space ''192.0.2.1'' = ''192.0.2.1''" "trim_space ''nobody'' = ''nobody''" "trim_space ''FE80::A'' = ''FE80::A''"
    by (simp_all add: trim_space_def is_space_def)
  have "ParsePrefix (x_net demo_proxied) ''192.0.2.1'' = None" by (simp add: ParsePrefix_def split_last_def)
  then have "trustedProxies demo_proxied = [\<lparr>px_addr = V4 a, px_bits = 32\<rparr>]"
    using a trim(1) by (simp add: trustedProxies_def parsePrefixOrAddr_def demo_proxied_def)
  then have "proxy_contains (x_net demo_proxied) (trustedProxies demo_proxied) ''192.0.2.1''" by (simp add: proxy_contains_def a)
  moreover have "SplitHostPort ''192.0.2.1:5000'' = Some (''192.0.2.1'', ''5000'')"
    by (simp add: SplitHostPort_def split_last_def)
  ultimately show ?thesis using assms trim(2,3)
    unfolding forged_def
    by (intro exI [of _ "''192.0.2.1''"] exI [of _ "''5000''"] exI [of _ "''198.51.100.7''"]) (auto simp: demo_forged_def demo_call_def)
qed

theorem forged_address_hides_login_witness:
  "\<forall>body. sv_log (server_step demo_proxied (AdminRequest (demo_forged ''nobody'') (AdmLogin body)) (demo_server PermAuditRead)) = empty_log"
proof -
  have "queued (demo_server PermAuditRead) = []"
    by (simp add: queued_def demo_server_def demo_hub_def init_hub_def init_remote_def no_alerts_def)
  moreover have "inet_host (x_audit demo_proxied) ''nobody'' = None" by (simp add: demo_proxied_def)
  moreover have "sv_log (demo_server PermAuditRead) = empty_log" by (simp add: demo_server_def)
  ultimately show ?thesis using forged_address_hides_login [OF demo_forged_ok] by simp
qed


end
