(* ===== verification/Net_Sampler.thy ===== *)
theory Net_Sampler
  imports Complex_Main Prelude
begin

text \<open>
  The agent's buffer of network samples (\<open>internal/netmetrics\<close>) and its upload
  (\<open>uploadNetworkMetrics\<close> in \<open>internal/agentcore/session.go\<close>). The table of the buffer is a
  list of rows in the order of their keys. The sampler and the upload run at the same time; what the
  sampler adds while a batch is on its way is an argument of each turn of the upload loop. Seconds
  are rationals.
\<close>

section \<open>Control-channel counter\<close>

record control_counter =
  cc_sent :: "64 word"
  cc_recv :: "64 word"

definition AddSent :: "int \<Rightarrow> control_counter \<Rightarrow> control_counter" where
  "AddSent n c = (if n > 0 then c\<lparr>cc_sent := cc_sent c + word_of_int n\<rparr> else c)"

definition AddRecv :: "int \<Rightarrow> control_counter \<Rightarrow> control_counter" where
  "AddRecv n c = (if n > 0 then c\<lparr>cc_recv := cc_recv c + word_of_int n\<rparr> else c)"

definition SnapshotReset :: "control_counter \<Rightarrow> (64 word \<times> 64 word) \<times> control_counter" where
  "SnapshotReset c = ((cc_sent c, cc_recv c), \<lparr>cc_sent = 0, cc_recv = 0\<rparr>)"

section \<open>The buffer\<close>

record sample =
  sm_occurred_at :: time
  sm_interval :: rat
  sm_sent_total :: "64 word"
  sm_recv_total :: "64 word"
  sm_sent_control :: "64 word"
  sm_recv_control :: "64 word"

text \<open>A row of \<open>samples\<close>: SQLite integers are signed, so the counters are stored as \<open>int64\<close>.\<close>

record sample_row =
  row_id :: int
  row_occurred_at :: time
  row_interval :: rat
  row_sent_total :: int
  row_recv_total :: int
  row_sent_control :: int
  row_recv_control :: int

record sample_store =
  ss_rows :: "sample_row list"
  ss_next :: int

text \<open>\<open>Insert\<close>, when the statement succeeds; \<open>AUTOINCREMENT\<close> never reuses a key.\<close>

definition InsertSample :: "sample \<Rightarrow> sample_store \<Rightarrow> sample_store" where
  "InsertSample s st = st
     \<lparr>ss_rows := ss_rows st @ [\<lparr>row_id = ss_next st, row_occurred_at = sm_occurred_at s, row_interval = sm_interval s,
        row_sent_total = sint (sm_sent_total s), row_recv_total = sint (sm_recv_total s),
        row_sent_control = sint (sm_sent_control s), row_recv_control = sint (sm_recv_control s)\<rparr>],
      ss_next := ss_next st + 1\<rparr>"

definition scan_sample :: "sample_row \<Rightarrow> sample" where
  "scan_sample r = \<lparr>sm_occurred_at = row_occurred_at r, sm_interval = row_interval r,
     sm_sent_total = word_of_int (row_sent_total r), sm_recv_total = word_of_int (row_recv_total r),
     sm_sent_control = word_of_int (row_sent_control r), sm_recv_control = word_of_int (row_recv_control r)\<rparr>"

text \<open>\<open>Pending\<close>: the oldest rows with their keys.\<close>

definition Pending :: "nat \<Rightarrow> sample_store \<Rightarrow> (int \<times> sample) list" where
  "Pending limit st = map (\<lambda>r. (row_id r, scan_sample r)) (take limit (sort_key row_id (ss_rows st)))"

definition DeleteUpTo :: "int \<Rightarrow> sample_store \<Rightarrow> sample_store" where
  "DeleteUpTo maxID st = st\<lparr>ss_rows := filter (\<lambda>r. \<not> row_id r \<le> maxID) (ss_rows st)\<rparr>"

section \<open>The sampler\<close>

text \<open>What \<open>RunSampler\<close> keeps between its ticks.\<close>

record sampler =
  sp_last_sent :: "64 word"
  sp_last_recv :: "64 word"
  sp_ok :: bool
  sp_last_at :: time

definition start_sampler :: "time \<Rightarrow> (64 word \<times> 64 word) option \<Rightarrow> sampler" where
  "start_sampler now totals =
     (case totals of None \<Rightarrow> \<lparr>sp_last_sent = 0, sp_last_recv = 0, sp_ok = False, sp_last_at = now\<rparr>
      | Some (sent, recv) \<Rightarrow> \<lparr>sp_last_sent = sent, sp_last_recv = recv, sp_ok = True, sp_last_at = now\<rparr>)"

text \<open>One tick. \<open>totals\<close> is what \<open>readTotals\<close> reads, \<open>insertOK\<close> whether the insert succeeds.\<close>

definition sample_of_tick :: "time \<Rightarrow> (64 word \<times> 64 word) option \<Rightarrow> 64 word \<times> 64 word \<Rightarrow> sampler \<Rightarrow> sample" where
  "sample_of_tick now totals control sp =
     (let (deltaSent, deltaRecv) =
            (case totals of
               Some (sent, recv) \<Rightarrow>
                 if sp_ok sp \<and> sent \<ge> sp_last_sent sp \<and> recv \<ge> sp_last_recv sp
                 then (sent - sp_last_sent sp, recv - sp_last_recv sp) else (0, 0)
             | None \<Rightarrow> (0, 0))
      in \<lparr>sm_occurred_at = now, sm_interval = Fract (now - sp_last_at sp) second,
          sm_sent_total = deltaSent, sm_recv_total = deltaRecv,
          sm_sent_control = fst control, sm_recv_control = snd control\<rparr>)"

definition sampler_tick ::
  "time \<Rightarrow> (64 word \<times> 64 word) option \<Rightarrow> bool \<Rightarrow> sampler \<times> control_counter \<times> sample_store \<Rightarrow> sampler \<times> control_counter \<times> sample_store" where
  "sampler_tick now totals insertOK =
     (\<lambda>(sp, c, st).
        let (control, c') = SnapshotReset c;
            s = sample_of_tick now totals control sp;
            sp' = (case totals of Some (sent, recv) \<Rightarrow> sp\<lparr>sp_last_sent := sent, sp_last_recv := recv, sp_ok := True\<rparr> | None \<Rightarrow> sp)
        in (sp'\<lparr>sp_last_at := now\<rparr>, c', if insertOK then InsertSample s st else st))"

section \<open>The upload\<close>

definition networkBatchSize :: nat where "networkBatchSize = 500"

text \<open>What happens in one turn of the loop: whether the rows can be read, what the sampler adds
  while the batch is being written, whether the batch is written and whether the rows are deleted.\<close>

record turn =
  tn_read_ok :: bool
  tn_write_ok :: bool
  tn_meanwhile :: "sample list"
  tn_delete_ok :: bool

datatype upload_end = Drained | ReadFailed | WriteFailed | DeleteFailed

text \<open>The loop of \<open>uploadNetworkMetrics\<close>. It returns how it ended, the batches written to the
  control channel and the buffer.\<close>

partial_function (option) uploadNetworkMetrics ::
  "(nat \<Rightarrow> turn) \<Rightarrow> nat \<Rightarrow> sample list list \<Rightarrow> sample_store \<Rightarrow> (upload_end \<times> sample list list \<times> sample_store) option" where
  "uploadNetworkMetrics io n sent st =
     (let pending = Pending networkBatchSize st in
      if \<not> tn_read_ok (io n) then Some (ReadFailed, sent, st)
      else if pending = [] then Some (Drained, sent, st)
      else let st1 = fold InsertSample (tn_meanwhile (io n)) st in
           if \<not> tn_write_ok (io n) then Some (WriteFailed, sent, st1)
           else let sent1 = sent @ [map snd pending] in
                if \<not> tn_delete_ok (io n) then Some (DeleteFailed, sent1, st1)
                else let st2 = DeleteUpTo (fst (last pending)) st1 in
                     if length pending < networkBatchSize then Some (Drained, sent1, st2)
                     else uploadNetworkMetrics io (n + 1) sent1 st2)"

section \<open>The buffer keeps its samples in order\<close>

definition samples :: "sample_store \<Rightarrow> sample list" where
  "samples st = map scan_sample (ss_rows st)"

definition store_ok :: "sample_store \<Rightarrow> bool" where
  "store_ok st \<longleftrightarrow> sorted_wrt (<) (map row_id (ss_rows st)) \<and> (\<forall>r \<in> set (ss_rows st). row_id r < ss_next st)"

lemma samples_Insert [simp]: "samples (InsertSample s st) = samples st @ [s]"
  by (simp add: samples_def InsertSample_def scan_sample_def)

lemma store_ok_Insert: "store_ok st \<Longrightarrow> store_ok (InsertSample s st)"
  by (auto simp: store_ok_def InsertSample_def sorted_wrt_append)

lemma store_ok_Delete: "store_ok st \<Longrightarrow> store_ok (DeleteUpTo i st)"
  by (auto simp: store_ok_def DeleteUpTo_def sorted_wrt_map intro: sorted_wrt_filter)

definition new_row :: "sample_store \<Rightarrow> sample \<Rightarrow> sample_row" where
  "new_row st s = last (ss_rows (InsertSample s st))"

lemma InsertSample_row: "ss_rows (InsertSample s st) = ss_rows st @ [new_row st s]" "scan_sample (new_row st s) = s"
  by (simp_all add: new_row_def InsertSample_def scan_sample_def)

lemma fold_Insert:
  "store_ok st \<Longrightarrow> \<exists>new. ss_rows (fold InsertSample ss st) = ss_rows st @ new \<and> map scan_sample new = ss \<and> store_ok (fold InsertSample ss st)"
proof (induction ss arbitrary: st)
  case Nil
  then show ?case by simp
next
  case (Cons s ss)
  from Cons.IH [OF store_ok_Insert [OF Cons.prems, of s]] obtain new where
    new: "ss_rows (fold InsertSample ss (InsertSample s st)) = ss_rows (InsertSample s st) @ new" "map scan_sample new = ss"
      "store_ok (fold InsertSample ss (InsertSample s st))" by (elim exE conjE)
  show ?case
    by (rule exI [of _ "new_row st s # new"]) (simp add: new InsertSample_row)
qed

lemma Pending_rows:
  assumes "store_ok st"
  shows "Pending k st = map (\<lambda>r. (row_id r, scan_sample r)) (take k (ss_rows st))"
proof -
  have "sorted (map row_id (ss_rows st))" using assms by (auto simp: store_ok_def intro: strict_sorted_imp_sorted)
  then show ?thesis by (simp add: Pending_def sort_key_id_if_sorted)
qed

text \<open>Deleting up to the last key of a batch removes exactly the batch, whatever was added since.\<close>

lemma Delete_batch:
  assumes ok: "store_ok st" and "ss_rows st \<noteq> []" "0 < k"
    and st2: "st2 = DeleteUpTo (fst (last (Pending k st))) (fold InsertSample ss st)"
  shows "samples st2 = drop k (samples st) @ ss" "store_ok st2" "length (ss_rows st2) = length (ss_rows st) - k + length ss"
proof -
  obtain new where new: "ss_rows (fold InsertSample ss st) = ss_rows st @ new" "map scan_sample new = ss" "store_ok (fold InsertSample ss st)"
    using fold_Insert [OF ok] by blast
  let ?t = "take k (ss_rows st)" and ?d = "drop k (ss_rows st) @ new"
  have t: "?t \<noteq> []" using assms(2,3) by simp
  have last: "fst (last (Pending k st)) = row_id (last ?t)" using t by (simp add: Pending_rows [OF ok] last_map)
  have "?t @ ?d = ss_rows st @ new" by (metis append.assoc append_take_drop_id)
  then have srt: "sorted_wrt (<) (map row_id (?t @ ?d))" using new by (simp only: store_ok_def)
  then have d: "\<forall>r \<in> set ?d. row_id (last ?t) < row_id r"
    using t by (auto simp: sorted_wrt_append simp del: append_take_drop_id)
  have "\<forall>r \<in> set ?t. row_id r \<le> row_id (last ?t)"
  proof -
    have "sorted (map row_id ?t)" using srt by (auto simp: sorted_wrt_append intro: strict_sorted_imp_sorted)
    moreover have "?t = butlast ?t @ [last ?t]" using t by simp
    ultimately have "sorted (map row_id (butlast ?t @ [last ?t]))" by simp
    then have "\<forall>r \<in> set (butlast ?t). row_id r \<le> row_id (last ?t)" by (auto simp: sorted_append)
    with \<open>?t = butlast ?t @ [last ?t]\<close> show ?thesis by (metis Un_iff set_append order_refl set_ConsD empty_iff list.set(1))
  qed
  then have "filter (\<lambda>r. \<not> row_id r \<le> row_id (last ?t)) ?t = []" by (simp add: filter_empty_conv)
  moreover have "filter (\<lambda>r. \<not> row_id r \<le> row_id (last ?t)) ?d = ?d" by (rule filter_True) (use d in fastforce)
  moreover have "ss_rows st @ new = ?t @ ?d" by (metis append.assoc append_take_drop_id)
  ultimately have "filter (\<lambda>r. \<not> row_id r \<le> row_id (last ?t)) (ss_rows st @ new) = ?d" by (metis append_Nil filter_append)
  then have rows: "ss_rows st2 = ?d" by (simp add: st2 DeleteUpTo_def last new(1))
  show "samples st2 = drop k (samples st) @ ss" by (simp add: samples_def rows new(2) drop_map)
  show "store_ok st2" unfolding st2 by (rule store_ok_Delete [OF new(3)])
  show "length (ss_rows st2) = length (ss_rows st) - k + length ss" using new(2) by (auto simp: rows)
qed

lemma Pending_batch:
  assumes "store_ok st"
  shows "map snd (Pending k st) = take k (samples st)" "Pending k st = [] \<longleftrightarrow> k = 0 \<or> ss_rows st = []"
    "length (Pending k st) = min k (length (ss_rows st))"
  by (simp add: Pending_rows [OF assms] samples_def take_map comp_def)
     (simp_all add: Pending_rows [OF assms] min.commute)

section \<open>Properties\<close>

text \<open>C23: the upload loop always returns, as long as the sampler adds fewer samples during one turn
  than a batch holds: whatever reads, writes and deletes do, some result is reached.\<close>

theorem upload_returns:
  assumes "store_ok st" "\<And>k. length (tn_meanwhile (io k)) < networkBatchSize"
  shows "\<exists>r. uploadNetworkMetrics io n sent st = Some r"
  using assms(1)
proof (induction "length (ss_rows st)" arbitrary: n sent st rule: less_induct)
  case less
  let ?p = "Pending networkBatchSize st"
  let ?st2 = "DeleteUpTo (fst (last ?p)) (fold InsertSample (tn_meanwhile (io n)) st)"
  note batch = Pending_batch(2,3) [OF less.prems, of networkBatchSize]
  have pos: "0 < networkBatchSize" by (simp add: networkBatchSize_def)
  show ?case
  proof (cases "networkBatchSize \<le> length (ss_rows st)")
    case True
    then have ne: "ss_rows st \<noteq> []" using pos by auto
    note del = Delete_batch [OF less.prems ne pos refl, of "tn_meanwhile (io n)"]
    have "length (ss_rows ?st2) < length (ss_rows st)" using del(3) assms(2) [of n] True by linarith
    from less.hyps [OF this del(2)] obtain r where r: "\<And>n sent. \<exists>r. uploadNetworkMetrics io n sent ?st2 = Some r" by blast
    show ?thesis
      by (subst uploadNetworkMetrics.simps) (use r in \<open>auto simp: Let_def\<close>)
  next
    case False
    then have "length ?p < networkBatchSize" using batch(2) by simp
    then show ?thesis by (subst uploadNetworkMetrics.simps) (simp add: Let_def)
  qed
qed

text \<open>What a run of the loop does to the samples, from any point of it on.\<close>

definition upload_effect :: "(nat \<Rightarrow> turn) \<Rightarrow> nat \<Rightarrow> sample list list \<Rightarrow> sample_store \<Rightarrow> upload_end \<times> sample list list \<times> sample_store \<Rightarrow> bool" where
  "upload_effect io n sent st r \<longleftrightarrow> (\<exists>m batches.
     samples st @ concat (map (\<lambda>k. tn_meanwhile (io k)) [n..<m]) = concat batches @ samples (snd (snd r)) \<and> n \<le> m \<and>
     list_all (\<lambda>b. b \<noteq> [] \<and> length b \<le> networkBatchSize) batches \<and>
     (if fst r = DeleteFailed then \<exists>b. b \<noteq> [] \<and> length b \<le> networkBatchSize \<and> fst (snd r) = sent @ batches @ [b] \<and> take (length b) (samples (snd (snd r))) = b
      else fst (snd r) = sent @ batches))"

lemma samples_fold [simp]: "samples (fold InsertSample ss st) = samples st @ ss"
  by (induction ss arbitrary: st) simp_all

lemma upload_effect_end:
  assumes "fst (snd r) = sent" "fst r \<noteq> DeleteFailed" "samples (snd (snd r)) = samples st @ ss" "ss = [] \<or> ss = tn_meanwhile (io n)"
  shows "upload_effect io n sent st r"
proof -
  have "samples st @ concat (map (\<lambda>k. tn_meanwhile (io k)) [n..<(if ss = [] then n else Suc n)]) = concat [] @ samples (snd (snd r))"
    using assms(3,4) by auto
  with assms(1,2) show ?thesis unfolding upload_effect_def
    by (intro exI [of _ "if ss = [] then n else Suc n"] exI [of _ "[]"]) simp
qed

lemma upload_effect_delete_failed:
  assumes "store_ok st" "ss_rows st \<noteq> []"
  shows "upload_effect io n sent st (DeleteFailed, sent @ [take networkBatchSize (samples st)], fold InsertSample (tn_meanwhile (io n)) st)"
proof -
  have "samples st \<noteq> []" "0 < networkBatchSize" using assms(2) by (simp_all add: samples_def networkBatchSize_def)
  then show ?thesis unfolding upload_effect_def
    by (intro exI [of _ "Suc n"] exI [of _ "[]"]) (simp add: min_def)
qed

lemma upload_effect_turn:
  assumes "store_ok st" "ss_rows st \<noteq> []" "samples st2 = drop networkBatchSize (samples st) @ tn_meanwhile (io n)"
    "upload_effect io (n + 1) (sent @ [take networkBatchSize (samples st)]) st2 r"
  shows "upload_effect io n sent st r"
proof -
  let ?b = "take networkBatchSize (samples st)"
  from assms(4) obtain m batches where b: "samples st2 @ concat (map (\<lambda>k. tn_meanwhile (io k)) [n + 1..<m]) = concat batches @ samples (snd (snd r))"
    "n + 1 \<le> m" "list_all (\<lambda>b. b \<noteq> [] \<and> length b \<le> networkBatchSize) batches"
    "if fst r = DeleteFailed then \<exists>b. b \<noteq> [] \<and> length b \<le> networkBatchSize \<and> fst (snd r) = (sent @ [?b]) @ batches @ [b] \<and>
         take (length b) (samples (snd (snd r))) = b
       else fst (snd r) = (sent @ [?b]) @ batches"
    unfolding upload_effect_def by blast
  have "[n..<m] = n # [n + 1..<m]" using b(2) by (simp add: upt_conv_Cons)
  then have "samples st @ concat (map (\<lambda>k. tn_meanwhile (io k)) [n..<m]) =
      ?b @ (drop networkBatchSize (samples st) @ tn_meanwhile (io n)) @ concat (map (\<lambda>k. tn_meanwhile (io k)) [n + 1..<m])" by simp
  also have "\<dots> = concat (?b # batches) @ samples (snd (snd r))" using b(1) assms(3) by simp
  finally have "samples st @ concat (map (\<lambda>k. tn_meanwhile (io k)) [n..<m]) = concat (?b # batches) @ samples (snd (snd r))" .
  moreover have "?b \<noteq> []" "length ?b \<le> networkBatchSize" using assms(2) by (simp_all add: samples_def networkBatchSize_def)
  moreover have "n \<le> m" using b(2) by simp
  ultimately show ?thesis using b(3,4) unfolding upload_effect_def
    by (intro exI [of _ m] exI [of _ "?b # batches"]) (simp split: if_splits)
qed

lemma upload_effect_end_turn: "upload_effect io (n + 1) sent st2 (Drained, sent, st2)"
  by (rule upload_effect_end [of _ _ _ "[]"]) simp_all

lemma upload_run_aux:
  assumes "\<And>io n sent st r. f io n sent st = Some r \<Longrightarrow> store_ok st \<longrightarrow> upload_effect io n sent st r"
    and step: "(let pending = Pending networkBatchSize st in
      if \<not> tn_read_ok (io n) then Some (ReadFailed, sent, st)
      else if pending = [] then Some (Drained, sent, st)
      else let st1 = fold InsertSample (tn_meanwhile (io n)) st in
           if \<not> tn_write_ok (io n) then Some (WriteFailed, sent, st1)
           else let sent1 = sent @ [map snd pending] in
                if \<not> tn_delete_ok (io n) then Some (DeleteFailed, sent1, st1)
                else let st2 = DeleteUpTo (fst (last pending)) st1 in
                     if length pending < networkBatchSize then Some (Drained, sent1, st2) else f io (n + 1) sent1 st2) = Some r"
    and ok: "store_ok st"
  shows "upload_effect io n sent st r"
proof -
  let ?p = "Pending networkBatchSize st"
  let ?st2 = "DeleteUpTo (fst (last ?p)) (fold InsertSample (tn_meanwhile (io n)) st)"
  have pos: "0 < networkBatchSize" by (simp add: networkBatchSize_def)
  note p = Pending_batch [OF ok, of networkBatchSize]
  show ?thesis
  proof (cases "tn_read_ok (io n) \<and> ss_rows st \<noteq> []")
    case False
    then show ?thesis using step p(2) by (auto simp: Let_def intro!: upload_effect_end [of _ _ _ "[]"] split: if_splits)
  next
    case True
    then have ne: "?p \<noteq> []" using p(2) pos by simp
    note del = Delete_batch [OF ok conjunct2 [OF True] pos refl, of "tn_meanwhile (io n)"]
    consider "\<not> tn_write_ok (io n)" | "tn_write_ok (io n)" "\<not> tn_delete_ok (io n)" | "tn_write_ok (io n)" "tn_delete_ok (io n)" by blast
    then show ?thesis
    proof cases
      case 1
      with step True ne show ?thesis by (auto simp: Let_def intro!: upload_effect_end [of _ _ _ "tn_meanwhile (io n)"])
    next
      case 2
      with step True ne p(1) show ?thesis
        using upload_effect_delete_failed [OF ok conjunct2 [OF True], of io n sent] by (auto simp: Let_def)
    next
      case 3
      have "upload_effect io (n + 1) (sent @ [take networkBatchSize (samples st)]) ?st2 r"
        using step True ne 3 p(1) assms(1) [of io "n + 1" _ ?st2 r] del(2) upload_effect_end_turn [of io n]
        by (auto simp: Let_def split: if_splits)
      from upload_effect_turn [OF ok conjunct2 [OF True] del(1) this] show ?thesis .
    qed
  qed
qed

lemma upload_run:
  assumes "uploadNetworkMetrics io n sent st = Some r" "store_ok st"
  shows "upload_effect io n sent st r"
  using uploadNetworkMetrics.raw_induct [of "\<lambda>io n sent st r. store_ok st \<longrightarrow> upload_effect io n sent st r", OF _ assms(1)] upload_run_aux assms(2) by blast


section \<open>What the sampler accounts for\<close>

datatype sampler_event = Sent int | Received int | Tick time "(64 word \<times> 64 word) option" bool

fun sampler_step :: "sampler_event \<Rightarrow> sampler \<times> control_counter \<times> sample_store \<Rightarrow> sampler \<times> control_counter \<times> sample_store" where
  "sampler_step (Sent n) (sp, c, st) = (sp, AddSent n c, st)"
| "sampler_step (Received n) (sp, c, st) = (sp, AddRecv n c, st)"
| "sampler_step (Tick now totals ok) s = sampler_tick now totals ok s"

fun sent_bytes :: "sampler_event \<Rightarrow> 64 word" where
  "sent_bytes (Sent n) = (if n > 0 then word_of_int n else 0)"
| "sent_bytes _ = 0"

fun received_bytes :: "sampler_event \<Rightarrow> 64 word" where
  "received_bytes (Received n) = (if n > 0 then word_of_int n else 0)"
| "received_bytes _ = 0"

fun insert_ok :: "sampler_event \<Rightarrow> bool" where
  "insert_ok (Tick _ _ ok) = ok"
| "insert_ok _ = True"


section \<open>Examples\<close>

definition demo_sample :: "time \<Rightarrow> sample" where
  "demo_sample t = \<lparr>sm_occurred_at = t, sm_interval = 60, sm_sent_total = 2 ^ 63, sm_recv_total = 7, sm_sent_control = 1, sm_recv_control = 2\<rparr>"

definition demo_buffer :: sample_store where
  "demo_buffer = fold InsertSample [demo_sample 1, demo_sample 2] \<lparr>ss_rows = [], ss_next = 1\<rparr>"

definition demo_turn :: turn where
  "demo_turn = \<lparr>tn_read_ok = True, tn_write_ok = True, tn_meanwhile = [demo_sample 3], tn_delete_ok = True\<rparr>"

lemma demo_buffer_ok: "store_ok demo_buffer" "samples demo_buffer = [demo_sample 1, demo_sample 2]"
proof -
  have "store_ok \<lparr>ss_rows = [], ss_next = 1\<rparr>" by (simp add: store_ok_def)
  then show "store_ok demo_buffer" unfolding demo_buffer_def by (simp add: store_ok_Insert)
  show "samples demo_buffer = [demo_sample 1, demo_sample 2]" by (simp add: demo_buffer_def samples_def [of "\<lparr>ss_rows = [], ss_next = 1\<rparr>"])
qed

theorem upload_returns_witness:
  "\<exists>r. uploadNetworkMetrics (\<lambda>_. demo_turn) 0 [] demo_buffer = Some r"
  by (rule upload_returns [OF demo_buffer_ok(1)]) (simp add: demo_turn_def networkBatchSize_def)

lemma demo_upload:
  "\<exists>st'. uploadNetworkMetrics (\<lambda>_. demo_turn) 0 [] demo_buffer = Some (Drained, [[demo_sample 1, demo_sample 2]], st') \<and> samples st' = [demo_sample 3]"
proof -
  note ok = demo_buffer_ok(1) and s = demo_buffer_ok(2)
  have l: "length (ss_rows demo_buffer) = 2" using arg_cong [OF s, of length] by (simp add: samples_def)
  then have ne: "ss_rows demo_buffer \<noteq> []" by auto
  have pos: "0 < networkBatchSize" by (simp add: networkBatchSize_def)
  note p = Pending_batch [OF ok, of networkBatchSize] and del = Delete_batch(1) [OF ok ne pos refl, of "[demo_sample 3]"]
  have "map snd (Pending networkBatchSize demo_buffer) = [demo_sample 1, demo_sample 2]"
    unfolding p(1) s by (simp add: networkBatchSize_def)
  moreover have "length (Pending networkBatchSize demo_buffer) < networkBatchSize" unfolding p(3) l by (simp add: networkBatchSize_def)
  moreover have "Pending networkBatchSize demo_buffer \<noteq> []" using p(2) ne pos by simp
  moreover have "drop networkBatchSize (samples demo_buffer) = []" unfolding s by (simp add: networkBatchSize_def)
  ultimately show ?thesis
    using del by (subst uploadNetworkMetrics.simps) (simp add: Let_def demo_turn_def)
qed



end
