(* ===== verification/Agent_Session.thy ===== *)
theory Agent_Session
  imports Control_Hub Config Net_Sampler
begin

text \<open>
  The agent on one control-channel connection (\<open>internal/agentcore\<close>: \<open>session.go\<close>,
  \<open>commands.go\<close>, \<open>sessions.go\<close>, \<open>files.go\<close>) and the reconnect loop around it
  (\<open>agent.go\<close>). A step is one message from the server, one turn of a goroutine that pumps a stream
  or a download, one tick of a ticker, or the end of the connection. What the agent does to its machine
  is recorded as a list of actions; what the platform layer answers, and whether a write succeeds, are
  arguments of the step. Uploads are followed down to the file system, with the writer of
  \<open>internal/platform/linux/files_linux.go\<close>.
\<close>

section \<open>State\<close>

datatype action =
    ListServices | StartService string | StopService string | RestartService string
  | ListProcesses | TerminateProcess int int
  | ListDir string | Mkdir string | Rename string string | Delete string | ReadFile string | WriteFile string
  | QueryLogs logs_query | BeginUpdate update_params | EnsureSupportAccount
  | OpenTerminal | Dial string | Inventory | Metrics
  | WriteStream nat bytes | CloseStream nat | ResizeTerminal nat int int

datatype agent_msg =
    CommandResult string string string string "bytes option"  \<comment> \<open>request id, status, code, message, data\<close>
  | SessionOpenResult string string string string string  \<comment> \<open>request id, session id, status, code, message\<close>
  | InventoryResponse string bytes
  | MetricsReport bytes
  | HeartbeatMsg int int
  | SupportCredentialReport string string
  | SessionCloseMsg string string
  | StreamFrame bytes

text \<open>A stream of the session manager with the number of its handle; the writer of an upload.\<close>

datatype local_stream = Terminal nat | Loopback string nat

record upload =
  ul_tmp :: string
  ul_final :: string

record agent_state =
  a_policy :: agent_policy
  a_data_dir :: string
  a_streams :: "(uuid \<times> local_stream) list"
  a_pumps :: "(nat \<times> uuid \<times> byte) list"
  a_uploads :: "(uuid \<times> upload) list"
  a_downloads :: "(nat \<times> uuid) list"
  a_sent :: "agent_msg list"
  a_actions :: "action list"
  a_net :: control_counter
  a_fs :: fs
  a_next :: nat
  a_seq :: int
  a_exiting :: bool

text \<open>The JSON decoders of the payloads the agent reads, the length of an encoded message, the text of
  an error and the key the build embeds.\<close>

record agent_env = hub_env +
  ag_command :: "bytes \<Rightarrow> (string \<times> bytes) option"
  ag_service :: "bytes \<Rightarrow> string option"
  ag_process :: "bytes \<Rightarrow> (int \<times> int) option"
  ag_path :: "bytes \<Rightarrow> string option"
  ag_rename :: "bytes \<Rightarrow> (string \<times> string) option"
  ag_logs :: "bytes \<Rightarrow> logs_query option"
  ag_transfer :: "bytes \<Rightarrow> (string \<times> string) option"
  ag_update :: "bytes \<Rightarrow> update_params option"
  ag_open :: "bytes \<Rightarrow> (string \<times> string) option"
  ag_resize :: "bytes \<Rightarrow> (string \<times> int \<times> int) option"
  ag_close :: "bytes \<Rightarrow> string option"
  ag_length :: "agent_msg \<Rightarrow> nat"
  ag_update_error :: "update_error \<Rightarrow> string"
  ag_release_key :: string

text \<open>What the outside does in a step.\<close>

record agent_io =
  io_send :: "agent_msg \<Rightarrow> bool"
  io_provider :: "action \<Rightarrow> string + bytes"
  io_support :: "string + string \<times> string"
  io_uptime :: int
  io_update :: update_io
  io_create :: "string option"
  io_written :: nat
  io_close :: "string \<Rightarrow> bool"
  io_rename :: "string \<Rightarrow> bool"
  io_marker :: io_write

section \<open>Sending\<close>

text \<open>\<open>write\<close>: only what was written counts as sent.\<close>

definition send :: "agent_env \<Rightarrow> agent_io \<Rightarrow> agent_msg \<Rightarrow> agent_state \<Rightarrow> bool \<times> agent_state" where
  "send env io m st =
     (if io_send io m
      then (True, st\<lparr>a_sent := a_sent st @ [m], a_net := AddSent (int (ag_length env m)) (a_net st)\<rparr>)
      else (False, st))"

definition perform :: "action \<Rightarrow> agent_state \<Rightarrow> agent_state" where
  "perform a st = st\<lparr>a_actions := a_actions st @ [a]\<rparr>"

definition replyCommand :: "agent_env \<Rightarrow> agent_io \<Rightarrow> string \<Rightarrow> string \<Rightarrow> string \<Rightarrow> string \<Rightarrow> bytes option \<Rightarrow> agent_state \<Rightarrow> agent_state" where
  "replyCommand env io requestID status code message data st =
     snd (send env io (CommandResult requestID status code message data) st)"

definition deny :: "agent_env \<Rightarrow> agent_io \<Rightarrow> string \<Rightarrow> string \<Rightarrow> agent_state \<Rightarrow> agent_state" where
  "deny env io requestID message = replyCommand env io requestID ''error'' ''permission_denied'' message None"

definition replyResult :: "agent_env \<Rightarrow> agent_io \<Rightarrow> string \<Rightarrow> string option \<Rightarrow> bytes option \<Rightarrow> agent_state \<Rightarrow> agent_state" where
  "replyResult env io requestID err data =
     (case err of
        Some e \<Rightarrow> replyCommand env io requestID ''error'' ''internal_error'' e None
      | None \<Rightarrow> replyCommand env io requestID ''success'' ''ok'' [] data)"

definition decodeParams :: "(bytes \<Rightarrow> 'p option) \<Rightarrow> bytes \<Rightarrow> codec_error + 'p" where
  "decodeParams dec raw = DecodePayload dec
     \<lparr>env_protocol = 0, env_type = [], env_message_id = [], env_request_id = None, env_timestamp = 0, env_payload = raw\<rparr>"

section \<open>Files\<close>

text \<open>\<open>filepath.Clean\<close> of an absolute path: empty and \<open>.\<close> segments go, \<open>..\<close> takes
  the one before it away.\<close>

definition clean_segment :: "string \<Rightarrow> string list \<Rightarrow> string list" where
  "clean_segment s acc = (if s = [] \<or> s = ''.'' then acc else if s = ''..'' then butlast acc else acc @ [s])"

definition Clean :: "string \<Rightarrow> string" where
  "Clean p = CHR ''/'' # join_with (CHR ''/'') (fold clean_segment (split_on (CHR ''/'') p) [])"

definition cleanPath :: "string \<Rightarrow> string option" where
  "cleanPath p = (if p = [] \<or> hd p \<noteq> CHR ''/'' then None else Some (Clean p))"

text \<open>\<open>WriteFile\<close> of the provider: a temporary file beside the target.\<close>

definition open_upload :: "string option \<Rightarrow> string \<Rightarrow> fs \<Rightarrow> (string + upload) \<times> fs" where
  "open_upload createError path fs =
     (case cleanPath path of
        None \<Rightarrow> (Inl ''linux: path must be absolute'', fs)
      | Some p \<Rightarrow>
          let tmp = p @ ''.wr-upload.tmp'' in
          (case createError of
             Some e \<Rightarrow> (Inl (''linux: create temp file: '' @ e), fs)
           | None \<Rightarrow> (Inr \<lparr>ul_tmp = tmp, ul_final = p\<rparr>, fs(tmp := Some []))))"

text \<open>A write may stop short, with an error.\<close>

definition write_upload :: "nat \<Rightarrow> upload \<Rightarrow> bytes \<Rightarrow> fs \<Rightarrow> bool \<times> fs" where
  "write_upload n w p fs =
     (length p \<le> n, fs(ul_tmp w := Some ((case fs (ul_tmp w) of None \<Rightarrow> [] | Some b \<Rightarrow> b) @ take n p)))"

definition close_upload :: "agent_io \<Rightarrow> upload \<Rightarrow> fs \<Rightarrow> string option \<times> fs" where
  "close_upload io w fs =
     (if \<not> io_close io (ul_tmp w) then (Some ''linux: close temp file'', fs(ul_tmp w := None))
      else case os_rename (io_rename io (ul_tmp w)) (ul_tmp w) (ul_final w) fs of
             (True, fs1) \<Rightarrow> (None, fs1)
           | (False, fs1) \<Rightarrow> (Some ''linux: finalize upload'', fs1(ul_tmp w := None)))"

definition on_fs :: "('r \<times> fs) \<Rightarrow> agent_state \<Rightarrow> agent_state" where
  "on_fs rf st = st\<lparr>a_fs := snd rf\<rparr>"

definition put :: "'k \<Rightarrow> 'v \<Rightarrow> ('k \<times> 'v) list \<Rightarrow> ('k \<times> 'v) list" where
  "put k v m = (k, v) # filter (\<lambda>e. fst e \<noteq> k) m"

definition del :: "'k \<Rightarrow> ('k \<times> 'v) list \<Rightarrow> ('k \<times> 'v) list" where
  "del k m = filter (\<lambda>e. fst e \<noteq> k) m"

definition handleFileBinaryFrame :: "agent_env \<Rightarrow> agent_io \<Rightarrow> uuid \<Rightarrow> bytes \<Rightarrow> agent_state \<Rightarrow> agent_state" where
  "handleFileBinaryFrame env io streamID payload st =
     (case map_of (a_uploads st) streamID of
        None \<Rightarrow> st
      | Some w \<Rightarrow>
          if payload = []
          then let r = close_upload io w (a_fs st);
                   st1 = on_fs r (st\<lparr>a_uploads := del streamID (a_uploads st)\<rparr>)
               in (case fst r of
                     None \<Rightarrow> replyCommand env io (uuid_string env streamID) ''success'' ''ok'' [] None st1
                   | Some e \<Rightarrow> replyCommand env io (uuid_string env streamID) ''error'' ''internal_error'' e None st1)
          else (case write_upload (io_written io) w payload (a_fs st) of
                  (True, fs) \<Rightarrow> st\<lparr>a_fs := fs\<rparr>
                | (False, fs) \<Rightarrow> on_fs (close_upload io w fs) (st\<lparr>a_uploads := del streamID (a_uploads st)\<rparr>)))"

text \<open>One turn of \<open>pumpFileDownload\<close>: what was read, and whether the reader is at its end.\<close>

definition pumpFileDownload :: "agent_env \<Rightarrow> agent_io \<Rightarrow> nat \<Rightarrow> bytes \<Rightarrow> bool \<Rightarrow> agent_state \<Rightarrow> agent_state" where
  "pumpFileDownload env io h chunk ended st =
     (case map_of (a_downloads st) h of
        None \<Rightarrow> st
      | Some streamID \<Rightarrow>
          let frame = (\<lambda>b. StreamFrame (EncodeStreamFrame StreamKindFile streamID b));
              buf = take 65536 chunk;
              (ok, st1) = (if buf \<noteq> [] then send env io (frame buf) st else (True, st));
              done = st1\<lparr>a_downloads := del h (a_downloads st1)\<rparr>
          in if \<not> ok then done
             else if ended then snd (send env io (frame []) done)
             else st1)"

section \<open>Commands\<close>

text \<open>The pieces the cases of \<open>handleDeviceCommand\<close> are made of: the check of the local policy,
  the decoding of the parameters, a call of the platform layer whose outcome is the reply.\<close>

definition guarded :: "agent_env \<Rightarrow> agent_io \<Rightarrow> string \<Rightarrow> bool \<Rightarrow> string \<Rightarrow> (agent_state \<Rightarrow> agent_state) \<Rightarrow> agent_state \<Rightarrow> agent_state" where
  "guarded env io rid allowed denial k st = (if \<not> allowed then deny env io rid denial st else k st)"

definition with_params :: "agent_env \<Rightarrow> agent_io \<Rightarrow> string \<Rightarrow> (bytes \<Rightarrow> 'p option) \<Rightarrow> bytes \<Rightarrow> ('p \<Rightarrow> agent_state \<Rightarrow> agent_state) \<Rightarrow> agent_state \<Rightarrow> agent_state" where
  "with_params env io rid dec raw k st =
     (case decodeParams dec raw of
        Inl _ \<Rightarrow> replyCommand env io rid ''error'' ''invalid_request'' ''malformed params'' None st
      | Inr p \<Rightarrow> k p st)"

definition call_provider :: "agent_env \<Rightarrow> agent_io \<Rightarrow> string \<Rightarrow> bool \<Rightarrow> action \<Rightarrow> agent_state \<Rightarrow> agent_state" where
  "call_provider env io rid withData a st =
     (case io_provider io a of
        Inl e \<Rightarrow> replyResult env io rid (Some e) None (perform a st)
      | Inr b \<Rightarrow> replyResult env io rid None (if withData then Some b else None) (perform a st))"

definition with_stream :: "agent_env \<Rightarrow> agent_io \<Rightarrow> string \<Rightarrow> string \<Rightarrow> (uuid \<Rightarrow> agent_state \<Rightarrow> agent_state) \<Rightarrow> agent_state \<Rightarrow> agent_state" where
  "with_stream env io rid s k st =
     (case uuid_parse env s of
        None \<Rightarrow> replyCommand env io rid ''error'' ''invalid_request'' ''invalid stream_id'' None st
      | Some i \<Rightarrow> k i st)"

definition cmd_download :: "agent_env \<Rightarrow> agent_io \<Rightarrow> string \<Rightarrow> string \<Rightarrow> uuid \<Rightarrow> agent_state \<Rightarrow> agent_state" where
  "cmd_download env io rid path streamID st =
     (case io_provider io (ReadFile path) of
        Inl e \<Rightarrow> replyResult env io rid (Some e) None (perform (ReadFile path) st)
      | Inr meta \<Rightarrow>
          let st1 = replyResult env io rid None (Some meta) (perform (ReadFile path) st)
          in st1\<lparr>a_downloads := (a_next st1, streamID) # a_downloads st1, a_next := Suc (a_next st1)\<rparr>)"

definition cmd_upload :: "agent_env \<Rightarrow> agent_io \<Rightarrow> string \<Rightarrow> string \<Rightarrow> uuid \<Rightarrow> agent_state \<Rightarrow> agent_state" where
  "cmd_upload env io rid path streamID st =
     (let r = open_upload (io_create io) path (a_fs st); st1 = on_fs r (perform (WriteFile path) st)
      in case fst r of
           Inl e \<Rightarrow> replyResult env io rid (Some e) None st1
         | Inr w \<Rightarrow> replyResult env io rid None None (st1\<lparr>a_uploads := put streamID w (a_uploads st1)\<rparr>))"

definition cmd_update :: "agent_env \<Rightarrow> agent_io \<Rightarrow> string \<Rightarrow> update_params \<Rightarrow> agent_state \<Rightarrow> agent_state" where
  "cmd_update env io rid p st =
     (let r = beginUpdate (update_env.truncate env) (ag_release_key env) (a_data_dir st) (io_update io) p (a_fs st);
          st1 = on_fs r (perform (BeginUpdate p) st)
      in case fst r of
           Inl e \<Rightarrow> replyCommand env io rid ''error'' ''internal_error'' (ag_update_error env e) None st1
         | Inr _ \<Rightarrow> (replyCommand env io rid ''success'' ''ok'' ''update staged, restarting'' None st1)\<lparr>a_exiting := True\<rparr>)"

definition cmd_rotate :: "agent_env \<Rightarrow> agent_io \<Rightarrow> string \<Rightarrow> agent_state \<Rightarrow> agent_state" where
  "cmd_rotate env io rid st0 =
     (let st = perform EnsureSupportAccount st0 in
      case io_support io of
        Inl e \<Rightarrow> replyCommand env io rid ''error'' ''internal_error'' e None st
      | Inr (username, password) \<Rightarrow>
          (case send env io (SupportCredentialReport username password) st of
             (False, st1) \<Rightarrow> replyCommand env io rid ''error'' ''internal_error'' ''rotated locally but failed to report to server'' None st1
           | (True, st1) \<Rightarrow> replyCommand env io rid ''success'' ''ok'' ''support credential rotated'' None st1))"

definition service_action :: "string \<Rightarrow> string \<Rightarrow> action" where
  "service_action ct name = (if ct = ''services.start'' then StartService name
     else if ct = ''services.stop'' then StopService name else RestartService name)"

definition run_command :: "agent_env \<Rightarrow> agent_io \<Rightarrow> string \<Rightarrow> string \<Rightarrow> bytes \<Rightarrow> agent_state \<Rightarrow> agent_state" where
  "run_command env io rid ct raw st =
     (let pol = a_policy st;
          call = call_provider env io rid;
          write_denied = ''file write disabled by local agent policy'';
          files = guarded env io rid (ap_FilesRead pol) ''file access disabled by local agent policy'';
          writes = guarded env io rid (ap_FilesWrite pol) write_denied;
          services = guarded env io rid (ap_ServiceControl pol) ''service control disabled by local agent policy''
      in if ct = ''services.list'' then services (call True ListServices) st
         else if ct = ''services.start'' \<or> ct = ''services.stop'' \<or> ct = ''services.restart''
         then services (with_params env io rid (ag_service env) raw (\<lambda>name. call False (service_action ct name))) st
         else if ct = ''processes.list'' then call True ListProcesses st
         else if ct = ''processes.terminate''
         then guarded env io rid (ap_ProcessTerminate pol) ''process termination disabled by local agent policy''
                (with_params env io rid (ag_process env) raw (\<lambda>(pid, start). call False (TerminateProcess pid start))) st
         else if ct = ''files.list'' then files (with_params env io rid (ag_path env) raw (\<lambda>p. call True (ListDir p))) st
         else if ct = ''files.mkdir'' then writes (with_params env io rid (ag_path env) raw (\<lambda>p. call False (Mkdir p))) st
         else if ct = ''files.rename'' then writes (with_params env io rid (ag_rename env) raw (\<lambda>(a, b). call False (Rename a b))) st
         else if ct = ''files.delete'' then writes (with_params env io rid (ag_path env) raw (\<lambda>p. call False (Delete p))) st
         else if ct = ''logs.query''
         then guarded env io rid (ap_FilesRead pol) ''log access disabled by local agent policy''
                (with_params env io rid (ag_logs env) raw (\<lambda>q. call True (QueryLogs q))) st
         else if ct = ''files.download''
         then files (with_params env io rid (ag_transfer env) raw (\<lambda>(p, s). with_stream env io rid s (cmd_download env io rid p))) st
         else if ct = ''agent.update''
         then guarded env io rid (ap_SelfUpdate pol) ''self-update disabled by local agent policy''
                (with_params env io rid (ag_update env) raw (cmd_update env io rid)) st
         else if ct = ''support_credential.rotate''
         then guarded env io rid (ap_SSHTunnel pol \<or> ap_RDPTunnel pol) ''SSH/RDP tunnel disabled by local agent policy'' (cmd_rotate env io rid) st
         else if ct = ''files.upload''
         then writes (with_params env io rid (ag_transfer env) raw (\<lambda>(p, s). with_stream env io rid s (cmd_upload env io rid p))) st
         else replyCommand env io rid ''error'' ''unsupported_capability'' ''unknown command_type'' None st)"

definition handleDeviceCommand :: "agent_env \<Rightarrow> agent_io \<Rightarrow> envelope \<Rightarrow> agent_state \<Rightarrow> agent_state" where
  "handleDeviceCommand env io ev st =
     (case DecodePayload (ag_command env) ev of
        Inl _ \<Rightarrow> replyCommand env io (env_message_id ev) ''error'' ''invalid_request'' ''malformed device_command'' None st
      | Inr (ct, raw) \<Rightarrow> run_command env io (env_message_id ev) ct raw st)"

section \<open>Remote sessions\<close>

definition replySessionOpenResult :: "agent_env \<Rightarrow> agent_io \<Rightarrow> string \<Rightarrow> string \<Rightarrow> string \<Rightarrow> string \<Rightarrow> string \<Rightarrow> agent_state \<Rightarrow> agent_state" where
  "replySessionOpenResult env io requestID sessionID status code message st =
     snd (send env io (SessionOpenResult requestID sessionID status code message) st)"

text \<open>The stream is registered and its pump started.\<close>

definition add_stream :: "uuid \<Rightarrow> (nat \<Rightarrow> local_stream) \<Rightarrow> byte \<Rightarrow> agent_state \<Rightarrow> agent_state" where
  "add_stream i mk kind st = st
     \<lparr>a_streams := put i (mk (a_next st)) (a_streams st), a_pumps := (a_next st, i, kind) # a_pumps st, a_next := Suc (a_next st)\<rparr>"

definition openTerminalSession :: "agent_env \<Rightarrow> agent_io \<Rightarrow> string \<Rightarrow> uuid \<Rightarrow> agent_state \<Rightarrow> agent_state" where
  "openTerminalSession env io rid i st =
     (let reply = replySessionOpenResult env io rid (uuid_string env i) in
      if \<not> ap_Terminal (a_policy st) then reply ''error'' ''permission_denied'' ''terminal disabled by local agent policy'' st
      else case io_provider io OpenTerminal of
             Inl _ \<Rightarrow> reply ''error'' ''internal_error'' ''failed to open terminal'' (perform OpenTerminal st)
           | Inr _ \<Rightarrow> reply ''success'' ''ok'' [] (add_stream i Terminal StreamKindTerminal (perform OpenTerminal st)))"

definition openTunnelSession :: "agent_env \<Rightarrow> agent_io \<Rightarrow> string \<Rightarrow> uuid \<Rightarrow> string \<Rightarrow> bool \<Rightarrow> agent_state \<Rightarrow> agent_state" where
  "openTunnelSession env io rid i target allowed st =
     (let reply = replySessionOpenResult env io rid (uuid_string env i) in
      if \<not> allowed then reply ''error'' ''permission_denied'' ''tunnel disabled by local agent policy'' st
      else case io_provider io (Dial target) of
             Inl _ \<Rightarrow> reply ''error'' ''internal_error'' ''failed to reach local target'' (perform (Dial target) st)
           | Inr _ \<Rightarrow> reply ''success'' ''ok'' [] (add_stream i (Loopback target) StreamKindTunnel (perform (Dial target) st)))"

definition handleSessionOpen :: "agent_env \<Rightarrow> agent_io \<Rightarrow> envelope \<Rightarrow> agent_state \<Rightarrow> agent_state" where
  "handleSessionOpen env io ev st =
     (let rid = env_message_id ev in
      case DecodePayload (ag_open env) ev of
        Inl _ \<Rightarrow> replySessionOpenResult env io rid [] ''error'' ''invalid_request'' ''malformed session_open'' st
      | Inr (sid, kind) \<Rightarrow>
          (case uuid_parse env sid of
             None \<Rightarrow> replySessionOpenResult env io rid sid ''error'' ''invalid_request'' ''invalid session_id'' st
           | Some i \<Rightarrow>
               if kind = ''terminal'' then openTerminalSession env io rid i st
               else if kind = ''ssh_local'' then openTunnelSession env io rid i ''127.0.0.1:22'' (ap_SSHTunnel (a_policy st)) st
               else if kind = ''rdp_local'' then openTunnelSession env io rid i ''127.0.0.1:3389'' (ap_RDPTunnel (a_policy st)) st
               else replySessionOpenResult env io rid sid ''error'' ''unsupported_capability''
                      (''unsupported session kind '' @ he_quote env kind) st))"

fun handle_of :: "local_stream \<Rightarrow> nat" where
  "handle_of (Terminal h) = h"
| "handle_of (Loopback _ h) = h"

text \<open>One turn of \<open>pumpStream\<close>. At its end it closes its own stream, if one of that id is still
  registered.\<close>

definition pumpStream :: "agent_env \<Rightarrow> agent_io \<Rightarrow> nat \<Rightarrow> bytes \<Rightarrow> bool \<Rightarrow> agent_state \<Rightarrow> agent_state" where
  "pumpStream env io h chunk ended st =
     (case map_of (a_pumps st) h of
        None \<Rightarrow> st
      | Some (i, kind) \<Rightarrow>
          let buf = take 32768 chunk;
              (ok, st1) = (if buf \<noteq> [] then send env io (StreamFrame (EncodeStreamFrame kind i buf)) st else (True, st))
          in if ok \<and> \<not> ended then st1
             else let st2 = st1\<lparr>a_pumps := del h (a_pumps st1)\<rparr>;
                      st3 = (case map_of (a_streams st2) i of
                               None \<Rightarrow> st2 | Some _ \<Rightarrow> perform (CloseStream h) (st2\<lparr>a_streams := del i (a_streams st2)\<rparr>))
                  in snd (send env io (SessionCloseMsg (uuid_string env i) ''stream_ended'') st3))"

definition handleTerminalResize :: "agent_env \<Rightarrow> envelope \<Rightarrow> agent_state \<Rightarrow> agent_state" where
  "handleTerminalResize env ev st =
     (case DecodePayload (ag_resize env) ev of
        Inl _ \<Rightarrow> st
      | Inr (sid, cols, rows) \<Rightarrow>
          (case Option.bind (uuid_parse env sid) (map_of (a_streams st)) of
             Some (Terminal h) \<Rightarrow> perform (ResizeTerminal h cols rows) st
           | _ \<Rightarrow> st))"

definition agent_SessionClose :: "agent_env \<Rightarrow> envelope \<Rightarrow> agent_state \<Rightarrow> agent_state" where
  "agent_SessionClose env ev st =
     (case DecodePayload (ag_close env) ev of
        Inl _ \<Rightarrow> st
      | Inr sid \<Rightarrow>
          (case uuid_parse env sid of
             None \<Rightarrow> st
           | Some i \<Rightarrow>
               (case map_of (a_streams st) i of
                  None \<Rightarrow> st
                | Some s \<Rightarrow> perform (CloseStream (handle_of s)) (st\<lparr>a_streams := del i (a_streams st)\<rparr>))))"

definition agent_BinaryFrame :: "agent_env \<Rightarrow> agent_io \<Rightarrow> bytes \<Rightarrow> agent_state \<Rightarrow> agent_state" where
  "agent_BinaryFrame env io raw st =
     (case DecodeStreamFrame raw of
        Inl _ \<Rightarrow> st
      | Inr (kind, i, payload) \<Rightarrow>
          if kind = StreamKindTerminal \<or> kind = StreamKindTunnel
          then (case map_of (a_streams st) i of None \<Rightarrow> st | Some s \<Rightarrow> perform (WriteStream (handle_of s) payload) st)
          else if kind = StreamKindFile then handleFileBinaryFrame env io i payload st
          else st)"

section \<open>The connection\<close>

definition agent_handleMessage :: "agent_env \<Rightarrow> agent_io \<Rightarrow> envelope \<Rightarrow> agent_state \<Rightarrow> agent_state" where
  "agent_handleMessage env io ev st =
     (if env_type ev = type_name TypeInventoryRequest
      then (case io_provider io Inventory of
              Inl _ \<Rightarrow> perform Inventory st
            | Inr b \<Rightarrow> snd (send env io (InventoryResponse (env_message_id ev) b) (perform Inventory st)))
      else if env_type ev = type_name TypeSessionOpen then handleSessionOpen env io ev st
      else if env_type ev = type_name TypeTerminalResize then handleTerminalResize env ev st
      else if env_type ev = type_name TypeSessionClose \<or> env_type ev = type_name TypeTerminalClose then agent_SessionClose env ev st
      else if env_type ev = type_name TypeDeviceCommand then handleDeviceCommand env io ev st
      else st)"

definition readLoop_text :: "agent_env \<Rightarrow> agent_io \<Rightarrow> bytes \<Rightarrow> agent_state \<Rightarrow> agent_state" where
  "readLoop_text env io raw st =
     (let st1 = st\<lparr>a_net := AddRecv (int (length raw)) (a_net st)\<rparr> in
      case Decode (he_json env) raw of Inl _ \<Rightarrow> st1 | Inr ev \<Rightarrow> agent_handleMessage env io ev st1)"

definition readLoop_binary :: "agent_env \<Rightarrow> agent_io \<Rightarrow> bytes \<Rightarrow> agent_state \<Rightarrow> agent_state" where
  "readLoop_binary env io raw st = agent_BinaryFrame env io raw (st\<lparr>a_net := AddRecv (int (length raw)) (a_net st)\<rparr>)"

definition sendMetrics :: "agent_env \<Rightarrow> agent_io \<Rightarrow> agent_state \<Rightarrow> agent_state" where
  "sendMetrics env io st =
     (case io_provider io Metrics of
        Inl _ \<Rightarrow> perform Metrics st
      | Inr b \<Rightarrow> snd (send env io (MetricsReport b) (perform Metrics st)))"

text \<open>A tick of the heartbeat; \<open>uptimeSeconds\<close> is 0 when the inventory fails.\<close>

definition heartbeat :: "agent_env \<Rightarrow> agent_io \<Rightarrow> agent_state \<Rightarrow> agent_state" where
  "heartbeat env io st =
     (let seq = wrap64 (a_seq st + 1);
          up = (case io_provider io Inventory of Inl _ \<Rightarrow> 0 | Inr _ \<Rightarrow> io_uptime io)
      in snd (send env io (HeartbeatMsg up seq) (perform Inventory (st\<lparr>a_seq := seq\<rparr>))))"

definition provisioned_path :: "string \<Rightarrow> string" where
  "provisioned_path dataDir = dataDir @ ''/support_account_provisioned''"

text \<open>\<open>runSession\<close> starts this only when a tunnel is allowed.\<close>

definition ensureSupportAccountProvisioned :: "agent_env \<Rightarrow> agent_io \<Rightarrow> agent_state \<Rightarrow> agent_state" where
  "ensureSupportAccountProvisioned env io st =
     (if \<not> (ap_SSHTunnel (a_policy st) \<or> ap_RDPTunnel (a_policy st)) then st
      else if a_fs st (provisioned_path (a_data_dir st)) \<noteq> None then st
      else let st1 = perform EnsureSupportAccount st in
        case io_support io of
          Inl _ \<Rightarrow> st1
        | Inr (username, password) \<Rightarrow>
            (case send env io (SupportCredentialReport username password) st1 of
               (False, st2) \<Rightarrow> st2
             | (True, st2) \<Rightarrow> on_fs (os_write (io_marker io) (provisioned_path (a_data_dir st2)) (bytes_of ''1'') (a_fs st2)) st2))"

text \<open>The deferred calls at the end of \<open>runSession\<close>: first the uploads, then the streams.\<close>

definition closeAll_files :: "agent_io \<Rightarrow> agent_state \<Rightarrow> agent_state" where
  "closeAll_files io st = (fold (\<lambda>e s. on_fs (close_upload io (snd e) (a_fs s)) s) (a_uploads st) st)\<lparr>a_uploads := []\<rparr>"

definition closeAll_streams :: "agent_state \<Rightarrow> agent_state" where
  "closeAll_streams st = (fold (\<lambda>e s. perform (CloseStream (handle_of (snd e))) s) (a_streams st) st)\<lparr>a_streams := []\<rparr>"

definition end_session :: "agent_io \<Rightarrow> agent_state \<Rightarrow> agent_state" where
  "end_session io st = closeAll_streams (closeAll_files io st)"

datatype agent_input =
    InText bytes | InBinary bytes | InPump nat bytes bool | InDownload nat bytes bool
  | InHeartbeat | InStatus | InProvision | InEnd

fun agent_step :: "agent_env \<Rightarrow> agent_io \<times> agent_input \<Rightarrow> agent_state \<Rightarrow> agent_state" where
  "agent_step env (io, InText raw) st = readLoop_text env io raw st"
| "agent_step env (io, InBinary raw) st = readLoop_binary env io raw st"
| "agent_step env (io, InPump h b e) st = pumpStream env io h b e st"
| "agent_step env (io, InDownload h b e) st = pumpFileDownload env io h b e st"
| "agent_step env (io, InHeartbeat) st = heartbeat env io st"
| "agent_step env (io, InStatus) st = sendMetrics env io st"
| "agent_step env (io, InProvision) st = ensureSupportAccountProvisioned env io st"
| "agent_step env (io, InEnd) st = end_session io st"

definition new_session :: "agent_policy \<Rightarrow> string \<Rightarrow> fs \<Rightarrow> agent_state" where
  "new_session policy dataDir fs = \<lparr>a_policy = policy, a_data_dir = dataDir, a_streams = [], a_pumps = [], a_uploads = [], a_downloads = [],
     a_sent = [], a_actions = [], a_net = \<lparr>cc_sent = 0, cc_recv = 0\<rparr>, a_fs = fs, a_next = 0, a_seq = 0, a_exiting = False\<rparr>"

section \<open>The reconnect loop\<close>

definition minBackoff :: duration where "minBackoff = second"
definition maxBackoff :: duration where "maxBackoff = 300 * second"

text \<open>\<open>r\<close> is the random number in \<open>[0, 1)\<close>; the conversion to \<open>Duration\<close> cuts the fraction.\<close>

definition jitter :: "rat \<Rightarrow> duration \<Rightarrow> duration" where
  "jitter r d = max 0 \<lfloor>of_int d + (r * 2 - 1) * (of_int d * (1 / 5))\<rfloor>"

record reconnect =
  rc_backoff :: duration
  rc_committed :: nat  \<comment> \<open>how often \<open>onFirstConnect\<close> ran\<close>

text \<open>One turn of the loop: whether the session got connected, and the wait after it ended.\<close>

definition reconnect_turn :: "bool \<Rightarrow> rat \<Rightarrow> reconnect \<Rightarrow> duration \<times> reconnect" where
  "reconnect_turn up r rc =
     (let b = (if up then minBackoff else rc_backoff rc);
          wait = jitter r b;
          b' = (if up then b else if b * 2 > maxBackoff then maxBackoff else b * 2)
      in (wait, \<lparr>rc_backoff = b', rc_committed = (if up \<and> rc_committed rc = 0 then 1 else rc_committed rc)\<rparr>))"

definition start_reconnect :: reconnect where
  "start_reconnect = \<lparr>rc_backoff = minBackoff, rc_committed = 0\<rparr>"

primrec reconnect_run :: "(bool \<times> rat) list \<Rightarrow> reconnect \<Rightarrow> duration list \<times> reconnect" where
  "reconnect_run [] rc = ([], rc)"
| "reconnect_run (t # ts) rc =
     (let (w, rc1) = reconnect_turn (fst t) (snd t) rc; (ws, rc2) = reconnect_run ts rc1 in (w # ws, rc2))"

section \<open>What the local policy allows\<close>

fun allowed :: "agent_policy \<Rightarrow> action \<Rightarrow> bool" where
  "allowed pol ListServices = ap_ServiceControl pol"
| "allowed pol (StartService _) = ap_ServiceControl pol"
| "allowed pol (StopService _) = ap_ServiceControl pol"
| "allowed pol (RestartService _) = ap_ServiceControl pol"
| "allowed pol (TerminateProcess _ _) = ap_ProcessTerminate pol"
| "allowed pol (ListDir _) = ap_FilesRead pol"
| "allowed pol (ReadFile _) = ap_FilesRead pol"
| "allowed pol (QueryLogs _) = ap_FilesRead pol"
| "allowed pol (Mkdir _) = ap_FilesWrite pol"
| "allowed pol (Rename _ _) = ap_FilesWrite pol"
| "allowed pol (Delete _) = ap_FilesWrite pol"
| "allowed pol (WriteFile _) = ap_FilesWrite pol"
| "allowed pol (BeginUpdate _) = ap_SelfUpdate pol"
| "allowed pol EnsureSupportAccount = (ap_SSHTunnel pol \<or> ap_RDPTunnel pol)"
| "allowed pol OpenTerminal = ap_Terminal pol"
| "allowed pol (Dial target) = (target = ''127.0.0.1:22'' \<and> ap_SSHTunnel pol \<or> target = ''127.0.0.1:3389'' \<and> ap_RDPTunnel pol)"
| "allowed pol _ = True"

definition obeys :: "agent_policy \<Rightarrow> agent_state \<Rightarrow> bool" where
  "obeys pol st \<longleftrightarrow> a_policy st = pol \<and> list_all (allowed pol) (a_actions st)"

lemma obeys_updates [simp]:
  "obeys pol (st\<lparr>a_streams := x1\<rparr>) = obeys pol st" "obeys pol (st\<lparr>a_pumps := x2\<rparr>) = obeys pol st"
  "obeys pol (st\<lparr>a_uploads := x3\<rparr>) = obeys pol st" "obeys pol (st\<lparr>a_downloads := x4\<rparr>) = obeys pol st"
  "obeys pol (st\<lparr>a_sent := x5\<rparr>) = obeys pol st" "obeys pol (st\<lparr>a_net := x6\<rparr>) = obeys pol st"
  "obeys pol (st\<lparr>a_fs := x7\<rparr>) = obeys pol st" "obeys pol (st\<lparr>a_next := x8\<rparr>) = obeys pol st"
  "obeys pol (st\<lparr>a_seq := x9\<rparr>) = obeys pol st" "obeys pol (st\<lparr>a_exiting := x10\<rparr>) = obeys pol st"
  "obeys pol (on_fs r st) = obeys pol st" "obeys pol (add_stream i mk k st) = obeys pol st"
  by (simp_all add: obeys_def on_fs_def add_stream_def)

lemma obeys_perform [simp]: "obeys pol (perform a st) \<longleftrightarrow> allowed pol a \<and> obeys pol st"
  by (auto simp: obeys_def perform_def)

lemma obeys_send [simp]: "obeys pol (snd (send env io m st)) = obeys pol st"
  by (simp add: send_def)

lemma obeys_reply [simp]:
  "obeys pol (replyCommand env io rid s c m d st) = obeys pol st" "obeys pol (deny env io rid m st) = obeys pol st"
  "obeys pol (replyResult env io rid e d st) = obeys pol st"
  "obeys pol (replySessionOpenResult env io rid sid s c m st) = obeys pol st"
  by (simp_all add: replyCommand_def deny_def replyResult_def replySessionOpenResult_def split: option.split)

lemma obeys_pieces:
  "(g \<Longrightarrow> obeys pol (k st)) \<Longrightarrow> obeys pol st \<Longrightarrow> obeys pol (guarded env io rid g m k st)"
  "(\<And>p. obeys pol (kp p st)) \<Longrightarrow> obeys pol st \<Longrightarrow> obeys pol (with_params env io rid dec raw kp st)"
  "(\<And>i. obeys pol (ki i st)) \<Longrightarrow> obeys pol st \<Longrightarrow> obeys pol (with_stream env io rid s ki st)"
  "allowed pol a \<Longrightarrow> obeys pol st \<Longrightarrow> obeys pol (call_provider env io rid b a st)"
  "ap_FilesRead pol \<Longrightarrow> obeys pol st \<Longrightarrow> obeys pol (cmd_download env io rid p i st)"
  "ap_FilesWrite pol \<Longrightarrow> obeys pol st \<Longrightarrow> obeys pol (cmd_upload env io rid p i st)"
  "ap_SelfUpdate pol \<Longrightarrow> obeys pol st \<Longrightarrow> obeys pol (cmd_update env io rid u st)"
  "ap_SSHTunnel pol \<or> ap_RDPTunnel pol \<Longrightarrow> obeys pol st \<Longrightarrow> obeys pol (cmd_rotate env io rid st)"
  by (simp_all add: guarded_def with_params_def with_stream_def call_provider_def cmd_download_def cmd_upload_def cmd_update_def cmd_rotate_def Let_def
    split_beta bool.case_eq_if split: sum.split option.split)

lemma obeys_if: "(b \<Longrightarrow> obeys pol s) \<Longrightarrow> (\<not> b \<Longrightarrow> obeys pol t) \<Longrightarrow> obeys pol (if b then s else t)"
  by simp

lemma obeys_run_command:
  assumes "obeys pol st"
  shows "obeys pol (run_command env io rid ct raw st)"
proof -
  have "a_policy st = pol" using assms by (simp add: obeys_def)
  with assms show ?thesis
    unfolding run_command_def Let_def split_beta
    by (intro obeys_if obeys_pieces) (simp_all add: service_action_def)
qed

lemma obeys_session:
  assumes "obeys pol st"
  shows "obeys pol (handleSessionOpen env io ev st)"
proof -
  have "a_policy st = pol" using assms by (simp add: obeys_def)
  with assms show ?thesis
    by (auto simp: handleSessionOpen_def openTerminalSession_def openTunnelSession_def Let_def split: sum.split option.split)
qed

lemma obeys_messages:
  assumes "obeys pol st"
  shows "obeys pol (agent_handleMessage env io ev st)" "obeys pol (handleFileBinaryFrame env io i b st)"
  using assms obeys_run_command [of pol st] obeys_session [of pol st]
  by (simp_all add: agent_handleMessage_def handleDeviceCommand_def handleTerminalResize_def agent_SessionClose_def handleFileBinaryFrame_def Let_def
    split_beta bool.case_eq_if split: sum.split option.split local_stream.split)

lemma obeys_fold:
  "obeys pol st \<Longrightarrow> obeys pol (fold (\<lambda>e s. perform (CloseStream (g e)) s) xs st)"
  "obeys pol st \<Longrightarrow> obeys pol (fold (\<lambda>e s. on_fs (f e s) s) ys st)"
  by (induction xs arbitrary: st, simp_all) (induction ys arbitrary: st, simp_all)

interpretation policy: invariant "agent_step env" "obeys pol" for env pol
proof
  fix st and ioi :: "agent_io \<times> agent_input" assume ok: "obeys pol st"
  obtain io inp where ioi: "ioi = (io, inp)" by (cases ioi)
  show "obeys pol (agent_step env ioi st)"
  proof (cases inp)
    case (InText raw) with ok ioi obeys_messages(1) show ?thesis by (auto simp: readLoop_text_def Let_def split: sum.split)
  next
    case (InBinary raw) with ok ioi obeys_messages(2) show ?thesis
      by (auto simp: readLoop_binary_def agent_BinaryFrame_def split: sum.split option.split)
  next
    case (InPump h b e) with ok ioi show ?thesis
      by (simp add: pumpStream_def Let_def split_beta if_distrib [of snd] split: option.split)
  next
    case (InDownload h b e) with ok ioi show ?thesis
      by (simp add: pumpFileDownload_def Let_def split_beta if_distrib [of snd] split: option.split)
  next
    case InProvision
    have "a_policy st = pol" using ok by (simp add: obeys_def)
    with ok ioi InProvision show ?thesis
      by (simp add: ensureSupportAccountProvisioned_def Let_def split_beta bool.case_eq_if split: sum.split)
  next
    case InEnd with ok ioi show ?thesis by (simp add: end_session_def closeAll_streams_def closeAll_files_def obeys_fold)
  qed (use ok ioi in \<open>auto simp: heartbeat_def sendMetrics_def Let_def split: sum.split\<close>)
qed

section \<open>Uploads\<close>

lemma map_of_put [simp]: "map_of (put k v m) k' = (if k' = k then Some v else map_of m k')"
  by (induction m) (auto simp: put_def)

abbreviation file_frame :: "uuid \<Rightarrow> bytes \<Rightarrow> agent_input" where
  "file_frame i b \<equiv> InBinary (EncodeStreamFrame StreamKindFile i b)"

lemma file_frame_step:
  "readLoop_binary env io (EncodeStreamFrame StreamKindFile i b) st =
     handleFileBinaryFrame env io i b (st\<lparr>a_net := AddRecv (int (length (EncodeStreamFrame StreamKindFile i b))) (a_net st)\<rparr>)"
  by (simp add: readLoop_binary_def agent_BinaryFrame_def DecodeStreamFrame_Encode StreamKindTerminal_def StreamKindTunnel_def StreamKindFile_def)

text \<open>Frames that are written in full collect in the temporary file, and touch nothing else.\<close>

lemma upload_frames:
  assumes "map_of (a_uploads st) i = Some w" "a_fs st (ul_tmp w) = Some b0" "\<forall>b \<in> set bs. b \<noteq> [] \<and> length b \<le> io_written io"
    and "st' = run (agent_step env) (map (\<lambda>b. (io, file_frame i b)) bs) st"
  shows "a_uploads st' = a_uploads st \<and> a_fs st' = (a_fs st)(ul_tmp w := Some (b0 @ concat bs)) \<and> a_sent st' = a_sent st"
  using assms(1-3) unfolding assms(4)
proof (induction bs arbitrary: st b0)
  case Nil
  then show ?case by (simp add: fun_upd_idem)
next
  case (Cons b bs)
  let ?st1 = "agent_step env (io, file_frame i b) st"
  have s1: "a_uploads ?st1 = a_uploads st" "a_fs ?st1 = (a_fs st)(ul_tmp w := Some (b0 @ b))" "a_sent ?st1 = a_sent st"
    using Cons.prems by (simp_all add: file_frame_step handleFileBinaryFrame_def write_upload_def)
  have "map_of (a_uploads ?st1) i = Some w" "a_fs ?st1 (ul_tmp w) = Some (b0 @ b)" using s1 Cons.prems(1) by simp_all
  from Cons.IH [OF this] Cons.prems(3) show ?case unfolding s1 by (simp del: agent_step.simps add: fun_eq_iff)
qed

definition upload_of :: "string \<Rightarrow> upload" where
  "upload_of p = \<lparr>ul_tmp = p @ ''.wr-upload.tmp'', ul_final = p\<rparr>"

lemma upload_started:
  assumes "cleanPath path = Some p" "io_create io = None"
  shows "a_uploads (cmd_upload env io rid path i st) = put i (upload_of p) (a_uploads st)"
    "a_fs (cmd_upload env io rid path i st) = (a_fs st)(p @ ''.wr-upload.tmp'' := Some [])"
  using assms by (simp_all add: cmd_upload_def open_upload_def upload_of_def Let_def on_fs_def perform_def replyResult_def replyCommand_def send_def)

lemma upload_received:
  assumes "cleanPath path = Some p" "io_create io = None" "\<forall>b \<in> set bs. b \<noteq> [] \<and> length b \<le> io_written io"
    and st': "st' = run (agent_step env) (map (\<lambda>b. (io, file_frame i b)) bs) (cmd_upload env io rid path i st)"
  shows "a_uploads st' = put i (upload_of p) (a_uploads st)" "a_fs st' = (a_fs st)(p @ ''.wr-upload.tmp'' := Some (concat bs))"
proof -
  note s = upload_started [OF assms(1,2), of env rid i st]
  have m: "map_of (a_uploads (cmd_upload env io rid path i st)) i = Some (upload_of p)" using s by simp
  moreover have "a_fs (cmd_upload env io rid path i st) (ul_tmp (upload_of p)) = Some []" using s by (simp add: upload_of_def)
  ultimately show "a_uploads st' = put i (upload_of p) (a_uploads st)" "a_fs st' = (a_fs st)(p @ ''.wr-upload.tmp'' := Some (concat bs))"
    using upload_frames [OF _ _ assms(3) st', of "upload_of p" "[]"] s
    by (simp_all add: upload_of_def)
qed

section \<open>Answers\<close>

fun answers :: "string \<Rightarrow> agent_msg \<Rightarrow> bool" where
  "answers rid (CommandResult r _ _ _ _) = (r = rid)"
| "answers rid _ = False"

definition answered :: "string \<Rightarrow> agent_state \<Rightarrow> nat" where
  "answered rid st = length (filter (answers rid) (a_sent st))"

lemma answered_updates [simp]:
  "answered rid (st\<lparr>a_downloads := x1\<rparr>) = answered rid st" "answered rid (st\<lparr>a_uploads := x2\<rparr>) = answered rid st"
  "answered rid (st\<lparr>a_next := x3\<rparr>) = answered rid st" "answered rid (st\<lparr>a_exiting := x4\<rparr>) = answered rid st"
  "answered rid (on_fs r st) = answered rid st" "answered rid (perform a st) = answered rid st"
  by (simp_all add: answered_def on_fs_def perform_def)

lemma answered_replies:
  assumes "io_send io = (\<lambda>_. True)"
  shows "answered rid (replyCommand env io rid s c m d st) = Suc (answered rid st)"
    "answered rid (deny env io rid m st) = Suc (answered rid st)"
    "answered rid (replyResult env io rid e d st) = Suc (answered rid st)"
    "answered rid (snd (send env io (SupportCredentialReport u p) st)) = answered rid st"
  using assms by (simp_all add: replyCommand_def deny_def replyResult_def send_def answered_def split: option.split)

lemma answered_pieces:
  assumes s: "io_send io = (\<lambda>_. True)"
  shows "answered rid (k st) = Suc (answered rid st) \<Longrightarrow> answered rid (guarded env io rid g m k st) = Suc (answered rid st)"
    "(\<And>p. answered rid (kp p st) = Suc (answered rid st)) \<Longrightarrow> answered rid (with_params env io rid dec raw kp st) = Suc (answered rid st)"
    "(\<And>i. answered rid (ki i st) = Suc (answered rid st)) \<Longrightarrow> answered rid (with_stream env io rid str ki st) = Suc (answered rid st)"
    "answered rid (call_provider env io rid b a st) = Suc (answered rid st)"
    "answered rid (cmd_download env io rid p i st) = Suc (answered rid st)"
    "answered rid (cmd_upload env io rid p i st) = Suc (answered rid st)"
    "answered rid (cmd_update env io rid u st) = Suc (answered rid st)"
    "answered rid (cmd_rotate env io rid st) = Suc (answered rid st)"
  by (simp_all add: guarded_def with_params_def with_stream_def call_provider_def cmd_download_def cmd_upload_def cmd_update_def cmd_rotate_def Let_def
    split_beta bool.case_eq_if answered_replies [OF s] split: sum.split option.split)

lemma answered_if: "(b \<Longrightarrow> answered rid s = n) \<Longrightarrow> (\<not> b \<Longrightarrow> answered rid t = n) \<Longrightarrow> answered rid (if b then s else t) = n"
  by simp

section \<open>Backing off\<close>

lemma jitter_bounds:
  assumes "0 \<le> r" "r < 1" "0 \<le> d" "d mod 5 = 0"
  shows "4 * d div 5 \<le> jitter r d \<and> jitter r d \<le> 6 * d div 5"
proof -
  obtain k where k: "d = 5 * k" using assms(4) by (metis mod_0_imp_dvd dvdE)
  have e: "of_int d + (r * 2 - 1) * (of_int d * (1 / 5)) = of_int (4 * k) + 2 * (r * of_int k)" by (simp add: k algebra_simps)
  have k0: "0 \<le> k" using assms(3) k by simp
  then have "0 \<le> r * of_int k" "r * of_int k \<le> of_int k" using assms(1,2) by (simp_all add: mult_left_le_one_le)
  then have "of_int (4 * k) \<le> of_int d + (r * 2 - 1) * (of_int d * (1 / 5))" "of_int d + (r * 2 - 1) * (of_int d * (1 / 5)) \<le> of_int (6 * k)"
    unfolding e by simp_all
  then have "4 * k \<le> \<lfloor>of_int d + (r * 2 - 1) * (of_int d * (1 / 5))\<rfloor>" "\<lfloor>of_int d + (r * 2 - 1) * (of_int d * (1 / 5))\<rfloor> \<le> 6 * k"
    using floor_mono floor_of_int by metis+
  with k0 show ?thesis by (simp add: jitter_def k)
qed

lemma min_doubling:
  fixes b M :: int
  assumes "0 \<le> b" "0 \<le> M"
  shows "min M (2 ^ n * min M (2 * b)) = min M (2 ^ Suc n * b)"
proof (cases "2 * b \<le> M")
  case False
  have "x \<le> 2 ^ n * x" if "0 \<le> x" for x :: int using mult_right_mono [OF one_le_power that, of 2 n] by simp
  then have "M \<le> 2 ^ n * M" "2 * b \<le> 2 ^ n * (2 * b)" using assms by (metis, metis mult_nonneg_nonneg zero_le_numeral)
  then have "M \<le> 2 ^ n * M" "M \<le> 2 ^ n * (2 * b)" using False by linarith+
  with False show ?thesis by (simp add: min_def mult.left_commute mult.commute)
qed (simp add: min_absorb2)

definition backoff_ok :: "reconnect \<Rightarrow> bool" where
  "backoff_ok rc \<longleftrightarrow> second \<le> rc_backoff rc \<and> rc_backoff rc \<le> 300 * second \<and> rc_backoff rc mod 5 = 0 \<and> rc_committed rc \<le> 1"

lemma reconnect_turn_ok:
  assumes "backoff_ok rc" "0 \<le> r" "r < 1" "reconnect_turn up r rc = (w, rc')"
  shows "backoff_ok rc'" "4 * second div 5 \<le> w" "w \<le> 360 * second" "rc_committed rc' = (if up then 1 else rc_committed rc)"
    "rc_backoff rc' = (if up then second else min (300 * second) (2 * rc_backoff rc))"
proof -
  let ?b = "if up then minBackoff else rc_backoff rc"
  have b: "second \<le> ?b" "?b \<le> 300 * second" "?b mod 5 = 0" "0 \<le> ?b" using assms(1) by (auto simp: backoff_ok_def minBackoff_def duration_defs)
  have w: "w = jitter r ?b" using assms(4) by (auto simp: reconnect_turn_def Let_def)
  note j = jitter_bounds [OF assms(2,3) b(4,3)]
  show "4 * second div 5 \<le> w" using j zdiv_mono1 [of "4 * second" "4 * ?b" 5] b(1) unfolding w by linarith
  show "w \<le> 360 * second" using j zdiv_mono1 [of "6 * ?b" "6 * (300 * second)" 5] b(2) unfolding w by (simp add: duration_defs)
  show "backoff_ok rc'" "rc_committed rc' = (if up then 1 else rc_committed rc)" "rc_backoff rc' = (if up then second else min (300 * second) (2 * rc_backoff rc))"
    using assms(1,4) by (auto simp: reconnect_turn_def backoff_ok_def Let_def minBackoff_def maxBackoff_def duration_defs min_def)
qed

section \<open>Properties\<close>

text \<open>C5: whatever a server sends, whatever order its messages and the agent's own work interleave in,
  the agent does to its machine only what its local policy allows; a tunnel only ever leads to port 22
  or 3389 of the machine itself.\<close>

theorem agent_obeys_policy:
  "list_all (allowed pol) (a_actions (run (agent_step env) es (new_session pol dataDir fs)))"
  using policy.run_keeps [of pol "new_session pol dataDir fs" env es] by (simp add: obeys_def new_session_def)

text \<open>C21: every device command is answered exactly once, with the id of its message, whatever it is and
  however it ends, as long as messages can be written.\<close>

theorem command_answered_once:
  assumes "io_send io = (\<lambda>_. True)"
  shows "answered (env_message_id ev) (handleDeviceCommand env io ev st) = answered (env_message_id ev) st + 1"
proof -
  have "answered rid (run_command env io rid ct raw st) = Suc (answered rid st)" for rid ct raw
    unfolding run_command_def Let_def split_beta
    by (intro answered_if answered_pieces [OF assms]) (simp_all add: answered_replies [OF assms])
  then show ?thesis by (simp add: handleDeviceCommand_def answered_replies [OF assms] split_beta split: sum.split)
qed


text \<open>C40: an upload that is cut off replaces its target all the same. When the connection ends in the
  middle of it, with no end marker received, closing the writer moves what has arrived into the place
  of the target.\<close>

theorem interrupted_upload_replaces_target:
  assumes "cleanPath path = Some p" "io_create io = None" "\<forall>b \<in> set bs. b \<noteq> [] \<and> length b \<le> io_written io"
    and "io_close io (p @ ''.wr-upload.tmp'')" "io_rename io (p @ ''.wr-upload.tmp'')" "a_uploads st = []"
    and "st' = run (agent_step env) (map (\<lambda>b. (io, file_frame i b)) bs) (cmd_upload env io rid path i st)"
  shows "a_fs (agent_step env (io, InEnd) st') p = Some (concat bs)"
proof -
  note r = upload_received [OF assms(1-3) assms(7)]
  have u: "a_uploads st' = [(i, upload_of p)]" by (simp add: r assms(6) put_def)
  have fs: "a_fs (fold (\<lambda>e. perform (CloseStream (handle_of (snd e)))) xs s) = a_fs s" for xs s
    by (induction xs arbitrary: s) (simp_all add: perform_def)
  show ?thesis
    using assms(4,5) by (simp add: end_session_def closeAll_streams_def closeAll_files_def fs u r(2) close_upload_def upload_of_def os_rename_def on_fs_def)
qed


section \<open>Witnesses\<close>

definition demo_agent_env :: agent_env where
  "demo_agent_env = hub_env.extend demo_hub_env (agent_env.fields
     (\<lambda>b. if b = [1] then Some (''services.list'', []) else if b = [2] then Some (''files.upload'', []) else None)
     (\<lambda>_. None) (\<lambda>_. None) (\<lambda>_. Some ''/a'') (\<lambda>_. None) (\<lambda>_. None) (\<lambda>_. Some (''/a'', ''s'')) (\<lambda>_. None) (\<lambda>_. None) (\<lambda>_. None) (\<lambda>_. None)
     (\<lambda>_. 10) (\<lambda>_. ''failed'') [])"

definition demo_agent_io :: agent_io where
  "demo_agent_io = \<lparr>io_send = (\<lambda>_. True), io_provider = (\<lambda>_. Inr []), io_support = Inl [], io_uptime = 5, io_update = demo_io,
     io_create = None, io_written = 100, io_close = (\<lambda>_. True), io_rename = (\<lambda>_. True), io_marker = WriteOk\<rparr>"

definition demo_policy :: agent_policy where
  "demo_policy = \<lparr>ap_Terminal = False, ap_SSHTunnel = False, ap_RDPTunnel = False, ap_FilesRead = True, ap_FilesWrite = True,
     ap_ServiceControl = False, ap_ProcessTerminate = False, ap_PowerControl = False, ap_SelfUpdate = False\<rparr>"

definition demo_agent_session :: agent_state where
  "demo_agent_session = new_session demo_policy ''/data'' (\<lambda>p. if p = ''/a'' then Some [7] else None)"

definition demo_command :: "bytes \<Rightarrow> envelope" where
  "demo_command b = \<lparr>env_protocol = 1, env_type = type_name TypeDeviceCommand, env_message_id = ''m1'', env_request_id = None, env_timestamp = 0, env_payload = b\<rparr>"

theorem command_answered_once_witness:
  "answered ''m1'' (handleDeviceCommand demo_agent_env demo_agent_io (demo_command [1]) demo_agent_session) = 1"
  using command_answered_once [of demo_agent_io "demo_command [1]" demo_agent_env demo_agent_session]
  by (simp add: demo_agent_io_def demo_command_def demo_agent_session_def new_session_def answered_def)

lemma demo_path: "cleanPath ''/a'' = Some ''/a''"
  by code_simp

lemma demo_frames: "\<forall>b \<in> set [[1], [2, 3]]. b \<noteq> [] \<and> length b \<le> io_written demo_agent_io"
  by (simp add: demo_agent_io_def)


theorem interrupted_upload_replaces_target_witness:
  "a_fs demo_agent_session ''/a'' = Some [7] \<and>
   a_fs (agent_step demo_agent_env (demo_agent_io, InEnd)
     (run (agent_step demo_agent_env) (map (\<lambda>b. (demo_agent_io, file_frame 5 b)) [[1], [2, 3]])
        (cmd_upload demo_agent_env demo_agent_io ''m1'' ''/a'' 5 demo_agent_session))) ''/a'' = Some [1, 2, 3]"
  using interrupted_upload_replaces_target [OF demo_path _ demo_frames _ _ _ refl, where env = demo_agent_env and i = 5 and rid = "''m1''" and st = demo_agent_session]
  by (simp del: agent_step.simps add: demo_agent_io_def demo_agent_session_def new_session_def)


end
