(* ===== verification/Agent_Identity.thy ===== *)
theory Agent_Identity
  imports Server_Properties
begin

text \<open>The identity of an agent: its credential store, its enrollment and its side of the handshake
  (\<open>internal/agentcore/identity.go\<close>, \<open>credstore_linux.go\<close>, \<open>enroll.go\<close> and \<open>handshake\<close> of
  \<open>session.go\<close>). Composed with the server's \<open>handleAgentEnroll\<close> and \<open>handshake\<close>, they give: an agent
  that enrolls is let in, also after a restart.\<close>

record identity =
  id_DeviceID :: uuid
  id_InstallID :: uuid
  id_PublicKey :: bytes
  id_PrivateKey :: bytes

record stored_identity =
  si_DeviceID :: string
  si_InstallID :: string
  si_PrivateKey :: bytes

text \<open>The answer to the enrollment request: the id and, if there is one, the message of the error.\<close>

record enroll_response =
  er_DeviceID :: string
  er_Error :: "string option"

datatype identity_error =
    ErrReadToken | ErrGenerateKeypair | ErrEnrollRequest | ErrDecodeResponse | ErrRejected nat string | ErrResponseDeviceID
  | ErrCredentialDir | ErrWriteCredential | ErrChmodCredential | ErrFinalizeCredential
  | ErrReadCredential | ErrUnmarshalIdentity | ErrStoredDeviceID | ErrStoredInstallID | ErrKeySize
  | ErrReadChallenge | ErrUnexpectedMessage | ErrDecodeChallenge | ErrDecodeNonce | ErrEncodeHello | ErrReadAck | ErrAuthRejected | ErrDecodeAck

text \<open>The JSON codecs of the payloads only the agent uses, and the key that belongs to a private key. The
  \<open>boot_id\<close> of the hello message, which the server does not read, is left out.\<close>

record identity_env = hub_env +
  marshal_identity :: "stored_identity \<Rightarrow> bytes"
  unmarshal_identity :: "bytes \<Rightarrow> stored_identity option"
  ed25519_public :: "bytes \<Rightarrow> bytes"
  marshal_hello :: "hello_payload \<Rightarrow> bytes"
  decode_challenge :: "bytes \<Rightarrow> string option"
  decode_ack :: "bytes \<Rightarrow> (int \<times> int \<times> int) option"
  decode_enroll :: "reply \<Rightarrow> enroll_response option"

section \<open>The credential store\<close>

record save_io =
  sv_mkdir :: bool
  sv_write :: io_write
  sv_chmod :: bool
  sv_rename :: bool

definition credential_path :: "string \<Rightarrow> string" where
  "credential_path dataDir = dataDir @ ''/device_credential.bin''"

definition store_Save :: "save_io \<Rightarrow> string \<Rightarrow> bytes \<Rightarrow> fs \<Rightarrow> identity_error option \<times> fs" where
  "store_Save io path data fs =
     (let tmp = path @ ''.tmp'' in
      if \<not> sv_mkdir io then (Some ErrCredentialDir, fs)
      else case os_write (sv_write io) tmp data fs of
        (False, fs1) \<Rightarrow> (Some ErrWriteCredential, fs1)
      | (True, fs1) \<Rightarrow>
          if \<not> sv_chmod io then (Some ErrChmodCredential, fs1)
          else (case os_rename (sv_rename io) tmp path fs1 of
                  (False, fs2) \<Rightarrow> (Some ErrFinalizeCredential, fs2)
                | (True, fs2) \<Rightarrow> (None, fs2)))"

definition store_Load :: "string \<Rightarrow> fs \<Rightarrow> identity_error + bytes" where
  "store_Load path fs = (case fs path of None \<Rightarrow> Inl ErrReadCredential | Some b \<Rightarrow> Inr b)"

definition store_Exists :: "string \<Rightarrow> fs \<Rightarrow> bool" where
  "store_Exists path fs \<longleftrightarrow> fs path \<noteq> None"

section \<open>Identities\<close>

definition PrivateKeySize :: nat where "PrivateKeySize = 64"

definition stored_of :: "'a lib_env_scheme \<Rightarrow> identity \<Rightarrow> stored_identity" where
  "stored_of env i = \<lparr>si_DeviceID = uuid_string env (id_DeviceID i), si_InstallID = uuid_string env (id_InstallID i), si_PrivateKey = id_PrivateKey i\<rparr>"

definition Persist :: "identity_env \<Rightarrow> save_io \<Rightarrow> string \<Rightarrow> identity \<Rightarrow> fs \<Rightarrow> identity_error option \<times> fs" where
  "Persist env io dataDir i fs = store_Save io (credential_path dataDir) (marshal_identity env (stored_of env i)) fs"

definition Load :: "identity_env \<Rightarrow> string \<Rightarrow> fs \<Rightarrow> identity_error + identity" where
  "Load env dataDir fs =
     (case store_Load (credential_path dataDir) fs of
        Inl e \<Rightarrow> Inl e
      | Inr body \<Rightarrow>
          (case unmarshal_identity env body of
             None \<Rightarrow> Inl ErrUnmarshalIdentity
           | Some s \<Rightarrow>
               (case uuid_parse env (si_DeviceID s) of
                  None \<Rightarrow> Inl ErrStoredDeviceID
                | Some d \<Rightarrow>
                    (case uuid_parse env (si_InstallID s) of
                       None \<Rightarrow> Inl ErrStoredInstallID
                     | Some i \<Rightarrow>
                         if length (si_PrivateKey s) \<noteq> PrivateKeySize then Inl ErrKeySize
                         else Inr \<lparr>id_DeviceID = d, id_InstallID = i, id_PublicKey = ed25519_public env (si_PrivateKey s),
                                id_PrivateKey = si_PrivateKey s\<rparr>))))"

definition Sign :: "identity_env \<Rightarrow> identity \<Rightarrow> bytes \<Rightarrow> bytes" where
  "Sign env i message = ed25519_sign env (id_PrivateKey i) message"

section \<open>Enrollment\<close>

text \<open>What \<open>Enroll\<close> draws and how its file operations go.\<close>

record enroll_io =
  ei_keypair :: "(bytes \<times> bytes) option"
  ei_install_id :: uuid
  ei_save :: save_io
  ei_remove :: bool

record agent_facts =
  af_version :: string
  af_os :: string
  af_arch :: string
  af_hostname :: string

definition enrollRequest :: "identity_env \<Rightarrow> enroll_io \<Rightarrow> agent_facts \<Rightarrow> bytes \<Rightarrow> bytes \<Rightarrow> agent_enrollment" where
  "enrollRequest env io facts tokenBytes pub =
     \<lparr>ag_token = trim_space (string_of tokenBytes), ag_install_id = uuid_string env (ei_install_id io), ag_public_key = base64_encode env pub,
      ag_agent_version = af_version facts, ag_os = af_os facts, ag_arch = af_arch facts, ag_hostname = af_hostname facts\<rparr>"

text \<open>\<open>post\<close> is the exchange with the server: the status and the body of its reply, if there is one.\<close>

definition Enroll ::
  "identity_env \<Rightarrow> enroll_io \<Rightarrow> (agent_enrollment \<Rightarrow> (nat \<times> enroll_response option) option) \<Rightarrow> string \<Rightarrow> string \<Rightarrow> agent_facts \<Rightarrow> fs \<Rightarrow>
   (identity_error + identity) \<times> fs" where
  "Enroll env io post tokenFilePath dataDir facts fs =
     (case fs tokenFilePath of None \<Rightarrow> (Inl ErrReadToken, fs) | Some tokenBytes \<Rightarrow>
      (case ei_keypair io of None \<Rightarrow> (Inl ErrGenerateKeypair, fs) | Some (pub, priv) \<Rightarrow>
       (case post (enrollRequest env io facts tokenBytes pub) of
          None \<Rightarrow> (Inl ErrEnrollRequest, fs)
        | Some (status, None) \<Rightarrow> (Inl ErrDecodeResponse, fs)
        | Some (status, Some out) \<Rightarrow>
            if status \<noteq> 201 \<or> er_Error out \<noteq> None
            then (Inl (ErrRejected status (case er_Error out of None \<Rightarrow> ''unknown error'' | Some m \<Rightarrow> m)), fs)
            else (case uuid_parse env (er_DeviceID out) of
                    None \<Rightarrow> (Inl ErrResponseDeviceID, fs)
                  | Some deviceID \<Rightarrow>
                      let i = \<lparr>id_DeviceID = deviceID, id_InstallID = ei_install_id io, id_PublicKey = pub, id_PrivateKey = priv\<rparr> in
                      (case Persist env (ei_save io) dataDir i fs of
                         (Some e, fs1) \<Rightarrow> (Inl e, fs1)
                       | (None, fs1) \<Rightarrow> (Inr i, snd (os_remove (ei_remove io) tokenFilePath fs1)))))))"

section \<open>The agent's side of the handshake\<close>

text \<open>The answer to a challenge.\<close>

definition HelloPayload :: "identity_env \<Rightarrow> agent_facts \<Rightarrow> string list \<Rightarrow> bool \<Rightarrow> identity \<Rightarrow> string \<Rightarrow> bytes \<Rightarrow> hello_payload" where
  "HelloPayload env facts capabilities secure i challenge nonce =
     \<lparr>hl_device_id = uuid_string env (id_DeviceID i), hl_install_id = uuid_string env (id_InstallID i), hl_agent_version = af_version facts,
      hl_os = af_os facts, hl_arch = af_arch facts, hl_capabilities = capabilities, hl_nonce = challenge,
      hl_signature = base64_encode env (Sign env i nonce), hl_secure = secure\<rparr>"

definition agent_hello ::
  "identity_env \<Rightarrow> time \<Rightarrow> string \<Rightarrow> agent_facts \<Rightarrow> string list \<Rightarrow> bool \<Rightarrow> identity \<Rightarrow> bytes option \<Rightarrow> identity_error + bytes" where
  "agent_hello env now messageID facts capabilities secure i challengeRaw =
     (case challengeRaw of None \<Rightarrow> Inl ErrReadChallenge | Some raw \<Rightarrow>
      (case Decode (he_json env) raw of Inl _ \<Rightarrow> Inl ErrUnexpectedMessage | Inr ev \<Rightarrow>
       if env_type ev \<noteq> type_name TypeControlChallenge then Inl ErrUnexpectedMessage
       else (case DecodePayload (decode_challenge env) ev of Inl _ \<Rightarrow> Inl ErrDecodeChallenge | Inr challenge \<Rightarrow>
        (case base64_decode env challenge of None \<Rightarrow> Inl ErrDecodeNonce | Some nonce \<Rightarrow>
          (case Encode (he_json env) now messageID (type_name TypeHello) None
                  (Some (marshal_hello env (HelloPayload env facts capabilities secure i challenge nonce))) of
             Inl _ \<Rightarrow> Inl ErrEncodeHello | Inr helloRaw \<Rightarrow> Inr helloRaw)))))"

text \<open>An interval of the acknowledgement, in seconds, with its default.\<close>

definition interval_or :: "duration \<Rightarrow> int \<Rightarrow> duration" where
  "interval_or dflt secs = (let d = wrap64 (secs * second) in if d \<le> 0 then dflt else d)"

definition agent_ack :: "identity_env \<Rightarrow> bytes option \<Rightarrow> identity_error + (duration \<times> duration \<times> duration)" where
  "agent_ack env ackRaw =
     (case ackRaw of None \<Rightarrow> Inl ErrReadAck | Some raw \<Rightarrow>
      (case Decode (he_json env) raw of Inl _ \<Rightarrow> Inl ErrAuthRejected | Inr ev \<Rightarrow>
       if env_type ev \<noteq> type_name TypeHelloAck then Inl ErrAuthRejected
       else (case DecodePayload (decode_ack env) ev of
               Inl _ \<Rightarrow> Inl ErrDecodeAck
             | Inr (hb, status, networkUpload) \<Rightarrow>
                 Inr (interval_or (45 * second) hb, interval_or (5 * minute) status, interval_or (5 * minute) networkUpload))))"

section \<open>Storing and reading back\<close>

lemma tmp_differs [simp]: "path @ ''.tmp'' \<noteq> path" "path \<noteq> path @ ''.tmp''"
  by (simp_all add: append_self_conv append_self_conv2)

lemma store_Save_atomic:
  assumes "store_Save io path data fs = (r, fs')"
  shows "fs' path = (if r = None then Some data else fs path)" "p \<notin> {path, path @ ''.tmp''} \<Longrightarrow> fs' p = fs p"
  using assms by (auto simp: store_Save_def os_defs Let_def split: if_splits io_write.splits bool.splits prod.splits)

definition readable :: "identity_env \<Rightarrow> identity \<Rightarrow> bool" where
  "readable env i \<longleftrightarrow> unmarshal_identity env (marshal_identity env (stored_of env i)) = Some (stored_of env i) \<and>
     uuid_parse env (uuid_string env (id_DeviceID i)) = Some (id_DeviceID i) \<and>
     uuid_parse env (uuid_string env (id_InstallID i)) = Some (id_InstallID i)"

definition keypair_ok :: "identity_env \<Rightarrow> identity \<Rightarrow> bool" where
  "keypair_ok env i \<longleftrightarrow> length (id_PrivateKey i) = PrivateKeySize \<and> ed25519_public env (id_PrivateKey i) = id_PublicKey i"

lemma Load_stored:
  assumes "readable env i" "keypair_ok env i" "fs (credential_path dataDir) = Some (marshal_identity env (stored_of env i))"
  shows "Load env dataDir fs = Inr i"
  using assms by (simp add: Load_def store_Load_def readable_def keypair_ok_def stored_of_def)

lemma Load_cong: "fs (credential_path dataDir) = fs' (credential_path dataDir) \<Longrightarrow> Load env dataDir fs = Load env dataDir fs'"
  by (simp add: Load_def store_Load_def)

lemma Enroll_InrD:
  assumes "Enroll env io post tokenFilePath dataDir facts fs = (Inr i, fs')"
  shows "\<exists>tokenBytes pub priv out. fs tokenFilePath = Some tokenBytes \<and> ei_keypair io = Some (pub, priv) \<and>
     post (enrollRequest env io facts tokenBytes pub) = Some (201, Some out) \<and> uuid_parse env (er_DeviceID out) = Some (id_DeviceID i) \<and>
     i = \<lparr>id_DeviceID = id_DeviceID i, id_InstallID = ei_install_id io, id_PublicKey = pub, id_PrivateKey = priv\<rparr> \<and>
     (\<exists>fs1. Persist env (ei_save io) dataDir i fs = (None, fs1) \<and> fs' = snd (os_remove (ei_remove io) tokenFilePath fs1))"
  using assms by (auto simp: Enroll_def Let_def split: option.splits if_splits prod.splits)

section \<open>The server's side\<close>

definition post_to :: "identity_env \<Rightarrow> http_env \<Rightarrow> call \<Rightarrow> server \<Rightarrow> agent_enrollment \<Rightarrow> (nat \<times> enroll_response option) option" where
  "post_to env x c sv req = map_option (\<lambda>r. (rp_status r, decode_enroll env r)) (fst (handleAgentEnroll x c (Some req) sv))"

lemma handleAgentEnroll_created:
  assumes "handleAgentEnroll x c (Some req) sv = (Some r, sv')" "rp_status r = 201"
  shows "\<exists>inst key. parse_uuid x (ag_install_id req) = Some inst \<and> base64_decode (x_hub x) (ag_public_key req) = Some key \<and> length key = PublicKeySize \<and>
     (let q = \<lparr>ae_token = ag_token req, ae_install_id = inst, ae_public_key = key, ae_agent_version = ag_agent_version req, ae_hostname = ag_hostname req\<rparr>;
          res = Consume (x_enroll x) (cl_now c) (fr_id (cl_fresh c)) q (enroll_view sv)
      in \<exists>i. fst res = Inr i \<and> r = writeJSON 201 (JObj [(''device_id'', JUuid i)]) None \<and>
         sv_devices sv' = registry_db (snd res) \<and> h_releases (sv_hub sv') = h_releases (sv_hub sv))"
  using assms
  apply (simp add: handleAgentEnroll_def stop_def split_beta Let_def writeErr_def enroll_error_reply_def enroll_view_def split: if_splits option.splits prod.splits sum.splits enroll_error.splits)
  apply (auto simp: set_enroll_def set_devices_def sv_audit_def hub_audit_def setter_defs)
  done

section \<open>Properties\<close>

text \<open>C31: a stored identity survives a restart, and storing one is atomic: if \<open>Persist\<close> reports no error,
  \<open>Load\<close> returns exactly that identity; if it reports one, \<open>Load\<close> returns what it returned before.\<close>

theorem identity_round_trip:
  assumes "readable env i" "keypair_ok env i" "Persist env io dataDir i fs = (r, fs')"
  shows "Load env dataDir fs' = (if r = None then Inr i else Load env dataDir fs)"
proof -
  note s = store_Save_atomic [OF assms(3) [unfolded Persist_def]]
  show ?thesis
    using s(1) Load_stored [OF assms(1,2)] Load_cong [of fs' dataDir fs env] by (cases r) simp_all
qed

text \<open>The intervals that the agent hands to its tickers are positive whatever the acknowledgement
  says, also when the conversion to nanoseconds overflows, so that \<open>time.NewTicker\<close> never panics.\<close>

theorem handshake_intervals_positive:
  assumes "agent_ack env ackRaw = Inr (heartbeatInterval, statusInterval, networkUploadInterval)"
  shows "0 < heartbeatInterval \<and> 0 < statusInterval \<and> 0 < networkUploadInterval"
  using assms by (auto simp: agent_ack_def interval_or_def Let_def duration_defs split: option.splits sum.splits if_splits)

lemma hello_accepted:
  assumes h: "h = HelloPayload env facts caps secure i (base64_encode env nonce) nonce"
    and raw: "Encode js now mid (type_name TypeHello) None (Some (marshal_hello env h)) = Inr raw" "js = he_json env" "mid \<noteq> []"
    and json: "e = \<lparr>env_protocol = Version, env_type = type_name TypeHello, env_message_id = mid, env_request_id = None, env_timestamp = now, env_payload = marshal_hello env h\<rparr>"
      "unmarshal_envelope js (marshal_envelope js e) = Some e"
      "marshal_hello env h \<noteq> []" "he_hello env (marshal_hello env h) = Some h"
    and device: "GetDevice (id_DeviceID i) (h_devices st) = Inr d" "d_id d = id_DeviceID i" "d_install_id d = id_InstallID i"
      "d_status d \<noteq> StatusRevoked" "d_credential_status d = CredActive"
    and key: "ActiveCredentialPublicKey later (id_DeviceID i) (h_devices st) = Inr (id_PublicKey i)" "length (id_PublicKey i) = PublicKeySize"
      "ed25519_verify env (id_PublicKey i) nonce (ed25519_sign env (id_PrivateKey i) nonce)"
    and base64: "\<And>b. base64_decode env (base64_encode env b) = Some b" and ids: "readable env i"
    and blocked: "\<not> IsVersionBlocked (osFamilyOf (af_os facts)) (af_arch facts) (af_version facts) (h_releases st)"
  shows "fst (handshake (hub_env.truncate env) later nonce (Some raw) True st) = Some (id_DeviceID i, id_InstallID i)"
proof -
  have e: "Decode js raw = Inr e" "env_type e = type_name TypeHello" "env_protocol e = Version"
    using raw json(1,2) by (auto simp: Encode_def Decode_def Version_def)
  have p: "DecodePayload (he_hello env) e = Inr h" using json(1,3,4) by (simp add: DecodePayload_def)
  have "check_hello (hub_env.truncate env) later nonce (Some raw) st = Some (e, h, d, id_InstallID i)"
    using e p device key base64 ids blocked raw(2)
    by (simp add: check_hello_def hub_env.defs h HelloPayload_def readable_def Sign_def)
  then show ?thesis using device(2) by (simp add: handshake_def)
qed


section \<open>Witnesses\<close>

definition demo_identity :: identity where
  "demo_identity = \<lparr>id_DeviceID = 9, id_InstallID = 5, id_PublicKey = replicate 32 2, id_PrivateKey = replicate 32 1 @ replicate 32 2\<rparr>"

definition demo_facts :: agent_facts where
  "demo_facts = \<lparr>af_version = ''0.2.2'', af_os = ''linux'', af_arch = ''amd64'', af_hostname = ''host''\<rparr>"

definition demo_agent_hello :: hello_payload where
  "demo_agent_hello = \<lparr>hl_device_id = ''9'', hl_install_id = ''5'', hl_agent_version = ''0.2.2'', hl_os = ''linux'', hl_arch = ''amd64'',
     hl_capabilities = [], hl_nonce = string_of [9], hl_signature = string_of (replicate 32 2 @ [9]), hl_secure = True\<rparr>"

definition demo_control :: "msg_type \<Rightarrow> envelope" where
  "demo_control t = \<lparr>env_protocol = Version, env_type = type_name t, env_message_id = ''m'', env_request_id = None, env_timestamp = 30, env_payload = [1]\<rparr>"

definition demo_identity_env :: identity_env where
  "demo_identity_env = hub_env.extend
     (demo_hub_env\<lparr>uuid_string := \<lambda>u. show_nat (unat u), uuid_parse := \<lambda>s. if s = [] then None else Some (word_of_nat (digits_val s)),
        ed25519_sign := \<lambda>k m. drop 32 k @ m, he_hello := \<lambda>_. Some demo_agent_hello,
        he_json := \<lparr>marshal_envelope = (\<lambda>e. [1]),
          unmarshal_envelope = (\<lambda>raw. Some (demo_control (if raw = [1] then TypeHello else if raw = [2] then TypeControlChallenge else TypeHelloAck)))\<rparr>\<rparr>)
     (identity_env.fields (\<lambda>s. si_PrivateKey s) (\<lambda>b. Some \<lparr>si_DeviceID = ''9'', si_InstallID = ''5'', si_PrivateKey = b\<rparr>)
        (drop 32) (\<lambda>_. [1]) (\<lambda>_. Some (string_of [9])) (\<lambda>_. Some (0, 9223372037, 60))
        (\<lambda>r. case rp_body r of JsonReply (JObj [(k, JUuid d)]) None \<Rightarrow> Some \<lparr>er_DeviceID = show_nat (unat d), er_Error = None\<rparr>
             | ErrorReply code m \<Rightarrow> Some \<lparr>er_DeviceID = [], er_Error = Some m\<rparr> | _ \<Rightarrow> None))"

definition demo_save :: save_io where
  "demo_save = \<lparr>sv_mkdir = True, sv_write = WriteOk, sv_chmod = True, sv_rename = True\<rparr>"

definition demo_enroll_io :: enroll_io where
  "demo_enroll_io = \<lparr>ei_keypair = Some (replicate 32 2, replicate 32 1 @ replicate 32 2), ei_install_id = 5, ei_save = demo_save, ei_remove = True\<rparr>"

definition demo_agent_disk :: fs where
  "demo_agent_disk p = (if p = ''/token'' then Some (bytes_of ('' wr_enroll_A'' @ [CHR 0x0A])) else None)"

definition demo_enroll_http :: http_env where
  "demo_enroll_http = demo_http\<lparr>x_hub := hub_env.truncate demo_identity_env\<rparr>"

lemma demo_readable: "readable demo_identity_env demo_identity" "keypair_ok demo_identity_env demo_identity"
  by code_simp+

theorem identity_round_trip_witness:
  "\<exists>fs'. Persist demo_identity_env demo_save ''/data'' demo_identity demo_agent_disk = (None, fs') \<and> Load demo_identity_env ''/data'' fs' = Inr demo_identity"
proof -
  obtain r fs' where p: "Persist demo_identity_env demo_save ''/data'' demo_identity demo_agent_disk = (r, fs')" by fastforce
  moreover from p have "r = None" by (simp add: Persist_def store_Save_def demo_save_def os_defs Let_def)
  ultimately show ?thesis using identity_round_trip [OF demo_readable p] by auto
qed

theorem handshake_intervals_positive_witness:
  "\<exists>hb status net. agent_ack demo_identity_env (Some [3]) = Inr (hb, status, net) \<and> 0 < hb \<and> 0 < status \<and> 0 < net \<and> status = 5 * minute"
proof -
  have a: "agent_ack demo_identity_env (Some [3]) = Inr (45 * second, 5 * minute, 60 * second)" by code_simp
  with handshake_intervals_positive [OF a] show ?thesis by blast
qed

lemma demo_post:
  "post_to demo_identity_env demo_enroll_http (demo_call ''POST'') (demo_server p)
     (enrollRequest demo_identity_env demo_enroll_io demo_facts (bytes_of ('' wr_enroll_A'' @ [CHR 0x0A])) (replicate 32 2)) =
   Some (201, Some \<lparr>er_DeviceID = ''9'', er_Error = None\<rparr>)"
proof -
  let ?q = "\<lparr>ae_token = ''wr_enroll_A'', ae_install_id = 5, ae_public_key = replicate 32 2, ae_agent_version = ''0.2.2'', ae_hostname = ''host''\<rparr>"
  have req: "enrollRequest demo_identity_env demo_enroll_io demo_facts (bytes_of ('' wr_enroll_A'' @ [CHR 0x0A])) (replicate 32 2) =
      \<lparr>ag_token = ''wr_enroll_A'', ag_install_id = ''5'', ag_public_key = string_of (replicate 32 2), ag_agent_version = ''0.2.2'',
       ag_os = ''linux'', ag_arch = ''amd64'', ag_hostname = ''host''\<rparr>"
    by code_simp
  have inst: "parse_uuid demo_enroll_http ''5'' = Some 5"
    by (simp add: parse_uuid_def demo_enroll_http_def demo_http_def demo_auth_env_def) code_simp
  have key: "base64_decode (x_hub demo_enroll_http) (string_of (replicate 32 2)) = Some (replicate 32 2)"
    by (simp add: demo_enroll_http_def demo_identity_env_def demo_hub_env_def hub_env.defs)
  have allow: "fst (Allow n k (sv_enroll_limiter (demo_server p)))" for n k
    by (simp add: Allow_def demo_server_def NewRateLimiter_def Let_def)
  have "fst (Consume demo_enroll_env 20 9 ?q \<lparr>enrollment_tokens = enrollment_tokens demo_enrolling, registry_db = demo_hub_devices\<rparr>) = Inr 9"
    by code_simp
  then have con: "fst (Consume (x_enroll demo_enroll_http) (cl_now (demo_call ''POST'')) (fr_id (cl_fresh (demo_call ''POST''))) ?q (enroll_view (demo_server p\<lparr>sv_enroll_limiter := l\<rparr>))) = Inr 9" for l
    by (simp add: demo_enroll_http_def demo_http_def demo_call_def demo_fresh_def enroll_view_def demo_server_def demo_hub_def init_hub_def)
  have "fst (handleAgentEnroll demo_enroll_http (demo_call ''POST'') (Some
      \<lparr>ag_token = ''wr_enroll_A'', ag_install_id = ''5'', ag_public_key = string_of (replicate 32 2), ag_agent_version = ''0.2.2'',
       ag_os = ''linux'', ag_arch = ''amd64'', ag_hostname = ''host''\<rparr>) (demo_server p)) = Some (writeJSON 201 (JObj [(''device_id'', JUuid 9)]) None)"
    using inst key allow con by (simp add: handleAgentEnroll_def split_beta stop_def PublicKeySize_def Let_def split: sum.split)
  moreover have "decode_enroll demo_identity_env (writeJSON 201 (JObj [(''device_id'', JUuid 9)]) None) = Some \<lparr>er_DeviceID = ''9'', er_Error = None\<rparr>"
    by code_simp
  ultimately show ?thesis unfolding req by (simp add: post_to_def writeJSON_def)
qed


end
