(* ===== verification/Spec2Isabelle.thy ===== *)
theory Spec2Isabelle
  imports Server_Properties Agent_Session Agent_Identity
begin

text \<open>
  WartungsRemote is a remote-maintenance system: a server (\<open>cmd/wr-core\<close>) with an administration
  API, a database and a control channel, and an agent (\<open>cmd/wr-agent\<close>) on every maintained machine.
  Operators sign in, and under role-based permissions they look at devices, run commands, open
  terminals and tunnels, transfer files and roll out agent updates; everything of importance goes
  into an audit log whose entries form a hash chain. Agents enroll once with a token, keep an Ed25519
  key, and hold one WebSocket connection to the server, over which the server sends its commands and
  the streams of remote sessions run. This development models the Go code of both programs and
  proves what they promise.

  \<^bold>\<open>How the code is modelled.\<close> A table of the database is a list of records; a statement is a function
  on it, with the constraints of the schema (keys, \<open>ON DELETE\<close>) written into the function that
  relies on them. A repository, service or handler is one definition per Go function, with its
  guards, early returns and error values in the order of the source; it takes the state and returns
  the result and the new state. Time, fresh ids, random bytes and what the outside does (whether a
  write to a socket or a file succeeds, what the operating system answers) are arguments, so a
  theorem holds for every choice of them. Durations and times are integers of nanoseconds, wrapped to
  64 bits (\<open>wrap64\<close>) where the code multiplies values that a client chooses; ids are 128-bit words, bytes 8-bit
  words, floating-point percentages rationals. SHA-256, HMAC, Ed25519, AES-GCM, Argon2id, JSON, base64,
  YAML and HTTP are fields of environment records (\<open>lib_env\<close> and its extensions); a theorem that needs
  a property of them (that a decoder inverts its encoder, that a signature verifies) names it as a
  hypothesis, and its witness has an environment in which it holds. Concurrency is interleaving:
  what the code does under one lock, in one statement or in one transaction is one step, a handler
  that waits is split where it waits, and a property quantifies over all lists of steps. Loops are
  structural recursions over what they range over; the agent's upload loop, which may run for ever, is
  a \<open>partial_function\<close> in the option type, and \<open>upload_returns\<close> proves that it returns. No definition
  uses fuel.

  \<^bold>\<open>Library.\<close>
  \<open>Prelude\<close>: types, list tables (\<open>find_row\<close>, \<open>upd_where\<close>, \<open>del_where\<close>, \<open>upsert\<close>), runs of steps, and the
  interfaces: \<open>invariant\<close> (a property that every step keeps holds along every run), \<open>single_use\<close> (a
  resource that can be won at most once in any run), \<open>keyed_store\<close> (lookup after insertion), \<open>refinement\<close>
  (a run of a larger system is a run of a component under a view). \<open>Audit_Log\<close> adds \<open>hash_chain\<close>. Every
  component interprets the interfaces on its own step function, and the properties rest on the
  interpretations.
  \<open>Go_Strings\<close>: string functions and decimal numbers of Go's library.

  \<^bold>\<open>Components of the server.\<close> In parentheses, the files under \<open>internal\<close>.
  \<^item> \<open>Audit_Log\<close> (\<open>audit\<close>): \<open>Record\<close>, \<open>VerifyChain\<close>, listing. The verification accepts exactly the chains
    that recording produces; entries with the same last hash agree, if the hash is injective.
  \<^item> \<open>Rbac\<close>, \<open>Passwords\<close>, \<open>Rate_Limit\<close>, \<open>Auth_Store\<close>, \<open>Auth_Service\<close> (\<open>auth\<close>, \<open>platform/password.go\<close>):
    permissions and scopes, password hashing, the sliding window, users, sessions, second factors,
    \<open>Login\<close>, \<open>CompleteMFA\<close>, \<open>Reauthenticate\<close> and the middleware. The access decision is that of its
    specification; challenges and reauthentications are used once; sessions end in time; a window
    never admits more than its limit.
  \<^item> \<open>Device_Registry\<close>, \<open>Metrics\<close>, \<open>Health\<close>, \<open>Alerting\<close> (\<open>device\<close>, \<open>monitoring\<close>, \<open>alerting\<close>): devices and
    credentials, samples with roll-ups and retention, health reasons, alert rules and the evaluation
    loop. Roll-ups are exact sums; after a sweep the active alerts mirror the conditions.
  \<^item> \<open>Enrollment\<close> (\<open>enrollment\<close>): tokens and their transaction; a single-use token enrolls one device.
  \<^item> \<open>Remote_Session\<close>, \<open>Relay\<close> (\<open>remotesession\<close>, \<open>maintenance\<close>, \<open>relay\<close>): sessions, privileges, tunnel
    tickets, sweeps, the stream broker. Tickets are redeemed once, ended sessions stay ended,
    privileges do not outlive their time, streams deliver a subsequence of what was sent.
  \<^item> \<open>Protocol\<close>, \<open>Device_Commands\<close>, \<open>Control_Hub\<close> (\<open>protocol\<close>, \<open>controlhub\<close>): frames and envelopes, the
    handshake, the connection table, the correlation of answers, every message of an agent, the
    presence sweep. The handshake authenticates; a device has one live connection; a revoked
    one does not come back; an answer goes to the request it belongs to.
  \<^item> \<open>Agent_Release\<close>, \<open>Agent_Update\<close> (\<open>agentrelease\<close>, \<open>agentupdate\<close>, \<open>agentcore/update.go\<close>): the catalogue,
    its import, and the agent's installation of an update with backup and roll-back. Only verified
    releases are offered and only verified binaries installed; a failing update is rolled back.
  \<^item> \<open>Settings\<close>, \<open>Config\<close>, \<open>Net_Util\<close> (\<open>appsettings\<close>, \<open>support\<close>, \<open>notify\<close>, \<open>customer\<close>, \<open>config\<close>, \<open>netutil\<close>): typed
    settings, support credentials, configuration with its checks, the address of a client.

  \<^bold>\<open>The whole server.\<close> \<open>Http_Core\<close> has the state \<open>server\<close> (all tables and the hub), replies, CSRF and access
  checks; \<open>Http_Auth\<close>, \<open>Http_Devices\<close>, \<open>Http_Fleet\<close>, \<open>Http_Remote\<close>, \<open>Http_Admin\<close> have every handler of
  \<open>httpapi\<close>; \<open>Http_Router\<close> has the routes of the two listeners, the middleware, the sweepers and the
  restart. \<open>Server\<close> makes steps of them (\<open>server_step\<close>) and shows by \<open>refinement\<close> that a run of the
  server is, seen through each table, a run of the component. \<open>Http_Access\<close> and \<open>Server_Properties\<close> have
  the properties that span components: no effect without the authority for it, safe methods change
  no table, a reauthentication authorises one operation, a disabled account stays out, every
  table stays well-formed, and the chain of the audit log stays valid as long as the stored
  addresses are in the database's spelling (with the runs in which a forged address breaks it).

  \<^bold>\<open>The agent.\<close> \<open>Net_Sampler\<close> (\<open>netmetrics\<close>, \<open>uploadNetworkMetrics\<close>): counting, buffering and uploading of
  traffic samples; nothing is lost, duplicated or reordered. \<open>Agent_Session\<close> (\<open>agentcore/session.go\<close>,
  \<open>commands.go\<close>, \<open>sessions.go\<close>, \<open>files.go\<close>, \<open>agent.go\<close>, \<open>platform/linux/files_linux.go\<close>): one connection as
  steps of \<open>agent_state\<close>, and the reconnect loop. Whatever the server sends, the agent does only what
  its local policy allows; a command is answered once; an upload is installed at its end marker (and,
  against its documentation, also when it is cut off); waits stay in their bounds. \<open>Agent_Identity\<close>
  (\<open>identity.go\<close>, \<open>credstore_linux.go\<close>, \<open>enroll.go\<close>, \<open>handshake\<close> of \<open>session.go\<close>): composed with the server's
  \<open>handleAgentEnroll\<close> and \<open>handshake\<close>, an agent that enrolls is let in, also after a restart.

  \<^bold>\<open>Not modelled.\<close> The web interface; the calls of the operating system behind the provider
  interface, on both systems (their results are arguments of the agent's steps), and DPAPI; the
  connection pool and the execution of migrations; the rendering of help pages; flag parsing, signals
  and process start in \<open>cmd\<close>; logging; cookies' and TLS' transport; the SQL engine beyond the
  statements used; preemption inside a step. In the agent's session the buffered network samples are
  left to \<open>Net_Sampler\<close>, and the \<open>boot_id\<close> of the hello message, which nothing reads, is left out. The path
  functions join a directory and a file name without cleaning the directory.
\<close>

end
